(* ===== verification/XQC_Prelude.thy ===== *)
theory XQC_Prelude
  imports Main "HOL-Library.Word" "HOL-Library.Monad_Syntax"
begin

text \<open>
  Shared vocabulary of the development: the machine integers of the C sources as words, the
  result type of fallible operations, byte buffers with explicit out-of-bounds faults, and the
  generic lemmas on words and lists that the component theories use.

  \<^item> \<open>u8\<close>, \<open>u16\<close>, \<open>u32\<close>, \<open>u64\<close> are the unsigned integers of \<^verbatim>\<open>stdint.h\<close>; \<open>usec\<close> is
    \<^verbatim>\<open>xqc_usec_t\<close> and \<open>pktno\<close> is \<^verbatim>\<open>xqc_packet_number_t\<close>, both 64 bits wide.
  \<^item> \<open>'a res\<close> is what a function returning \<^verbatim>\<open>xqc_int_t\<close> through error codes yields: the value,
    a negated error code, or \<open>Fault\<close> when the C code touches memory outside the buffer it was given.
  \<^item> \<open>mem_read\<close> and \<open>mem_write\<close> are \<^verbatim>\<open>memcpy\<close> out of and into a buffer; \<open>None\<close> is the fault.
\<close>

unbundle bit_operations_syntax

section \<open>Machine integers\<close>

type_synonym u8 = "8 word"
type_synonym u16 = "16 word"
type_synonym u32 = "32 word"
type_synonym u64 = "64 word"
type_synonym usec = "64 word"
type_synonym pktno = "64 word"

named_theorems bit_const \<open>bits of the numeric masks of the C sources\<close>
named_theorems codec_defs \<open>definitions unfolded by the encoder and decoder proofs\<close>

lemma take_bit_below:
  "(w::'a::len word) < 2 ^ k \<Longrightarrow> k < LENGTH('a) \<Longrightarrow> take_bit k w = w"
  by (simp add: take_bit_eq_mod word_less_nat_alt word_unat_eq_iff unat_mod)

lemma word_bit_bounded:
  "(w::'a::len word) < 2 ^ k \<Longrightarrow> k < LENGTH('a) \<Longrightarrow> bit w i \<Longrightarrow> i < k"
  using take_bit_below [of w k] by (metis bit_take_bit_iff)

lemma high_bits_clear:
  "(w::'a::len word) < 2 ^ k \<Longrightarrow> k < LENGTH('a) \<Longrightarrow> \<forall>i. bit w i \<longrightarrow> i < k"
  using word_bit_bounded by fastforce

lemma bit_exp2: "bit (2 ^ k :: 'a::len word) i \<longleftrightarrow> i = k \<and> k < LENGTH('a)"
  by (auto simp: bit_exp_iff)

lemma bit_mask_word: "bit (mask k :: 'a::len word) i \<longleftrightarrow> i < k \<and> i < LENGTH('a)"
  by (auto simp: bit_mask_iff)

lemma bit_0x3f [bit_const]: "bit (0x3f :: u64) i \<longleftrightarrow> i < 6"
  using bit_mask_word [where 'a = 64, of 6 i] by (auto simp: mask_eq_exp_minus_1)

lemma bit_0x3f_u8 [bit_const]: "bit (0x3f :: u8) i \<longleftrightarrow> i < 6"
  using bit_mask_word [where 'a = 8, of 6 i] by (auto simp: mask_eq_exp_minus_1)

lemma bit_0x40_u8 [bit_const]: "bit (0x40 :: u8) i \<longleftrightarrow> i = 6"
  using bit_exp2 [where 'a = 8, of 6 i] by simp

lemma bit_0x80_u8 [bit_const]: "bit (0x80 :: u8) i \<longleftrightarrow> i = 7"
  using bit_exp2 [where 'a = 8, of 7 i] by simp

lemma unat_and_mask: "unat (w AND mask k :: 'a::len word) = unat w mod 2 ^ k"
  by (simp flip: take_bit_eq_mask take_bit_eq_mod add: unsigned_take_bit_eq)

lemma unat_ucast_u32: "unat (ucast (w::u64) :: u32) = unat w mod 2 ^ 32"
  by (simp add: unsigned_ucast_eq unsigned_take_bit_eq take_bit_eq_mod)

lemma ucast_32_64: "(x::u64) < 2 ^ 32 \<Longrightarrow> ucast (ucast x :: u32) = x"
  using high_bits_clear [of x 32] by (intro bit_word_eqI) (auto simp: bit_simps)

lemma word_drop_bit_le: "drop_bit e (w::'a::len word) \<le> w"
  unfolding word_le_nat_alt drop_bit_eq_div unat_div by (rule div_le_dividend)

lemma word_underflow:
  assumes "(l::u64) < f" "f < 2 ^ 62"
  shows "l < l - f"
proof -
  have *: "unat l < unat f" "unat f < 2 ^ 62" using assms by (simp_all add: word_less_nat_alt)
  then have "unat (l - f) = unat l + 2 ^ 64 - unat f" by (simp add: unat_sub_if_size word_size)
  with * show ?thesis by (simp add: word_less_nat_alt)
qed

section \<open>Results of fallible operations\<close>

text \<open>The error codes of \<^verbatim>\<open>xqc_errno.h\<close> that the modelled functions return.\<close>

datatype xqc_errno =
    XQC_ERROR
  | XQC_ENOBUF
  | XQC_EVINTREAD
  | XQC_ENULLPTR
  | XQC_EMALLOC
  | XQC_EILLPKT
  | XQC_EPARAM
  | XQC_ELIMIT
  | XQC_EPROTO
  | XQC_EDUP_FRAME
  | XQC_EILLEGAL_FRAME
  | XQC_EIGNORE_PKT
  | XQC_ESYS
  | XQC_ESTATE
  | XQC_EVERSION
  | XQC_EWAITING
  | XQC_EACTIVE_CID_LIMIT
  | XQC_ECONN_NO_AVAIL_CID
  | XQC_ECONN_CID_NOT_FOUND
  | XQC_ECID_STATE
  | XQC_QPACK_DECODER_VARINT_ERROR
  | XQC_EWRITE_PKT
  | XQC_ESOCKET
  | XQC_EENCRYPT
  | XQC_EANTI_AMPLIFICATION_LIMIT
  | XQC_EPACKET_FILETER_CALLBACK

text \<open>The result of a function that only returns a code: \<open>None\<close> is \<^verbatim>\<open>XQC_OK\<close>.\<close>

type_synonym ret = "xqc_errno option"

datatype 'a res = Ok 'a | Err xqc_errno | Fault

primrec bind_res :: "'a res \<Rightarrow> ('a \<Rightarrow> 'b res) \<Rightarrow> 'b res" where
  "bind_res (Ok x) f = f x"
| "bind_res (Err e) f = Err e"
| "bind_res Fault f = Fault"

lemma bind_res_Ok_iff: "bind_res m f = Ok y \<longleftrightarrow> (\<exists>x. m = Ok x \<and> f x = Ok y)"
  by (cases m) auto

lemma bind_res_Fault_iff: "bind_res m f = Fault \<longleftrightarrow> m = Fault \<or> (\<exists>x. m = Ok x \<and> f x = Fault)"
  by (cases m) auto

lemma bind_res_cong [fundef_cong]:
  "m = m' \<Longrightarrow> (\<And>x. m' = Ok x \<Longrightarrow> f x = f' x) \<Longrightarrow> bind_res m f = bind_res m' f'"
  by (cases m') auto

section \<open>Byte buffers\<close>

definition mem_read :: "'b list \<Rightarrow> nat \<Rightarrow> nat \<Rightarrow> 'b list option" where
  "mem_read mem p n = (if p + n \<le> length mem then Some (take n (drop p mem)) else None)"

definition mem_write :: "'b list \<Rightarrow> nat \<Rightarrow> 'b list \<Rightarrow> 'b list option" where
  "mem_write mem p bs =
     (if p + length bs \<le> length mem
      then Some (take p mem @ bs @ drop (p + length bs) mem) else None)"

lemma mem_write_Some_iff:
  "mem_write m p bs = Some m' \<longleftrightarrow>
     p + length bs \<le> length m \<and> m' = take p m @ bs @ drop (p + length bs) m"
  by (auto simp: mem_write_def)

lemma mem_write_None_iff: "mem_write m p bs = None \<longleftrightarrow> length m < p + length bs"
  by (auto simp: mem_write_def)

lemma length_mem_write: "mem_write m p bs = Some m' \<Longrightarrow> length m' = length m"
  by (auto simp: mem_write_Some_iff)

lemma drop_mem_write:
  "mem_write m p bs = Some m' \<Longrightarrow> drop p m' = bs @ drop (p + length bs) m"
  by (auto simp: mem_write_Some_iff)

lemma take_mem_write: "mem_write m p bs = Some m' \<Longrightarrow> take p m' = take p m"
  by (auto simp: mem_write_Some_iff)

lemma mem_read_write: "mem_write m p bs = Some m' \<Longrightarrow> mem_read m' p (length bs) = Some bs"
  by (auto simp: mem_write_Some_iff mem_read_def)

text \<open>Consecutive writes are one write: the generators fill a buffer field by field.\<close>

lemma mem_write_append:
  "Option.bind (mem_write m p xs) (\<lambda>m'. mem_write m' (p + length xs) ys) = mem_write m p (xs @ ys)"
  by (auto simp: mem_write_def ac_simps)

lemma mem_write_append_bind:
  "Option.bind (mem_write m p xs) (\<lambda>m'. Option.bind (mem_write m' (p + length xs) ys) k) =
   Option.bind (mem_write m p (xs @ ys)) k"
  by (simp flip: mem_write_append)

lemma length_mem_read: "mem_read m p n = Some bs \<Longrightarrow> length bs = n"
  by (auto simp: mem_read_def split: if_splits)

end
