(* ===== verification/XQC_Vint.thy ===== *)
theory XQC_Vint
  imports XQC_Prelude
begin

text \<open>
  QUIC variable-length integers (\<^verbatim>\<open>src/common/utils/vint\<close>): the reader \<^verbatim>\<open>xqc_vint_read\<close>, the two
  writers \<^verbatim>\<open>xqc_vint_write\<close> and \<^verbatim>\<open>xqc_put_varint\<close>, and the incremental parsers of
  \<^verbatim>\<open>xqc_discrete_int_parser.c\<close>, which accept a value split over several buffers.

  A pointer pair \<^verbatim>\<open>(p, end)\<close> is the list of the bytes in between; every read of \<^verbatim>\<open>xqc_vint_read\<close>
  is guarded by a comparison with \<^verbatim>\<open>end\<close>, which is here a test on the length of that list.
  The interface \<open>vint_codec\<close> is what the frame and packet codecs rely on.
\<close>

section \<open>Big-endian byte strings\<close>

definition be64_bytes :: "u64 \<Rightarrow> u8 list" where
  "be64_bytes w = map (\<lambda>i. ucast (drop_bit (8 * i) w)) [7, 6, 5, 4, 3, 2, 1, 0]"

definition be_val :: "u8 list \<Rightarrow> u64" where
  "be_val bs = foldl (\<lambda>v b. push_bit 8 v OR ucast b) 0 bs"

section \<open>Reading and writing\<close>

definition xqc_vint_read :: "u8 list \<Rightarrow> (nat \<times> u64) option" where
  "xqc_vint_read bs =
     (if bs = [] then None
      else let two_bit = drop_bit 6 (bs ! 0) in
        if two_bit = 0 then Some (1, ucast (bs ! 0))
        else if two_bit = 1 then
          (if length bs \<le> 1 then None
           else Some (2, push_bit 8 (ucast (bs ! 0) AND 0x3f) OR ucast (bs ! 1)))
        else if two_bit = 2 then
          (if length bs \<le> 3 then None
           else Some (4, push_bit 24 (ucast (bs ! 0) AND 0x3f) OR push_bit 16 (ucast (bs ! 1))
                         OR push_bit 8 (ucast (bs ! 2)) OR ucast (bs ! 3)))
        else
          (if length bs \<le> 7 then None
           else Some (8, be_val (take 8 bs) AND (push_bit 62 1 - 1))))"

definition xqc_vint_get_2bit :: "u64 \<Rightarrow> nat" where
  "xqc_vint_get_2bit val =
     (if val \<ge> 2 ^ 6 then 1 else 0) + (if val \<ge> 2 ^ 14 then 1 else 0) + (if val \<ge> 2 ^ 30 then 1 else 0)"

definition xqc_vint_usable_bits :: "nat \<Rightarrow> nat" where
  "xqc_vint_usable_bits two_bit = 2 ^ (3 + two_bit) - 2"

definition xqc_vint_len :: "nat \<Rightarrow> nat" where
  "xqc_vint_len two_bit = 2 ^ two_bit"

definition xqc_vint_len_by_val :: "u64 \<Rightarrow> nat" where
  "xqc_vint_len_by_val val = 2 ^ xqc_vint_get_2bit val"

definition xqc_vint_write :: "u64 \<Rightarrow> nat \<Rightarrow> nat \<Rightarrow> u8 list" where
  "xqc_vint_write val two_bit len =
     drop (8 - len) (be64_bytes (val OR push_bit (xqc_vint_usable_bits two_bit) (of_nat two_bit)))"

definition xqc_put_uint64be :: "u64 \<Rightarrow> u8 list" where
  "xqc_put_uint64be n = be64_bytes n"

definition xqc_put_uint32be :: "u32 \<Rightarrow> u8 list" where
  "xqc_put_uint32be n = [ucast (drop_bit 24 n), ucast (drop_bit 16 n), ucast (drop_bit 8 n), ucast n]"

definition xqc_put_uint16be :: "u16 \<Rightarrow> u8 list" where
  "xqc_put_uint16be n = [ucast (drop_bit 8 n), ucast n]"

definition xqc_put_varint_len :: "u64 \<Rightarrow> nat" where
  "xqc_put_varint_len n = (if n < 64 then 1 else if n < 16384 then 2 else if n < 1073741824 then 4 else 8)"

definition xqc_put_varint :: "u64 \<Rightarrow> u8 list option" where
  "xqc_put_varint n =
     (if n < 64 then Some [ucast n]
      else if n < 16384 then
        (let rv = xqc_put_uint16be (ucast n) in Some (rv[0 := rv ! 0 OR 0x40]))
      else if n < 1073741824 then
        (let rv = xqc_put_uint32be (ucast n) in Some (rv[0 := rv ! 0 OR 0x80]))
      else if n \<ge> 4611686018427387904 then None
      else (let rv = xqc_put_uint64be n in Some (rv[0 := rv ! 0 OR 0xc0])))"

section \<open>Incremental parsing\<close>

record discrete_int_pctx =
  vi :: u64
  left :: nat

definition xqc_discrete_int_pctx_clear :: "discrete_int_pctx \<Rightarrow> discrete_int_pctx" where
  "xqc_discrete_int_pctx_clear pctx = pctx\<lparr>vi := 0, left := 0\<rparr>"

definition xqc_get_varint_len :: "u8 \<Rightarrow> nat" where
  "xqc_get_varint_len b = 2 ^ unat (drop_bit 6 b)"

definition xqc_get_varint_fb :: "u8 \<Rightarrow> u64" where
  "xqc_get_varint_fb b = ucast (b AND 0x3f)"

text \<open>The byte loop shared by the two parsers: \<^verbatim>\<open>pctx->vi = (pctx->vi << 8) + *pos\<close>.\<close>

definition vi_bytes :: "u64 \<Rightarrow> u8 list \<Rightarrow> u64" where
  "vi_bytes v bs = foldl (\<lambda>v b. push_bit 8 v + ucast b) v bs"

definition xqc_discrete_vint_parse ::
  "u8 list \<Rightarrow> discrete_int_pctx \<Rightarrow> nat \<times> discrete_int_pctx \<times> bool" where
  "xqc_discrete_vint_parse bs pctx =
     (if bs = [] then (0, pctx, False)
      else
        let first = (left pctx = 0);
            pctx = (if first then pctx\<lparr>left := xqc_get_varint_len (bs ! 0) - 1, vi := xqc_get_varint_fb (bs ! 0)\<rparr>
                    else pctx);
            pos = (if first then 1 else 0);
            cnt = min (left pctx) (length bs - pos);
            pctx = pctx\<lparr>vi := vi_bytes (vi pctx) (take cnt (drop pos bs)), left := left pctx - cnt\<rparr>
        in (pos + cnt, pctx, left pctx = 0))"

definition xqc_fixed_len_int_parse ::
  "u8 list \<Rightarrow> nat \<Rightarrow> discrete_int_pctx \<Rightarrow> nat \<times> discrete_int_pctx \<times> bool" where
  "xqc_fixed_len_int_parse bs len pctx =
     (if bs = [] then (0, pctx, False)
      else
        let pctx = (if left pctx = 0 then pctx\<lparr>left := len\<rparr> else pctx);
            cnt = min (left pctx) (length bs);
            pctx = pctx\<lparr>vi := vi_bytes (vi pctx) (take cnt bs), left := left pctx - cnt\<rparr>
        in (cnt, pctx, left pctx = 0))"

text \<open>
  The loop of \<^verbatim>\<open>xqc_discrete_vint_parse\<close> alone, and the way its callers drive it: one call per
  arriving buffer until it reports completion.
\<close>

definition vi_feed :: "u8 list \<Rightarrow> discrete_int_pctx \<Rightarrow> nat \<times> discrete_int_pctx \<times> bool" where
  "vi_feed bs c = (let cnt = min (left c) (length bs) in
     (cnt, c\<lparr>vi := vi_bytes (vi c) (take cnt bs), left := left c - cnt\<rparr>, left c \<le> length bs))"

fun discrete_feed :: "u8 list list \<Rightarrow> discrete_int_pctx \<Rightarrow> nat \<times> discrete_int_pctx \<times> bool" where
  "discrete_feed [] c = (0, c, False)"
| "discrete_feed (bs # bss) c =
     (let (n, c', fin) = xqc_discrete_vint_parse bs c in
      if fin then (n, c', True)
      else let (m, c'', fin') = discrete_feed bss c' in (n + m, c'', fin'))"

text \<open>The encoding every frame and header generator uses: the shortest form of the value.\<close>

definition vint_enc :: "u64 \<Rightarrow> u8 list" where
  "vint_enc v = xqc_vint_write v (xqc_vint_get_2bit v) (xqc_vint_len (xqc_vint_get_2bit v))"

section \<open>Reading back what was written\<close>

lemma be_step: "push_bit 8 (drop_bit (k + 8) (w::u64)) OR ucast (ucast (drop_bit k w) :: u8) = drop_bit k w"
proof (rule bit_word_eqI)
  fix n assume "n < LENGTH(64)"
  moreover have "8 \<le> n \<Longrightarrow> k + 8 + (n - 8) = k + n" by simp
  ultimately show "bit (push_bit 8 (drop_bit (k + 8) w) OR ucast (ucast (drop_bit k w) :: u8)) n = bit (drop_bit k w) n"
    by (cases "n < 8") (simp_all add: bit_simps)
qed

lemma low_byte_tagged: "m + 8 \<le> k \<Longrightarrow> (ucast (drop_bit m (w OR push_bit k t :: u64)) :: u8) = ucast (drop_bit m w)"
  by (rule bit_word_eqI) (auto simp: bit_simps)

lemma top_byte_value:
  assumes "w < 2 ^ (m + 6)" "m + 6 < 64"
  shows "ucast (ucast (drop_bit m (w OR push_bit (m + 6) t :: u64)) :: u8) AND 0x3f = drop_bit m w"
  using high_bits_clear [OF assms(1)] assms(2)
  apply (intro bit_word_eqI)
  apply (subst bit_and_iff, subst bit_0x3f)
  apply (auto simp: bit_simps)
  done

lemma top_byte_tag:
  assumes "w < 2 ^ (m + 6)" "m + 6 < 64" "m \<le> 56"
  shows "drop_bit 6 (ucast (drop_bit m (w OR push_bit (m + 6) t :: u64)) :: u8) = ucast (take_bit 2 t)"
  using high_bits_clear [OF assms(1)] assms(2-)
  apply (intro bit_word_eqI) apply (auto simp add: bit_simps)
  done
lemma be64_bytes_eq:
  "be64_bytes w = [ucast (drop_bit 56 w), ucast (drop_bit 48 w), ucast (drop_bit 40 w), ucast (drop_bit 32 w),
     ucast (drop_bit 24 w), ucast (drop_bit 16 w), ucast (drop_bit 8 w), ucast w]"
  by (simp add: be64_bytes_def)

lemma be_first: "ucast (ucast (drop_bit 56 (w::u64)) :: u8) = drop_bit 56 w"
  by (rule bit_word_eqI) (auto simp: bit_simps dest: bit_imp_le_length)

lemma be_val_be64_bytes: "be_val (be64_bytes w) = w"
  using be_step [of 0 w] be_step [of 8 w] be_step [of 16 w] be_step [of 24 w] be_step [of 32 w]
    be_step [of 40 w] be_step [of 48 w] be_first [of w]
  by (simp add: be64_bytes_eq be_val_def)

lemma vint_rw0: "v < 2 ^ 6 \<Longrightarrow> xqc_vint_read (xqc_vint_write v 0 1 @ rest) = Some (1, v)"
  using top_byte_tag [of v 0 0] top_byte_value[of v 0 0] high_bits_clear[of v 6]
  apply (simp add: xqc_vint_read_def xqc_vint_write_def be64_bytes_eq xqc_vint_usable_bits_def)
  apply (intro bit_word_eqI)
  apply (auto simp: bit_simps)
  done

lemma vint_rw1: "v < 2 ^ 14 \<Longrightarrow> xqc_vint_read (xqc_vint_write v 1 2 @ rest) = Some (2, v)"
  using top_byte_tag [of v 8 1] top_byte_value[of v 8 1] low_byte_tagged[of 0 14 v 1] be_step[of 0 v]
  by (simp add: xqc_vint_read_def xqc_vint_write_def be64_bytes_eq xqc_vint_usable_bits_def)

lemma push_or_4:
  "push_bit 24 a OR push_bit 16 b OR push_bit 8 c OR d =
   push_bit 8 (push_bit 8 (push_bit 8 (a::u64) OR b) OR c) OR d"
  by (simp add: or.assoc)

lemma vint_rw2: "v < 2 ^ 30 \<Longrightarrow> xqc_vint_read (xqc_vint_write v 2 4 @ rest) = Some (4, v)"
  using top_byte_tag [of v 24 2] top_byte_value[of v 24 2] low_byte_tagged[of 0 30 v 2]
    low_byte_tagged[of 8 30 v 2] low_byte_tagged[of 16 30 v 2] be_step[of 0 v] be_step[of 8 v] be_step[of 16 v]
  by (simp add: xqc_vint_read_def xqc_vint_write_def be64_bytes_eq xqc_vint_usable_bits_def push_or_4)

lemma bit_mask62 [bit_const]: "bit (0x3fffffffffffffff :: u64) i \<longleftrightarrow> i < 62"
  using bit_mask_word [where 'a = 64, of 62 i] by (auto simp: mask_eq_exp_minus_1)

lemma and_mask62: "v < 2 ^ 62 \<Longrightarrow> (v OR push_bit 62 t) AND 0x3fffffffffffffff = (v::u64)"
  using high_bits_clear [of v 62]
  by (intro bit_word_eqI, subst bit_and_iff, subst bit_mask62) (auto simp: bit_simps)

lemma vint_rw3: "v < 2 ^ 62 \<Longrightarrow> xqc_vint_read (xqc_vint_write v 3 8 @ rest) = Some (8, v)"
  using top_byte_tag [of v 56 3] and_mask62[of v 3] be_val_be64_bytes[of "v OR push_bit 62 3"]
  by (simp add: xqc_vint_read_def xqc_vint_write_def be64_bytes_eq xqc_vint_usable_bits_def )

lemma vint_read_write:
  assumes "b \<le> 3" "v < 2 ^ xqc_vint_usable_bits b"
  shows "xqc_vint_read (xqc_vint_write v b (xqc_vint_len b) @ rest) = Some (xqc_vint_len b, v)"
proof -
  consider "b = 0" | "b = 1" | "b = 2" | "b = 3" using assms(1) by linarith
  then show ?thesis
    using assms(2) vint_rw0 [of v rest] vint_rw1 [of v rest] vint_rw2 [of v rest] vint_rw3 [of v rest]
    by cases (simp_all add: xqc_vint_usable_bits_def xqc_vint_len_def)
qed

lemma length_vint_write: "b \<le> 3 \<Longrightarrow> length (xqc_vint_write v b (xqc_vint_len b)) = xqc_vint_len b"
  by (auto simp: xqc_vint_write_def be64_bytes_def xqc_vint_len_def le_Suc_eq numeral_eq_Suc)

lemma vint_get_2bit_le: "xqc_vint_get_2bit v \<le> 3"
  by (simp add: xqc_vint_get_2bit_def)

lemma vint_get_2bit_fits: "v < 2 ^ 62 \<Longrightarrow> v < 2 ^ xqc_vint_usable_bits (xqc_vint_get_2bit v)"
  by (auto simp: xqc_vint_get_2bit_def xqc_vint_usable_bits_def word_le_nat_alt word_less_nat_alt)

lemma vint_get_2bit_minimal:
  "b \<le> 3 \<Longrightarrow> v < 2 ^ xqc_vint_usable_bits b \<Longrightarrow> xqc_vint_get_2bit v \<le> b"
  by (auto simp: xqc_vint_get_2bit_def xqc_vint_usable_bits_def word_le_nat_alt word_less_nat_alt le_Suc_eq numeral_3_eq_3)


lemma tag_byte:
  "m \<le> 56 \<Longrightarrow> (ucast (drop_bit m (n OR push_bit (m + 6) t :: u64)) :: u8) = ucast (drop_bit m n) OR push_bit 6 (ucast t)"
  by (rule bit_word_eqI) (auto simp: bit_simps)

lemma ucast_u16_bytes: "(ucast (drop_bit 8 (ucast (n::u64) :: u16)) :: u8) = ucast (drop_bit 8 n)"
   "(ucast (ucast n :: u16) :: u8) = ucast n"
  by (rule bit_word_eqI; simp add: bit_simps)+
lemma ucast_u32_bytes: "k \<le> 24 \<Longrightarrow> (ucast (drop_bit k (ucast (n::u64) :: u32)) :: u8) = ucast (drop_bit k n)"
   "(ucast (ucast n :: u32) :: u8) = ucast n"
  by (rule bit_word_eqI; simp add: bit_simps)+

lemma put_varint_eq:
  assumes "n < 2 ^ 62"
  shows "xqc_put_varint n = Some (xqc_vint_write n (xqc_vint_get_2bit n) (xqc_vint_len (xqc_vint_get_2bit n)))"
proof -
  note defs = xqc_put_varint_def xqc_put_uint16be_def xqc_put_uint32be_def xqc_put_uint64be_def
    xqc_vint_write_def be64_bytes_eq xqc_vint_len_def xqc_vint_usable_bits_def
    ucast_u16_bytes ucast_u32_bytes 
  consider "n < 64" | "64 \<le> n" "n < 16384" | "16384 \<le> n" "n < 1073741824" | "1073741824 \<le> n" by fastforce
  then show ?thesis
  proof cases
    case 1 then have "xqc_vint_get_2bit n = 0" by (simp add: xqc_vint_get_2bit_def word_le_nat_alt word_less_nat_alt)
    then show ?thesis using 1 by (simp add: defs)
  next
    case 2
    then have "xqc_vint_get_2bit n = 1" by (simp add: xqc_vint_get_2bit_def word_le_nat_alt word_less_nat_alt)
    then show ?thesis using 2 tag_byte[of 8 n 1] low_byte_tagged[of 0 14 n 1]
      by (simp add: defs word_le_nat_alt word_less_nat_alt)
  next case 3 
    then have "xqc_vint_get_2bit n = 2" by (simp add: xqc_vint_get_2bit_def word_le_nat_alt word_less_nat_alt)
    then show ?thesis using 3 tag_byte[of 24 n 2] low_byte_tagged[of 0 30 n 2] low_byte_tagged[of 8 30 n 2] low_byte_tagged[of 16 30 n 2]
      by (simp add: defs word_le_nat_alt word_less_nat_alt)
 next case 4
    then have "xqc_vint_get_2bit n = 3" by (simp add: xqc_vint_get_2bit_def word_le_nat_alt word_less_nat_alt)
    then show ?thesis using assms 4 tag_byte[of 56 n 3] low_byte_tagged[of 0 62 n 3] low_byte_tagged[of 8 62 n 3] low_byte_tagged[of 16 62 n 3]
       low_byte_tagged[of 24 62 n 3] low_byte_tagged[of 32 62 n 3] low_byte_tagged[of 40 62 n 3] low_byte_tagged[of 48 62 n 3]
      by (simp add: defs word_le_nat_alt word_less_nat_alt)
  qed
qed

section \<open>The incremental parser\<close>

lemma vint_read_bounds:
  "xqc_vint_read bs = Some (k, v) \<Longrightarrow> 0 < k \<and> k \<le> length bs \<and> k \<le> 8"
  by (auto simp: xqc_vint_read_def Let_def Suc_le_eq split: if_splits)

lemma be_push_add: "push_bit 8 (v::u64) + ucast (b::u8) = push_bit 8 v OR ucast b"
  by (rule disjunctive_add) (auto simp: bit_simps dest: bit_imp_le_length)

lemma vi_bytes_Nil [simp]: "vi_bytes v [] = v" 
  and vi_bytes_Cons [simp]: "vi_bytes v (b # bs) = vi_bytes (push_bit 8 v OR ucast b) bs"
  by (simp_all add: vi_bytes_def be_push_add)
lemma vi_bytes_append: "vi_bytes v (xs @ ys) = vi_bytes (vi_bytes v xs) ys" by (simp add: vi_bytes_def)

lemma be_val_vi_bytes: "be_val bs = vi_bytes 0 bs"
  by (simp add: be_val_def vi_bytes_def be_push_add)

lemma vi_step_mask: "(push_bit 8 v OR ucast (b::u8)) AND mask (k + 8) = push_bit 8 (v AND mask k) OR (ucast b :: u64)"
  by (rule bit_word_eqI) (auto simp: bit_simps dest: bit_imp_le_length)
lemma vi_bytes_mask: "vi_bytes v bs AND mask (k + 8 * length bs) = vi_bytes (v AND mask k) bs"
proof (induction bs arbitrary: v k)
  case (Cons b bs)
  have "k + 8 * length (b # bs) = (k + 8) + 8 * length bs" by simp
  then show ?case by (metis Cons.IH vi_bytes_Cons vi_step_mask)
qed simp

lemma parse_append_fin:
  "xqc_discrete_vint_parse xs c = (n, c', True) \<Longrightarrow> xqc_discrete_vint_parse (xs @ ys) c = (n, c', True)"
  by (cases xs; cases "left c") (auto simp: xqc_discrete_vint_parse_def Let_def nth_append split: if_splits)

lemma drop_bit_6_cases: "drop_bit 6 (b::u8) \<in> {0, 1, 2, 3}"
proof -
  have "unat (drop_bit 6 b) < 4"
    using unsigned_less [where 'a = nat, of b] by (simp add: unsigned_drop_bit_eq drop_bit_eq_div take_bit_eq_mod unat_div)
  then have "unat (drop_bit 6 b) \<in> {0, 1, 2, 3}" by auto
  then show ?thesis by (auto simp: word_unat_eq_iff)
qed

lemma fb_small: "drop_bit 6 (b::u8) = 0 \<Longrightarrow> b AND 0x3f = b"
proof (intro bit_word_eqI)
  fix n assume "drop_bit 6 b = 0" "n < LENGTH(8)"
  then have "\<forall>n. \<not> bit (drop_bit 6 b) n"  by simp
  then have "6 \<le> n \<Longrightarrow> \<not> bit b n" by (auto simp: bit_simps le_iff_add)
  then show "bit (b AND 0x3f) n = bit b n"
    by (cases "6 \<le> n") (simp_all add: bit_and_iff bit_0x3f_u8 del: bit_numeral_word_iff)
qed
lemma ucast_and_3f: "ucast ((b::u8) AND 0x3f) = (ucast b AND 0x3f :: u64)"
   by (intro bit_word_eqI) (auto simp add: bit_simps dest: bit_imp_le_length)

lemma discrete_agrees:
  assumes "xqc_vint_read bs = Some (k, v)" "left c = 0"
  shows "xqc_discrete_vint_parse bs c = (k, c\<lparr>vi := v, left := 0\<rparr>, True)"
proof -
  note defs = xqc_vint_read_def xqc_discrete_vint_parse_def xqc_get_varint_len_def xqc_get_varint_fb_def
  have l: "take 1 xs = (if xs = [] then [] else [xs ! 0])" for xs :: "u8 list" by (cases xs) auto
  from assms(1) obtain b bs' where bs: "bs = b # bs'" by (cases bs) (auto simp: xqc_vint_read_def)
  consider "drop_bit 6 b = 0" | "drop_bit 6 b = 1" | "drop_bit 6 b = 2" | "drop_bit 6 b = 3"
    using drop_bit_6_cases[of b] by auto
  then show ?thesis
  proof cases
    case 1
    then show ?thesis using assms by (auto simp: bs defs fb_small)
  next
    case 2
    then obtain b1 bs'' where "bs' = b1 # bs''" using assms bs by (cases bs') (auto simp: xqc_vint_read_def)
    then show ?thesis using assms 2 by (auto simp: bs defs ucast_and_3f)
  next case 3
    with assms bs have "3 \<le> length bs'" by (auto simp: xqc_vint_read_def split: if_splits)
    then obtain b1 b2 b3 bs'' where "bs' = b1 # b2 # b3 # bs''" by (auto simp: numeral_3_eq_3 Suc_le_length_iff)
    then show ?thesis using assms 3
     by (auto simp: bs defs ucast_and_3f or.assoc)
  next case 4 
    with assms bs have *: "7 \<le> length bs'" by (auto simp: xqc_vint_read_def split: if_splits)
    have "v = be_val (b # take 7 bs') AND mask (6 + 8 * 7)"
      using assms 4 * by (auto simp: defs bs mask_eq_exp_minus_1)
    also have "\<dots> = vi_bytes (ucast b AND 0x3f) (take 7 bs')"
      using vi_bytes_mask[of "ucast b" "take 7 bs'" 6] * by (simp add: be_val_vi_bytes mask_eq_exp_minus_1)
    finally show ?thesis using assms 4 * by (auto simp: bs defs ucast_and_3f)
  qed
qed

lemma parse_continue:
  "bs \<noteq> [] \<Longrightarrow> 0 < left c \<Longrightarrow> xqc_discrete_vint_parse bs c = vi_feed bs c"
  by (simp add: xqc_discrete_vint_parse_def vi_feed_def Let_def)

lemma parse_start:
  "left c = 0 \<Longrightarrow> xqc_discrete_vint_parse (b # bs) c =
     (let (m, c', f) = vi_feed bs (c\<lparr>left := xqc_get_varint_len b - 1, vi := xqc_get_varint_fb b\<rparr>)
      in (Suc m, c', f))"
  by (simp add: xqc_discrete_vint_parse_def vi_feed_def Let_def)

lemma vi_feed_fin: "left c \<le> length xs \<Longrightarrow> vi_feed (xs @ ys) c = vi_feed xs c"
  by (simp add: vi_feed_def)

lemma vi_feed_more: "length xs < left c \<Longrightarrow> vi_feed (xs @ ys) c =
    (let (m, c', f) = vi_feed ys (c\<lparr>vi := vi_bytes (vi c) xs, left := left c - length xs\<rparr>)
     in (length xs + m, c', f))"
  by (simp add: vi_feed_def Let_def vi_bytes_append min_def) linarith

lemma vi_feed_False: "vi_feed xs c = (n, c', False) \<longleftrightarrow>
   length xs < left c \<and> n = length xs \<and> c' = c\<lparr>vi := vi_bytes (vi c) xs, left := left c - length xs\<rparr>"
  by (auto simp: vi_feed_def Let_def)
lemma vi_feed_True: "vi_feed xs c = (n, c', True) \<Longrightarrow> left c \<le> length xs"
  by (auto simp: vi_feed_def Let_def)

lemma parse_append_more:
  assumes "xqc_discrete_vint_parse xs c = (n, c', False)" "xs \<noteq> []" "ys \<noteq> []"
  shows "xqc_discrete_vint_parse (xs @ ys) c = 
    (let (m, c'', f) = xqc_discrete_vint_parse ys c' in (n + m, c'', f))"
proof (cases "left c = 0")
  case True
  obtain b bs where "xs = b # bs" using assms(2) by (cases xs) auto
  with assms True show ?thesis
    by (auto simp: parse_start parse_continue vi_feed_False vi_feed_more split: prod.splits)
next
  case False
  with assms show ?thesis by (auto simp: parse_continue vi_feed_False vi_feed_more split: prod.splits)
qed

lemma parse_Nil [simp]: "xqc_discrete_vint_parse [] c = (0, c, False)" by (simp add: xqc_discrete_vint_parse_def)

lemma discrete_feed_concat: "discrete_feed bss c = xqc_discrete_vint_parse (concat bss) c"
proof (induction bss arbitrary: c)
  case (Cons bs bss)
  consider "bs = []" | "concat bss = []" | "bs \<noteq> []" "concat bss \<noteq> []" by blast
  then show ?case
    using Cons parse_append_fin [of bs c] parse_append_more [of bs c]
    by cases (auto simp del: concat_eq_Nil_conv split: prod.splits)
qed simp

section \<open>The codec interface\<close>

text \<open>
  What the frame and packet codecs rely on: an encoder whose output, followed by anything, is read
  back with its exact length. Unique readability follows once, for every pair of routines.
\<close>

locale vint_codec =
  fixes ok :: "u64 \<Rightarrow> bool"
    and put :: "u64 \<Rightarrow> u8 list"
    and get :: "u8 list \<Rightarrow> (nat \<times> u64) option"
  assumes get_put: "ok v \<Longrightarrow> get (put v @ rest) = Some (length (put v), v)"
begin

lemma put_prefix_free:
  assumes "ok v" "ok w" "put v @ xs = put w @ ys"
  shows "v = w \<and> xs = ys"
  using assms get_put [of v xs] get_put [of w ys] by auto

lemma get_drop:
  "ok v \<Longrightarrow> get (put v @ rest) = Some (n, w) \<Longrightarrow> w = v \<and> drop n (put v @ rest) = rest"
  by (auto simp: get_put)

lemma put_concat_inj:
  assumes "concat (map put vs) = concat (map put ws)" "length vs = length ws"
    and "\<forall>v\<in>set vs. ok v" "\<forall>w\<in>set ws. ok w"
  shows "vs = ws"
  using assms(2,1,3,4)
proof (induction vs ws rule: list_induct2)
  case (Cons v vs w ws)
  then show ?case using put_prefix_free [of v w "concat (map put vs)" "concat (map put ws)"] by simp
qed simp

end

lemma vint_read_enc: "v < 2 ^ 62 \<Longrightarrow> xqc_vint_read (vint_enc v @ rest) = Some (length (vint_enc v), v)"
  by (simp only: vint_enc_def vint_read_write [OF vint_get_2bit_le vint_get_2bit_fits]
        length_vint_write [OF vint_get_2bit_le])

lemma length_vint_enc: "length (vint_enc v) = xqc_vint_len_by_val v"
  using length_vint_write [OF vint_get_2bit_le, of v v]
  by (simp add: vint_enc_def xqc_vint_len_def xqc_vint_len_by_val_def)

lemma vint_len_by_val_bounds: "1 \<le> xqc_vint_len_by_val v" "xqc_vint_len_by_val v \<le> 8"
  using power_increasing [OF vint_get_2bit_le, of "2::nat" v] by (simp_all add: xqc_vint_len_by_val_def)

interpretation vint: vint_codec "\<lambda>v. v < 2 ^ 62" vint_enc xqc_vint_read
  by unfold_locales (rule vint_read_enc)

interpretation varint: vint_codec "\<lambda>v. v < 2 ^ 62" "\<lambda>v. the (xqc_put_varint v)" xqc_vint_read
  by unfold_locales (use put_varint_eq vint_read_enc in \<open>simp add: vint_enc_def\<close>)

interpretation vint2: vint_codec "\<lambda>v. v < 2 ^ 14" "\<lambda>v. xqc_vint_write v 1 2" xqc_vint_read
  by unfold_locales (use vint_rw1 length_vint_write [of 1] in \<open>simp add: xqc_vint_len_def\<close>)

interpretation discrete: vint_codec "\<lambda>v. v < 2 ^ 62" vint_enc
  "\<lambda>bs. case xqc_discrete_vint_parse bs \<lparr>vi = 0, left = 0\<rparr> of
     (n, c, fin) \<Rightarrow> if fin then Some (n, vi c) else None"
  by unfold_locales (use discrete_agrees vint_read_enc in fastforce)

lemma vint_enc_small: "v < 64 \<Longrightarrow> vint_enc v = [ucast v]"
  using put_varint_eq[of v] by (auto simp: vint_enc_def xqc_put_varint_def word_less_nat_alt)

lemma vint_read_byte: "b < 64 \<Longrightarrow> xqc_vint_read (b # ys) = Some (1, ucast b)"
proof -
  assume "b < 64"
  then have "\<forall>i. bit b i \<longrightarrow> i < 6" using high_bits_clear [of b 6] by simp
  then have "drop_bit 6 b = 0" by (intro bit_word_eqI) (auto simp: bit_simps)
  then show ?thesis by (simp add: xqc_vint_read_def)
qed

lemma length_vint_enc_le: "length (vint_enc v) \<le> 8" 
  using vint_len_by_val_bounds by (simp add: length_vint_enc)

section \<open>Properties\<close>

text \<open>C16. Variable-length integers round trip. For each of the four widths and every value that
  fits it, \<^verbatim>\<open>xqc_vint_read\<close> applied to what \<^verbatim>\<open>xqc_vint_write\<close> wrote, followed by arbitrary bytes,
  returns the value and the number of bytes written; and the width the generators choose
  (\<^verbatim>\<open>xqc_vint_get_2bit\<close>) is the smallest of those that fit.\<close>

theorem vint_write_read:
  assumes "b \<le> 3" "v < 2 ^ xqc_vint_usable_bits b"
  shows "xqc_vint_read (xqc_vint_write v b (xqc_vint_len b) @ rest) = Some (xqc_vint_len b, v)
    \<and> length (xqc_vint_write v b (xqc_vint_len b)) = xqc_vint_len b
    \<and> xqc_vint_get_2bit v \<le> b \<and> v < 2 ^ xqc_vint_usable_bits (xqc_vint_get_2bit v)"
proof -
  have "v < 2 ^ 62"
    using assms by (auto simp: xqc_vint_usable_bits_def word_less_nat_alt le_Suc_eq numeral_3_eq_3)
  then show ?thesis
    using assms vint_read_write length_vint_write vint_get_2bit_minimal vint_get_2bit_fits by simp
qed

theorem vint_write_read_witness:
  "xqc_vint_read (xqc_vint_write 300 1 2 @ [7]) = Some (2, 300) \<and> xqc_vint_get_2bit 300 \<le> 1"
  using vint_write_read [of 1 300 "[7]"] by (simp add: xqc_vint_usable_bits_def xqc_vint_len_def)

text \<open>C17. The writer of the HTTP/3 layer and the writer of the transport agree:
  \<^verbatim>\<open>xqc_put_varint\<close> refuses exactly the values from 2 to the 62 on and otherwise writes the bytes
  of \<^verbatim>\<open>xqc_vint_write\<close> at the minimal width, as many as \<^verbatim>\<open>xqc_put_varint_len\<close> announces.\<close>

theorem put_varint_is_vint_write:
  "xqc_put_varint n = (if n < 2 ^ 62 then Some (vint_enc n) else None)
   \<and> length (vint_enc n) = xqc_put_varint_len n"
proof -
  have "\<not> n < 2 ^ 62 \<Longrightarrow> xqc_put_varint n = None"
    by (simp add: xqc_put_varint_def word_le_nat_alt word_less_nat_alt)
  moreover have "xqc_vint_len_by_val n = xqc_put_varint_len n"
    by (auto simp: xqc_put_varint_len_def xqc_vint_len_by_val_def xqc_vint_get_2bit_def
        word_le_nat_alt word_less_nat_alt)
  ultimately show ?thesis using put_varint_eq [of n] by (simp add: vint_enc_def [symmetric] length_vint_enc)
qed

text \<open>C18. The incremental parser does not depend on how the bytes are cut into buffers. When the
  buffers joined together start with an integer that \<^verbatim>\<open>xqc_vint_read\<close> accepts, calling
  \<^verbatim>\<open>xqc_discrete_vint_parse\<close> on one buffer after the other from a cleared context ends with the
  finished flag, the same value and the same number of consumed bytes.\<close>

theorem discrete_vint_parse_chunks:
  assumes "xqc_vint_read (concat bss) = Some (k, v)" "left c = 0"
  shows "discrete_feed bss c = (k, c\<lparr>vi := v, left := 0\<rparr>, True)"
  by (simp only: discrete_feed_concat discrete_agrees [OF assms])

theorem discrete_vint_parse_chunks_witness:
  "discrete_feed ([0x81] # [] # [0x02, 0x03] # [0x04, 0x05] # []) \<lparr>vi = 9, left = 0\<rparr>
     = (4, \<lparr>vi = 0x1020304, left = 0\<rparr>, True)"
  using discrete_vint_parse_chunks [where bss = "[0x81] # [] # [0x02, 0x03] # [0x04, 0x05] # []"
      and k = 4 and v = "0x1020304" and c = "\<lparr>vi = 9, left = 0\<rparr>"]
  by (simp add: xqc_vint_read_def)

end
