(* ===== verification/XQC_Packet.thy ===== *)
theory XQC_Packet
  imports XQC_Vint
begin

text \<open>
  Packets as the frame and header codecs see them (\<^verbatim>\<open>transport/xqc_packet.h\<close>,
  \<^verbatim>\<open>xqc_packet_in.h\<close>, \<^verbatim>\<open>xqc_packet_out.h\<close>, \<^verbatim>\<open>xqc_frame.h\<close>).

  \<^item> A \<open>packet_in\<close> is a received packet: \<open>pi_buf\<close> is the memory that holds it, \<open>pi_pos\<close> and \<open>pi_last\<close>
    are the offsets of the pointers \<^verbatim>\<open>pos\<close> and \<^verbatim>\<open>last\<close> in it. Reading at or after \<open>length pi_buf\<close>
    is a fault; reading between \<open>pi_last\<close> and the end of the memory is an over-read that C does not
    notice, and neither does the model.
  \<^item> A \<open>packet_out\<close> is a packet under construction: \<open>po_buf\<close> is the allocated memory, of which the
    generators may use \<open>po_buf_size\<close> bytes; the rest is the reserve for an ACK frame and the AEAD tag.
    The generators write at a cursor, modelled by \<open>put\<close>; a write outside the memory is \<open>None\<close>.
\<close>

section \<open>Packet types, number spaces and frame types\<close>

datatype xqc_pkt_num_space = XQC_PNS_INIT | XQC_PNS_HSK | XQC_PNS_APP_DATA | XQC_PNS_N

primrec pns_code :: "xqc_pkt_num_space \<Rightarrow> nat" where
  "pns_code XQC_PNS_INIT = 0"
| "pns_code XQC_PNS_HSK = 1"
| "pns_code XQC_PNS_APP_DATA = 2"
| "pns_code XQC_PNS_N = 3"

instantiation xqc_pkt_num_space :: linorder
begin

definition less_eq_xqc_pkt_num_space :: "xqc_pkt_num_space \<Rightarrow> xqc_pkt_num_space \<Rightarrow> bool" where
  "less_eq_xqc_pkt_num_space a b \<longleftrightarrow> pns_code a \<le> pns_code b"

definition less_xqc_pkt_num_space :: "xqc_pkt_num_space \<Rightarrow> xqc_pkt_num_space \<Rightarrow> bool" where
  "less_xqc_pkt_num_space a b \<longleftrightarrow> pns_code a < pns_code b"

instance
proof
  fix a b :: xqc_pkt_num_space
  assume "a \<le> b" "b \<le> a"
  then show "a = b" by (cases a; cases b) (simp_all add: less_eq_xqc_pkt_num_space_def)
qed (auto simp: less_eq_xqc_pkt_num_space_def less_xqc_pkt_num_space_def)

end

datatype xqc_pkt_type =
    XQC_PTYPE_INIT | XQC_PTYPE_0RTT | XQC_PTYPE_HSK | XQC_PTYPE_RETRY
  | XQC_PTYPE_SHORT_HEADER | XQC_PTYPE_VERSION_NEGOTIATION | XQC_PTYPE_NUM

datatype xqc_encrypt_level = XQC_ENC_LEV_INIT | XQC_ENC_LEV_0RTT | XQC_ENC_LEV_HSK | XQC_ENC_LEV_1RTT

definition xqc_packet_type_to_enc_level :: "xqc_pkt_type \<Rightarrow> xqc_encrypt_level" where
  "xqc_packet_type_to_enc_level t = (case t of
     XQC_PTYPE_INIT \<Rightarrow> XQC_ENC_LEV_INIT
   | XQC_PTYPE_0RTT \<Rightarrow> XQC_ENC_LEV_0RTT
   | XQC_PTYPE_HSK \<Rightarrow> XQC_ENC_LEV_HSK
   | XQC_PTYPE_SHORT_HEADER \<Rightarrow> XQC_ENC_LEV_1RTT
   | _ \<Rightarrow> XQC_ENC_LEV_INIT)"

definition xqc_packet_type_to_pns :: "xqc_pkt_type \<Rightarrow> xqc_pkt_num_space" where
  "xqc_packet_type_to_pns t = (case t of
     XQC_PTYPE_INIT \<Rightarrow> XQC_PNS_INIT
   | XQC_PTYPE_0RTT \<Rightarrow> XQC_PNS_APP_DATA
   | XQC_PTYPE_HSK \<Rightarrow> XQC_PNS_HSK
   | XQC_PTYPE_SHORT_HEADER \<Rightarrow> XQC_PNS_APP_DATA
   | _ \<Rightarrow> XQC_PNS_N)"

datatype xqc_frame_type =
    XQC_FRAME_PADDING | XQC_FRAME_PING | XQC_FRAME_ACK | XQC_FRAME_RESET_STREAM
  | XQC_FRAME_STOP_SENDING | XQC_FRAME_CRYPTO | XQC_FRAME_NEW_TOKEN | XQC_FRAME_STREAM
  | XQC_FRAME_MAX_DATA | XQC_FRAME_MAX_STREAM_DATA | XQC_FRAME_MAX_STREAMS
  | XQC_FRAME_DATA_BLOCKED | XQC_FRAME_STREAM_DATA_BLOCKED | XQC_FRAME_STREAMS_BLOCKED
  | XQC_FRAME_NEW_CONNECTION_ID | XQC_FRAME_RETIRE_CONNECTION_ID | XQC_FRAME_PATH_CHALLENGE
  | XQC_FRAME_PATH_RESPONSE | XQC_FRAME_CONNECTION_CLOSE | XQC_FRAME_HANDSHAKE_DONE
  | XQC_FRAME_PATH_STATUS | XQC_FRAME_ACK_MP | XQC_FRAME_QOE_CONTROL_SIGNAL | XQC_FRAME_Extension

primrec frame_index :: "xqc_frame_type \<Rightarrow> nat" where
  "frame_index XQC_FRAME_PADDING = 0"
| "frame_index XQC_FRAME_PING = 1"
| "frame_index XQC_FRAME_ACK = 2"
| "frame_index XQC_FRAME_RESET_STREAM = 3"
| "frame_index XQC_FRAME_STOP_SENDING = 4"
| "frame_index XQC_FRAME_CRYPTO = 5"
| "frame_index XQC_FRAME_NEW_TOKEN = 6"
| "frame_index XQC_FRAME_STREAM = 7"
| "frame_index XQC_FRAME_MAX_DATA = 8"
| "frame_index XQC_FRAME_MAX_STREAM_DATA = 9"
| "frame_index XQC_FRAME_MAX_STREAMS = 10"
| "frame_index XQC_FRAME_DATA_BLOCKED = 11"
| "frame_index XQC_FRAME_STREAM_DATA_BLOCKED = 12"
| "frame_index XQC_FRAME_STREAMS_BLOCKED = 13"
| "frame_index XQC_FRAME_NEW_CONNECTION_ID = 14"
| "frame_index XQC_FRAME_RETIRE_CONNECTION_ID = 15"
| "frame_index XQC_FRAME_PATH_CHALLENGE = 16"
| "frame_index XQC_FRAME_PATH_RESPONSE = 17"
| "frame_index XQC_FRAME_CONNECTION_CLOSE = 18"
| "frame_index XQC_FRAME_HANDSHAKE_DONE = 19"
| "frame_index XQC_FRAME_PATH_STATUS = 20"
| "frame_index XQC_FRAME_ACK_MP = 21"
| "frame_index XQC_FRAME_QOE_CONTROL_SIGNAL = 22"
| "frame_index XQC_FRAME_Extension = 23"

definition XQC_FRAME_BIT :: "xqc_frame_type \<Rightarrow> u32" where
  "XQC_FRAME_BIT t = push_bit (frame_index t) 1"

definition XQC_IS_ACK_ELICITING :: "u32 \<Rightarrow> bool" where
  "XQC_IS_ACK_ELICITING types \<longleftrightarrow>
     types AND NOT (XQC_FRAME_BIT XQC_FRAME_ACK OR XQC_FRAME_BIT XQC_FRAME_PADDING
                    OR XQC_FRAME_BIT XQC_FRAME_CONNECTION_CLOSE) \<noteq> 0"

definition XQC_CAN_IN_FLIGHT :: "u32 \<Rightarrow> bool" where
  "XQC_CAN_IN_FLIGHT types \<longleftrightarrow>
     types AND NOT (XQC_FRAME_BIT XQC_FRAME_ACK OR XQC_FRAME_BIT XQC_FRAME_CONNECTION_CLOSE) \<noteq> 0"

definition XQC_NEED_REPAIR :: "u32 \<Rightarrow> bool" where
  "XQC_NEED_REPAIR types \<longleftrightarrow>
     types AND NOT (XQC_FRAME_BIT XQC_FRAME_ACK OR XQC_FRAME_BIT XQC_FRAME_PADDING
                    OR XQC_FRAME_BIT XQC_FRAME_PING OR XQC_FRAME_BIT XQC_FRAME_CONNECTION_CLOSE) \<noteq> 0"

section \<open>Connection ids and packet headers\<close>

abbreviation "XQC_MAX_CID_LEN \<equiv> (20::nat)"

text \<open>The used part of \<^verbatim>\<open>cid_buf\<close> is \<open>cid_buf\<close>; \<^verbatim>\<open>cid_len\<close> is its length.\<close>

record xqc_cid =
  cid_buf :: "u8 list"
  cid_seq_num :: u64

record xqc_packet =
  pkt_num :: pktno
  pkt_pns :: xqc_pkt_num_space
  pkt_type :: xqc_pkt_type
  pkt_dcid :: xqc_cid
  pkt_scid :: xqc_cid
  pkt_length :: u64
  pkt_num_offset :: nat

text \<open>The zeroed structures of \<^verbatim>\<open>memset\<close> and \<^verbatim>\<open>xqc_calloc\<close>.\<close>

definition zero_cid :: xqc_cid where
  "zero_cid = \<lparr>cid_buf = [], cid_seq_num = 0\<rparr>"

definition zero_packet :: xqc_packet where
  "zero_packet = \<lparr>pkt_num = 0, pkt_pns = XQC_PNS_INIT, pkt_type = XQC_PTYPE_INIT,
     pkt_dcid = zero_cid, pkt_scid = zero_cid, pkt_length = 0, pkt_num_offset = 0\<rparr>"

section \<open>Received packets\<close>

record packet_in =
  pi_pkt :: xqc_packet
  pi_buf :: "u8 list"
  pi_pos :: nat
  pi_last :: nat
  pkt_recv_time :: usec
  pi_frame_types :: u32

text \<open>\<open>bs\<close> is the datagram; the buffer for the decrypted payload is not part of the model.\<close>

definition xqc_packet_in_init :: "u8 list \<Rightarrow> usec \<Rightarrow> packet_in \<Rightarrow> packet_in" where
  "xqc_packet_in_init bs recv_time pi =
     pi\<lparr>pi_buf := bs, pi_pos := 0, pi_last := length bs, pkt_recv_time := recv_time\<rparr>"

definition zero_packet_in :: packet_in where
  "zero_packet_in = \<lparr>pi_pkt = zero_packet, pi_buf = [], pi_pos = 0, pi_last = 0, pkt_recv_time = 0, pi_frame_types = 0\<rparr>"

text \<open>A packet with bytes left to parse, in a buffer no larger than a C object can be read with \<^verbatim>\<open>int\<close> lengths.\<close>

definition pi_wf :: "packet_in \<Rightarrow> bool" where
  "pi_wf pi \<longleftrightarrow> pi_pos pi < pi_last pi \<and> pi_last pi \<le> length (pi_buf pi) \<and> length (pi_buf pi) < 2 ^ 31"

text \<open>The bytes between a pointer and \<^verbatim>\<open>last\<close>.\<close>

definition pi_rest :: "packet_in \<Rightarrow> nat \<Rightarrow> u8 list" where
  "pi_rest pi p = take (pi_last pi - p) (drop p (pi_buf pi))"

definition pi_byte :: "packet_in \<Rightarrow> nat \<Rightarrow> u8 res" where
  "pi_byte pi p = (if p < length (pi_buf pi) then Ok (pi_buf pi ! p) else Fault)"

definition pi_copy :: "packet_in \<Rightarrow> nat \<Rightarrow> nat \<Rightarrow> u8 list res" where
  "pi_copy pi p n = (if n = 0 then Ok []
     else case mem_read (pi_buf pi) p n of Some bs \<Rightarrow> Ok bs | None \<Rightarrow> Fault)"

text \<open>\<^verbatim>\<open>vlen = xqc_vint_read(p, end, &v); if (vlen < 0) return -XQC_EVINTREAD; p += vlen;\<close>\<close>

definition pi_vint :: "packet_in \<Rightarrow> nat \<Rightarrow> (nat \<times> u64) res" where
  "pi_vint pi p = (case xqc_vint_read (pi_rest pi p) of
     None \<Rightarrow> Err XQC_EVINTREAD | Some (vlen, v) \<Rightarrow> Ok (p + vlen, v))"

definition pi_advance :: "xqc_frame_type \<Rightarrow> nat \<Rightarrow> packet_in \<Rightarrow> packet_in" where
  "pi_advance t p pi = pi\<lparr>pi_pos := p, pi_frame_types := pi_frame_types pi OR XQC_FRAME_BIT t\<rparr>"

section \<open>Packets under construction\<close>

abbreviation "XQC_ACK_SPACE \<equiv> (16::nat)"
abbreviation "XQC_TLS_AEAD_OVERHEAD_MAX_LEN \<equiv> (16::nat)"
abbreviation "XQC_PACKET_OUT_EXT_SPACE \<equiv> XQC_TLS_AEAD_OVERHEAD_MAX_LEN + XQC_ACK_SPACE"
abbreviation "XQC_PACKET_INITIAL_MIN_LENGTH \<equiv> (1200::nat)"

record packet_out =
  po_pkt :: xqc_packet
  po_buf :: "u8 list"
  po_ppktno :: "nat option"
  po_payload :: "nat option"
  po_padding :: "nat option"
  po_buf_size :: u32
  po_used_size :: u32
  po_frame_types :: u32
  po_largest_ack :: pktno
  po_sent_time :: usec
  po_delivered :: u64
  po_delivered_time :: usec
  po_first_sent_time :: usec
  po_is_app_limited :: bool
  po_tx_in_flight :: u64
  po_lost :: u32

text \<open>\<open>mem\<close> is what \<^verbatim>\<open>xqc_malloc(po_buf_size + XQC_PACKET_OUT_EXT_SPACE)\<close> returned, \<open>None\<close> for NULL.\<close>

definition xqc_packet_out_create :: "u8 list option \<Rightarrow> nat \<Rightarrow> packet_out option" where
  "xqc_packet_out_create mem sz = (case mem of
     None \<Rightarrow> None
   | Some buf \<Rightarrow> Some \<lparr>po_pkt = zero_packet, po_buf = buf, po_ppktno = None, po_payload = None,
       po_padding = None, po_buf_size = of_nat sz, po_used_size = 0, po_frame_types = 0,
       po_largest_ack = 0, po_sent_time = 0, po_delivered = 0, po_delivered_time = 0,
       po_first_sent_time = 0, po_is_app_limited = False, po_tx_in_flight = 0, po_lost = 0\<rparr>)"

text \<open>The offset of \<^verbatim>\<open>po_buf + po_used_size\<close>, and \<^verbatim>\<open>po_buf_size - po_used_size\<close> at its 32 bits.\<close>

definition po_dst :: "packet_out \<Rightarrow> nat" where
  "po_dst po = unat (po_used_size po)"

definition po_room :: "packet_out \<Rightarrow> nat" where
  "po_room po = unat (po_buf_size po - po_used_size po)"

text \<open>A packet before its ACK frame: within the usable size, which is at most a UDP datagram.\<close>

definition po_wf :: "packet_out \<Rightarrow> bool" where
  "po_wf po \<longleftrightarrow> po_used_size po \<le> po_buf_size po \<and> po_buf_size po < 0x10000
     \<and> length (po_buf po) = unat (po_buf_size po) + XQC_PACKET_OUT_EXT_SPACE"

type_synonym cursor = "nat \<times> packet_out"
type_synonym gen_result = "((xqc_errno + nat) \<times> packet_out) option"

definition put_at :: "nat \<Rightarrow> u8 list \<Rightarrow> packet_out \<Rightarrow> packet_out option" where
  "put_at p bs po = map_option (\<lambda>b. po\<lparr>po_buf := b\<rparr>) (mem_write (po_buf po) p bs)"

text \<open>\<^verbatim>\<open>memcpy(dst_buf, bs, len); dst_buf += len;\<close>\<close>

definition put :: "u8 list \<Rightarrow> cursor \<Rightarrow> cursor option" where
  "put bs = (\<lambda>(d, po). map_option (\<lambda>po'. (d + length bs, po')) (put_at d bs po))"

definition gen_error :: "xqc_errno \<Rightarrow> packet_out \<Rightarrow> gen_result" where
  "gen_error e po = Some (Inl e, po)"

text \<open>\<^verbatim>\<open>packet_out->po_frame_types |= bit; return dst_buf - begin;\<close>\<close>

definition gen_done :: "xqc_frame_type \<Rightarrow> nat \<Rightarrow> cursor \<Rightarrow> gen_result" where
  "gen_done t begin = (\<lambda>(d, po).
     Some (Inr (d - begin), po\<lparr>po_frame_types := po_frame_types po OR XQC_FRAME_BIT t\<rparr>))"

text \<open>
  The frame a generator has appended: \<open>n\<close> bytes written at the old end of the packet, everything
  before them kept, nothing else of the packet changed but the set of frame types.
\<close>

definition po_appended :: "xqc_frame_type \<Rightarrow> packet_out \<Rightarrow> u8 list \<Rightarrow> packet_out" where
  "po_appended t po bs = po\<lparr>po_buf := take (po_dst po) (po_buf po) @ bs @ drop (po_dst po + length bs) (po_buf po),
     po_frame_types := po_frame_types po OR XQC_FRAME_BIT t\<rparr>"

section \<open>Lemmas on the cursor and on the parse position\<close>

lemma put_put: "Option.bind (put xs c) (put ys) = put (xs @ ys) c"
  by (cases c) (auto simp: put_def put_at_def mem_write_def ac_simps)

lemma put_put_bind:
  "Option.bind (put xs c) (\<lambda>c'. Option.bind (put ys c') k) = Option.bind (put (xs @ ys) c) k"
  by (simp flip: put_put)

lemma put_Some_iff:
  "put bs (d, po) = Some c \<longleftrightarrow> d + length bs \<le> length (po_buf po)
     \<and> c = (d + length bs, po\<lparr>po_buf := take d (po_buf po) @ bs @ drop (d + length bs) (po_buf po)\<rparr>)"
  by (auto simp: put_def put_at_def mem_write_def)

lemma po_room_eq: "po_wf po \<Longrightarrow> po_room po = unat (po_buf_size po) - po_dst po"
  by (simp add: po_wf_def po_room_def po_dst_def unat_sub)

lemma po_dst_le: "po_wf po \<Longrightarrow> po_dst po \<le> unat (po_buf_size po)"
  by (simp add: po_wf_def po_dst_def word_le_nat_alt)

lemma po_room_capacity:
  "po_wf po \<Longrightarrow> n \<le> po_room po + XQC_PACKET_OUT_EXT_SPACE \<Longrightarrow> po_dst po + n \<le> length (po_buf po)"
  using po_dst_le [of po] by (simp add: po_room_eq po_wf_def)

lemma put_gen_done:
  "Option.bind (put bs (po_dst po, po)) (gen_done t (po_dst po)) =
     (if po_dst po + length bs \<le> length (po_buf po) then Some (Inr (length bs), po_appended t po bs) else None)"
  by (auto simp: put_def put_at_def mem_write_def gen_done_def po_appended_def)

lemma po_appended_bytes:
  "po_dst po + length bs \<le> length (po_buf po) \<Longrightarrow>
     take (length bs) (drop (po_dst po) (po_buf (po_appended t po bs))) = bs
     \<and> take (po_dst po) (po_buf (po_appended t po bs)) = take (po_dst po) (po_buf po)
     \<and> length (po_buf (po_appended t po bs)) = length (po_buf po)"
  by (simp add: po_appended_def)

lemma pi_rest_drop: "pi_rest pi (p + n) = drop n (pi_rest pi p)"
  by (simp add: pi_rest_def drop_take diff_diff_left add.commute)

lemma pi_rest_Suc: "pi_rest pi (Suc p) = drop 1 (pi_rest pi p)"
  using pi_rest_drop [of pi p 1] by simp

lemma pi_rest_fits:
  "n \<le> length (pi_rest pi p) \<Longrightarrow> 0 < length (pi_rest pi p) \<Longrightarrow>
     p + n \<le> pi_last pi \<and> p + n \<le> length (pi_buf pi)"
  by (auto simp: pi_rest_def)

lemma pi_byte_rest: "pi_rest pi p \<noteq> [] \<Longrightarrow> pi_byte pi p = Ok (hd (pi_rest pi p))"
  by (auto simp: pi_byte_def pi_rest_def hd_conv_nth not_le)

lemma pi_copy_rest: "n \<le> length (pi_rest pi p) \<Longrightarrow> pi_copy pi p n = Ok (take n (pi_rest pi p))"
  by (cases "n = 0") (auto simp: pi_copy_def mem_read_def pi_rest_def)

lemmas pi_rest_simps = pi_rest_drop pi_rest_Suc

lemma pi_vint_bounds:
  "pi_vint pi p = Ok (q, v) \<Longrightarrow> p < q \<and> q \<le> pi_last pi"
  by (auto simp: pi_vint_def pi_rest_def dest!: vint_read_bounds split: option.splits)

lemma pi_vint_not_Fault [simp]: "pi_vint pi p \<noteq> Fault"
  by (auto simp: pi_vint_def split: option.splits)

lemma put_put_bind_if:
  "Option.bind (put xs c) (\<lambda>c'. if P then f c' else Option.bind (put ys c') k) = 
    (if P then Option.bind (put xs c) f else Option.bind (put (xs @ ys) c) k)"
  by (simp add: put_put_bind)

lemma gen_error_Inr[simp]: "gen_error e po \<noteq> Some (Inr n, po')" by (simp add: gen_error_def)

lemma bind_gen_error: "Option.bind m (\<lambda>c. gen_error e (f c)) \<noteq> Some (Inr n, po')" by (cases m) auto

lemma ucast_of_nat_u64[simp]: "n < 2 ^ 64 \<Longrightarrow> (ucast (of_nat n :: u64) :: u8) = of_nat n"
    by (simp add: unsigned_of_nat take_bit_nat_eq_self)

lemma po_size_bound: "po_wf po \<Longrightarrow> unat (po_buf_size po) < 0x10000"
  by (simp add: po_wf_def word_less_nat_alt)

lemma pi_byte_last: "pi_wf pi \<Longrightarrow> p < pi_last pi \<Longrightarrow> pi_byte pi p \<noteq> Fault"
  by (auto simp: pi_byte_def pi_wf_def)

lemma pi_byte_Err [simp]: "pi_byte pi p \<noteq> Err e" by (auto simp: pi_byte_def)

lemma pi_copy_last: "pi_wf pi \<Longrightarrow> p + n \<le> pi_last pi \<Longrightarrow> pi_copy pi p n \<noteq> Fault"
  by (auto simp: pi_copy_def mem_read_def pi_wf_def)

lemma pi_advance_pos [simp]: "pi_pos (pi_advance t p pi) = p" "pi_last (pi_advance t p pi) = pi_last pi"
  "pi_buf (pi_advance t p pi) = pi_buf pi"
  by (auto simp: pi_advance_def)

lemma pi_wf_byte: "pi_wf pi \<Longrightarrow> \<exists>b. pi_byte pi (pi_pos pi) = Ok b"
  by (auto simp: pi_byte_def pi_wf_def)

lemma put_at_append_bind:
  "q = p + length xs \<Longrightarrow> Option.bind (put_at p xs po) (\<lambda>po. Option.bind (put_at q ys po) k) = Option.bind (put_at p (xs @ ys) po) k"
  by (auto simp: put_at_def mem_write_def ac_simps)

lemma put_at_prepend_bind:
  "q = p + length xs \<Longrightarrow> Option.bind (put_at q ys po) (\<lambda>po. Option.bind (put_at p xs po) k) = Option.bind (put_at p (xs @ ys) po) k"
  by (auto simp: put_at_def mem_write_def ac_simps)

lemma put_bind: "Option.bind (put bs (d, po)) k = Option.bind (put_at d bs po) (\<lambda>po. k (d + length bs, po))"
  by (cases "put_at d bs po") (auto simp: put_def)

end
