(* ===== verification/XQC_Frame_Stream.thy ===== *)
theory XQC_Frame_Stream
  imports XQC_Packet
begin

text \<open>
  STREAM and CRYPTO frames (\<^verbatim>\<open>transport/xqc_frame_parser.c\<close>) and the reassembly of their data in
  offset order (\<^verbatim>\<open>xqc_insert_stream_frame\<close> and the header sizes of \<^verbatim>\<open>transport/xqc_frame.c\<close>).

  The generators put as much of the payload as the packet takes and report how much that was. Sizes
  are \<open>nat\<close>; the signed \<^verbatim>\<open>n_avail\<close> is an \<open>int\<close>, and where C compares it with an unsigned size it is
  taken modulo 2 to the 64. The length of received frame data is a 32 bit integer in
  \<^verbatim>\<open>xqc_stream_frame_t\<close>, narrower than the 62 bits of the wire, and so it is here.
\<close>

section \<open>Frames and received stream data\<close>

text \<open>\<open>sf_data\<close> is the memory behind the pointer \<^verbatim>\<open>data\<close>, empty for NULL.\<close>

record xqc_stream_frame =
  sf_data :: "u8 list"
  data_length :: u32
  data_offset :: u64
  sf_next_read_offset :: u64
  sf_fin :: bool

record xqc_stream_data_in =
  frames_tailq :: "xqc_stream_frame list"
  merged_offset_end :: u64
  next_read_offset :: u64
  stream_length :: u64

section \<open>Generating\<close>

definition xqc_stream_frame_header_size :: "u64 \<Rightarrow> u64 \<Rightarrow> u64 \<Rightarrow> nat" where
  "xqc_stream_frame_header_size stream_id offset len =
     (if (1 + of_nat (xqc_vint_len_by_val stream_id) + offset :: u64) \<noteq> 0 then xqc_vint_len_by_val offset
      else 0 + xqc_vint_len_by_val len)"

definition xqc_crypto_frame_header_size :: "u64 \<Rightarrow> u64 \<Rightarrow> nat" where
  "xqc_crypto_frame_header_size offset len =
     1 + xqc_vint_len_by_val offset + xqc_vint_len_by_val len"

text \<open>
  The choice of what to send of a payload of \<open>sz\<close> bytes when \<open>n_avail\<close> bytes are left behind the
  stream id and the offset: the new size, the two length bits, the room it is compared with, and FIN.
\<close>

definition stream_fit :: "nat \<Rightarrow> int \<Rightarrow> bool \<Rightarrow> nat \<times> nat \<times> int \<times> bool" where
  "stream_fit sz n_avail fin =
     (if int sz \<le> n_avail mod 2 ^ 64 then
        let length_bits = xqc_vint_get_2bit (of_nat sz);
            n_avail = n_avail - int (xqc_vint_len length_bits)
        in if int sz > n_avail mod 2 ^ 64 then (nat n_avail, length_bits, n_avail, False)
           else (sz, length_bits, n_avail, fin)
      else
        let sz = nat n_avail in (sz, xqc_vint_get_2bit (of_nat sz), n_avail, False))"

text \<open>\<^verbatim>\<open>0x08 | (!!offset_len << 2) | (!!length_len << 1) | (!!fin << 0)\<close>\<close>

definition stream_type_byte :: "bool \<Rightarrow> bool \<Rightarrow> bool \<Rightarrow> u8" where
  "stream_type_byte has_offset has_length fin =
     0x08 OR (if has_offset then 0x04 else 0) OR (if has_length then 0x02 else 0) OR (if fin then 0x01 else 0)"

definition xqc_gen_stream_frame ::
  "u64 \<Rightarrow> u64 \<Rightarrow> bool \<Rightarrow> u8 list \<Rightarrow> packet_out \<Rightarrow> ((xqc_errno + nat) \<times> nat \<times> packet_out) option" where
  "xqc_gen_stream_frame stream_id offset fin payload po =
     (let dst_buf = po_dst po; dst_buf_len = po_room po; sz = length payload;
          stream_id_len = xqc_vint_len_by_val stream_id;
          offset_len = (if offset \<noteq> 0 then xqc_vint_len_by_val offset else 0);
          fin_only = (fin \<and> sz = 0)
      in if \<not> fin_only then
           let (sz, length_bits, n_avail, fin) =
                 stream_fit sz (int dst_buf_len - int (1 + stream_id_len + offset_len)) fin;
               length_len = xqc_vint_len length_bits
           in if n_avail \<le> 0 \<or> int sz > n_avail mod 2 ^ 64 then Some (Inl XQC_ENOBUF, 0, po)
              else do {
                (p, po) \<leftarrow> put (vint_enc stream_id) (dst_buf + 1, po);
                (p, po) \<leftarrow> (if offset_len \<noteq> 0 then put (vint_enc offset) (p, po) else Some (p, po));
                po \<leftarrow> put_at (p + length_len) (take sz payload) po;
                po \<leftarrow> put_at p (xqc_vint_write (of_nat sz) length_bits length_len) po;
                po \<leftarrow> put_at dst_buf [stream_type_byte (offset_len \<noteq> 0) (length_len \<noteq> 0) fin] po;
                Some (Inr (p + length_len + sz - dst_buf), sz,
                      po\<lparr>po_frame_types := po_frame_types po OR XQC_FRAME_BIT XQC_FRAME_STREAM\<rparr>)
              }
         else
           let length_len = (if 1 + stream_id_len + offset_len < dst_buf_len then 1 else 0)
           in if 1 + stream_id_len + offset_len + length_len > dst_buf_len then Some (Inl XQC_ENOBUF, 0, po)
              else do {
                (p, po) \<leftarrow> put (vint_enc stream_id) (dst_buf + 1, po);
                (p, po) \<leftarrow> (if offset_len \<noteq> 0 then put (vint_enc offset) (p, po) else Some (p, po));
                (p, po) \<leftarrow> (if length_len \<noteq> 0 then put [0] (p, po) else Some (p, po));
                po \<leftarrow> put_at dst_buf [stream_type_byte (offset_len \<noteq> 0) (length_len \<noteq> 0) fin] po;
                Some (Inr (p - dst_buf), 0,
                      po\<lparr>po_frame_types := po_frame_types po OR XQC_FRAME_BIT XQC_FRAME_STREAM\<rparr>)
              })"

definition xqc_gen_crypto_frame ::
  "u64 \<Rightarrow> u8 list \<Rightarrow> packet_out \<Rightarrow> ((xqc_errno + nat) \<times> nat \<times> packet_out) option" where
  "xqc_gen_crypto_frame offset payload po =
     (let dst_buf_len = po_room po; payload_size = length payload;
          offset_vlen = xqc_vint_len_by_val offset;
          length_bits = xqc_vint_get_2bit (of_nat payload_size);
          length_vlen = xqc_vint_len length_bits
      in do {
        (d, po) \<leftarrow> put [0x06] (po_dst po, po);
        if 1 + offset_vlen + length_vlen + 1 > dst_buf_len then Some (Inl XQC_ENOBUF, 0, po)
        else do {
          (d, po) \<leftarrow> put (vint_enc offset) (d, po);
          let written = (if 1 + offset_vlen + length_vlen + payload_size > dst_buf_len
                         then dst_buf_len - (1 + offset_vlen + length_vlen) else payload_size);
          (d, po) \<leftarrow> put (xqc_vint_write (of_nat written) length_bits length_vlen) (d, po);
          (d, po) \<leftarrow> put (take written payload) (d, po);
          Some (Inr (d - po_dst po), written,
                po\<lparr>po_frame_types := po_frame_types po OR XQC_FRAME_BIT XQC_FRAME_CRYPTO\<rparr>)
        }
      })"

section \<open>Parsing\<close>

text \<open>\<open>malloc_ok\<close> tells whether \<^verbatim>\<open>xqc_malloc\<close> returned memory. A frame is parsed into a zeroed structure.\<close>

definition xqc_parse_stream_frame :: "bool \<Rightarrow> packet_in \<Rightarrow> ((u64 \<times> xqc_stream_frame) \<times> packet_in) res" where
  "xqc_parse_stream_frame malloc_ok pi =
     bind_res (pi_byte pi (pi_pos pi)) (\<lambda>first_byte.
     bind_res (pi_vint pi (Suc (pi_pos pi))) (\<lambda>(p, stream_id).
     bind_res (if first_byte AND 0x04 \<noteq> 0 then pi_vint pi p else Ok (p, 0)) (\<lambda>(p, offset).
     bind_res (if first_byte AND 0x02 \<noteq> 0 then
                 bind_res (pi_vint pi p) (\<lambda>(q, len).
                   if len > of_nat (pi_last pi - p) then Err XQC_EILLEGAL_FRAME else Ok (q, len))
               else Ok (p, of_nat (pi_last pi - p))) (\<lambda>(p, len).
       let dlen = (ucast len :: u32) in
       if dlen > 0 \<and> \<not> malloc_ok then Err XQC_EMALLOC
       else bind_res (pi_copy pi p (unat dlen)) (\<lambda>data.
         Ok ((stream_id, \<lparr>sf_data = data, data_length = dlen, data_offset = offset,
                           sf_next_read_offset = 0, sf_fin = (first_byte AND 0x01 \<noteq> 0)\<rparr>),
             pi_advance XQC_FRAME_STREAM (p + unat dlen) pi))))))"

definition xqc_parse_crypto_frame :: "bool \<Rightarrow> packet_in \<Rightarrow> (xqc_stream_frame \<times> packet_in) res" where
  "xqc_parse_crypto_frame malloc_ok pi =
     bind_res (pi_byte pi (pi_pos pi)) (\<lambda>first_byte.
     bind_res (pi_vint pi (Suc (pi_pos pi))) (\<lambda>(p, offset).
     bind_res (pi_vint pi p) (\<lambda>(p, len).
       let dlen = (ucast len :: u32) in
       if dlen > 0 \<and> \<not> malloc_ok then Err XQC_EMALLOC
       else bind_res (pi_copy pi p (unat dlen)) (\<lambda>data.
         Ok (\<lparr>sf_data = data, data_length = dlen, data_offset = offset,
               sf_next_read_offset = 0, sf_fin = False\<rparr>,
             pi_advance XQC_FRAME_CRYPTO (p + unat len) pi)))))"

section \<open>Reassembly\<close>

text \<open>
  \<^verbatim>\<open>xqc_insert_stream_frame\<close> walks the list of received frames from its tail: the walk passes the
  frames that start behind the new one (they end up in \<open>after\<close>) and stops at the first that does not.
  Then the end of the contiguous data is moved over the new frame and the frames behind it.
\<close>

definition frame_end :: "xqc_stream_frame \<Rightarrow> u64" where
  "frame_end f = data_offset f + ucast (data_length f)"

fun insert_from_tail ::
  "xqc_stream_frame \<Rightarrow> xqc_stream_frame list \<Rightarrow> xqc_stream_frame list
     \<Rightarrow> (xqc_stream_frame list \<times> xqc_stream_frame list) option" where
  "insert_from_tail new [] after = Some ([], after)"
| "insert_from_tail new (frame # before) after =
     (if data_offset new \<ge> data_offset frame \<and> data_length new > 0 \<and> frame_end new \<le> frame_end frame then None
      else if data_offset new \<ge> data_offset frame then Some (frame # before, after)
      else insert_from_tail new before (frame # after))"

fun merge_right :: "u64 \<Rightarrow> xqc_stream_frame list \<Rightarrow> u64" where
  "merge_right merged [] = merged"
| "merge_right merged (frame # frames) =
     merge_right (if merged \<ge> data_offset frame \<and> merged < frame_end frame then frame_end frame else merged) frames"

definition xqc_insert_stream_frame :: "xqc_stream_frame \<Rightarrow> xqc_stream_data_in \<Rightarrow> xqc_stream_data_in res" where
  "xqc_insert_stream_frame new_frame s =
     (case insert_from_tail new_frame (rev (frames_tailq s)) [] of
        None \<Rightarrow> Err XQC_EDUP_FRAME
      | Some (before, after) \<Rightarrow>
          let s = s\<lparr>frames_tailq := rev before @ new_frame # after\<rparr> in
          if merged_offset_end s \<ge> data_offset new_frame \<and> merged_offset_end s < frame_end new_frame
          then Ok (s\<lparr>merged_offset_end := merge_right (frame_end new_frame) after\<rparr>)
          else Ok s)"

text \<open>
  The contract of reassembly: the frames are in offset order, every byte below \<^verbatim>\<open>merged_offset_end\<close> has
  been read or is held by a frame, and the byte at \<^verbatim>\<open>merged_offset_end\<close> is held by none: it is the
  first missing byte.
\<close>

definition holds_byte :: "u64 \<Rightarrow> xqc_stream_frame \<Rightarrow> bool" where
  "holds_byte x f \<longleftrightarrow> data_offset f \<le> x \<and> x < frame_end f"

definition reassembly_ok :: "xqc_stream_data_in \<Rightarrow> bool" where
  "reassembly_ok s \<longleftrightarrow>
     sorted (map data_offset (frames_tailq s))
     \<and> (\<forall>f\<in>set (frames_tailq s). data_offset f \<le> frame_end f)
     \<and> (\<forall>x. x < merged_offset_end s \<longrightarrow> x < next_read_offset s \<or> (\<exists>f\<in>set (frames_tailq s). holds_byte x f))
     \<and> (\<forall>f\<in>set (frames_tailq s). \<not> holds_byte (merged_offset_end s) f)"

section \<open>The wire format\<close>

definition stream_bytes :: "u64 \<Rightarrow> u64 \<Rightarrow> u8 list \<Rightarrow> bool \<Rightarrow> u8 list \<Rightarrow> u8 list" where
  "stream_bytes stream_id offset len_bytes fin data =
     stream_type_byte (offset \<noteq> 0) (len_bytes \<noteq> []) fin # vint_enc stream_id
       @ (if offset \<noteq> 0 then vint_enc offset else []) @ len_bytes @ data"

definition crypto_bytes :: "u64 \<Rightarrow> u8 list \<Rightarrow> u8 list \<Rightarrow> u8 list" where
  "crypto_bytes offset len_bytes data = 0x06 # vint_enc offset @ len_bytes @ data"

definition stream_frame_of :: "u64 \<Rightarrow> bool \<Rightarrow> u8 list \<Rightarrow> xqc_stream_frame" where
  "stream_frame_of offset fin data = \<lparr>sf_data = data, data_length = of_nat (length data), data_offset = offset,
     sf_next_read_offset = 0, sf_fin = fin\<rparr>"

text \<open>The bytes of a STREAM frame in front of its length field.\<close>

definition stream_header_len :: "u64 \<Rightarrow> u64 \<Rightarrow> nat" where
  "stream_header_len stream_id offset = 1 + xqc_vint_len_by_val stream_id + (if offset \<noteq> 0 then xqc_vint_len_by_val offset else 0)"

text \<open>A frame that only carries FIN has no length field when the bytes in front of that field fill the packet.\<close>

definition stream_unbounded :: "u64 \<Rightarrow> u64 \<Rightarrow> bool \<Rightarrow> u8 list \<Rightarrow> packet_out \<Rightarrow> bool" where
  "stream_unbounded stream_id offset fin payload po \<longleftrightarrow> fin \<and> payload = [] \<and> po_room po = stream_header_len stream_id offset"

text \<open>What a successful call of \<^verbatim>\<open>xqc_gen_stream_frame\<close> has written: \<open>written\<close> bytes of the payload, with FIN
  only when that is all of it, and with a length field in all but that case.\<close>

definition stream_ok :: "u64 \<Rightarrow> u64 \<Rightarrow> bool \<Rightarrow> u8 list \<Rightarrow> packet_out \<Rightarrow> nat \<Rightarrow> u8 list \<Rightarrow> bool \<Rightarrow> bool" where
  "stream_ok stream_id offset fin payload po written lb f \<longleftrightarrow>
     (let n = length (stream_bytes stream_id offset lb f (take written payload)) in
      written \<le> length payload \<and> written < 0x10000 \<and> n \<le> po_room po + 8
      \<and> (f \<longleftrightarrow> fin \<and> written = length payload) \<and> (payload \<noteq> [] \<longrightarrow> 0 < written)
      \<and> (lb = [] \<longleftrightarrow> stream_unbounded stream_id offset fin payload po)
      \<and> (if lb = [] then written = 0
         else \<forall>rest. xqc_vint_read (lb @ rest) = Some (length lb, of_nat written)))"

section \<open>Lemmas\<close>

lemma vint_write_len: "b \<le> 3 \<Longrightarrow> xqc_vint_write v b (xqc_vint_len b) \<noteq> []"
  using length_vint_write[of b v] by (auto simp: xqc_vint_len_def)

lemma vint_enc_nonzero_len: "xqc_vint_len_by_val v \<noteq> 0" by (simp add: xqc_vint_len_by_val_def)

lemma stream_writes:
  assumes b: "b \<le> 3" and s: "s \<le> length payload"
  shows "do {
          (p, po) \<leftarrow> put (vint_enc stream_id) (po_dst po0 + 1, po0);
          (p, po) \<leftarrow> (if (if offset \<noteq> 0 then xqc_vint_len_by_val offset else 0) \<noteq> 0 then put (vint_enc offset) (p, po) else Some (p, po));
          po \<leftarrow> put_at (p + xqc_vint_len b) (take s payload) po;
          po \<leftarrow> put_at p (xqc_vint_write (of_nat s) b (xqc_vint_len b)) po;
          po \<leftarrow> put_at (po_dst po0) [stream_type_byte ((if offset \<noteq> 0 then xqc_vint_len_by_val offset else 0) \<noteq> 0) (xqc_vint_len b \<noteq> 0) f] po;
          Some (Inr (p + xqc_vint_len b + s - po_dst po0), s,
                po\<lparr>po_frame_types := po_frame_types po OR XQC_FRAME_BIT XQC_FRAME_STREAM\<rparr>)
        } = (let w = stream_bytes stream_id offset (xqc_vint_write (of_nat s) b (xqc_vint_len b)) f (take s payload) in
          if po_dst po0 + length w \<le> length (po_buf po0)
          then Some (Inr (length w), s, po_appended XQC_FRAME_STREAM po0 w) else None)"
proof -
  let ?L = "xqc_vint_write (of_nat s) b (xqc_vint_len b)"
  have L: "length ?L = xqc_vint_len b" "?L \<noteq> []" "xqc_vint_len b \<noteq> 0"
    using length_vint_write[OF b] vint_write_len[OF b] by (auto simp: xqc_vint_len_def)
  have S: "Suc d = d + length [x]" for d and x :: u8 by simp
  show ?thesis
  proof (cases "offset = 0")
    case True
    then show ?thesis using L s
      apply (simp add: put_bind vint_enc_nonzero_len stream_bytes_def Let_def)
      apply (simp add: put_at_prepend_bind [where xs = ?L] put_at_append_bind put_at_prepend_bind [where xs = "[x]" for x])
      apply (simp add: put_at_def mem_write_def po_appended_def)
      done
  next
    case False
    then show ?thesis using L s
      apply (simp add: put_bind vint_enc_nonzero_len stream_bytes_def Let_def)
      apply (simp add: put_at_prepend_bind [where xs = ?L] put_at_append_bind put_at_prepend_bind [where xs = "[x]" for x])
      apply (simp add: put_at_def mem_write_def po_appended_def)
      done
  qed
qed

lemma stream_fit_facts:
  assumes fit: "stream_fit sz n f = (s, b, n', f')" and n: "n < 0x10000"
    and ok: "0 < n'" "int s \<le> n' mod 2 ^ 64"
  shows "s \<le> sz \<and> s < 0x10000 \<and> int (s + xqc_vint_len b) \<le> n + 8 \<and> (f' \<longleftrightarrow> f \<and> s = sz) \<and> (0 < sz \<longrightarrow> 0 < s)
    \<and> b \<le> 3 \<and> of_nat s < (2 ^ xqc_vint_usable_bits b :: u64)"
proof -
  have fits: "m < 0x10000 \<Longrightarrow> of_nat m < (2 ^ xqc_vint_usable_bits (xqc_vint_get_2bit (of_nat m)) :: u64)" for m
    by (rule vint_get_2bit_fits) (simp add: word_less_nat_alt unat_of_nat)
  have len: "xqc_vint_len (xqc_vint_get_2bit v) \<le> 8" "0 < xqc_vint_len (xqc_vint_get_2bit v)" for v
    using vint_len_by_val_bounds [of v] by (auto simp: xqc_vint_len_def xqc_vint_len_by_val_def)
  have mono: "a \<le> m \<Longrightarrow> m < 0x10000 \<Longrightarrow> (of_nat a :: u64) \<le> of_nat m" for a m
    by (simp add: word_le_nat_alt unat_of_nat)
  show ?thesis
  proof (cases "int sz \<le> n mod 2 ^ 64")
    case True
    let ?b = "xqc_vint_get_2bit (of_nat sz)"
    let ?n2 = "n - int (xqc_vint_len ?b)"
    have n': "n' = ?n2" and b: "b = ?b"
      using fit True by (auto simp: stream_fit_def Let_def split: if_splits)
    then have pos: "0 < n" "?n2 mod 2 ^ 64 = ?n2" "n mod 2 ^ 64 = n"
      using ok n by (auto intro!: mod_pos_pos_trivial)
    have sz: "sz < 0x10000" "int sz \<le> n" using True n unfolding pos(3) by auto
    show ?thesis
    proof (cases "int sz > ?n2")
      case True
      then have s: "s = nat ?n2" "\<not> f'" using fit \<open>int sz \<le> n mod 2 ^ 64\<close> pos by (auto simp: stream_fit_def Let_def split: if_splits)
      then show ?thesis using True pos sz ok len [of "of_nat sz"] mono[of s sz] order_le_less_trans[OF _ fits[of sz], of "of_nat s"] 
        unfolding n' b using vint_get_2bit_le[of "of_nat sz"]  by auto
    next
      case False
      then have s: "s = sz" "f' = f" using fit \<open>int sz \<le> n mod 2 ^ 64\<close> pos by (auto simp: stream_fit_def Let_def split: if_splits)
      then show ?thesis using False pos sz ok len [of "of_nat sz"] fits[of sz] vint_get_2bit_le[of "of_nat sz"] unfolding n' b by auto
    qed
  next
    case False
    then have s: "s = nat n" "\<not> f'" "n' = n" "b = xqc_vint_get_2bit (of_nat s)"
      using fit by (auto simp: stream_fit_def Let_def split: if_splits)
    have "n mod 2 ^ 64 = n" using ok n s by (auto intro!: mod_pos_pos_trivial)
    then have "s < sz" using False ok s by linarith
    then show ?thesis using s ok n len[of "of_nat s"] fits[of s] vint_get_2bit_le[of "of_nat s"] by auto
  qed
qed

lemma gen_stream_data:
  assumes wf: "po_wf po" and nf: "\<not> (fin \<and> payload = [])"
  shows "(\<exists>e. xqc_gen_stream_frame sid off fin payload po = Some (Inl e, 0, po)) \<or>
    (\<exists>written lb f. stream_ok sid off fin payload po written lb f \<and>
      xqc_gen_stream_frame sid off fin payload po =
        (let w = stream_bytes sid off lb f (take written payload) in
         if po_dst po + length w \<le> length (po_buf po)
         then Some (Inr (length w), written, po_appended XQC_FRAME_STREAM po w) else None))"
proof -
  define ol where "ol = (if off \<noteq> 0 then xqc_vint_len_by_val off else 0)"
  define n where "n = int (po_room po) - int (1 + xqc_vint_len_by_val sid + ol)"
  obtain s b n' f where fit: "stream_fit (length payload) n fin = (s, b, n', f)" by (metis prod_cases4)
  have g: "xqc_gen_stream_frame sid off fin payload po =
     (if n' \<le> 0 \<or> int s > n' mod 2 ^ 64 then Some (Inl XQC_ENOBUF, 0, po)
      else let w = stream_bytes sid off (xqc_vint_write (of_nat s) b (xqc_vint_len b)) f (take s payload) in
          if po_dst po + length w \<le> length (po_buf po)
          then Some (Inr (length w), s, po_appended XQC_FRAME_STREAM po w) else None)" (is "_ = (if ?e then _ else ?w)")
  proof (cases ?e)
    case False
    then have "s \<le> length payload" "b \<le> 3" 
      using stream_fit_facts[OF fit] po_size_bound[OF wf] by (auto simp: n_def po_room_eq[OF wf])
    from stream_writes[OF this(2,1), of sid po off f] show ?thesis
      using nf False fit
      by (simp only: xqc_gen_stream_frame_def Let_def ol_def[symmetric] n_def[symmetric] length_0_conv if_False not_True_eq_False not_False_eq_True if_True  prod.case)
  next
    case True
    then show ?thesis using nf fit
      by (simp only: xqc_gen_stream_frame_def Let_def ol_def[symmetric] n_def[symmetric] length_0_conv if_False not_True_eq_False not_False_eq_True if_True prod.case)
  qed
  show ?thesis
  proof (cases ?e)
    case False
    then have ff: "s \<le> length payload \<and> s < 0x10000 \<and> int (s + xqc_vint_len b) \<le> n + 8 \<and> (f \<longleftrightarrow> fin \<and> s = length payload) \<and> (0 < length payload \<longrightarrow> 0 < s)
    \<and> b \<le> 3 \<and> of_nat s < (2 ^ xqc_vint_usable_bits b :: u64)"
      using stream_fit_facts[OF fit] po_size_bound[OF wf] by (auto simp: n_def po_room_eq[OF wf])
    have "stream_ok sid off fin payload po s (xqc_vint_write (of_nat s) b (xqc_vint_len b)) f"
      using ff length_vint_write[of b "of_nat s"] vint_write_len[of b "of_nat s"] vint_read_write[of b "of_nat s"]
      nf by (auto simp: stream_ok_def Let_def stream_bytes_def n_def ol_def length_vint_enc stream_unbounded_def)
    then show ?thesis using g False by auto
  qed (use g in auto)
qed

lemma gen_stream_fin:
  assumes fo: "fin \<and> payload = []"
  shows "(\<exists>e. xqc_gen_stream_frame sid off fin payload po = Some (Inl e, 0, po)) \<or>
    (\<exists>written lb f. stream_ok sid off fin payload po written lb f \<and>
      xqc_gen_stream_frame sid off fin payload po =
        (let w = stream_bytes sid off lb f (take written payload) in
         if po_dst po + length w \<le> length (po_buf po)
         then Some (Inr (length w), written, po_appended XQC_FRAME_STREAM po w) else None))"
proof -
  define ol where "ol = (if off \<noteq> 0 then xqc_vint_len_by_val off else 0)"
  define lb :: "u8 list" where "lb = (if 1 + xqc_vint_len_by_val sid + ol < po_room po then [0] else [])"
  have g: "xqc_gen_stream_frame sid off fin payload po =
     (if 1 + xqc_vint_len_by_val sid + ol + length lb > po_room po then Some (Inl XQC_ENOBUF, 0, po)
      else let w = stream_bytes sid off lb True [] in
          if po_dst po + length w \<le> length (po_buf po)
          then Some (Inr (length w), 0, po_appended XQC_FRAME_STREAM po w) else None)" (is "_ = (if ?e then _ else ?w)")
  proof -
    have pos: "0 < xqc_vint_len_by_val v" for v using vint_enc_nonzero_len[of v] by simp
    note defs = xqc_gen_stream_frame_def ol_def lb_def Let_def
    note fuse = put_bind stream_bytes_def put_at_append_bind put_at_prepend_bind [where xs = "[x]" for x]
    consider (z) "off = 0" | (nz) "off \<noteq> 0" by blast
    then show ?thesis
    proof cases
      case z
      then show ?thesis using fo
        by (simp add: defs fuse pos) (simp add: put_at_def mem_write_def po_appended_def)
    next
      case nz
      then show ?thesis using fo
        by (simp add: defs fuse pos) (simp add: put_at_def mem_write_def po_appended_def)
    qed
  qed
  have "xqc_vint_read (0 # r) = Some (1, 0)" for r using vint_read_byte[of 0 r] by simp
  then have "\<not> ?e \<Longrightarrow> stream_ok sid off fin payload po 0 lb True"
    using fo by (auto simp: stream_ok_def stream_bytes_def lb_def ol_def length_vint_enc Let_def stream_unbounded_def stream_header_len_def
      split: if_splits)
  then show ?thesis using g fo by (metis take_Nil)
qed

lemma stream_type_bits:
  "(stream_type_byte a b c AND 0x04 \<noteq> 0) = a" "(stream_type_byte a b c AND 0x02 \<noteq> 0) = b" "(stream_type_byte a b c AND 0x01 \<noteq> 0) = c"
  by (cases a; cases b; cases c; simp add: stream_type_byte_def)+

lemma parse_stream_bytes:
  assumes wf: "pi_wf pi" and rest: "pi_rest pi (pi_pos pi) = stream_bytes sid off lb f data @ rest"
    and ok: "sid < 2 ^ 62" "off < 2 ^ 62" "length data < 0x10000"
    and lb: "if lb = [] then data = [] else \<forall>r. xqc_vint_read (lb @ r) = Some (length lb, of_nat (length data))"
    and behind: "behind = (if lb = [] then rest else [])"
  shows "xqc_parse_stream_frame True pi = Ok ((sid, stream_frame_of off f (data @ behind)),
     pi_advance XQC_FRAME_STREAM (pi_pos pi + length (stream_bytes sid off lb f data) + length behind) pi)"
proof -
  define p where "p = Suc (pi_pos pi) + length (vint_enc sid) + (if off \<noteq> 0 then length (vint_enc off) else 0)"
  have "pi_pos pi < pi_last pi" "pi_last pi \<le> length (pi_buf pi)" "length (pi_buf pi) < 2 ^ 31" using wf by (auto simp: pi_wf_def)
  have r: "pi_rest pi p = lb @ data @ rest"
    using rest by (simp add: p_def pi_rest_simps stream_bytes_def)
  have head: "xqc_parse_stream_frame True pi = 
     bind_res (if lb \<noteq> [] then
                 bind_res (pi_vint pi p) (\<lambda>(q, len).
                   if len > of_nat (pi_last pi - p) then Err XQC_EILLEGAL_FRAME else Ok (q, len))
               else Ok (p, of_nat (pi_last pi - p))) (\<lambda>(p, len).
       let dlen = (ucast len :: u32) in
       bind_res (pi_copy pi p (unat dlen)) (\<lambda>data.
         Ok ((sid, \<lparr>sf_data = data, data_length = dlen, data_offset = off, sf_next_read_offset = 0, sf_fin = f\<rparr>),
             pi_advance XQC_FRAME_STREAM (p + unat dlen) pi)))"
    using rest ok(1,2)
    by (cases "off = 0") (simp_all add: xqc_parse_stream_frame_def stream_bytes_def pi_byte_rest pi_vint_def pi_rest_simps vint_read_enc stream_type_bits p_def)
  have dl: "unat (of_nat (length data) :: u32) = length data" "(ucast (of_nat (length data) :: u64) :: u32) = of_nat (length data)"
    using ok by (simp_all add: unat_of_nat unsigned_of_nat take_bit_nat_eq_self)
  show ?thesis
  proof (cases "lb = []")
    case True
    then have "pi_rest pi p = rest" using r lb by simp
    then have n: "pi_last pi - p = length rest" "length rest < 2 ^ 31" using wf by (auto simp: pi_rest_def pi_wf_def)
    then have "unat (of_nat (length rest) :: u32) = length rest" "(ucast (of_nat (length rest) :: u64) :: u32) = of_nat (length rest)"
      by (simp_all add: unat_of_nat unsigned_of_nat take_bit_nat_eq_self)
    moreover have "pi_copy pi p (length rest) = Ok rest" using \<open>pi_rest pi p = rest\<close> pi_copy_rest [of "length rest" pi p] by simp
    ultimately show ?thesis using True lb behind n(1) unfolding head
      by (simp add: stream_frame_of_def stream_bytes_def p_def add.assoc)
  next
    case False
    have "length (lb @ data) \<le> length (pi_rest pi p)" using r by simp
    then have fits: "p + length lb + length data \<le> pi_last pi" using pi_rest_fits[of _ pi p] r False by force
    have le: "a \<le> m \<Longrightarrow> m < 2 ^ 31 \<Longrightarrow> \<not> (of_nat a > (of_nat m :: u64))" for a m
      by (simp add: word_less_nat_alt unat_of_nat not_less)
    have "\<not> (of_nat (length data) > (of_nat (pi_last pi - p) :: u64))"
      using fits wf by (intro le) (auto simp: pi_wf_def)
    moreover have "pi_vint pi p = Ok (p + length lb, of_nat (length data))" using False lb r by (simp add: pi_vint_def)
    moreover have "pi_copy pi (p + length lb) (length data) = Ok data"
      using r by (simp add: pi_copy_rest pi_rest_simps)
    ultimately show ?thesis unfolding head using False behind
      by (simp add: dl stream_frame_of_def stream_bytes_def p_def) (simp add: ac_simps)
  qed
qed

lemma gen_crypto_cases:
  assumes wf: "po_wf po" and len: "length payload < 2 ^ 62"
  shows "(\<exists>c. xqc_gen_crypto_frame off payload po = Some (Inl XQC_ENOBUF, 0, c)) \<or>
    (\<exists>written lb. written \<le> length payload \<and> written < 0x10000 \<and> (payload \<noteq> [] \<longrightarrow> 0 < written)
      \<and> (\<forall>rest. xqc_vint_read (lb @ rest) = Some (length lb, of_nat written))
      \<and> length (crypto_bytes off lb (take written payload)) \<le> po_room po
      \<and> xqc_gen_crypto_frame off payload po =
        Some (Inr (length (crypto_bytes off lb (take written payload))), written,
              po_appended XQC_FRAME_CRYPTO po (crypto_bytes off lb (take written payload))))"
proof -
  define b where "b = xqc_vint_get_2bit (of_nat (length payload))"
  define h where "h = 1 + xqc_vint_len_by_val off + xqc_vint_len b"
  define w where "w = (if h + length payload > po_room po then po_room po - h else length payload)"
  define lb where "lb = xqc_vint_write (of_nat w) b (xqc_vint_len b)"
  have room: "po_room po < 0x10000" using po_size_bound[OF wf] by (simp add: po_room_eq[OF wf])
  have b3: "b \<le> 3" by (simp add: b_def vint_get_2bit_le)
  have lb: "length lb = xqc_vint_len b" by (simp add: lb_def length_vint_write b3)
  have cap: "length bs \<le> po_room po + 32 \<Longrightarrow> po_dst po + length bs \<le> length (po_buf po)" for bs :: "u8 list" 
    using po_room_capacity[OF wf] by simp
  have g: "xqc_gen_crypto_frame off payload po = do {
      (d, po) \<leftarrow> put [0x06] (po_dst po, po);
      if h + 1 > dst_buf_len then Some (Inl XQC_ENOBUF, 0, po)
      else do {
        (d, po) \<leftarrow> put (vint_enc off) (d, po);
        (d, po) \<leftarrow> put lb (d, po);
        (d, po) \<leftarrow> put (take w payload) (d, po);
        Some (Inr (d - po_dst po), w, po\<lparr>po_frame_types := po_frame_types po OR XQC_FRAME_BIT XQC_FRAME_CRYPTO\<rparr>)
      }}" if "dst_buf_len = po_room po" for dst_buf_len
    by (simp only: xqc_gen_crypto_frame_def that Let_def lb_def w_def h_def b_def)
  have dst: "po_dst (po\<lparr>po_buf := x\<rparr>) = po_dst po" for x by (simp add: po_dst_def)
  show ?thesis
  proof (cases "h + 1 > po_room po")
    case True
    have "Suc (po_dst po) \<le> length (po_buf po)" using cap[of "[0]"] by simp
    then show ?thesis using True
      by (simp add: g put_def put_at_def mem_write_def)
  next
    case False
    have w: "w \<le> length payload" "w < 0x10000" "h + w \<le> po_room po" "payload \<noteq> [] \<Longrightarrow> 0 < w"
      using False room by (auto simp: w_def)
    have "unat (of_nat (length payload) :: u64) = length payload" "unat (of_nat w :: u64) = w" 
      using len w by (auto simp: unat_of_nat)
    then have "(of_nat w :: u64) \<le> of_nat (length payload)" "(of_nat (length payload) :: u64) < 2 ^ 62"
      using w len by (auto simp: word_le_nat_alt word_less_nat_alt)
    then have "of_nat w < (2 ^ xqc_vint_usable_bits b :: u64)"
      using vint_get_2bit_fits[of "of_nat (length payload)"] unfolding b_def by (rule_tac order_le_less_trans) auto
    then have rd: "\<forall>rest. xqc_vint_read (lb @ rest) = Some (length lb, of_nat w)"
      using vint_read_write[OF b3] lb by (simp add: lb_def)
    let ?bs = "crypto_bytes off lb (take w payload)"
    have n: "length ?bs = h + w" using w by (simp add: crypto_bytes_def h_def lb length_vint_enc)
    have "xqc_gen_crypto_frame off payload po = Some (Inr (length ?bs), w, po_appended XQC_FRAME_CRYPTO po ?bs)"
      using False w cap[of ?bs] n
      by (simp add: g put_bind put_at_append_bind)
        (simp add: put_at_def mem_write_def dst po_appended_def crypto_bytes_def)
    then show ?thesis using w rd n by (intro disjI2 exI [of _ w] exI [of _ lb]) auto
  qed
qed

lemma parse_crypto_bytes:
  assumes rest: "pi_rest pi (pi_pos pi) = crypto_bytes off lb data @ rest"
    and ok: "off < 2 ^ 62" "length data < 0x10000"
    and lb: "\<forall>r. xqc_vint_read (lb @ r) = Some (length lb, of_nat (length data))"
  shows "xqc_parse_crypto_frame True pi = Ok (stream_frame_of off False data,
     pi_advance XQC_FRAME_CRYPTO (pi_pos pi + length (crypto_bytes off lb data)) pi)"
proof -
  have dl: "unat (of_nat (length data) :: u32) = length data" "unat (of_nat (length data) :: u64) = length data" "(ucast (of_nat (length data) :: u64) :: u32) = of_nat (length data)"
    using ok by (simp_all add: unat_of_nat unsigned_of_nat take_bit_nat_eq_self)
  show ?thesis using rest ok(1) lb
    by (simp add: xqc_parse_crypto_frame_def crypto_bytes_def pi_byte_rest pi_vint_def pi_rest_simps vint_read_enc dl pi_copy_rest
       stream_frame_of_def Let_def add.assoc)
qed

lemma insert_from_tail_split:
  "insert_from_tail new rs after = Some (b, a) \<Longrightarrow> \<exists>mid. a = mid @ after \<and> rs = rev mid @ b
     \<and> (\<forall>f\<in>set mid. data_offset new < data_offset f) \<and> (b \<noteq> [] \<longrightarrow> data_offset (hd b) \<le> data_offset new)"
proof (induction new rs after rule: insert_from_tail.induct)
  case (2 new frame before after)
  show ?case
  proof (cases "data_offset new \<ge> data_offset frame")
    case True with 2(2) show ?thesis by (auto split: if_splits)
  next
    case False
    with 2 obtain mid where "a = mid @ frame # after" "before = rev mid @ b" 
      "\<forall>f\<in>set mid. data_offset new < data_offset f" "b \<noteq> [] \<longrightarrow> data_offset (hd b) \<le> data_offset new" by auto
    with False show ?thesis by (intro exI[of _ "mid @ [frame]"]) auto
  qed
qed auto

lemma insert_from_tail_None:
  "insert_from_tail new rs after = None \<Longrightarrow> \<exists>f\<in>set rs. data_offset f \<le> data_offset new \<and> frame_end new \<le> frame_end f"
  by (induction new rs after rule: insert_from_tail.induct) (auto split: if_splits)

lemma merge_right_stays: "\<forall>f\<in>set fs. m < data_offset f \<Longrightarrow> merge_right m fs = m"
  by (induction fs) auto

lemma merge_right_ge: "m \<le> merge_right m fs"
proof (induction fs arbitrary: m)
  case (Cons f fs)
  show ?case using Cons[of "frame_end f"] Cons[of m] by auto
qed simp

lemma merge_right_covered: "m \<le> x \<Longrightarrow> x < merge_right m fs \<Longrightarrow> \<exists>f\<in>set fs. holds_byte x f"
proof (induction fs arbitrary: m)
  case (Cons f fs)
  have "m \<ge> data_offset f \<Longrightarrow> x < frame_end f \<Longrightarrow> holds_byte x f" using Cons.prems(1) by (simp add: holds_byte_def)
  moreover have "\<not> x < frame_end f \<Longrightarrow> frame_end f \<le> x" by simp
  ultimately show ?case using Cons.IH[of m] Cons.IH[of "frame_end f"] Cons.prems by (auto split: if_splits)
qed simp

lemma merge_right_maximal:
  "sorted (map data_offset fs) \<Longrightarrow> f \<in> set fs \<Longrightarrow> \<not> holds_byte (merge_right m fs) f"
proof (induction fs arbitrary: m)
  case (Cons g fs)
  show ?case
  proof (cases "m < data_offset g")
    case True
    then have "\<forall>h\<in>set (g # fs). m < data_offset h" using Cons.prems(1) by auto
    then show ?thesis using Cons.prems(2) merge_right_stays[of "g # fs" m] by (auto simp: holds_byte_def)
  next
    case False
    show ?thesis
    proof (cases "f = g")
      case True
      have "frame_end g \<le> merge_right m (g # fs)"
        using False merge_right_ge[of "frame_end g" fs] merge_right_ge[of m fs] by auto
      then show ?thesis using True by (auto simp: holds_byte_def)
    qed (use Cons in auto)
  qed
qed simp

lemma insert_keeps:
  assumes ok: "reassembly_ok s" and nw: "data_offset new \<le> frame_end new" and ins: "xqc_insert_stream_frame new s = Ok s'"
  shows "reassembly_ok s'" "set (frames_tailq s') = insert new (set (frames_tailq s))" "merged_offset_end s \<le> merged_offset_end s'"
    "next_read_offset s' = next_read_offset s"
proof -
  obtain b a where ba: "insert_from_tail new (rev (frames_tailq s)) [] = Some (b, a)"
    using ins by (auto simp: xqc_insert_stream_frame_def split: option.splits)
  from insert_from_tail_split[OF this] have fr: "frames_tailq s = rev b @ a" and after: "\<forall>f\<in>set a. data_offset new < data_offset f" and
     "b \<noteq> [] \<longrightarrow> data_offset (hd b) \<le> data_offset new" by (auto simp: rev_swap)
  have srt: "sorted (map data_offset (rev b @ a))" using ok fr by (simp add: reassembly_ok_def)
  have before: "\<forall>f\<in>set b. data_offset f \<le> data_offset new"
  proof (cases b)
    case (Cons g gs)
    then have "\<forall>f\<in>set gs. data_offset f \<le> data_offset g" using srt by (auto simp: sorted_append)
    then show ?thesis using Cons \<open>b \<noteq> [] \<longrightarrow> _\<close> by auto
  qed simp
  have srt': "sorted (map data_offset (rev b @ new # a))" "sorted (map data_offset a)"
    using srt before after by (auto simp: sorted_append less_imp_le)
  define m where "m = merged_offset_end s"
  define m' where "m' = (if holds_byte m new then merge_right (frame_end new) a else m)"
  have s': "s' = s\<lparr>frames_tailq := rev b @ new # a, merged_offset_end := m'\<rparr>"
    using ins ba by (auto simp: xqc_insert_stream_frame_def Let_def m_def m'_def holds_byte_def split: if_splits)
  have mm: "m \<le> m'" using merge_right_ge[of "frame_end new" a] by (auto simp: m'_def holds_byte_def)
  have cov: "\<exists>f\<in>set (rev b @ new # a). holds_byte x f" if "m \<le> x" "x < m'" for x
    using that merge_right_covered[of "frame_end new" x a] by (cases "x < frame_end new") (auto simp: m'_def holds_byte_def not_less split: if_splits)
  have max: "\<not> holds_byte m' f" if "f \<in> set (rev b @ new # a)" for f
  proof (cases "holds_byte m new")
    case False
    then show ?thesis using that ok fr by (auto simp: m'_def m_def reassembly_ok_def)
  next
    case True
    then have e: "m < frame_end new" "frame_end new \<le> m'" "m' = merge_right (frame_end new) a" "data_offset new \<le> m"
      using merge_right_ge by (auto simp: m'_def holds_byte_def)
    have "frame_end f \<le> m'" if "f \<in> set b"
    proof -
      have "\<not> holds_byte m f" "data_offset f \<le> m" using that ok fr before e by (auto simp: reassembly_ok_def m_def)
      then show ?thesis using e by (auto simp: holds_byte_def)
    qed
    then show ?thesis using \<open>f \<in> _\<close> e merge_right_maximal[OF srt'(2), of f "frame_end new"] by (auto simp: holds_byte_def)
  qed
  show "reassembly_ok s'"
    using ok fr srt' nw cov max unfolding reassembly_ok_def s' m_def[symmetric]
    by (simp add: m_def) (metis Un_iff linorder_not_less)
  show  "set (frames_tailq s') = insert new (set (frames_tailq s))" "merged_offset_end s \<le> merged_offset_end s'" "next_read_offset s' = next_read_offset s"
    using fr s' mm by (auto simp: m_def)
qed

lemma insert_dup:
  "xqc_insert_stream_frame new s = Err e \<Longrightarrow> e = XQC_EDUP_FRAME \<and> (\<exists>f\<in>set (frames_tailq s). data_offset f \<le> data_offset new \<and> frame_end new \<le> frame_end f)"
  using insert_from_tail_None[of new "rev (frames_tailq s)" "[]"] by (auto simp: xqc_insert_stream_frame_def Let_def split: option.splits if_splits)

lemma gen_stream_cases:
  assumes "po_wf po"
  shows "(\<exists>e. xqc_gen_stream_frame sid off fin payload po = Some (Inl e, 0, po)) \<or>
    (\<exists>written lb f. stream_ok sid off fin payload po written lb f \<and>
      xqc_gen_stream_frame sid off fin payload po =
        Some (Inr (length (stream_bytes sid off lb f (take written payload))), written,
              po_appended XQC_FRAME_STREAM po (stream_bytes sid off lb f (take written payload))))"
proof -
  have *: "stream_ok sid off fin payload po written lb f \<Longrightarrow>
      po_dst po + length (stream_bytes sid off lb f (take written payload)) \<le> length (po_buf po)" for written lb f
    using po_room_capacity [OF assms, of "length (stream_bytes sid off lb f (take written payload))"]
    by (auto simp: stream_ok_def Let_def)
  show ?thesis
  proof (cases "fin \<and> payload = []")
    case True
    with * gen_stream_fin [OF True, of sid off po] show ?thesis by (fastforce simp: Let_def)
  next
    case False
    with * gen_stream_data [OF assms False, of sid off] show ?thesis by (fastforce simp: Let_def)
  qed
qed

lemma parse_stream_end:
  assumes "pi_wf pi" "xqc_parse_stream_frame malloc_ok pi = Ok (r, pi')"
  shows "pi_pos pi < pi_pos pi' \<and> pi_pos pi' \<le> pi_last pi + 8"
proof -
  have small: "unat (ucast (w::u64) :: u32) \<le> unat w" for w
    by (simp add: unsigned_ucast_eq unsigned_take_bit_eq)
  have n: "unat (of_nat m :: u64) \<le> m" for m by (simp add: unat_of_nat)
  have v8: "pi_vint pi p = Ok (q, v) \<Longrightarrow> q \<le> p + 8" for p q v
    by (auto simp: pi_vint_def dest!: vint_read_bounds split: option.splits)
  obtain b p sid q off p' len data where 
    "pi_byte pi (pi_pos pi) = Ok b" and v1: "pi_vint pi (Suc (pi_pos pi)) = Ok (p, sid)"
    and v2: "(if b AND 4 \<noteq> 0 then pi_vint pi p else Ok (p, 0)) = Ok (q, off)"
    and v3: "(if b AND 0x02 \<noteq> 0 then
                 bind_res (pi_vint pi q) (\<lambda>(r, len).
                   if len > of_nat (pi_last pi - q) then Err XQC_EILLEGAL_FRAME else Ok (r, len))
               else Ok (q, of_nat (pi_last pi - q))) = Ok (p', len)"
    and e: "pi_pos pi' = p' + unat (ucast len :: u32)"
    using assms(2) by (fastforce simp: xqc_parse_stream_frame_def bind_res_Ok_iff Let_def split: if_splits)
  have q: "Suc (pi_pos pi) < q" "q \<le> pi_last pi" using pi_vint_bounds[OF v1] v2 by (auto dest: pi_vint_bounds split: if_splits)
  show ?thesis
  proof (cases "b AND 0x02 \<noteq> 0")
    case True
    then have v: "pi_vint pi q = Ok (p', len)" "\<not> len > of_nat (pi_last pi - q)" 
      using v3 by (auto simp: bind_res_Ok_iff split: if_splits)
    then have "unat len \<le> pi_last pi - q" using n[of "pi_last pi - q"] by (simp add: word_less_nat_alt not_less del: of_nat_diff)
    then show ?thesis using e small[of len] q v8[OF v(1)] pi_vint_bounds[OF v(1)] by linarith
  next
    case False
    then have "p' = q" "len = of_nat (pi_last pi - q)" using v3 by auto
    then show ?thesis using e small[of len] n[of "pi_last pi - q"] q by (simp del: of_nat_diff)
  qed
qed

section \<open>Properties\<close>

text \<open>C4. STREAM frames round trip and truncate cleanly. When \<^verbatim>\<open>xqc_gen_stream_frame\<close> succeeds, the bytes
  it reports, in a received packet with any bytes \<open>rest\<close> behind them, are parsed by
  \<^verbatim>\<open>xqc_parse_stream_frame\<close> to the same stream id and offset, to the first \<open>written\<close> bytes of the payload,
  and to FIN exactly when FIN was requested and the whole payload was written; something is written
  unless the payload is empty. One frame swallows what is behind it: the one that only carries FIN and whose
  header fills the packet has no length field, so \<open>rest\<close> becomes data of the stream.\<close>

theorem stream_frame_roundtrip:
  assumes "po_wf po" "stream_id < 2 ^ 62" "offset < 2 ^ 62"
    and "xqc_gen_stream_frame stream_id offset fin payload po = Some (Inr n, written, po')"
    and "pi_wf pi" "pi_rest pi (pi_pos pi) = take n (drop (po_dst po) (po_buf po')) @ rest"
  shows "xqc_parse_stream_frame True pi =
      (let behind = (if stream_unbounded stream_id offset fin payload po then rest else []) in
       Ok ((stream_id, stream_frame_of offset (fin \<and> written = length payload) (take written payload @ behind)),
           pi_advance XQC_FRAME_STREAM (pi_pos pi + n + length behind) pi))
    \<and> written \<le> length payload \<and> (payload \<noteq> [] \<longrightarrow> 0 < written) \<and> n \<le> po_room po + 8"
proof -
  obtain lb f where ok: "stream_ok stream_id offset fin payload po written lb f"
    and w: "n = length (stream_bytes stream_id offset lb f (take written payload))"
      "po' = po_appended XQC_FRAME_STREAM po (stream_bytes stream_id offset lb f (take written payload))"
    using gen_stream_cases [OF assms(1), of stream_id offset fin payload] assms(4) by auto
  have "po_dst po + n \<le> length (po_buf po)"
    using ok w po_room_capacity [OF assms(1), of n] by (auto simp: stream_ok_def Let_def)
  have "pi_rest pi (pi_pos pi) = stream_bytes stream_id offset lb f (take written payload) @ rest"
    using assms(6) w \<open>po_dst po + n \<le> _\<close> po_appended_bytes [of po "stream_bytes stream_id offset lb f (take written payload)"] by simp
  from parse_stream_bytes [OF assms(5) this assms(2,3) _ _ refl] ok w(1) show ?thesis
    by (auto simp: stream_ok_def Let_def split: if_splits)
qed

theorem stream_frame_roundtrip_witness:
  "xqc_parse_stream_frame True (xqc_packet_in_init [0x0b, 4, 2, 7, 8, 1] 0 zero_packet_in) =
     Ok ((4, stream_frame_of 0 True [7, 8]), pi_advance XQC_FRAME_STREAM 5 (xqc_packet_in_init [0x0b, 4, 2, 7, 8, 1] 0 zero_packet_in))"
proof -
  let ?po = "the (xqc_packet_out_create (Some (replicate 52 0)) 20)"
  let ?pi = "xqc_packet_in_init [0x0b, 4, 2, 7, 8, 1] 0 zero_packet_in"
  have wf: "po_wf ?po" by (simp add: xqc_packet_out_create_def po_wf_def)
  have gen: "xqc_gen_stream_frame 4 0 True [7, 8] ?po = Some (Inr 5, 2, po_appended XQC_FRAME_STREAM ?po [0x0b, 4, 2, 7, 8])"
    by (simp add: xqc_gen_stream_frame_def stream_fit_def xqc_packet_out_create_def po_room_def po_dst_def
        xqc_vint_len_by_val_def xqc_vint_get_2bit_def xqc_vint_len_def vint_enc_small stream_type_byte_def
        put_bind put_at_def mem_write_def po_appended_def xqc_vint_write_def be64_bytes_def xqc_vint_usable_bits_def)
  from stream_frame_roundtrip [OF wf _ _ gen, where pi = ?pi and rest = "[1]"] show ?thesis
    by (simp add: xqc_packet_in_init_def zero_packet_in_def pi_rest_def pi_wf_def xqc_packet_out_create_def
        po_dst_def po_appended_def stream_unbounded_def)
qed

text \<open>C9. Generating STREAM and CRYPTO frames is memory safe. On a packet within its usable size neither
  generator writes outside the allocated memory. CRYPTO stays within the usable size; STREAM may pass it by
  the length field, at most eight bytes of the reserve.\<close>

theorem stream_crypto_gen_safe:
  assumes "po_wf po" "length payload < 2 ^ 62"
  shows "xqc_gen_stream_frame stream_id offset fin payload po \<noteq> None
    \<and> xqc_gen_crypto_frame offset payload po \<noteq> None
    \<and> (\<forall>n written po'. xqc_gen_stream_frame stream_id offset fin payload po = Some (Inr n, written, po') \<longrightarrow> n \<le> po_room po + 8)
    \<and> (\<forall>n written po'. xqc_gen_crypto_frame offset payload po = Some (Inr n, written, po') \<longrightarrow> n \<le> po_room po)"
  using gen_stream_cases [OF assms(1), of stream_id offset fin payload] gen_crypto_cases [OF assms, of offset]
  by (auto simp: stream_ok_def Let_def)

theorem stream_crypto_gen_safe_witness:
  "xqc_gen_crypto_frame 5 [1, 2, 3] (the (xqc_packet_out_create (Some (replicate 36 0)) 4)) \<noteq> None"
  using stream_crypto_gen_safe [of "the (xqc_packet_out_create (Some (replicate 36 0)) 4)" "[1, 2, 3]"]
  by (simp add: xqc_packet_out_create_def po_wf_def)

text \<open>C3. Reassembly keeps its contract. When \<^verbatim>\<open>xqc_insert_stream_frame\<close> accepts a frame, the frame is in
  the list, the list is still in offset order, \<^verbatim>\<open>merged_offset_end\<close> has not moved back and is still the
  first byte of the stream that is missing. When it refuses a frame as duplicate, a received frame holds all
  of its bytes.\<close>

theorem insert_stream_frame_correct:
  assumes "reassembly_ok s" "data_offset new_frame \<le> frame_end new_frame"
  shows "case xqc_insert_stream_frame new_frame s of
      Ok s' \<Rightarrow> reassembly_ok s' \<and> set (frames_tailq s') = insert new_frame (set (frames_tailq s))
        \<and> merged_offset_end s \<le> merged_offset_end s'
    | Err e \<Rightarrow> e = XQC_EDUP_FRAME
        \<and> (\<exists>f\<in>set (frames_tailq s). data_offset f \<le> data_offset new_frame \<and> frame_end new_frame \<le> frame_end f)
    | Fault \<Rightarrow> False"
  using insert_keeps [OF assms] insert_dup [of new_frame s]
  by (auto split: res.splits simp: xqc_insert_stream_frame_def Let_def split: option.splits if_splits)

theorem insert_stream_frame_correct_witness:
  "case xqc_insert_stream_frame (stream_frame_of 0 False [1, 2])
      \<lparr>frames_tailq = [stream_frame_of 2 True [3]], merged_offset_end = 0, next_read_offset = 0, stream_length = 0\<rparr> of
      Ok s' \<Rightarrow> reassembly_ok s' | _ \<Rightarrow> False"
  using insert_stream_frame_correct [of "\<lparr>frames_tailq = [stream_frame_of 2 True [3]], merged_offset_end = 0,
      next_read_offset = 0, stream_length = 0\<rparr>" "stream_frame_of 0 False [1, 2]"]
  by (simp add: reassembly_ok_def holds_byte_def frame_end_def stream_frame_of_def xqc_insert_stream_frame_def)

text \<open>C12. How far the STREAM and CRYPTO parsers can run over the end of a packet. A STREAM frame with a length
  field is compared with the bytes left before that field instead of behind it, so a successful parse ends
  at most eight bytes behind the packet; the length of a CRYPTO frame is not compared with anything:
  the copy takes its low 32 bits, and the position moves by all of it.\<close>

theorem stream_crypto_overrun:
  assumes "pi_wf pi"
  shows "(\<forall>r pi'. xqc_parse_stream_frame malloc_ok pi = Ok (r, pi') \<longrightarrow> pi_pos pi < pi_pos pi' \<and> pi_pos pi' \<le> pi_last pi + 8)
    \<and> (pi_rest pi (pi_pos pi) = 0x06 # vint_enc offset @ vint_enc len @ rest \<longrightarrow> offset < 2 ^ 62 \<longrightarrow> len < 2 ^ 62 \<longrightarrow>
       xqc_parse_crypto_frame True pi =
         bind_res (pi_copy pi (pi_pos pi + 1 + length (vint_enc offset) + length (vint_enc len)) (unat len mod 2 ^ 32)) (\<lambda>data.
           Ok (\<lparr>sf_data = data, data_length = ucast len, data_offset = offset, sf_next_read_offset = 0, sf_fin = False\<rparr>,
               pi_advance XQC_FRAME_CRYPTO (pi_pos pi + 1 + length (vint_enc offset) + length (vint_enc len) + unat len) pi)))"
proof (intro conjI impI)
  show "\<forall>r pi'. xqc_parse_stream_frame malloc_ok pi = Ok (r, pi') \<longrightarrow> pi_pos pi < pi_pos pi' \<and> pi_pos pi' \<le> pi_last pi + 8"
    using parse_stream_end[OF assms] by blast
  assume a: "pi_rest pi (pi_pos pi) = 0x06 # vint_enc offset @ vint_enc len @ rest" "offset < 2 ^ 62" "len < 2 ^ 62"
  show "xqc_parse_crypto_frame True pi =
         bind_res (pi_copy pi (pi_pos pi + 1 + length (vint_enc offset) + length (vint_enc len)) (unat len mod 2 ^ 32)) (\<lambda>data.
           Ok (\<lparr>sf_data = data, data_length = ucast len, data_offset = offset, sf_next_read_offset = 0, sf_fin = False\<rparr>,
               pi_advance XQC_FRAME_CRYPTO (pi_pos pi + 1 + length (vint_enc offset) + length (vint_enc len) + unat len) pi))"
    unfolding unat_ucast_u32 [symmetric] using a
    by (simp add: xqc_parse_crypto_frame_def pi_byte_rest pi_vint_def pi_rest_simps vint_read_enc Let_def)
qed

theorem stream_crypto_overrun_witness:
  "xqc_parse_stream_frame True ((xqc_packet_in_init [0x0a, 0, 1, 9] 0 zero_packet_in)\<lparr>pi_last := 3\<rparr>) =
     Ok ((0, stream_frame_of 0 False [9]),
         pi_advance XQC_FRAME_STREAM 4 ((xqc_packet_in_init [0x0a, 0, 1, 9] 0 zero_packet_in)\<lparr>pi_last := 3\<rparr>))
   \<and> (4::nat) \<le> 3 + 8"
proof -
  let ?pi = "(xqc_packet_in_init [0x0a, 0, 1, 9] 0 zero_packet_in)\<lparr>pi_last := 3\<rparr>"
  have p: "xqc_parse_stream_frame True ?pi = Ok ((0, stream_frame_of 0 False [9]), pi_advance XQC_FRAME_STREAM 4 ?pi)"
    by (simp add: xqc_parse_stream_frame_def pi_byte_def pi_vint_def pi_copy_def mem_read_def pi_rest_def xqc_packet_in_init_def
      zero_packet_in_def xqc_vint_read_def stream_frame_of_def) (simp add: numeral_eq_Suc)
  then show ?thesis using stream_crypto_overrun [of ?pi True] by (simp add: pi_wf_def xqc_packet_in_init_def zero_packet_in_def)
qed

text \<open>C15. The size \<^verbatim>\<open>xqc_stream_frame_header_size\<close> announces is not the size of a STREAM header: by the precedence
  of the conditional operator it is the size of the offset field alone, short of the header that
  \<^verbatim>\<open>xqc_gen_stream_frame\<close> writes for the same stream id, offset and length by at least two bytes.\<close>

theorem stream_frame_header_size_short:
  assumes "stream_id < 2 ^ 62" "offset < 2 ^ 62"
  shows "xqc_stream_frame_header_size stream_id offset (of_nat (length data)) = xqc_vint_len_by_val offset
    \<and> (offset \<noteq> 0 \<longrightarrow> xqc_stream_frame_header_size stream_id offset (of_nat (length data)) + 2
         \<le> length (stream_bytes stream_id offset (vint_enc (of_nat (length data))) f data) - length data)"
proof -
  have "unat (1 + of_nat (xqc_vint_len_by_val stream_id) + offset) = 1 + xqc_vint_len_by_val stream_id + unat offset"
    using assms vint_len_by_val_bounds [of stream_id] by (simp add: unat_word_ariths unat_of_nat word_less_nat_alt)
  then have "1 + of_nat (xqc_vint_len_by_val stream_id) + offset \<noteq> 0" by (metis add_is_0 unat_0 zero_neq_one)
  then show ?thesis
    using vint_len_by_val_bounds [of stream_id] vint_len_by_val_bounds [of "of_nat (length data)"]
    by (auto simp: xqc_stream_frame_header_size_def stream_bytes_def length_vint_enc)
qed

theorem stream_frame_header_size_short_witness:
  "xqc_stream_frame_header_size 4 100 (of_nat (length [1::u8])) = 2"
  using stream_frame_header_size_short [of 4 100 "[1]"] by (simp add: xqc_vint_len_by_val_def xqc_vint_get_2bit_def)

end
