(* ===== verification/XQC_Cid.thy ===== *)
theory XQC_Cid
  imports XQC_Packet
begin

text \<open>
  Connection id sets (\<^verbatim>\<open>transport/xqc_cid.c\<close>, \<^verbatim>\<open>xqc_cid.h\<close> and the functions of
  \<^verbatim>\<open>xqc_conn.c\<close> that use them). A set is the list of its nodes in list order together with the three
  counters the code keeps beside it; a pointer to a node is its index. Each node moves through the
  states UNUSED, USED, RETIRED, REMOVED in this order. The lemmas show that the counters always are
  the numbers of nodes in each state, and how many connection ids can be active.
\<close>

section \<open>Nodes and sets\<close>

datatype xqc_cid_state = XQC_CID_UNUSED | XQC_CID_USED | XQC_CID_RETIRED | XQC_CID_REMOVED

primrec cid_state_code :: "xqc_cid_state \<Rightarrow> nat" where
  "cid_state_code XQC_CID_UNUSED = 0"
| "cid_state_code XQC_CID_USED = 1"
| "cid_state_code XQC_CID_RETIRED = 2"
| "cid_state_code XQC_CID_REMOVED = 3"

instantiation xqc_cid_state :: linorder
begin

definition less_eq_xqc_cid_state :: "xqc_cid_state \<Rightarrow> xqc_cid_state \<Rightarrow> bool" where
  "less_eq_xqc_cid_state a b \<longleftrightarrow> cid_state_code a \<le> cid_state_code b"

definition less_xqc_cid_state :: "xqc_cid_state \<Rightarrow> xqc_cid_state \<Rightarrow> bool" where
  "less_xqc_cid_state a b \<longleftrightarrow> cid_state_code a < cid_state_code b"

instance
proof
  fix a b :: xqc_cid_state
  assume "a \<le> b" "b \<le> a"
  then show "a = b" by (cases a; cases b) (simp_all add: less_eq_xqc_cid_state_def)
qed (auto simp: less_eq_xqc_cid_state_def less_xqc_cid_state_def)

end

record xqc_cid_inner_t =
  inner_cid :: xqc_cid
  inner_state :: xqc_cid_state
  retired_ts :: usec

record xqc_cid_set_t =
  cid_list :: "xqc_cid_inner_t list"
  unused_cnt :: u64
  used_cnt :: u64
  retired_cnt :: u64

record xqc_scid_set_t =
  user_scid :: xqc_cid
  scid_cids :: xqc_cid_set_t
  largest_scid_seq_num :: u64

record xqc_dcid_set_t =
  current_dcid :: xqc_cid
  dcid_cids :: xqc_cid_set_t
  largest_retire_prior_to :: u64

section \<open>Operations\<close>

definition xqc_cid_is_equal :: "xqc_cid \<Rightarrow> xqc_cid \<Rightarrow> bool" where
  "xqc_cid_is_equal dst src \<longleftrightarrow> length (cid_buf dst) = length (cid_buf src) \<and> cid_buf dst = cid_buf src"

definition xqc_cid_copy :: "xqc_cid \<Rightarrow> xqc_cid \<Rightarrow> xqc_cid" where
  "xqc_cid_copy dst src = dst\<lparr>cid_buf := cid_buf src, cid_seq_num := cid_seq_num src\<rparr>"

definition xqc_cid_init_zero :: "xqc_cid \<Rightarrow> xqc_cid" where
  "xqc_cid_init_zero cid = cid\<lparr>cid_buf := [], cid_seq_num := 0\<rparr>"

definition xqc_cid_set :: "xqc_cid \<Rightarrow> u8 list \<Rightarrow> xqc_cid" where
  "xqc_cid_set cid data = cid\<lparr>cid_buf := data\<rparr>"

definition xqc_init_cid_set :: "xqc_cid_set_t \<Rightarrow> xqc_cid_set_t" where
  "xqc_init_cid_set s = s\<lparr>cid_list := [], unused_cnt := 0, used_cnt := 0, retired_cnt := 0\<rparr>"

definition xqc_init_scid_set :: "xqc_scid_set_t \<Rightarrow> xqc_scid_set_t" where
  "xqc_init_scid_set s = s\<lparr>scid_cids := xqc_init_cid_set (scid_cids s),
     user_scid := xqc_cid_init_zero (user_scid s), largest_scid_seq_num := 0\<rparr>"

definition xqc_init_dcid_set :: "xqc_dcid_set_t \<Rightarrow> xqc_dcid_set_t" where
  "xqc_init_dcid_set s = s\<lparr>dcid_cids := xqc_init_cid_set (dcid_cids s),
     current_dcid := xqc_cid_init_zero (current_dcid s), largest_retire_prior_to := 0\<rparr>"

text \<open>Every node is unlinked and freed, then the set is initialised.\<close>

fun cid_list_free :: "xqc_cid_inner_t list \<Rightarrow> xqc_cid_inner_t list" where
  "cid_list_free [] = []"
| "cid_list_free (cid # rest) = cid_list_free rest"

definition xqc_destroy_cid_set :: "xqc_cid_set_t \<Rightarrow> xqc_cid_set_t" where
  "xqc_destroy_cid_set s = xqc_init_cid_set (s\<lparr>cid_list := cid_list_free (cid_list s)\<rparr>)"

text \<open>The counter of a state goes up or down; REMOVED has none.\<close>

definition cnt_inc :: "xqc_cid_state \<Rightarrow> xqc_cid_set_t \<Rightarrow> xqc_cid_set_t" where
  "cnt_inc st s = (case st of
     XQC_CID_UNUSED \<Rightarrow> s\<lparr>unused_cnt := unused_cnt s + 1\<rparr>
   | XQC_CID_USED \<Rightarrow> s\<lparr>used_cnt := used_cnt s + 1\<rparr>
   | XQC_CID_RETIRED \<Rightarrow> s\<lparr>retired_cnt := retired_cnt s + 1\<rparr>
   | XQC_CID_REMOVED \<Rightarrow> s)"

definition cnt_dec :: "xqc_cid_state \<Rightarrow> xqc_cid_set_t \<Rightarrow> xqc_cid_set_t" where
  "cnt_dec st s = (case st of
     XQC_CID_UNUSED \<Rightarrow> s\<lparr>unused_cnt := unused_cnt s - 1\<rparr>
   | XQC_CID_USED \<Rightarrow> s\<lparr>used_cnt := used_cnt s - 1\<rparr>
   | XQC_CID_RETIRED \<Rightarrow> s\<lparr>retired_cnt := retired_cnt s - 1\<rparr>
   | XQC_CID_REMOVED \<Rightarrow> s)"

text \<open>\<open>alloc_ok\<close> says whether \<^verbatim>\<open>xqc_malloc\<close> succeeds; the sequence number of a fresh node is copied.\<close>

definition xqc_cid_set_insert_cid ::
  "bool \<Rightarrow> xqc_cid_set_t \<Rightarrow> xqc_cid \<Rightarrow> xqc_cid_state \<Rightarrow> u64 \<Rightarrow> ret \<times> xqc_cid_set_t" where
  "xqc_cid_set_insert_cid alloc_ok s cid st limit =
     (if unused_cnt s + used_cnt s > limit then (Some XQC_EACTIVE_CID_LIMIT, s)
      else if \<not> alloc_ok then (Some XQC_EMALLOC, s)
      else let node = \<lparr>inner_cid = xqc_cid_copy zero_cid cid, inner_state = st, retired_ts = - 1\<rparr>
           in (None, cnt_inc st (s\<lparr>cid_list := cid_list s @ [node]\<rparr>)))"

fun cid_find :: "(xqc_cid_inner_t \<Rightarrow> bool) \<Rightarrow> xqc_cid_inner_t list \<Rightarrow> nat option" where
  "cid_find P [] = None"
| "cid_find P (node # rest) = (if P node then Some 0 else map_option Suc (cid_find P rest))"

definition xqc_cid_in_cid_set :: "xqc_cid_set_t \<Rightarrow> xqc_cid \<Rightarrow> nat option" where
  "xqc_cid_in_cid_set s cid = cid_find (\<lambda>node. xqc_cid_is_equal cid (inner_cid node)) (cid_list s)"

definition xqc_cid_set_delete_cid :: "xqc_cid_set_t \<Rightarrow> xqc_cid \<Rightarrow> ret \<times> xqc_cid_set_t" where
  "xqc_cid_set_delete_cid s cid =
     (case cid_find (\<lambda>node. xqc_cid_is_equal cid (inner_cid node)) (cid_list s) of
       Some i \<Rightarrow>
         let s' = cnt_dec (inner_state (cid_list s ! i)) s
         in (None, s'\<lparr>cid_list := take i (cid_list s') @ drop (Suc i) (cid_list s')\<rparr>)
     | None \<Rightarrow> (Some XQC_ERROR, s))"

text \<open>
  The argument is the index of the node. The last conditional of the code counts the new state only when
  it is USED or RETIRED; it cannot be UNUSED there, because the state has grown.
\<close>

definition xqc_cid_switch_to_next_state :: "xqc_cid_set_t \<Rightarrow> nat \<Rightarrow> xqc_cid_state \<Rightarrow> ret \<times> xqc_cid_set_t" where
  "xqc_cid_switch_to_next_state s i next_state =
     (let node = cid_list s ! i; current_state = inner_state node
      in case xqc_cid_in_cid_set s (inner_cid node) of
           None \<Rightarrow> (Some XQC_ECONN_CID_NOT_FOUND, s)
         | Some _ \<Rightarrow>
             if current_state = next_state then (None, s)
             else if current_state > next_state then (Some XQC_ECID_STATE, s)
             else let s = cnt_dec current_state s;
                      s = s\<lparr>cid_list := (cid_list s)[i := node\<lparr>inner_state := next_state\<rparr>]\<rparr>;
                      s = (if next_state = XQC_CID_USED then s\<lparr>used_cnt := used_cnt s + 1\<rparr>
                           else if next_state = XQC_CID_RETIRED then s\<lparr>retired_cnt := retired_cnt s + 1\<rparr>
                           else s)
                  in (None, s))"

definition xqc_get_unused_cid :: "xqc_cid_set_t \<Rightarrow> xqc_cid \<Rightarrow> ret \<times> xqc_cid \<times> xqc_cid_set_t" where
  "xqc_get_unused_cid s cid =
     (if unused_cnt s = 0 then (Some XQC_ECONN_NO_AVAIL_CID, cid, s)
      else case cid_find (\<lambda>node. inner_state node = XQC_CID_UNUSED) (cid_list s) of
             Some i \<Rightarrow>
               let (r, s') = xqc_cid_switch_to_next_state s i XQC_CID_USED
               in (r, xqc_cid_copy cid (inner_cid (cid_list s ! i)), s')
           | None \<Rightarrow> (Some XQC_ECONN_NO_AVAIL_CID, cid, s))"

definition xqc_get_inner_cid_by_seq :: "xqc_cid_set_t \<Rightarrow> u64 \<Rightarrow> nat option" where
  "xqc_get_inner_cid_by_seq s seq_num = cid_find (\<lambda>node. cid_seq_num (inner_cid node) = seq_num) (cid_list s)"

definition xqc_get_cid_by_seq :: "xqc_cid_set_t \<Rightarrow> u64 \<Rightarrow> xqc_cid option" where
  "xqc_get_cid_by_seq s seq_num =
     (case cid_find (\<lambda>node. cid_seq_num (inner_cid node) = seq_num) (cid_list s) of
       Some i \<Rightarrow> Some (inner_cid (cid_list s ! i)) | None \<Rightarrow> None)"

text \<open>The users of the sets in \<^verbatim>\<open>xqc_conn.c\<close>; the notification callback does not change the set.\<close>

definition xqc_conn_check_dcid :: "xqc_scid_set_t \<Rightarrow> xqc_cid \<Rightarrow> ret \<times> xqc_scid_set_t" where
  "xqc_conn_check_dcid ss dcid = (case xqc_cid_in_cid_set (scid_cids ss) dcid of
     None \<Rightarrow> (Some XQC_ECONN_CID_NOT_FOUND, ss)
   | Some i \<Rightarrow>
       if inner_state (cid_list (scid_cids ss) ! i) = XQC_CID_UNUSED
       then let (r, s') = xqc_cid_switch_to_next_state (scid_cids ss) i XQC_CID_USED in (r, ss\<lparr>scid_cids := s'\<rparr>)
       else (None, ss))"

definition xqc_conn_update_user_scid :: "xqc_scid_set_t \<Rightarrow> ret \<times> xqc_scid_set_t" where
  "xqc_conn_update_user_scid ss =
     (case cid_find (\<lambda>node. inner_state node = XQC_CID_USED \<and> \<not> xqc_cid_is_equal (user_scid ss) (inner_cid node))
        (cid_list (scid_cids ss)) of
       Some i \<Rightarrow> (None, ss\<lparr>user_scid := xqc_cid_copy (user_scid ss) (inner_cid (cid_list (scid_cids ss) ! i))\<rparr>)
     | None \<Rightarrow> (Some XQC_ECONN_NO_AVAIL_CID, ss))"

section \<open>Specification\<close>

text \<open>The number of nodes in a state, and the counters as these numbers at 64 bits.\<close>

definition cid_count :: "xqc_cid_state \<Rightarrow> xqc_cid_set_t \<Rightarrow> nat" where
  "cid_count st s = length (filter (\<lambda>node. inner_state node = st) (cid_list s))"

definition active_cids :: "xqc_cid_set_t \<Rightarrow> nat" where
  "active_cids s = cid_count XQC_CID_UNUSED s + cid_count XQC_CID_USED s"

definition counts_ok :: "xqc_cid_set_t \<Rightarrow> bool" where
  "counts_ok s \<longleftrightarrow> unused_cnt s = of_nat (cid_count XQC_CID_UNUSED s) \<and> used_cnt s = of_nat (cid_count XQC_CID_USED s)
     \<and> retired_cnt s = of_nat (cid_count XQC_CID_RETIRED s)"

text \<open>The steps a set takes during a connection, every insertion against the same limit.\<close>

inductive cid_step :: "u64 \<Rightarrow> xqc_cid_set_t \<Rightarrow> xqc_cid_set_t \<Rightarrow> bool" for limit where
  insert_cid: "xqc_cid_set_insert_cid alloc_ok s cid st limit = (r, s') \<Longrightarrow> cid_step limit s s'"
| delete_cid: "xqc_cid_set_delete_cid s cid = (r, s') \<Longrightarrow> cid_step limit s s'"
| switch_cid: "i < length (cid_list s) \<Longrightarrow> xqc_cid_switch_to_next_state s i st = (r, s') \<Longrightarrow> cid_step limit s s'"
| take_unused: "xqc_get_unused_cid s cid = (r, cid', s') \<Longrightarrow> cid_step limit s s'"
| destroy: "cid_step limit s (xqc_destroy_cid_set s)"

inductive cid_reachable :: "u64 \<Rightarrow> xqc_cid_set_t \<Rightarrow> bool" for limit where
  start: "cid_reachable limit (xqc_init_cid_set s)"
| step: "cid_reachable limit s \<Longrightarrow> cid_step limit s s' \<Longrightarrow> cid_reachable limit s'"

inductive_cases cid_stepE: "cid_step limit s s'"

section \<open>Lemmas\<close>

lemma cid_find_Some:
  "cid_find P ns = Some i \<Longrightarrow> i < length ns \<and> P (ns ! i) \<and> (\<forall>j<i. \<not> P (ns ! j))"
proof (induction ns arbitrary: i)
  case (Cons n ns)
  then show ?case by (auto split: if_splits simp: nth_Cons split: nat.splits)
qed simp

lemma cid_find_None_iff: "cid_find P ns = None \<longleftrightarrow> (\<forall>n\<in>set ns. \<not> P n)"
  by (induction ns) auto

lemma cid_list_free_Nil [simp]: "cid_list_free ns = []"
  by (induction ns) auto

lemma cnt_list [simp]: "cid_list (cnt_inc st s) = cid_list s" "cid_list (cnt_dec st s) = cid_list s"
  by (cases st; simp add: cnt_inc_def cnt_dec_def)+

lemma cid_in_cid_set_node:
  "i < length (cid_list s) \<Longrightarrow> \<exists>j. xqc_cid_in_cid_set s (inner_cid (cid_list s ! i)) = Some j"
  by (metis xqc_cid_in_cid_set_def cid_find_None_iff not_None_eq nth_mem xqc_cid_is_equal_def)

text \<open>How the number of nodes in a state changes when one node is replaced, added or removed.\<close>

lemma count_split:
  "i < length ns \<Longrightarrow> length (filter P ns) = length (filter P (take i ns)) + (if P (ns ! i) then 1 else 0)
     + length (filter P (drop (Suc i) ns))"
  by (subst id_take_nth_drop [of i ns]) auto

lemma cid_count_update:
  "i < length (cid_list s) \<Longrightarrow>
     cid_count st (s\<lparr>cid_list := (cid_list s)[i := node]\<rparr>) + (if inner_state (cid_list s ! i) = st then 1 else 0)
     = cid_count st s + (if inner_state node = st then 1 else 0)"
  using count_split [of i "cid_list s" "\<lambda>n. inner_state n = st"]
    count_split [of i "(cid_list s)[i := node]" "\<lambda>n. inner_state n = st"] by (auto simp: cid_count_def)

lemma cid_count_delete:
  "i < length (cid_list s) \<Longrightarrow>
     cid_count st (s\<lparr>cid_list := take i (cid_list s) @ drop (Suc i) (cid_list s)\<rparr>)
       + (if inner_state (cid_list s ! i) = st then 1 else 0) = cid_count st s"
  using count_split [of i "cid_list s" "\<lambda>n. inner_state n = st"] by (auto simp: cid_count_def)

lemma cid_count_cong: "cid_list s = cid_list s' \<Longrightarrow> cid_count st s = cid_count st s'"
  by (simp add: cid_count_def)

lemma of_nat_add_eq: "a + c = b + d \<Longrightarrow> (of_nat a :: u64) = of_nat b + of_nat d - of_nat c"
  by (metis add_diff_cancel_right' of_nat_add)

text \<open>A switch that succeeds on a node: the new set, and the counters.\<close>

lemma switch_cases:
  assumes "i < length (cid_list s)"
  shows "xqc_cid_switch_to_next_state s i st =
    (if st < inner_state (cid_list s ! i) then (Some XQC_ECID_STATE, s)
     else if st = inner_state (cid_list s ! i) then (None, s)
     else (None, cnt_inc st (cnt_dec (inner_state (cid_list s ! i)) s)
                   \<lparr>cid_list := (cid_list s)[i := (cid_list s ! i)\<lparr>inner_state := st\<rparr>]\<rparr>))"
  using cid_in_cid_set_node [OF assms]
  by (cases "inner_state (cid_list s ! i)"; cases st)
    (auto simp: xqc_cid_switch_to_next_state_def Let_def cnt_inc_def cnt_dec_def less_xqc_cid_state_def)

lemma cnt_inc_simps:
  "unused_cnt (cnt_inc st s) = unused_cnt s + (if st = XQC_CID_UNUSED then 1 else 0)"
  "used_cnt (cnt_inc st s) = used_cnt s + (if st = XQC_CID_USED then 1 else 0)"
  "retired_cnt (cnt_inc st s) = retired_cnt s + (if st = XQC_CID_RETIRED then 1 else 0)"
  "unused_cnt (cnt_dec st s) = unused_cnt s - (if st = XQC_CID_UNUSED then 1 else 0)"
  "used_cnt (cnt_dec st s) = used_cnt s - (if st = XQC_CID_USED then 1 else 0)"
  "retired_cnt (cnt_dec st s) = retired_cnt s - (if st = XQC_CID_RETIRED then 1 else 0)"
  by (cases st; simp add: cnt_inc_def cnt_dec_def)+

lemma counts_replaced:
  assumes "counts_ok s"
    and "\<And>st. st \<noteq> XQC_CID_REMOVED \<Longrightarrow> cid_count st s' + (if old = st then 1 else 0) = cid_count st s + (if new = st then 1 else 0)"
    and "unused_cnt s' = unused_cnt (cnt_inc new (cnt_dec old s))"
      "used_cnt s' = used_cnt (cnt_inc new (cnt_dec old s))"
      "retired_cnt s' = retired_cnt (cnt_inc new (cnt_dec old s))"
  shows "counts_ok s'"
  using assms(1,3-5) of_nat_add_eq [OF assms(2) [of XQC_CID_UNUSED]] of_nat_add_eq [OF assms(2) [of XQC_CID_USED]]
    of_nat_add_eq [OF assms(2) [of XQC_CID_RETIRED]]
  by (auto simp: counts_ok_def cnt_inc_simps)

lemma counts_switch:
  assumes "counts_ok s" "i < length (cid_list s)" "xqc_cid_switch_to_next_state s i st = (r, s')"
  shows "counts_ok s'"
proof (cases "inner_state (cid_list s ! i) < st")
  case True
  then have s': "s' = cnt_inc st (cnt_dec (inner_state (cid_list s ! i)) s)
                   \<lparr>cid_list := (cid_list s)[i := (cid_list s ! i)\<lparr>inner_state := st\<rparr>]\<rparr>"
    using assms(2,3) by (auto simp: switch_cases split: if_splits)
  show ?thesis
  proof (rule counts_replaced [OF assms(1)])
    show "cid_count st' s' + (if inner_state (cid_list s ! i) = st' then 1 else 0) = cid_count st' s + (if st = st' then 1 else 0)" for st'
      using cid_count_update [OF assms(2), of st' "(cid_list s ! i)\<lparr>inner_state := st\<rparr>"]
      by (simp add: s' cid_count_def)
  qed (simp_all add: s')
next
  case False
  then show ?thesis using assms by (auto simp: switch_cases split: if_splits)
qed

lemma counts_insert:
  assumes "counts_ok s" "xqc_cid_set_insert_cid a s cid st limit = (r, s')"
  shows "counts_ok s'"
  using assms by (cases st) (auto simp: xqc_cid_set_insert_cid_def counts_ok_def cid_count_def cnt_inc_def Let_def split: if_splits)

lemma counts_delete:
  assumes "counts_ok s" "xqc_cid_set_delete_cid s cid = (r, s')"
  shows "counts_ok s'"
proof (cases "cid_find (\<lambda>node. xqc_cid_is_equal cid (inner_cid node)) (cid_list s)")
  case (Some i)
  then have i: "i < length (cid_list s)" using cid_find_Some by blast
  have s': "s' = (cnt_dec (inner_state (cid_list s ! i)) s)\<lparr>cid_list := take i (cid_list s) @ drop (Suc i) (cid_list s)\<rparr>"
    using assms(2) Some by (simp add: xqc_cid_set_delete_cid_def Let_def)
  show ?thesis
  proof (rule counts_replaced [OF assms(1), where new = XQC_CID_REMOVED])
    show "cid_count st s' + (if inner_state (cid_list s ! i) = st then 1 else 0) = cid_count st s + (if XQC_CID_REMOVED = st then 1 else 0)"
      if "st \<noteq> XQC_CID_REMOVED" for st
      using cid_count_delete [OF i, of st] that by (auto simp: s' cid_count_def)
  qed (simp_all add: s' cnt_inc_def)
next
  case None
  then show ?thesis using assms by (simp add: xqc_cid_set_delete_cid_def)
qed

lemma get_unused_cases:
  assumes "xqc_get_unused_cid s cid = (r, cid', s')"
  shows "s' = s \<and> cid' = cid \<and> r = Some XQC_ECONN_NO_AVAIL_CID
    \<or> (\<exists>i. cid_find (\<lambda>n. inner_state n = XQC_CID_UNUSED) (cid_list s) = Some i
         \<and> xqc_cid_switch_to_next_state s i XQC_CID_USED = (r, s') \<and> cid' = xqc_cid_copy cid (inner_cid (cid_list s ! i)))"
  using assms by (auto simp: xqc_get_unused_cid_def split: if_splits option.splits prod.splits)

lemma cid_step_counts:
  assumes "cid_step limit s s'" "counts_ok s"
  shows "counts_ok s'"
  using assms
proof (cases rule: cid_step.cases)
  case (take_unused cid r cid')
  then show ?thesis using get_unused_cases [OF take_unused] assms(2) counts_switch
    by (auto dest: cid_find_Some)
next
  case destroy
  then show ?thesis by (simp add: xqc_destroy_cid_set_def xqc_init_cid_set_def counts_ok_def cid_count_def)
qed (use counts_insert counts_delete counts_switch in blast)+

lemma active_switch:
  assumes "i < length (cid_list s)" "xqc_cid_switch_to_next_state s i st = (r, s')"
  shows "active_cids s' \<le> active_cids s"
proof (cases "inner_state (cid_list s ! i) < st")
  case True
  then have "cid_list s' = (cid_list s)[i := (cid_list s ! i)\<lparr>inner_state := st\<rparr>]"
    using assms by (auto simp: switch_cases split: if_splits)
  then have c: "cid_count x s' + (if inner_state (cid_list s ! i) = x then 1 else 0) = cid_count x s + (if st = x then 1 else 0)" for x
    using cid_count_update [OF assms(1), of x "(cid_list s ! i)\<lparr>inner_state := st\<rparr>"] by (simp add: cid_count_def)
  show ?thesis using True c [of XQC_CID_UNUSED] c [of XQC_CID_USED]
    by (cases st; cases "inner_state (cid_list s ! i)") (auto simp: active_cids_def less_xqc_cid_state_def)
next
  case False
  then show ?thesis using assms by (auto simp: switch_cases split: if_splits)
qed

lemma active_delete:
  "xqc_cid_set_delete_cid s cid = (r, s') \<Longrightarrow> active_cids s' \<le> active_cids s"
proof (cases "cid_find (\<lambda>node. xqc_cid_is_equal cid (inner_cid node)) (cid_list s)")
  case (Some i)
  assume "xqc_cid_set_delete_cid s cid = (r, s')"
  with Some have "cid_list s' = take i (cid_list s) @ drop (Suc i) (cid_list s)"
    by (auto simp: xqc_cid_set_delete_cid_def Let_def)
  moreover have "i < length (cid_list s)" using Some cid_find_Some by blast
  ultimately show ?thesis
    using cid_count_delete [of i s XQC_CID_UNUSED] cid_count_delete [of i s XQC_CID_USED]
    by (simp add: active_cids_def cid_count_def)
qed (simp add: xqc_cid_set_delete_cid_def)

lemma active_insert:
  assumes "counts_ok s" "active_cids s \<le> unat limit + 1" "limit < 2 ^ 62"
    and "xqc_cid_set_insert_cid a s cid st limit = (r, s')"
  shows "active_cids s' \<le> unat limit + 1"
proof (cases "r = None")
  case True
  have l: "unat limit + 1 < 2 ^ 64" using assms(3) by (simp add: word_less_nat_alt)
  have "unused_cnt s + used_cnt s = of_nat (active_cids s)"
    using assms(1) by (simp add: counts_ok_def active_cids_def)
  then have "unat (unused_cnt s + used_cnt s) = active_cids s"
    using l assms(2) by (simp add: unat_of_nat)
  moreover have "unused_cnt s + used_cnt s \<le> limit" "s' = cnt_inc st (s\<lparr>cid_list := cid_list s @
      [\<lparr>inner_cid = xqc_cid_copy zero_cid cid, inner_state = st, retired_ts = - 1\<rparr>]\<rparr>)"
    using True assms(4) by (auto simp: xqc_cid_set_insert_cid_def Let_def split: if_splits)
  ultimately show ?thesis
    by (cases st) (simp_all add: active_cids_def cid_count_def cnt_inc_def word_le_nat_alt)
next
  case False
  then show ?thesis using assms by (auto simp: xqc_cid_set_insert_cid_def Let_def split: if_splits)
qed

lemma cid_step_active:
  assumes "cid_step limit s s'" "counts_ok s" "active_cids s \<le> unat limit + 1" "limit < 2 ^ 62"
  shows "active_cids s' \<le> unat limit + 1"
  using assms(1)
proof (cases rule: cid_step.cases)
  case (insert_cid)
  then show ?thesis using active_insert assms by blast
next
  case (delete_cid)
  then show ?thesis using active_delete assms(3) le_trans by blast
next
  case (switch_cid)
  then show ?thesis using active_switch assms(3) le_trans by blast
next
  case (take_unused)
  then show ?thesis using get_unused_cases [OF take_unused] active_switch assms(3)
    by (meson cid_find_Some le_trans)
next
  case destroy
  then show ?thesis by (simp add: xqc_destroy_cid_set_def xqc_init_cid_set_def active_cids_def cid_count_def)
qed

lemma cid_reachable_inv:
  assumes "cid_reachable limit s" "limit < 2 ^ 62"
  shows "counts_ok s \<and> active_cids s \<le> unat limit + 1"
  using assms
proof (induction rule: cid_reachable.induct)
  case (start s)
  then show ?case by (simp add: xqc_init_cid_set_def counts_ok_def cid_count_def active_cids_def)
next
  case (step s s')
  then show ?case using cid_step_counts cid_step_active by blast
qed


lemma get_unused_result:
  assumes "counts_ok s" "length (cid_list s) < 2 ^ 64"
  shows "xqc_get_unused_cid s cid = (case cid_find (\<lambda>n. inner_state n = XQC_CID_UNUSED) (cid_list s) of
      None \<Rightarrow> (Some XQC_ECONN_NO_AVAIL_CID, cid, s)
    | Some i \<Rightarrow> (None, xqc_cid_copy cid (inner_cid (cid_list s ! i)),
        s\<lparr>cid_list := (cid_list s)[i := (cid_list s ! i)\<lparr>inner_state := XQC_CID_USED\<rparr>],
          unused_cnt := unused_cnt s - 1, used_cnt := used_cnt s + 1\<rparr>))"
proof (cases "cid_find (\<lambda>n. inner_state n = XQC_CID_UNUSED) (cid_list s)")
  case None
  then show ?thesis by (simp add: xqc_get_unused_cid_def)
next
  case (Some i)
  then have i: "i < length (cid_list s)" "inner_state (cid_list s ! i) = XQC_CID_UNUSED" using cid_find_Some by blast+
  then have "0 < cid_count XQC_CID_UNUSED s" by (auto simp: cid_count_def length_filter_conv_card card_gt_0_iff)
  moreover have "cid_count XQC_CID_UNUSED s < 2 ^ 64"
    unfolding cid_count_def using assms(2) by (rule le_less_trans [OF length_filter_le])
  ultimately have "unused_cnt s \<noteq> 0" using assms(1) by (simp add: counts_ok_def word_unat_eq_iff unat_of_nat)
  then show ?thesis using i Some
    by (simp add: xqc_get_unused_cid_def switch_cases cnt_inc_def cnt_dec_def less_xqc_cid_state_def)
qed

section \<open>Properties\<close>

text \<open>C23. The counters of a connection id set are right. From an initialised set, after any sequence of insertions,
  deletions, state changes and destructions, the three counters are the numbers of unused, used and retired nodes, and
  at most one more than \<^verbatim>\<open>limit\<close> nodes are active.\<close>

theorem cid_set_counters:
  assumes "cid_reachable limit s" "limit < 2 ^ 62"
  shows "unused_cnt s = of_nat (cid_count XQC_CID_UNUSED s) \<and> used_cnt s = of_nat (cid_count XQC_CID_USED s)
    \<and> retired_cnt s = of_nat (cid_count XQC_CID_RETIRED s) \<and> active_cids s \<le> unat limit + 1"
  using cid_reachable_inv [OF assms] by (simp add: counts_ok_def)

theorem cid_set_counters_witness:
  "used_cnt (xqc_init_cid_set \<lparr>cid_list = [], unused_cnt = 3, used_cnt = 4, retired_cnt = 5\<rparr>) = 0
   \<and> active_cids (xqc_init_cid_set \<lparr>cid_list = [], unused_cnt = 3, used_cnt = 4, retired_cnt = 5\<rparr>) \<le> 3"
  using cid_set_counters [OF cid_reachable.start, of 2 "\<lparr>cid_list = [], unused_cnt = 3, used_cnt = 4, retired_cnt = 5\<rparr>"]
  by (simp add: xqc_init_cid_set_def cid_count_def)

text \<open>C28. The limit on active connection ids is passed by one. When a set already has \<^verbatim>\<open>limit\<close> active
  connection ids, \<^verbatim>\<open>xqc_cid_set_insert_cid\<close> still accepts another one; only the next one is refused.\<close>

theorem cid_limit_exceeded:
  assumes "counts_ok s" "active_cids s = unat limit" "limit < 2 ^ 62"
  shows "\<exists>s'. xqc_cid_set_insert_cid True s cid XQC_CID_UNUSED limit = (None, s') \<and> active_cids s' = unat limit + 1
    \<and> xqc_cid_set_insert_cid True s' cid XQC_CID_UNUSED limit = (Some XQC_EACTIVE_CID_LIMIT, s')"
proof -
  let ?s' = "cnt_inc XQC_CID_UNUSED (s\<lparr>cid_list := cid_list s @
      [\<lparr>inner_cid = xqc_cid_copy zero_cid cid, inner_state = XQC_CID_UNUSED, retired_ts = - 1\<rparr>]\<rparr>)"
  have sum: "unused_cnt s + used_cnt s = limit"
  proof -
    have "of_nat (unat limit) = limit" by simp
    then show ?thesis using assms(1,2) by (simp add: counts_ok_def active_cids_def flip: of_nat_add)
  qed
  have "unat (limit + 1) = unat limit + 1" using assms(3) by (simp add: word_less_nat_alt unat_word_ariths)
  then have "limit < limit + 1" by (simp only: word_less_nat_alt)
  moreover have "unused_cnt ?s' + used_cnt ?s' = limit + 1" using sum by (simp add: cnt_inc_def add.commute add.left_commute)
  ultimately have "xqc_cid_set_insert_cid True ?s' cid XQC_CID_UNUSED limit = (Some XQC_EACTIVE_CID_LIMIT, ?s')"
    by (simp only: xqc_cid_set_insert_cid_def if_True)
  moreover have "xqc_cid_set_insert_cid True s cid XQC_CID_UNUSED limit = (None, ?s')"
    using sum by (simp add: xqc_cid_set_insert_cid_def)
  moreover have "active_cids ?s' = unat limit + 1"
    using assms(2) by (simp add: active_cids_def cid_count_def cnt_inc_def)
  ultimately show ?thesis by blast
qed

theorem cid_limit_exceeded_witness:
  "\<exists>s'. xqc_cid_set_insert_cid True \<lparr>cid_list = [\<lparr>inner_cid = zero_cid, inner_state = XQC_CID_USED, retired_ts = 0\<rparr>],
      unused_cnt = 0, used_cnt = 1, retired_cnt = 0\<rparr> zero_cid XQC_CID_UNUSED 1 = (None, s') \<and> active_cids s' = 2"
  using cid_limit_exceeded [of "\<lparr>cid_list = [\<lparr>inner_cid = zero_cid, inner_state = XQC_CID_USED, retired_ts = 0\<rparr>],
      unused_cnt = 0, used_cnt = 1, retired_cnt = 0\<rparr>" 1 zero_cid]
  by (auto simp: counts_ok_def cid_count_def active_cids_def)

text \<open>C25. \<^verbatim>\<open>xqc_get_unused_cid\<close> hands out the first unused connection id, marks exactly that node used, moves
  the counters accordingly, and fails exactly when no node is unused, without changing anything.\<close>

theorem get_unused_cid_correct:
  assumes "counts_ok s" "length (cid_list s) < 2 ^ 64"
  shows "case xqc_get_unused_cid s cid of
      (None, cid', s') \<Rightarrow> counts_ok s' \<and> (\<exists>i<length (cid_list s). inner_state (cid_list s ! i) = XQC_CID_UNUSED
        \<and> (\<forall>j<i. inner_state (cid_list s ! j) \<noteq> XQC_CID_UNUSED) \<and> cid_buf cid' = cid_buf (inner_cid (cid_list s ! i))
        \<and> cid_list s' = (cid_list s)[i := (cid_list s ! i)\<lparr>inner_state := XQC_CID_USED\<rparr>])
    | (Some e, cid', s') \<Rightarrow> e = XQC_ECONN_NO_AVAIL_CID \<and> cid' = cid \<and> s' = s
        \<and> (\<forall>n\<in>set (cid_list s). inner_state n \<noteq> XQC_CID_UNUSED)"
proof (cases "cid_find (\<lambda>n. inner_state n = XQC_CID_UNUSED) (cid_list s)")
  case None
  moreover from this have "\<forall>n\<in>set (cid_list s). inner_state n \<noteq> XQC_CID_UNUSED" unfolding cid_find_None_iff .
  ultimately show ?thesis by (simp add: get_unused_result [OF assms])
next
  case (Some i)
  have "counts_ok (snd (snd (xqc_get_unused_cid s cid)))"
    using cid_step_counts [OF cid_step.take_unused assms(1)] by (metis prod.collapse)
  then show ?thesis using Some cid_find_Some [OF Some]
    by (simp add: get_unused_result [OF assms] xqc_cid_copy_def) (rule exI [of _ i], simp)
qed

theorem get_unused_cid_correct_witness:
  "\<exists>s'. xqc_get_unused_cid \<lparr>cid_list = [\<lparr>inner_cid = zero_cid, inner_state = XQC_CID_UNUSED, retired_ts = 0\<rparr>],
      unused_cnt = 1, used_cnt = 0, retired_cnt = 0\<rparr> zero_cid = (None, zero_cid, s') \<and> counts_ok s'"
  using get_unused_cid_correct [of "\<lparr>cid_list = [\<lparr>inner_cid = zero_cid, inner_state = XQC_CID_UNUSED, retired_ts = 0\<rparr>],
      unused_cnt = 1, used_cnt = 0, retired_cnt = 0\<rparr>" zero_cid]
  by (simp add: counts_ok_def cid_count_def xqc_get_unused_cid_def switch_cases cnt_inc_def cnt_dec_def
      less_xqc_cid_state_def xqc_cid_copy_def zero_cid_def)



end
