(* ===== verification/XQC_Recv_Record.thy ===== *)
theory XQC_Recv_Record
  imports XQC_Prelude
begin

text \<open>
  The record of received packet numbers (\<^verbatim>\<open>transport/xqc_recv_record.c\<close>): a list of ranges in
  descending order, kept so that no two ranges touch. The linked list is an Isabelle list from the
  head on; the scan of \<^verbatim>\<open>xqc_recv_record_add\<close> leaves two pointers in it, which split the list.

  The interface \<open>pktno_record\<close> is what the packet processing relies on: a set of numbers in which every
  packet number is new at most once.
\<close>

section \<open>State\<close>

datatype xqc_pkt_range_status = XQC_PKTRANGE_OK | XQC_PKTRANGE_DUP | XQC_PKTRANGE_ERR

record xqc_pktno_range =
  low :: pktno
  high :: pktno

record xqc_recv_record =
  range_list :: "xqc_pktno_range list"
  largest_pkt_recv_time :: usec
  rr_del_from :: pktno

section \<open>Operations\<close>

text \<open>The new node and whether it absorbed the packet number.\<close>

definition xqc_pktno_range_can_merge :: "xqc_pktno_range \<Rightarrow> pktno \<Rightarrow> bool \<times> xqc_pktno_range" where
  "xqc_pktno_range_can_merge node packet_number =
     (if low node - 1 = packet_number then (True, node\<lparr>low := low node - 1\<rparr>)
      else if high node + 1 = packet_number then (True, node\<lparr>high := high node + 1\<rparr>)
      else (False, node))"

text \<open>
  The scan: \<open>None\<close> when the number is in a range; otherwise the ranges passed (the last one first, so
  that its head is \<^verbatim>\<open>prev\<close>) and the ranges from \<^verbatim>\<open>pos\<close> on, none when \<^verbatim>\<open>pos_find\<close> stayed 0.
\<close>

fun range_scan :: "pktno \<Rightarrow> xqc_pktno_range list \<Rightarrow> xqc_pktno_range list
    \<Rightarrow> (xqc_pktno_range list \<times> xqc_pktno_range list) option" where
  "range_scan n passed [] = Some (passed, [])"
| "range_scan n passed (node # rest) =
     (if n \<le> high node then (if n \<ge> low node then None else range_scan n (node # passed) rest)
      else Some (passed, node # rest))"

text \<open>
  The list after the scan. When \<^verbatim>\<open>pos_find\<close> is 0, \<^verbatim>\<open>pnode\<close> is the last node visited, that is \<^verbatim>\<open>prev_node\<close>
  itself, and joining it with itself would unlink the list head: that branch is a fault.
\<close>

definition insert_new :: "bool \<Rightarrow> pktno \<Rightarrow> xqc_pktno_range list \<Rightarrow> xqc_pktno_range list
    \<Rightarrow> (xqc_pkt_range_status \<times> xqc_pktno_range list) res" where
  "insert_new alloc_ok n passed rest =
     (if alloc_ok then Ok (XQC_PKTRANGE_OK, rev passed @ \<lparr>low = n, high = n\<rparr> # rest)
      else Ok (XQC_PKTRANGE_ERR, rev passed @ rest))"

definition range_insert :: "bool \<Rightarrow> pktno \<Rightarrow> xqc_pktno_range list \<Rightarrow> xqc_pktno_range list
    \<Rightarrow> (xqc_pkt_range_status \<times> xqc_pktno_range list) res" where
  "range_insert alloc_ok n passed rest = (case passed of
     [] \<Rightarrow> (case rest of
         [] \<Rightarrow> insert_new alloc_ok n passed rest
       | pnode # rest' \<Rightarrow> (case xqc_pktno_range_can_merge pnode n of
             (True, pnode) \<Rightarrow> Ok (XQC_PKTRANGE_OK, pnode # rest')
           | (False, _) \<Rightarrow> insert_new alloc_ok n passed rest))
   | prev # passed' \<Rightarrow> (case rest of
         [] \<Rightarrow> (case xqc_pktno_range_can_merge prev n of
             (True, prev) \<Rightarrow> if low prev - 1 = high prev then Fault else Ok (XQC_PKTRANGE_OK, rev passed' @ [prev])
           | (False, _) \<Rightarrow> insert_new alloc_ok n passed rest)
       | pnode # rest' \<Rightarrow>
           let joined = (\<lambda>prev pnode. if low prev - 1 = high pnode
                         then Ok (XQC_PKTRANGE_OK, rev passed' @ prev\<lparr>low := low pnode\<rparr> # rest')
                         else Ok (XQC_PKTRANGE_OK, rev passed' @ prev # pnode # rest'))
           in (case xqc_pktno_range_can_merge prev n of
             (True, prev) \<Rightarrow> joined prev pnode
           | (False, _) \<Rightarrow> (case xqc_pktno_range_can_merge pnode n of
               (True, pnode) \<Rightarrow> joined prev pnode
             | (False, _) \<Rightarrow> insert_new alloc_ok n passed rest))))"

text \<open>The arrival time is kept for the largest number only.\<close>

definition rr_note_time :: "pktno \<Rightarrow> usec \<Rightarrow> xqc_recv_record \<Rightarrow> xqc_recv_record" where
  "rr_note_time packet_number recv_time rr = (case range_list rr of
     [] \<Rightarrow> rr\<lparr>largest_pkt_recv_time := recv_time\<rparr>
   | first # _ \<Rightarrow> if packet_number > high first then rr\<lparr>largest_pkt_recv_time := recv_time\<rparr> else rr)"

definition xqc_recv_record_add ::
  "bool \<Rightarrow> pktno \<Rightarrow> usec \<Rightarrow> xqc_recv_record \<Rightarrow> (xqc_pkt_range_status \<times> xqc_recv_record) res" where
  "xqc_recv_record_add alloc_ok packet_number recv_time rr =
     (let rr = rr_note_time packet_number recv_time rr in
      case range_scan packet_number [] (range_list rr) of
        None \<Rightarrow> Ok (XQC_PKTRANGE_DUP, rr)
      | Some (passed, rest) \<Rightarrow>
          bind_res (range_insert alloc_ok packet_number passed rest) (\<lambda>(status, ranges).
            Ok (status, rr\<lparr>range_list := ranges\<rparr>)))"

fun ranges_del :: "pktno \<Rightarrow> xqc_pktno_range list \<Rightarrow> xqc_pktno_range list" where
  "ranges_del del_from [] = []"
| "ranges_del del_from (r # rest) =
     (if low r < del_from then
        (if high r < del_from then ranges_del del_from rest
         else r\<lparr>low := del_from\<rparr> # ranges_del del_from rest)
      else r # ranges_del del_from rest)"

definition xqc_recv_record_del :: "pktno \<Rightarrow> xqc_recv_record \<Rightarrow> xqc_recv_record" where
  "xqc_recv_record_del del_from rr =
     (if del_from < rr_del_from rr then rr
      else rr\<lparr>rr_del_from := del_from, range_list := ranges_del del_from (range_list rr)\<rparr>)"

definition xqc_recv_record_destroy :: "xqc_recv_record \<Rightarrow> xqc_recv_record" where
  "xqc_recv_record_destroy rr = rr\<lparr>range_list := []\<rparr>"

definition xqc_recv_record_largest :: "xqc_recv_record \<Rightarrow> pktno" where
  "xqc_recv_record_largest rr = (case range_list rr of [] \<Rightarrow> 0 | pnode # _ \<Rightarrow> high pnode)"

section \<open>Specification\<close>

text \<open>The set of recorded numbers, and the invariant: descending ranges of QUIC packet numbers with at
  least one missing number between any two of them.\<close>

definition range_set :: "xqc_pktno_range \<Rightarrow> pktno set" where
  "range_set r = {low r..high r}"

definition ranges_set :: "xqc_pktno_range list \<Rightarrow> pktno set" where
  "ranges_set rs = (\<Union>r\<in>set rs. range_set r)"

definition rr_set :: "xqc_recv_record \<Rightarrow> pktno set" where
  "rr_set rr = ranges_set (range_list rr)"

definition ranges_wf :: "xqc_pktno_range list \<Rightarrow> bool" where
  "ranges_wf rs \<longleftrightarrow> (\<forall>r\<in>set rs. low r \<le> high r \<and> high r < 2 ^ 62)
     \<and> sorted_wrt (\<lambda>r q. high q + 1 < low r) rs"

definition rr_wf :: "xqc_recv_record \<Rightarrow> bool" where
  "rr_wf rr \<longleftrightarrow> ranges_wf (range_list rr)"

text \<open>One packet arriving at time \<open>recv_time\<close> with memory available, and a sequence of them: which were new,
  and the record left.\<close>

definition rr_step :: "usec \<Rightarrow> pktno \<Rightarrow> xqc_recv_record \<Rightarrow> bool \<times> xqc_recv_record" where
  "rr_step recv_time n rr = (case xqc_recv_record_add True n recv_time rr of
     Ok (status, rr') \<Rightarrow> (status = XQC_PKTRANGE_OK, rr') | _ \<Rightarrow> (False, rr))"

fun add_all :: "(pktno \<Rightarrow> 'r \<Rightarrow> bool \<times> 'r) \<Rightarrow> pktno list \<Rightarrow> 'r \<Rightarrow> bool list \<times> 'r" where
  "add_all add [] r = ([], r)"
| "add_all add (n # ns) r =
     (let (fresh, r') = add n r; (rest, r'') = add_all add ns r' in (fresh # rest, r''))"

section \<open>The interface of the record\<close>

locale pktno_record =
  fixes inv :: "'r \<Rightarrow> bool"
    and nums :: "'r \<Rightarrow> pktno set"
    and add :: "pktno \<Rightarrow> 'r \<Rightarrow> bool \<times> 'r"
  assumes add_inv: "inv r \<Longrightarrow> n < 2 ^ 62 \<Longrightarrow> inv (snd (add n r))"
    and add_nums: "inv r \<Longrightarrow> n < 2 ^ 62 \<Longrightarrow> nums (snd (add n r)) = insert n (nums r)"
    and add_fresh: "inv r \<Longrightarrow> n < 2 ^ 62 \<Longrightarrow> fst (add n r) \<longleftrightarrow> n \<notin> nums r"
begin

lemma add_all_inv:
  "inv r \<Longrightarrow> \<forall>n\<in>set ns. n < 2 ^ 62 \<Longrightarrow> inv (snd (add_all add ns r))"
proof (induction ns arbitrary: r)
  case (Cons n ns)
  then show ?case using add_inv [of r n] Cons.IH [of "snd (add n r)"] by (auto simp: split_beta)
qed simp

lemma add_all_nums:
  "inv r \<Longrightarrow> \<forall>n\<in>set ns. n < 2 ^ 62 \<Longrightarrow> nums (snd (add_all add ns r)) = nums r \<union> set ns"
proof (induction ns arbitrary: r)
  case (Cons n ns)
  have "nums (snd (add_all add ns (snd (add n r)))) = insert n (nums r) \<union> set ns"
    using Cons add_inv [of r n] add_nums [of r n] by simp
  then show ?case by (auto simp: split_beta)
qed simp

lemma add_all_fresh:
  "inv r \<Longrightarrow> \<forall>n\<in>set ns. n < 2 ^ 62 \<Longrightarrow> i < length ns \<Longrightarrow>
     fst (add_all add ns r) ! i \<longleftrightarrow> ns ! i \<notin> nums r \<union> set (take i ns)"
proof (induction ns arbitrary: r i)
  case (Cons n ns)
  have "i' < length ns \<Longrightarrow> fst (add_all add ns (snd (add n r))) ! i' \<longleftrightarrow> ns ! i' \<notin> insert n (nums r) \<union> set (take i' ns)" for i'
    using Cons add_inv [of r n] add_nums [of r n] by simp
  then show ?case using Cons.prems add_fresh [of r n] by (cases i) (auto simp: split_beta)
qed simp

end

section \<open>Lemmas\<close>

text \<open>Neighbouring packet numbers at 64 bits.\<close>

lemma pn_gap: "(n::u64) < l \<Longrightarrow> l - 1 \<noteq> n \<Longrightarrow> n + 1 < l"
  by unat_arith

lemma pn_pred: "(n::u64) < l \<Longrightarrow> l - 1 = n \<longleftrightarrow> l = n + 1"
  by unat_arith

lemma pn_gap_up: "(h::u64) < n \<Longrightarrow> h + 1 \<noteq> n \<Longrightarrow> h + 1 < n"
  by unat_arith

lemma pn_suc: "(h::u64) < 2 ^ 62 \<Longrightarrow> h < h + 1" by unat_arith simp

lemma pn_no_wrap: "(n::u64) < l \<Longrightarrow> l \<le> h \<Longrightarrow> h < 2 ^ 62 \<Longrightarrow> h + 1 \<noteq> n" by unat_arith simp

lemma pn_no_wrap_low: "(h::u64) < n \<Longrightarrow> l \<le> h \<Longrightarrow> n < 2 ^ 62 \<Longrightarrow> l - 1 \<noteq> n" by unat_arith simp

lemma pn_le_suc: "(x::u64) \<le> h + 1 \<Longrightarrow> h < 2 ^ 62 \<Longrightarrow> x \<le> h \<or> x = h + 1"
  by unat_arith

lemma pn_suc_le_iff: "(n::u64) \<le> x \<Longrightarrow> x \<noteq> n \<Longrightarrow> n + 1 \<le> x"
  by unat_arith

lemma pn_range_suc: "(l::u64) \<le> h \<Longrightarrow> h < 2 ^ 62 \<Longrightarrow> {l..h + 1} = insert (h + 1) {l..h}"
  using pn_suc[of h] pn_le_suc[of _ h] by fastforce

lemma pn_range_pred: "(n::u64) < 2 ^ 62 \<Longrightarrow> n + 1 \<le> h \<Longrightarrow> {n..h} = insert n {n + 1..h}"
  using pn_suc[of n] pn_suc_le_iff[of n] by fastforce

lemma pn_suc_le: "(a::u64) + 1 < b \<Longrightarrow> a < 2 ^ 62 \<Longrightarrow> a < b" by unat_arith simp

lemma ranges_set_simps [simp]: "ranges_set [] = {}" "ranges_set (xs @ ys) = ranges_set xs \<union> ranges_set ys" "ranges_set (rev xs) = ranges_set xs"
  by (auto simp: ranges_set_def)

lemma ranges_set_Cons: "ranges_set (x # xs) = range_set x \<union> ranges_set xs" by (simp add: ranges_set_def)

lemma range_scan_Some:
  "range_scan n passed rs = Some (p, r) \<Longrightarrow>
     rev passed @ rs = rev p @ r \<and> (\<forall>x\<in>set p - set passed. n < low x) \<and> (r \<noteq> [] \<longrightarrow> high (hd r) < n)"
  by (induction n passed rs rule: range_scan.induct) (auto split: if_splits simp: not_le)

lemma range_scan_split:
  assumes "ranges_wf rs" "range_scan n [] rs = Some (p, r)"
  shows "rs = rev p @ r" "\<forall>x\<in>set p. n < low x" "\<forall>x\<in>set r. high x < n"
proof -
  show rs: "rs = rev p @ r" and "\<forall>x\<in>set p. n < low x" using range_scan_Some[OF assms(2)] by auto
  show "\<forall>x\<in>set r. high x < n"
  proof (cases r)
    case (Cons h t)
    have "high h < n" using range_scan_Some[OF assms(2)] Cons by simp
    moreover have "high x < high h" if "x \<in> set t" for x
    proof -
      have "high x + 1 < low h" "high x < 2 ^ 62" "low h \<le> high h" using assms(1) that rs Cons by (auto simp: ranges_wf_def sorted_wrt_append)
      then show ?thesis by unat_arith simp
    qed
    ultimately show ?thesis using Cons by fastforce
  qed simp
qed

lemma range_scan_None:
  "ranges_wf rs \<Longrightarrow> range_scan n passed rs = None \<longleftrightarrow> n \<in> ranges_set rs"
proof (induction n passed rs rule: range_scan.induct)
  case (2 n passed node rest)
  have wf: "ranges_wf rest" "low node \<le> high node" using 2(2) by (auto simp: ranges_wf_def)
  have "x \<in> set rest \<Longrightarrow> n \<le> high x \<Longrightarrow> n < low node" for x
    using 2(2) pn_suc_le[of "high x" "low node"] by (fastforce simp: ranges_wf_def)
  then have "n \<in> ranges_set rest \<Longrightarrow> n < low node \<and> n \<le> high node" using wf(2) by (fastforce simp: ranges_set_def range_set_def)
  then show ?case using 2(1) wf by (auto simp: ranges_set_Cons range_set_def)
qed (simp add: ranges_set_def)

lemma ranges_wf_append: "ranges_wf (xs @ ys) \<longleftrightarrow> ranges_wf xs \<and> ranges_wf ys \<and> (\<forall>x\<in>set xs. \<forall>y\<in>set ys. high y + 1 < low x)"
  by (auto simp: ranges_wf_def sorted_wrt_append)

lemma ranges_wf_Cons: "ranges_wf (x # xs) \<longleftrightarrow> low x \<le> high x \<and> high x < 2 ^ 62 \<and> ranges_wf xs \<and> (\<forall>y\<in>set xs. high y + 1 < low x)"
  by (auto simp: ranges_wf_def)

lemma ranges_wf_Nil: "ranges_wf []" by (simp add: ranges_wf_def)

lemmas ranges_wf_simps = ranges_wf_append ranges_wf_Cons ranges_wf_Nil

lemma insert_new_correct:
  assumes wf: "ranges_wf (rev p @ r)" and n: "n < 2 ^ 62" "\<forall>x\<in>set p. n + 1 < low x" "\<forall>x\<in>set r. high x + 1 < n"
  shows "\<exists>rs. insert_new True n p r = Ok (XQC_PKTRANGE_OK, rs) \<and> ranges_wf rs \<and> ranges_set rs = insert n (ranges_set (rev p @ r))"
  using assms by (auto simp: insert_new_def ranges_wf_simps ranges_set_Cons range_set_def)

lemma gap_all:
  assumes "ranges_wf (rev (a # p))" "n < low a" "low a - 1 \<noteq> n" "n < 2 ^ 62"
  shows "\<forall>x\<in>set (a # p). n + 1 < low x"
proof -
  have a: "n + 1 < low a" using assms pn_gap by blast
  have "low a < low x" if "x \<in> set p" for x
    using assms(1) that pn_suc_le [of "high a" "low x"] by (fastforce simp: ranges_wf_simps)
  then show ?thesis using a by fastforce
qed

lemma gap_all_down:
  assumes "ranges_wf (b # r)" "high b < n" "high b + 1 \<noteq> n"
  shows "\<forall>x\<in>set (b # r). high x + 1 < n"
proof -
  have "low b \<le> high b" "high b + 1 < n" "high b < 2 ^ 62" using assms pn_gap_up by (auto simp: ranges_wf_simps)
  moreover have "high b < n" using assms by simp
  ultimately show ?thesis using assms(1) by (fastforce simp: ranges_wf_simps)
qed

lemma pn_join:
  assumes "h + 1 = (n::u64)" "l \<le> h" "n + 1 \<le> k" "h < 2 ^ 62" "n < 2 ^ 62"
  shows "{l..k} = insert n ({n + 1..k} \<union> {l..h})"
proof -
  have "x \<le> h \<or> x = n \<or> n + 1 \<le> x" for x
    using assms(1) pn_suc_le_iff[of h x] pn_suc_le_iff[of n x] by fastforce
  moreover have "h < n" "n < n + 1" using assms pn_suc by auto
  ultimately show ?thesis using assms by fastforce
qed

lemma range_insert_correct:
  assumes wf: "ranges_wf (rev p @ r)" and n: "n < 2 ^ 62" "\<forall>x\<in>set p. n < low x" "\<forall>x\<in>set r. high x < n"
  shows "\<exists>rs. range_insert True n p r = Ok (XQC_PKTRANGE_OK, rs) \<and> ranges_wf rs \<and> ranges_set rs = insert n (ranges_set (rev p @ r))"
proof -
  have up: "xqc_pktno_range_can_merge a n = (if low a = n + 1 then (True, a\<lparr>low := n\<rparr>) else (False, a)) \<and> (low a = n + 1 \<longleftrightarrow> low a - 1 = n)
    \<and> (low a = n + 1 \<longrightarrow> range_set (a\<lparr>low := n\<rparr>) = insert n (range_set a) \<and> n \<le> high a) \<and> n < high a \<and> high a < 2 ^ 62" if "a \<in> set p" for a
  proof -
    have a: "n < low a" "low a \<le> high a" "high a < 2 ^ 62" using that n wf by (auto simp: ranges_wf_def)
    then show ?thesis using n(1) pn_no_wrap[of n "low a" "high a"] pn_pred[of n "low a"] pn_range_pred[of n "high a"]
      by (auto simp: xqc_pktno_range_can_merge_def range_set_def)
  qed
  have dn: "xqc_pktno_range_can_merge b n = (if high b + 1 = n then (True, b\<lparr>high := n\<rparr>) else (False, b))
    \<and> (high b + 1 = n \<longrightarrow> range_set (b\<lparr>high := n\<rparr>) = insert n (range_set b) \<and> low b \<le> n) \<and> (high b + 1 = n \<or> high b + 1 < n)" if "b \<in> set r" for b
  proof -
    have b: "high b < n" "low b \<le> high b" "high b < 2 ^ 62" using that n wf by (auto simp: ranges_wf_def)
    then show ?thesis using n(1) pn_no_wrap_low[of "high b" n "low b"] pn_range_suc[of "low b" "high b"] pn_gap_up[of "high b" n]
      by (auto simp: xqc_pktno_range_can_merge_def range_set_def)
  qed
  have pred: "n - 1 = h \<longleftrightarrow> h + 1 = n" for h by (metis add_diff_cancel diff_add_cancel)
  show ?thesis
  proof (cases p)
    case Nil
    show ?thesis
    proof (cases r)
      case Nil with \<open>p = []\<close> insert_new_correct[of p r n] wf n show ?thesis by (simp add: range_insert_def)
    next
      case (Cons b r')
      have b: "b \<in> set r" using Cons by simp
      show ?thesis
      proof (cases "high b + 1 = n")
        case True
        then have "range_insert True n p r = Ok (XQC_PKTRANGE_OK, b\<lparr>high := n\<rparr> # r')"
          using dn [OF b] Cons \<open>p = []\<close> by (simp add: range_insert_def)
        then show ?thesis using True dn [OF b] Cons \<open>p = []\<close> wf n(1) by (simp add: ranges_wf_simps ranges_set_Cons)
      next
        case False
        then have "\<forall>x\<in>set r. high x + 1 < n" using gap_all_down[of b r' n] wf n Cons \<open>p = []\<close> by simp
        then show ?thesis using False Cons \<open>p = []\<close> dn[of b] insert_new_correct[of p r n] wf n by (simp add: range_insert_def)
      qed
    qed
  next
    case (Cons a p')
    have a: "a \<in> set p" using Cons by simp
    show ?thesis
    proof (cases r)
      case Nil
      show ?thesis
      proof (cases "low a = n + 1")
        case True
        have "n - 1 \<noteq> high a" using up [OF a] pn_suc[of "high a"] pred[of "high a"] by auto
        then have "range_insert True n p r = Ok (XQC_PKTRANGE_OK, rev p' @ [a\<lparr>low := n\<rparr>])"
          using up [OF a] True Cons Nil by (simp add: range_insert_def)
        then show ?thesis using True up [OF a] Cons Nil wf by (simp add: ranges_wf_simps ranges_set_Cons Un_commute)
      next
        case False
        then have "\<forall>x\<in>set p. n + 1 < low x" using gap_all[of a p' n] wf n Cons Nil up[of a] by simp
        then show ?thesis using False Cons Nil up[of a] insert_new_correct[of p r n] wf n by (simp add: range_insert_def)
      qed
    next
      case c2: (Cons b r')
      have b: "b \<in> set r" using c2 by simp
      have wfs: "ranges_wf (rev p' @ a # b # r')" using wf Cons c2 by simp
      show ?thesis
      proof (cases "low a = n + 1")
        case True
        show ?thesis
        proof (cases "high b + 1 = n")
          case j: True
          have "range_set (a\<lparr>low := low b\<rparr>) = insert n (range_set a \<union> range_set b)" 
            using pn_join[OF j, of "low b" "high a"] True wfs n(1) by (simp add: range_set_def ranges_wf_simps)
          moreover have "low b \<le> high a" using up [OF a] dn [OF b] True j by auto
          moreover have "range_insert True n p r = Ok (XQC_PKTRANGE_OK, rev p' @ a\<lparr>low := low b\<rparr> # r')"
            using up [OF a] True Cons c2 j pred by (simp add: range_insert_def)
          ultimately show ?thesis using wfs Cons c2 by (simp add: ranges_wf_simps ranges_set_Cons Un_ac)
        next
          case j: False
          then have "range_insert True n p r = Ok (XQC_PKTRANGE_OK, rev p' @ a\<lparr>low := n\<rparr> # b # r')"
            using up [OF a] True Cons c2 j pred by (simp add: range_insert_def)
          moreover have "\<forall>x\<in>set (b # r'). high x + 1 < n" using j gap_all_down[of b r' n] wfs n c2 by (simp add: ranges_wf_simps)
          ultimately show ?thesis using True up [OF a] wfs Cons c2 by (simp add: ranges_wf_simps ranges_set_Cons Un_ac)
        qed
      next
        case False
        then have g: "\<forall>x\<in>set p. n + 1 < low x" using gap_all[of a p' n] wf n Cons up[of a] by (simp add: ranges_wf_simps)
        show ?thesis
        proof (cases "high b + 1 = n")
          case j: True
          then have "range_insert True n p r = Ok (XQC_PKTRANGE_OK, rev p' @ a # b\<lparr>high := n\<rparr> # r')"
            using up [OF a] dn [OF b] False Cons c2 by (simp add: range_insert_def)
          then show ?thesis using g dn [OF b] j wfs n Cons c2 by (simp add: ranges_wf_simps ranges_set_Cons Un_ac)
        next
          case j: False
          then have "\<forall>x\<in>set r. high x + 1 < n" using gap_all_down[of b r' n] wfs n c2 by (simp add: ranges_wf_simps)
          then show ?thesis using False j g up[of a] dn[of b] Cons c2 insert_new_correct[of p r n] wf n
            by (simp add: range_insert_def Let_def)
        qed
      qed
    qed
  qed
qed

lemma rr_note_time_simps:
  "range_list (rr_note_time n t rr) = range_list rr" "rr_del_from (rr_note_time n t rr) = rr_del_from rr"
  by (auto simp: rr_note_time_def split: list.splits)

lemma rr_add_unfold: "xqc_recv_record_add a n t rr = (case range_scan n [] (range_list rr) of
           None \<Rightarrow> Ok (XQC_PKTRANGE_DUP, rr_note_time n t rr)
         | Some (passed, rest) \<Rightarrow>
             bind_res (range_insert a n passed rest) (\<lambda>(status, ranges).
               Ok (status, (rr_note_time n t rr)\<lparr>range_list := ranges\<rparr>)))"
  by (simp add: xqc_recv_record_add_def Let_def rr_note_time_simps)

lemma recv_record_add_correct:
  assumes "rr_wf rr" "n < 2 ^ 62"
  shows "\<exists>rr'. xqc_recv_record_add True n t rr = Ok (if n \<in> rr_set rr then XQC_PKTRANGE_DUP else XQC_PKTRANGE_OK, rr')
    \<and> rr_wf rr' \<and> rr_set rr' = insert n (rr_set rr) \<and> rr_del_from rr' = rr_del_from rr"
proof -
  show ?thesis
  proof (cases "range_scan n [] (range_list rr)")
    case None
    then have "n \<in> rr_set rr" using range_scan_None assms(1) by (auto simp: rr_set_def rr_wf_def)
    then show ?thesis using None assms(1) by (auto simp: rr_add_unfold rr_note_time_simps rr_wf_def rr_set_def)
  next
    case (Some pr)
    obtain p r where pr: "pr = (p, r)" by fastforce
    note sp = range_scan_split[OF assms(1)[unfolded rr_wf_def] Some[unfolded pr]]
    have "n \<notin> rr_set rr" using range_scan_None[of "range_list rr" n "[]"] assms(1) Some by (auto simp: rr_set_def rr_wf_def)
    moreover obtain rs where "range_insert True n p r = Ok (XQC_PKTRANGE_OK, rs)" "ranges_wf rs" "ranges_set rs = insert n (rr_set rr)"
      using range_insert_correct[of p r n] sp assms by (auto simp: rr_wf_def rr_set_def)
    ultimately show ?thesis using Some pr by (auto simp: rr_add_unfold rr_note_time_simps rr_wf_def rr_set_def)
  qed
qed

lemma rr_step_correct:
  assumes "rr_wf rr" "n < 2 ^ 62"
  shows "rr_wf (snd (rr_step t n rr)) \<and> rr_set (snd (rr_step t n rr)) = insert n (rr_set rr)
    \<and> (fst (rr_step t n rr) \<longleftrightarrow> n \<notin> rr_set rr)"
proof -
  obtain rr' where "xqc_recv_record_add True n t rr = Ok (if n \<in> rr_set rr then XQC_PKTRANGE_DUP else XQC_PKTRANGE_OK, rr')"
    "rr_wf rr'" "rr_set rr' = insert n (rr_set rr)" using recv_record_add_correct[OF assms] by blast
  then show ?thesis by (simp add: rr_step_def)
qed

interpretation rr: pktno_record rr_wf rr_set "rr_step t" for t
  by unfold_locales (simp_all add: rr_step_correct)

lemma range_first_bound: "ranges_wf (f # rs) \<Longrightarrow> m \<in> ranges_set (f # rs) \<Longrightarrow> m \<le> high f"
proof -
  assume wf: "ranges_wf (f # rs)" and m: "m \<in> ranges_set (f # rs)"
  have "high x \<le> high f" if "x \<in> set rs" for x
  proof -
    have "high x < low f" "low f \<le> high f" using wf that pn_suc_le[of "high x" "low f"] by (auto simp: ranges_wf_def)
    then show ?thesis by simp
  qed
  then show ?thesis using m by (fastforce simp: ranges_set_def range_set_def)
qed

lemma range_first_in: "ranges_wf (f # rs) \<Longrightarrow> high f \<in> ranges_set (f # rs)"
  by (auto simp: ranges_wf_def ranges_set_def range_set_def)

lemma largest_recv_time:
  assumes "rr_wf rr" "xqc_recv_record_add True n t rr = Ok (st, rr')" 
  shows "largest_pkt_recv_time rr' = (if \<forall>m\<in>rr_set rr. m < n then t else largest_pkt_recv_time rr)"
proof -
  have "largest_pkt_recv_time rr' = (case range_list rr of [] \<Rightarrow> t | f # _ \<Rightarrow> if n > high f then t else largest_pkt_recv_time rr)"
    using assms(2) by (auto simp: rr_add_unfold bind_res_Ok_iff rr_note_time_def split: option.splits list.splits)
  moreover have "(\<forall>m\<in>rr_set rr. m < n) \<longleftrightarrow> (case range_list rr of [] \<Rightarrow> True | f # _ \<Rightarrow> n > high f)"
  proof (cases "range_list rr")
    case (Cons f rs)
    then show ?thesis using assms(1) range_first_bound[of f rs] range_first_in[of f rs]
      by (auto simp: rr_wf_def rr_set_def intro: order_le_less_trans)
  qed (simp add: rr_set_def)
  ultimately show ?thesis by (auto split: list.splits)
qed

lemma ranges_del_correct:
  "ranges_wf rs \<Longrightarrow> ranges_wf (ranges_del d rs) \<and> ranges_set (ranges_del d rs) = {n \<in> ranges_set rs. d \<le> n}
     \<and> (\<forall>r\<in>set (ranges_del d rs). \<exists>q\<in>set rs. high r = high q)"
proof (induction rs)
  case (Cons r rest)
  then have IH: "ranges_wf (ranges_del d rest)" "ranges_set (ranges_del d rest) = {n \<in> ranges_set rest. d \<le> n}"
    "\<forall>x\<in>set (ranges_del d rest). \<exists>q\<in>set rest. high x = high q" by (auto simp: ranges_wf_simps)
  have wf: "low r \<le> high r" "high r < 2 ^ 62" "\<forall>y\<in>set rest. high y + 1 < low r" using Cons.prems by (auto simp: ranges_wf_simps)
  have below: "\<forall>x\<in>set (ranges_del d rest). high x + 1 < low r" using IH(3) wf(3) by force
  consider "high r < d" "low r < d" | "low r < d" "d \<le> high r" | "d \<le> low r" using wf(1) order_le_less_trans not_less by blast
  then show ?case
  proof cases
    case 1
    then show ?thesis using IH by (auto simp: ranges_set_Cons range_set_def)
  next
    case 2
    then have "\<forall>x\<in>set (ranges_del d rest). high x + 1 < d" using below by force
    then show ?thesis using 2 IH wf by (auto simp: ranges_wf_simps ranges_set_Cons range_set_def)
  next
    case 3
    then show ?thesis using below IH wf by (auto simp: ranges_wf_simps ranges_set_Cons range_set_def)
  qed
qed (simp add: ranges_wf_simps)

lemma largest_correct:
  assumes "rr_wf rr"
  shows "if rr_set rr = {} then xqc_recv_record_largest rr = 0
    else xqc_recv_record_largest rr \<in> rr_set rr \<and> (\<forall>m\<in>rr_set rr. m \<le> xqc_recv_record_largest rr)"
proof (cases "range_list rr")
  case (Cons f rs)
  then show ?thesis using assms range_first_bound[of f rs] range_first_in[of f rs]
    by (auto simp: rr_wf_def rr_set_def xqc_recv_record_largest_def)
qed (simp add: rr_set_def xqc_recv_record_largest_def)

section \<open>Properties\<close>

text \<open>C1. \<^verbatim>\<open>xqc_recv_record_add\<close> implements insertion into a set. On a well-formed record it does not
  fault, reports a duplicate exactly when the number was recorded, leaves the set with the number added, keeps
  the ranges descending and separated, and takes the arrival time exactly when the number is larger than all
  recorded ones.\<close>

theorem recv_record_add_set:
  assumes "rr_wf rr" "n < 2 ^ 62"
  shows "\<exists>rr'. xqc_recv_record_add True n t rr =
      Ok (if n \<in> rr_set rr then XQC_PKTRANGE_DUP else XQC_PKTRANGE_OK, rr')
    \<and> rr_wf rr' \<and> rr_set rr' = insert n (rr_set rr)
    \<and> largest_pkt_recv_time rr' = (if \<forall>m\<in>rr_set rr. m < n then t else largest_pkt_recv_time rr)"
  using recv_record_add_correct [OF assms, of t] largest_recv_time [OF assms(1), of n t] by blast

theorem recv_record_add_set_witness:
  "\<exists>rr'. xqc_recv_record_add True 4 9 \<lparr>range_list = [\<lparr>low = 5, high = 7\<rparr>, \<lparr>low = 1, high = 3\<rparr>],
        largest_pkt_recv_time = 2, rr_del_from = 0\<rparr> = Ok (XQC_PKTRANGE_OK, rr') \<and> rr_wf rr'"
  using recv_record_add_set [of "\<lparr>range_list = [\<lparr>low = 5, high = 7\<rparr>, \<lparr>low = 1, high = 3\<rparr>],
        largest_pkt_recv_time = 2, rr_del_from = 0\<rparr>" 4 9]
  by (auto simp: rr_wf_def ranges_wf_def rr_set_def ranges_set_def range_set_def)

text \<open>C6. Every packet number is accepted once. From an empty record, of a sequence of arriving packets exactly
  those are reported new whose number did not arrive before, and the record ends up holding exactly the
  numbers that arrived.\<close>

theorem recv_record_no_replay:
  assumes "range_list rr = []" "\<forall>n\<in>set ns. n < 2 ^ 62"
  shows "rr_set (snd (add_all (rr_step t) ns rr)) = set ns
    \<and> (\<forall>i<length ns. fst (add_all (rr_step t) ns rr) ! i \<longleftrightarrow> ns ! i \<notin> set (take i ns))"
proof -
  have "rr_wf rr" "rr_set rr = {}" using assms(1) by (simp_all add: rr_wf_def rr_set_def ranges_wf_def)
  then show ?thesis using rr.add_all_nums [of rr ns t] rr.add_all_fresh [of rr ns _ t] assms(2) by simp
qed

theorem recv_record_no_replay_witness:
  "rr_set (snd (add_all (rr_step 0) [3, 1, 2, 3] \<lparr>range_list = [], largest_pkt_recv_time = 0, rr_del_from = 0\<rparr>)) = {1, 2, 3}"
  using recv_record_no_replay [of "\<lparr>range_list = [], largest_pkt_recv_time = 0, rr_del_from = 0\<rparr>" "[3, 1, 2, 3]" 0]
  by auto

text \<open>C7. \<^verbatim>\<open>xqc_recv_record_del\<close> forgets exactly the numbers below its bound, unless the bound moves back, in
  which case it does nothing; \<^verbatim>\<open>xqc_recv_record_largest\<close> is the largest recorded number, or 0.\<close>

theorem recv_record_del_largest:
  assumes "rr_wf rr"
  shows "rr_wf (xqc_recv_record_del d rr)
    \<and> rr_set (xqc_recv_record_del d rr) = (if d < rr_del_from rr then rr_set rr else {n \<in> rr_set rr. d \<le> n})
    \<and> (if rr_set rr = {} then xqc_recv_record_largest rr = 0
       else xqc_recv_record_largest rr \<in> rr_set rr \<and> (\<forall>m\<in>rr_set rr. m \<le> xqc_recv_record_largest rr))"
  using ranges_del_correct [of "range_list rr" d] largest_correct [OF assms] assms
  by (simp add: xqc_recv_record_del_def rr_wf_def rr_set_def split: if_splits)

theorem recv_record_del_largest_witness:
  "rr_set (xqc_recv_record_del 6 \<lparr>range_list = [\<lparr>low = 5, high = 7\<rparr>, \<lparr>low = 1, high = 3\<rparr>],
     largest_pkt_recv_time = 2, rr_del_from = 0\<rparr>) = {n. (5 \<le> n \<and> n \<le> 7 \<or> 1 \<le> n \<and> n \<le> 3) \<and> 6 \<le> n}"
  using recv_record_del_largest [of "\<lparr>range_list = [\<lparr>low = 5, high = 7\<rparr>, \<lparr>low = 1, high = 3\<rparr>],
     largest_pkt_recv_time = 2, rr_del_from = 0\<rparr>" 6]
  by (auto simp: rr_wf_def ranges_wf_def rr_set_def ranges_set_def range_set_def)

end
