(* ===== verification/XQC_Conn.thy ===== *)
theory XQC_Conn
  imports XQC_Cid XQC_Recv_Record
begin

text \<open>
  The part of a connection that the receive path reads and writes (\<^verbatim>\<open>transport/xqc_conn.h\<close>,
  \<^verbatim>\<open>xqc_conn.c\<close>, \<^verbatim>\<open>xqc_recv_record.c\<close>): its role, state and flags, its version, its connection id
  sets, the token, the packets waiting for keys, the received packet records and the ACK timers.
  Each field carries the name of the member it models; \<open>support_version_list\<close> is the list of the
  engine's configuration, \<open>ctl_largest_recvd\<close> and \<open>ctl_timer\<close> are those of the send controller.
  The TLS layer is an argument: \<open>tls_env\<close> collects what the receive path asks of it.
\<close>

section \<open>Roles, states, flags and versions\<close>

datatype xqc_conn_type = XQC_CONN_TYPE_CLIENT | XQC_CONN_TYPE_SERVER

datatype xqc_conn_state =
    XQC_CONN_STATE_SERVER_INIT | XQC_CONN_STATE_SERVER_INITIAL_RECVD
  | XQC_CONN_STATE_SERVER_INITIAL_SENT | XQC_CONN_STATE_SERVER_HANDSHAKE_SENT
  | XQC_CONN_STATE_SERVER_HANDSHAKE_RECVD | XQC_CONN_STATE_CLIENT_INIT
  | XQC_CONN_STATE_CLIENT_INITIAL_SENT | XQC_CONN_STATE_CLIENT_INITIAL_RECVD
  | XQC_CONN_STATE_CLIENT_HANDSHAKE_RECVD | XQC_CONN_STATE_CLIENT_HANDSHAKE_SENT
  | XQC_CONN_STATE_ESTABED | XQC_CONN_STATE_CLOSING
  | XQC_CONN_STATE_DRAINING | XQC_CONN_STATE_CLOSED
  | XQC_CONN_STATE_N

primrec conn_state_code :: "xqc_conn_state \<Rightarrow> nat" where
  "conn_state_code XQC_CONN_STATE_SERVER_INIT = 0"
| "conn_state_code XQC_CONN_STATE_SERVER_INITIAL_RECVD = 1"
| "conn_state_code XQC_CONN_STATE_SERVER_INITIAL_SENT = 2"
| "conn_state_code XQC_CONN_STATE_SERVER_HANDSHAKE_SENT = 3"
| "conn_state_code XQC_CONN_STATE_SERVER_HANDSHAKE_RECVD = 4"
| "conn_state_code XQC_CONN_STATE_CLIENT_INIT = 5"
| "conn_state_code XQC_CONN_STATE_CLIENT_INITIAL_SENT = 6"
| "conn_state_code XQC_CONN_STATE_CLIENT_INITIAL_RECVD = 7"
| "conn_state_code XQC_CONN_STATE_CLIENT_HANDSHAKE_RECVD = 8"
| "conn_state_code XQC_CONN_STATE_CLIENT_HANDSHAKE_SENT = 9"
| "conn_state_code XQC_CONN_STATE_ESTABED = 10"
| "conn_state_code XQC_CONN_STATE_CLOSING = 11"
| "conn_state_code XQC_CONN_STATE_DRAINING = 12"
| "conn_state_code XQC_CONN_STATE_CLOSED = 13"
| "conn_state_code XQC_CONN_STATE_N = 14"

instantiation xqc_conn_state :: linorder
begin

definition less_eq_xqc_conn_state :: "xqc_conn_state \<Rightarrow> xqc_conn_state \<Rightarrow> bool" where
  "less_eq_xqc_conn_state a b \<longleftrightarrow> conn_state_code a \<le> conn_state_code b"

definition less_xqc_conn_state :: "xqc_conn_state \<Rightarrow> xqc_conn_state \<Rightarrow> bool" where
  "less_xqc_conn_state a b \<longleftrightarrow> conn_state_code a < conn_state_code b"

instance
proof
  fix a b :: xqc_conn_state
  have "inj conn_state_code" by (rule injI) (case_tac x; case_tac y; simp)
  then show "a \<le> b \<Longrightarrow> b \<le> a \<Longrightarrow> a = b" by (simp add: less_eq_xqc_conn_state_def inj_eq)
qed (auto simp: less_eq_xqc_conn_state_def less_xqc_conn_state_def)

end

datatype xqc_conn_flag =
    XQC_CONN_FLAG_WAIT_WAKEUP | XQC_CONN_FLAG_HANDSHAKE_COMPLETED | XQC_CONN_FLAG_CAN_SEND_1RTT
  | XQC_CONN_FLAG_TICKING | XQC_CONN_FLAG_SHOULD_ACK_INIT | XQC_CONN_FLAG_SHOULD_ACK_HSK
  | XQC_CONN_FLAG_SHOULD_ACK_01RTT | XQC_CONN_FLAG_ACK_HAS_GAP | XQC_CONN_FLAG_TIME_OUT
  | XQC_CONN_FLAG_ERROR | XQC_CONN_FLAG_DATA_BLOCKED | XQC_CONN_FLAG_DCID_OK
  | XQC_CONN_FLAG_TOKEN_OK | XQC_CONN_FLAG_HAS_0RTT | XQC_CONN_FLAG_0RTT_OK
  | XQC_CONN_FLAG_0RTT_REJ | XQC_CONN_FLAG_UPPER_CONN_EXIST | XQC_CONN_FLAG_INIT_RECVD
  | XQC_CONN_FLAG_NEED_RUN | XQC_CONN_FLAG_PING | XQC_CONN_FLAG_HSK_ACKED
  | XQC_CONN_FLAG_CANNOT_DESTROY | XQC_CONN_FLAG_HANDSHAKE_DONE_RECVD | XQC_CONN_FLAG_UPDATE_NEW_TOKEN
  | XQC_CONN_FLAG_VERSION_NEGOTIATION | XQC_CONN_FLAG_HANDSHAKE_CONFIRMED | XQC_CONN_FLAG_HANDSHAKE_DONE_ACKED
  | XQC_CONN_FLAG_ADDR_VALIDATED | XQC_CONN_FLAG_NEW_CID_RECEIVED | XQC_CONN_FLAG_LINGER_CLOSING
  | XQC_CONN_FLAG_RETRY_RECVD | XQC_CONN_FLAG_TLS_HSK_COMPLETED | XQC_CONN_FLAG_VALIDATE_REBINDING
  | XQC_CONN_FLAG_CLOSING_NOTIFY | XQC_CONN_FLAG_CLOSING_NOTIFIED

primrec flag_shift :: "xqc_conn_flag \<Rightarrow> nat" where
  "flag_shift XQC_CONN_FLAG_WAIT_WAKEUP = 0"
| "flag_shift XQC_CONN_FLAG_HANDSHAKE_COMPLETED = 1"
| "flag_shift XQC_CONN_FLAG_CAN_SEND_1RTT = 2"
| "flag_shift XQC_CONN_FLAG_TICKING = 3"
| "flag_shift XQC_CONN_FLAG_SHOULD_ACK_INIT = 4"
| "flag_shift XQC_CONN_FLAG_SHOULD_ACK_HSK = 5"
| "flag_shift XQC_CONN_FLAG_SHOULD_ACK_01RTT = 6"
| "flag_shift XQC_CONN_FLAG_ACK_HAS_GAP = 7"
| "flag_shift XQC_CONN_FLAG_TIME_OUT = 8"
| "flag_shift XQC_CONN_FLAG_ERROR = 9"
| "flag_shift XQC_CONN_FLAG_DATA_BLOCKED = 10"
| "flag_shift XQC_CONN_FLAG_DCID_OK = 11"
| "flag_shift XQC_CONN_FLAG_TOKEN_OK = 12"
| "flag_shift XQC_CONN_FLAG_HAS_0RTT = 13"
| "flag_shift XQC_CONN_FLAG_0RTT_OK = 14"
| "flag_shift XQC_CONN_FLAG_0RTT_REJ = 15"
| "flag_shift XQC_CONN_FLAG_UPPER_CONN_EXIST = 16"
| "flag_shift XQC_CONN_FLAG_INIT_RECVD = 17"
| "flag_shift XQC_CONN_FLAG_NEED_RUN = 18"
| "flag_shift XQC_CONN_FLAG_PING = 19"
| "flag_shift XQC_CONN_FLAG_HSK_ACKED = 20"
| "flag_shift XQC_CONN_FLAG_CANNOT_DESTROY = 21"
| "flag_shift XQC_CONN_FLAG_HANDSHAKE_DONE_RECVD = 22"
| "flag_shift XQC_CONN_FLAG_UPDATE_NEW_TOKEN = 23"
| "flag_shift XQC_CONN_FLAG_VERSION_NEGOTIATION = 24"
| "flag_shift XQC_CONN_FLAG_HANDSHAKE_CONFIRMED = 25"
| "flag_shift XQC_CONN_FLAG_HANDSHAKE_DONE_ACKED = 26"
| "flag_shift XQC_CONN_FLAG_ADDR_VALIDATED = 27"
| "flag_shift XQC_CONN_FLAG_NEW_CID_RECEIVED = 28"
| "flag_shift XQC_CONN_FLAG_LINGER_CLOSING = 29"
| "flag_shift XQC_CONN_FLAG_RETRY_RECVD = 30"
| "flag_shift XQC_CONN_FLAG_TLS_HSK_COMPLETED = 31"
| "flag_shift XQC_CONN_FLAG_VALIDATE_REBINDING = 32"
| "flag_shift XQC_CONN_FLAG_CLOSING_NOTIFY = 33"
| "flag_shift XQC_CONN_FLAG_CLOSING_NOTIFIED = 34"

definition XQC_CONN_FLAG :: "xqc_conn_flag \<Rightarrow> u64" where
  "XQC_CONN_FLAG f = push_bit (flag_shift f) 1"

datatype xqc_proto_version =
    XQC_IDRAFT_INIT_VER | XQC_VERSION_V1 | XQC_IDRAFT_VER_29 | XQC_IDRAFT_VER_NEGOTIATION | XQC_VERSION_MAX

primrec version_code :: "xqc_proto_version \<Rightarrow> nat" where
  "version_code XQC_IDRAFT_INIT_VER = 0"
| "version_code XQC_VERSION_V1 = 1"
| "version_code XQC_IDRAFT_VER_29 = 2"
| "version_code XQC_IDRAFT_VER_NEGOTIATION = 3"
| "version_code XQC_VERSION_MAX = 4"

text \<open>The two tables indexed by versions; \<^verbatim>\<open>XQC_VERSION_MAX\<close> is their size, not an index.\<close>

primrec xqc_proto_version_value :: "xqc_proto_version \<Rightarrow> u32" where
  "xqc_proto_version_value XQC_IDRAFT_INIT_VER = 0xFFFFFFFF"
| "xqc_proto_version_value XQC_VERSION_V1 = 0x00000001"
| "xqc_proto_version_value XQC_IDRAFT_VER_29 = 0xFF00001D"
| "xqc_proto_version_value XQC_IDRAFT_VER_NEGOTIATION = 0x00000000"
| "xqc_proto_version_value XQC_VERSION_MAX = 0"

primrec xqc_proto_version_field :: "xqc_proto_version \<Rightarrow> u8 list" where
  "xqc_proto_version_field XQC_IDRAFT_INIT_VER = [0xFF, 0xFF, 0xFF, 0xFF]"
| "xqc_proto_version_field XQC_VERSION_V1 = [0x00, 0x00, 0x00, 0x01]"
| "xqc_proto_version_field XQC_IDRAFT_VER_29 = [0xFF, 0x00, 0x00, 0x1D]"
| "xqc_proto_version_field XQC_IDRAFT_VER_NEGOTIATION = [0x00, 0x00, 0x00, 0x00]"
| "xqc_proto_version_field XQC_VERSION_MAX = []"

definition xqc_check_proto_version_valid :: "xqc_proto_version \<Rightarrow> bool" where
  "xqc_check_proto_version_valid ver \<longleftrightarrow>
     version_code ver > version_code XQC_IDRAFT_INIT_VER \<and> version_code ver < version_code XQC_IDRAFT_VER_NEGOTIATION"

abbreviation "XQC_MAX_TOKEN_LEN \<equiv> (256::nat)"
abbreviation "XQC_RETRY_INTEGRITY_TAG_LEN \<equiv> (16::nat)"
abbreviation "XQC_MAX_PACKET_IN_LEN \<equiv> (1500::nat)"
abbreviation "XQC_UNDECRYPT_PACKET_MAX \<equiv> (100::u32)"
abbreviation "XQC_UNDECRYPT_0RTT_MAX_BEFORE_INIT \<equiv> (10::u32)"
abbreviation "TRA_PROTOCOL_VIOLATION \<equiv> (0xA::u64)"

section \<open>The connection\<close>

text \<open>\<open>conn_token\<close> is the whole array of \<^verbatim>\<open>XQC_MAX_TOKEN_LEN\<close> bytes; a timer that is not set is \<open>None\<close>.\<close>

record xqc_connection =
  version :: xqc_proto_version
  discard_vn_flag :: u32
  original_dcid :: xqc_cid
  dcid_set :: xqc_dcid_set_t
  scid_set :: xqc_scid_set_t
  conn_token :: "u8 list"
  conn_token_len :: u32
  conn_state :: xqc_conn_state
  conn_flag :: u64
  conn_type :: xqc_conn_type
  undecrypt_packet_in :: "xqc_encrypt_level \<Rightarrow> packet_in list"
  undecrypt_count :: "xqc_encrypt_level \<Rightarrow> u32"
  recv_record :: "xqc_pkt_num_space \<Rightarrow> xqc_recv_record"
  ack_eliciting_pkt :: "xqc_pkt_num_space \<Rightarrow> u32"
  conn_err :: u64
  support_version_list :: "u32 list"
  active_connection_id_limit :: u64
  max_ack_delay :: usec
  ctl_largest_recvd :: "xqc_pkt_num_space \<Rightarrow> pktno"
  ack_timer :: "xqc_pkt_num_space \<Rightarrow> usec option"

text \<open>What the receive path asks of the TLS layer, and the resending of packets after a Retry.\<close>

record tls_env =
  tls_init :: "xqc_proto_version \<Rightarrow> xqc_cid \<Rightarrow> ret"
  tls_reset_initial :: "xqc_proto_version \<Rightarrow> xqc_cid \<Rightarrow> ret"
  tls_cal_retry_integrity_tag :: "u8 list \<Rightarrow> ret \<times> u8 list"
  tls_rx_key_ready :: "xqc_encrypt_level \<Rightarrow> bool"
  tls_tx_key_ready :: "xqc_encrypt_level \<Rightarrow> bool"
  resend_packets :: ret

section \<open>Creation\<close>

text \<open>The fields of the model as the zeroed allocation and the assignments of the constructor leave them.
  \<open>resources_ok\<close>: the pool, the buffers, the send control and the hash tables could be created; \<open>versions\<close> is the list
  of supported versions of the engine. The limits are the defaults of the local and the remote settings.\<close>

abbreviation "XQC_DEFAULT_MAX_ACK_DELAY \<equiv> (25::u64)"
abbreviation "XQC_DEFAULT_ACTIVE_CONNECTION_ID_LIMIT \<equiv> (2::u64)"
abbreviation "XQC_CONN_ACTIVE_CID_LIMIT \<equiv> (8::u64)"

definition zero_cid_set :: xqc_cid_set_t where
  "zero_cid_set = \<lparr>cid_list = [], unused_cnt = 0, used_cnt = 0, retired_cnt = 0\<rparr>"

definition xqc_conn_create ::
  "bool \<Rightarrow> u32 list \<Rightarrow> xqc_cid \<Rightarrow> xqc_cid \<Rightarrow> xqc_proto_version \<Rightarrow> xqc_conn_type \<Rightarrow> xqc_connection option" where
  "xqc_conn_create resources_ok versions dcid scid proto_version type =
     (let ver = (if type = XQC_CONN_TYPE_CLIENT then proto_version else XQC_IDRAFT_INIT_VER);
          ver = (if type = XQC_CONN_TYPE_CLIENT \<and> \<not> xqc_check_proto_version_valid proto_version then XQC_VERSION_V1 else ver);
          ds = xqc_init_dcid_set \<lparr>current_dcid = zero_cid, dcid_cids = zero_cid_set, largest_retire_prior_to = 0\<rparr>;
          ss = xqc_init_scid_set \<lparr>user_scid = zero_cid, scid_cids = zero_cid_set, largest_scid_seq_num = 0\<rparr>;
          ds = ds\<lparr>current_dcid := xqc_cid_copy (current_dcid ds) dcid\<rparr>
      in case xqc_cid_set_insert_cid resources_ok (dcid_cids ds) dcid XQC_CID_USED XQC_CONN_ACTIVE_CID_LIMIT of
           (Some _, _) \<Rightarrow> None
         | (None, cids) \<Rightarrow>
             let ds = ds\<lparr>dcid_cids := cids\<rparr>;
                 ss = ss\<lparr>user_scid := xqc_cid_copy (user_scid ss) scid, largest_scid_seq_num := cid_seq_num scid\<rparr>
             in case xqc_cid_set_insert_cid resources_ok (scid_cids ss) scid XQC_CID_USED XQC_DEFAULT_ACTIVE_CONNECTION_ID_LIMIT of
                  (Some _, _) \<Rightarrow> None
                | (None, cids) \<Rightarrow>
                    if \<not> resources_ok then None
                    else Some \<lparr>version = ver, discard_vn_flag = 0, original_dcid = zero_cid,
                      dcid_set = ds, scid_set = ss\<lparr>scid_cids := cids\<rparr>,
                      conn_token = replicate XQC_MAX_TOKEN_LEN 0, conn_token_len = 0,
                      conn_state = (if type = XQC_CONN_TYPE_SERVER then XQC_CONN_STATE_SERVER_INIT else XQC_CONN_STATE_CLIENT_INIT),
                      conn_flag = 0, conn_type = type, undecrypt_packet_in = (\<lambda>_. []), undecrypt_count = (\<lambda>_. 0),
                      recv_record = (\<lambda>_. \<lparr>range_list = [], largest_pkt_recv_time = 0, rr_del_from = 0\<rparr>),
                      ack_eliciting_pkt = (\<lambda>_. 0), conn_err = 0, support_version_list = versions,
                      active_connection_id_limit = XQC_CONN_ACTIVE_CID_LIMIT, max_ack_delay = XQC_DEFAULT_MAX_ACK_DELAY,
                      ctl_largest_recvd = (\<lambda>_. 0), ack_timer = (\<lambda>_. None)\<rparr>)"

definition has_flag :: "xqc_conn_flag \<Rightarrow> xqc_connection \<Rightarrow> bool" where
  "has_flag f c \<longleftrightarrow> conn_flag c AND XQC_CONN_FLAG f \<noteq> 0"

definition set_flag :: "xqc_conn_flag \<Rightarrow> xqc_connection \<Rightarrow> xqc_connection" where
  "set_flag f c = c\<lparr>conn_flag := conn_flag c OR XQC_CONN_FLAG f\<rparr>"

definition xqc_conn_closing :: "xqc_connection \<Rightarrow> xqc_connection" where
  "xqc_conn_closing c = set_flag XQC_CONN_FLAG_CLOSING_NOTIFY c"

definition XQC_CONN_ERR :: "xqc_connection \<Rightarrow> u64 \<Rightarrow> xqc_connection" where
  "XQC_CONN_ERR c err =
     (if conn_err c = 0 then xqc_conn_closing (set_flag XQC_CONN_FLAG_ERROR (c\<lparr>conn_err := err\<rparr>)) else c)"

definition xqc_state_to_pkt_type :: "xqc_connection \<Rightarrow> xqc_pkt_type" where
  "xqc_state_to_pkt_type c =
     (if conn_state c \<in> {XQC_CONN_STATE_CLIENT_INIT, XQC_CONN_STATE_CLIENT_INITIAL_SENT, XQC_CONN_STATE_CLIENT_INITIAL_RECVD,
          XQC_CONN_STATE_SERVER_INIT, XQC_CONN_STATE_SERVER_INITIAL_RECVD, XQC_CONN_STATE_SERVER_INITIAL_SENT}
      then XQC_PTYPE_INIT
      else if conn_state c \<in> {XQC_CONN_STATE_CLIENT_HANDSHAKE_RECVD, XQC_CONN_STATE_CLIENT_HANDSHAKE_SENT,
          XQC_CONN_STATE_SERVER_HANDSHAKE_SENT, XQC_CONN_STATE_SERVER_HANDSHAKE_RECVD}
      then XQC_PTYPE_HSK
      else XQC_PTYPE_SHORT_HEADER)"

definition xqc_conn_check_handshake_completed :: "xqc_connection \<Rightarrow> bool" where
  "xqc_conn_check_handshake_completed c \<longleftrightarrow> has_flag XQC_CONN_FLAG_HANDSHAKE_COMPLETED c"

section \<open>Versions\<close>

fun xqc_uint32_list_find :: "u32 list \<Rightarrow> u32 \<Rightarrow> int" where
  "xqc_uint32_list_find [] target = - 1"
| "xqc_uint32_list_find (x # xs) target =
     (if x = target then 0 else let i = xqc_uint32_list_find xs target in if i = - 1 then - 1 else i + 1)"

text \<open>The loop over the versions strictly between the two placeholders of the enumeration.\<close>

definition version_of_value :: "u32 \<Rightarrow> xqc_proto_version option" where
  "version_of_value v = find (\<lambda>ver. xqc_proto_version_value ver = v) [XQC_VERSION_V1, XQC_IDRAFT_VER_29]"

definition xqc_conn_version_check :: "tls_env \<Rightarrow> xqc_connection \<Rightarrow> u32 \<Rightarrow> ret \<times> xqc_connection" where
  "xqc_conn_version_check tls c v =
     (if conn_type c = XQC_CONN_TYPE_SERVER \<and> version c = XQC_IDRAFT_INIT_VER then
        if xqc_uint32_list_find (support_version_list c) v = - 1 then (Some XQC_EPROTO, c)
        else case version_of_value v of
               Some i \<Rightarrow> let c = c\<lparr>version := i\<rparr> in (tls_init tls (version c) (original_dcid c), c)
             | None \<Rightarrow> (Some XQC_EPROTO, c)
      else (None, c))"

section \<open>Packets waiting for keys\<close>

text \<open>\<open>alloc_ok\<close>: both allocations succeed. The datagram is the whole of \<open>pi_buf\<close>.\<close>

definition xqc_conn_buff_undecrypt_packet_in ::
  "bool \<Rightarrow> packet_in \<Rightarrow> xqc_connection \<Rightarrow> xqc_encrypt_level \<Rightarrow> ret \<times> xqc_connection" where
  "xqc_conn_buff_undecrypt_packet_in alloc_ok pi c level =
     (if undecrypt_count c level \<ge> XQC_UNDECRYPT_PACKET_MAX \<or> length (pi_buf pi) > XQC_MAX_PACKET_IN_LEN
      then (Some XQC_ELIMIT, c)
      else if conn_type c = XQC_CONN_TYPE_SERVER \<and> \<not> has_flag XQC_CONN_FLAG_DCID_OK c \<and> level = XQC_ENC_LEV_0RTT
           \<and> undecrypt_count c level > XQC_UNDECRYPT_0RTT_MAX_BEFORE_INIT
      then (Some XQC_ELIMIT, c)
      else if \<not> alloc_ok then (Some XQC_EMALLOC, c)
      else let new_packet = zero_packet_in\<lparr>pi_pkt := pi_pkt pi, pi_buf := pi_buf pi, pi_pos := pi_pos pi,
                 pi_last := pi_last pi, pkt_recv_time := pkt_recv_time pi\<rparr>
           in (None, c\<lparr>undecrypt_packet_in := (undecrypt_packet_in c)(level := undecrypt_packet_in c level @ [new_packet]),
                       undecrypt_count := (undecrypt_count c)(level := undecrypt_count c level + 1)\<rparr>))"

section \<open>Recording a packet and deciding to acknowledge\<close>

primrec should_ack_flag :: "xqc_pkt_num_space \<Rightarrow> u64" where
  "should_ack_flag XQC_PNS_INIT = XQC_CONN_FLAG XQC_CONN_FLAG_SHOULD_ACK_INIT"
| "should_ack_flag XQC_PNS_HSK = push_bit 1 (XQC_CONN_FLAG XQC_CONN_FLAG_SHOULD_ACK_INIT)"
| "should_ack_flag XQC_PNS_APP_DATA = push_bit 2 (XQC_CONN_FLAG XQC_CONN_FLAG_SHOULD_ACK_INIT)"
| "should_ack_flag XQC_PNS_N = push_bit 3 (XQC_CONN_FLAG XQC_CONN_FLAG_SHOULD_ACK_INIT)"

definition xqc_maybe_should_ack ::
  "tls_env \<Rightarrow> xqc_connection \<Rightarrow> xqc_pkt_num_space \<Rightarrow> bool \<Rightarrow> usec \<Rightarrow> xqc_connection" where
  "xqc_maybe_should_ack tls c pns out_of_order now =
     (if conn_flag c AND should_ack_flag pns \<noteq> 0 then c
      else if pns = XQC_PNS_HSK \<and> \<not> tls_tx_key_ready tls XQC_ENC_LEV_HSK then c
      else if pns = XQC_PNS_APP_DATA \<and> \<not> has_flag XQC_CONN_FLAG_CAN_SEND_1RTT c then c
      else if ack_eliciting_pkt c pns \<ge> 2 \<or> (pns \<le> XQC_PNS_HSK \<and> ack_eliciting_pkt c pns \<ge> 1)
           \<or> (out_of_order \<and> ack_eliciting_pkt c pns \<ge> 1)
      then c\<lparr>conn_flag := conn_flag c OR should_ack_flag pns, ack_timer := (ack_timer c)(pns := None)\<rparr>
      else if ack_eliciting_pkt c pns > 0 \<and> ack_timer c pns = None
      then c\<lparr>ack_timer := (ack_timer c)(pns := Some (now + max_ack_delay c * 1000))\<rparr>
      else c)"

definition xqc_has_packet_number :: "xqc_packet \<Rightarrow> bool" where
  "xqc_has_packet_number pkt \<longleftrightarrow>
     \<not> (pkt_type pkt = XQC_PTYPE_VERSION_NEGOTIATION \<or> pkt_type pkt = XQC_PTYPE_RETRY)"

definition xqc_conn_record_single :: "tls_env \<Rightarrow> bool \<Rightarrow> xqc_connection \<Rightarrow> packet_in \<Rightarrow> xqc_connection res" where
  "xqc_conn_record_single tls alloc_ok c pi =
     (if \<not> xqc_has_packet_number (pi_pkt pi) then Ok c
      else let pns = pkt_pns (pi_pkt pi); n = pkt_num (pi_pkt pi) in
        bind_res (xqc_recv_record_add alloc_ok n (pkt_recv_time pi) (recv_record c pns)) (\<lambda>(range_status, rr).
          let c = c\<lparr>recv_record := (recv_record c)(pns := rr)\<rparr> in
          if range_status = XQC_PKTRANGE_OK then
            let c = (if XQC_IS_ACK_ELICITING (pi_frame_types pi)
                     then c\<lparr>ack_eliciting_pkt := (ack_eliciting_pkt c)(pns := ack_eliciting_pkt c pns + 1)\<rparr> else c);
                c = (if n > ctl_largest_recvd c pns
                     then c\<lparr>ctl_largest_recvd := (ctl_largest_recvd c)(pns := n)\<rparr> else c);
                out_of_order = (n \<noteq> xqc_recv_record_largest (recv_record c pns))
            in Ok (xqc_maybe_should_ack tls c pns out_of_order (pkt_recv_time pi))
          else Ok c))"

section \<open>What a processed packet confirms\<close>

text \<open>\<open>hash_ok\<close>: the insertion of the connection into the engine's table of destination ids succeeds.\<close>

definition xqc_conn_confirm_cid :: "bool \<Rightarrow> bool \<Rightarrow> xqc_connection \<Rightarrow> xqc_packet \<Rightarrow> ret \<times> xqc_connection" where
  "xqc_conn_confirm_cid alloc_ok hash_ok c pkt =
     (if has_flag XQC_CONN_FLAG_DCID_OK c then (None, c)
      else
        let (r, c) = (case xqc_cid_in_cid_set (dcid_cids (dcid_set c)) (pkt_scid pkt) of
              None \<Rightarrow> let (r, s) = xqc_cid_set_insert_cid alloc_ok (dcid_cids (dcid_set c)) (pkt_scid pkt) XQC_CID_USED
                             (active_connection_id_limit c)
                      in (r, c\<lparr>dcid_set := (dcid_set c)\<lparr>dcid_cids := s\<rparr>\<rparr>)
            | Some _ \<Rightarrow> (None, c))
        in if r \<noteq> None then (r, c)
           else
             let c = (if \<not> xqc_cid_is_equal (current_dcid (dcid_set c)) (pkt_scid pkt)
                      then c\<lparr>dcid_set := (dcid_set c)\<lparr>current_dcid := xqc_cid_copy (current_dcid (dcid_set c)) (pkt_scid pkt)\<rparr>\<rparr>
                      else c)
             in if \<not> hash_ok then (Some XQC_EMALLOC, c) else (None, set_flag XQC_CONN_FLAG_DCID_OK c))"

definition xqc_conn_addr_validated :: "xqc_connection \<Rightarrow> xqc_connection" where
  "xqc_conn_addr_validated c = set_flag XQC_CONN_FLAG_ADDR_VALIDATED c"

abbreviation "XQC_CONN_ADDR_VALIDATION_CID_ENTROPY \<equiv> (8::nat)"

text \<open>Re-arming the loss detection timer at the end does not concern the modelled fields.\<close>

definition xqc_conn_server_validate_address :: "xqc_connection \<Rightarrow> packet_in \<Rightarrow> xqc_connection" where
  "xqc_conn_server_validate_address c pi = (case pkt_type (pi_pkt pi) of
     XQC_PTYPE_INIT \<Rightarrow>
       if has_flag XQC_CONN_FLAG_TOKEN_OK c then xqc_conn_addr_validated c
       else if length (cid_buf (user_scid (scid_set c))) \<ge> XQC_CONN_ADDR_VALIDATION_CID_ENTROPY
            \<and> xqc_cid_in_cid_set (scid_cids (scid_set c)) (original_dcid c) = None
            \<and> xqc_cid_in_cid_set (scid_cids (scid_set c)) (pkt_dcid (pi_pkt pi)) \<noteq> None
       then xqc_conn_addr_validated c else c
   | XQC_PTYPE_HSK \<Rightarrow> xqc_conn_addr_validated c
   | _ \<Rightarrow> c)"

definition xqc_conn_client_validate_address :: "xqc_connection \<Rightarrow> packet_in \<Rightarrow> xqc_connection" where
  "xqc_conn_client_validate_address c pi = (case pkt_type (pi_pkt pi) of
     XQC_PTYPE_INIT \<Rightarrow> xqc_conn_addr_validated c
   | XQC_PTYPE_RETRY \<Rightarrow> xqc_conn_addr_validated c
   | XQC_PTYPE_VERSION_NEGOTIATION \<Rightarrow> xqc_conn_addr_validated c
   | _ \<Rightarrow> c)"

definition xqc_conn_validate_address :: "xqc_connection \<Rightarrow> packet_in \<Rightarrow> xqc_connection" where
  "xqc_conn_validate_address c pi =
     (if conn_type c = XQC_CONN_TYPE_SERVER then xqc_conn_server_validate_address c pi
      else xqc_conn_client_validate_address c pi)"

text \<open>The errors that make the rest of a datagram be skipped without closing the connection.\<close>

definition xqc_conn_tolerant_error :: "ret \<Rightarrow> bool" where
  "xqc_conn_tolerant_error r \<longleftrightarrow>
     r = Some XQC_EVERSION \<or> r = Some XQC_EILLPKT \<or> r = Some XQC_EWAITING \<or> r = Some XQC_EIGNORE_PKT"

end
