(* ===== verification/XQC_Cong_Ctl.thy ===== *)
theory XQC_Cong_Ctl
  imports XQC_Prelude
begin

text \<open>
  The congestion controllers behind the callback table \<^verbatim>\<open>xqc_cong_ctrl_callback_t\<close>: the interface, New Reno
  (\<^verbatim>\<open>congestion_control/xqc_new_reno.c\<close>) and Cubic (\<^verbatim>\<open>congestion_control/xqc_cubic.c\<close>).

  \<^item> Windows keep the width of the source: Reno counts in \<^verbatim>\<open>unsigned\<close>, Cubic in \<^verbatim>\<open>uint64_t\<close>; additions wrap around.
  \<^item> Time is an argument: \<open>now\<close> is what \<^verbatim>\<open>xqc_monotonic_timestamp\<close> returns in the call.
  \<^item> Reno halves its window in single precision. \<open>float_of_u32\<close> is the conversion, which rounds to 24 significant bits.
  \<^item> Cubic takes a cube root with the mathematical library. Its result, truncated to an integer, is the parameter \<open>cbrt\<close>; no
    theorem depends on its value.
  \<^item> The locale \<open>cong_ctl\<close> is what the send control relies on: the window never falls below the minimum, a loss never
    raises it and losses of packets sent before the last reaction do not change it.
\<close>

section \<open>Runs of a controller\<close>

abbreviation "XQC_MSS \<equiv> (1216::nat)"

text \<open>The calls of a controller: a loss of a packet sent at some time, an acknowledgement, and the reset on persistent congestion.\<close>

datatype 'a cc_event = Cc_Lost (lost_sent: usec) (lost_now: usec) | Cc_Ack 'a | Cc_Reset

fun cc_step :: "(usec \<Rightarrow> usec \<Rightarrow> 's \<Rightarrow> 's) \<Rightarrow> ('a \<Rightarrow> 's \<Rightarrow> 's res) \<Rightarrow> ('s \<Rightarrow> 's) \<Rightarrow> 'a cc_event \<Rightarrow> 's \<Rightarrow> 's res" where
  "cc_step on_lost on_ack reset (Cc_Lost t now) s = Ok (on_lost t now s)"
| "cc_step on_lost on_ack reset (Cc_Ack a) s = on_ack a s"
| "cc_step on_lost on_ack reset Cc_Reset s = Ok (reset s)"

fun cc_run :: "(usec \<Rightarrow> usec \<Rightarrow> 's \<Rightarrow> 's) \<Rightarrow> ('a \<Rightarrow> 's \<Rightarrow> 's res) \<Rightarrow> ('s \<Rightarrow> 's) \<Rightarrow> 'a cc_event list \<Rightarrow> 's \<Rightarrow> 's res" where
  "cc_run on_lost on_ack reset [] s = Ok s"
| "cc_run on_lost on_ack reset (e # es) s = bind_res (cc_step on_lost on_ack reset e s) (cc_run on_lost on_ack reset es)"

text \<open>Every acknowledgement of a run satisfies a condition in the state it meets.\<close>

fun cc_acks :: "(usec \<Rightarrow> usec \<Rightarrow> 's \<Rightarrow> 's) \<Rightarrow> ('a \<Rightarrow> 's \<Rightarrow> 's res) \<Rightarrow> ('s \<Rightarrow> 's) \<Rightarrow> ('a \<Rightarrow> 's \<Rightarrow> bool) \<Rightarrow> 'a cc_event list \<Rightarrow> 's \<Rightarrow> bool" where
  "cc_acks on_lost on_ack reset P [] s \<longleftrightarrow> True"
| "cc_acks on_lost on_ack reset P (e # es) s \<longleftrightarrow>
     (case e of Cc_Ack a \<Rightarrow> P a s | _ \<Rightarrow> True)
     \<and> (case cc_step on_lost on_ack reset e s of Ok s' \<Rightarrow> cc_acks on_lost on_ack reset P es s' | _ \<Rightarrow> True)"

section \<open>New Reno\<close>

abbreviation "XQC_kMinimumWindow \<equiv> (2432::u32)"
abbreviation "XQC_kInitialWindow \<equiv> (12160::u32)"

record xqc_new_reno_t =
  reno_congestion_window :: u32
  reno_ssthresh :: u32
  reno_recovery_start_time :: usec

text \<open>An unsigned integer as a single precision number: the nearest multiple of \<open>2 ^ e\<close>, ties to even, where \<open>e\<close> is
  the number of bits beyond 24.\<close>

fun bit_len :: "nat \<Rightarrow> nat" where
  "bit_len n = (if n = 0 then 0 else bit_len (n div 2) + 1)"

definition float_of_u32 :: "u32 \<Rightarrow> nat" where
  "float_of_u32 w =
     (let n = unat w; e = bit_len n - 24; q = n div 2 ^ e; r = n mod 2 ^ e
      in (if 2 * r > 2 ^ e \<or> 2 * r = 2 ^ e \<and> odd q then q + 1 else q) * 2 ^ e)"

text \<open>\<^verbatim>\<open>window *= 0.5f\<close>: half of the single precision value, truncated.\<close>

definition times_half :: "u32 \<Rightarrow> u32" where
  "times_half w = of_nat (float_of_u32 w div 2)"

definition xqc_reno_init :: "xqc_new_reno_t \<Rightarrow> xqc_new_reno_t" where
  "xqc_reno_init r = r\<lparr>reno_congestion_window := XQC_kInitialWindow, reno_ssthresh := 0xffffffff, reno_recovery_start_time := 0\<rparr>"

definition xqc_reno_was_pkt_sent_in_recovery :: "usec \<Rightarrow> xqc_new_reno_t \<Rightarrow> bool" where
  "xqc_reno_was_pkt_sent_in_recovery sent_time r \<longleftrightarrow> sent_time \<le> reno_recovery_start_time r"

definition xqc_reno_on_lost :: "usec \<Rightarrow> usec \<Rightarrow> xqc_new_reno_t \<Rightarrow> xqc_new_reno_t" where
  "xqc_reno_on_lost lost_sent_time now r =
     (if \<not> xqc_reno_was_pkt_sent_in_recovery lost_sent_time r then
        let w = max (times_half (reno_congestion_window r)) XQC_kMinimumWindow
        in r\<lparr>reno_recovery_start_time := now, reno_congestion_window := w, reno_ssthresh := w\<rparr>
      else r)"

text \<open>An acknowledged packet: the time it was sent, its size, and what \<^verbatim>\<open>xqc_send_ctl_is_cwnd_limited\<close> answers (\<open>None\<close> when the
  controller has no send control).\<close>

record acked_packet =
  ap_sent_time :: usec
  ap_used_size :: u32
  ap_cwnd_limited :: "bool option"
  ap_now :: usec

definition xqc_reno_on_ack :: "acked_packet \<Rightarrow> xqc_new_reno_t \<Rightarrow> xqc_new_reno_t res" where
  "xqc_reno_on_ack a r =
     (let sent_time = ap_sent_time a; acked_bytes = ap_used_size a in
      if xqc_reno_was_pkt_sent_in_recovery sent_time r then Ok r
      else
        let r = (if sent_time > reno_recovery_start_time r then r\<lparr>reno_recovery_start_time := 0\<rparr> else r) in
        if ap_cwnd_limited a = Some False then Ok r
        else if reno_congestion_window r < reno_ssthresh r
        then Ok (r\<lparr>reno_congestion_window := reno_congestion_window r + acked_bytes\<rparr>)
        else if reno_congestion_window r = 0 then Fault
        else Ok (r\<lparr>reno_congestion_window := reno_congestion_window r
               + of_nat XQC_MSS * acked_bytes div reno_congestion_window r\<rparr>))"

definition xqc_reno_get_cwnd :: "xqc_new_reno_t \<Rightarrow> u64" where
  "xqc_reno_get_cwnd r = ucast (reno_congestion_window r)"

definition xqc_reno_reset_cwnd :: "xqc_new_reno_t \<Rightarrow> xqc_new_reno_t" where
  "xqc_reno_reset_cwnd r = r\<lparr>reno_congestion_window := XQC_kMinimumWindow, reno_recovery_start_time := 0\<rparr>"

definition xqc_reno_in_slow_start :: "xqc_new_reno_t \<Rightarrow> bool" where
  "xqc_reno_in_slow_start r \<longleftrightarrow> reno_congestion_window r < reno_ssthresh r"

definition xqc_reno_in_recovery :: "xqc_new_reno_t \<Rightarrow> bool" where
  "xqc_reno_in_recovery r \<longleftrightarrow> reno_recovery_start_time r > 0"

section \<open>Cubic\<close>

abbreviation "XQC_CUBIC_MIN_WIN \<equiv> (4864::u64)"
abbreviation "XQC_CUBIC_MAX_INIT_WIN \<equiv> (121600::u32)"
abbreviation "XQC_CUBIC_INIT_WIN \<equiv> (38912::u64)"
abbreviation "XQC_CUBIC_MAX_SSTHRESH \<equiv> (0xFFFFFFFF::u64)"
abbreviation "XQC_CUBIC_BETA \<equiv> (718::u64)"
abbreviation "XQC_CUBIC_BETA_SCALE \<equiv> (1024::u64)"
abbreviation "XQC_CUBIC_C \<equiv> (410::u64)"

record xqc_cubic_t =
  init_cwnd :: u64
  cubic_cwnd :: u64
  tcp_cwnd :: u64
  tcp_cwnd_cnt :: u64
  last_max_cwnd :: u64
  cubic_ssthresh :: u64
  bic_origin_point :: u64
  bic_K :: u64
  epoch_start :: usec
  cubic_min_rtt :: usec
  congestion_recovery_start_time :: usec

definition xqc_cube_factor :: u64 where
  "xqc_cube_factor = push_bit 40 1 div XQC_CUBIC_C div of_nat XQC_MSS"

definition xqc_cubic_update :: "(u64 \<Rightarrow> u64) \<Rightarrow> u32 \<Rightarrow> usec \<Rightarrow> xqc_cubic_t \<Rightarrow> xqc_cubic_t" where
  "xqc_cubic_update cbrt acked_bytes now c =
     (let c = (if epoch_start c = 0 then
                 let c = c\<lparr>epoch_start := now\<rparr> in
                 if cubic_cwnd c \<ge> last_max_cwnd c then c\<lparr>bic_K := 0, bic_origin_point := cubic_cwnd c\<rparr>
                 else c\<lparr>bic_K := cbrt (xqc_cube_factor * (last_max_cwnd c - cubic_cwnd c)), bic_origin_point := last_max_cwnd c\<rparr>
               else c);
          t = push_bit 10 (now + cubic_min_rtt c - epoch_start c) div 1000000;
          offs = (if t < bic_K c then bic_K c - t else t - bic_K c);
          delta = drop_bit 40 (XQC_CUBIC_C * offs * offs * offs) * of_nat XQC_MSS;
          bic_target = (if t < bic_K c then bic_origin_point c - delta else bic_origin_point c + delta);
          bic_target = min bic_target (cubic_cwnd c + ucast (acked_bytes div 2));
          bic_target = max (tcp_cwnd c) bic_target;
          bic_target = (if bic_target = 0 then init_cwnd c else bic_target)
      in c\<lparr>cubic_cwnd := bic_target\<rparr>)"

definition xqc_cubic_in_congestion_recovery :: "usec \<Rightarrow> xqc_cubic_t \<Rightarrow> bool" where
  "xqc_cubic_in_congestion_recovery sent_time c \<longleftrightarrow> sent_time \<le> congestion_recovery_start_time c"

text \<open>\<open>params\<close> is the initial window of the parameters, in packets, when they are customised.\<close>

definition xqc_cubic_init :: "u32 option \<Rightarrow> xqc_cubic_t \<Rightarrow> xqc_cubic_t" where
  "xqc_cubic_init params c =
     (let c = c\<lparr>epoch_start := 0, cubic_cwnd := XQC_CUBIC_INIT_WIN, tcp_cwnd := XQC_CUBIC_INIT_WIN, tcp_cwnd_cnt := 0,
                last_max_cwnd := XQC_CUBIC_INIT_WIN, cubic_ssthresh := XQC_CUBIC_MAX_SSTHRESH, congestion_recovery_start_time := 0\<rparr>
      in case params of
           None \<Rightarrow> c
         | Some w \<Rightarrow>
             let w = w * of_nat XQC_MSS
             in c\<lparr>init_cwnd := if ucast w \<ge> XQC_CUBIC_MIN_WIN \<and> w \<le> XQC_CUBIC_MAX_INIT_WIN then ucast w else XQC_CUBIC_INIT_WIN\<rparr>)"

definition xqc_cubic_on_lost :: "usec \<Rightarrow> usec \<Rightarrow> xqc_cubic_t \<Rightarrow> xqc_cubic_t" where
  "xqc_cubic_on_lost lost_sent_time now c =
     (let c = c\<lparr>tcp_cwnd_cnt := 0\<rparr> in
      if xqc_cubic_in_congestion_recovery lost_sent_time c then c
      else
        let c = c\<lparr>congestion_recovery_start_time := now, epoch_start := 0\<rparr>;
            c = (if cubic_cwnd c < last_max_cwnd c
                 then c\<lparr>last_max_cwnd := cubic_cwnd c * (XQC_CUBIC_BETA_SCALE + XQC_CUBIC_BETA) div (2 * XQC_CUBIC_BETA_SCALE)\<rparr>
                 else c\<lparr>last_max_cwnd := cubic_cwnd c\<rparr>);
            w = max (cubic_cwnd c * XQC_CUBIC_BETA div XQC_CUBIC_BETA_SCALE) XQC_CUBIC_MIN_WIN
        in c\<lparr>cubic_cwnd := w, tcp_cwnd := w, cubic_ssthresh := w\<rparr>)"

definition xqc_cubic_on_ack :: "(u64 \<Rightarrow> u64) \<Rightarrow> acked_packet \<Rightarrow> xqc_cubic_t \<Rightarrow> xqc_cubic_t" where
  "xqc_cubic_on_ack cbrt a c =
     (let sent_time = ap_sent_time a; acked_bytes = ap_used_size a; now = ap_now a;
          rtt = now - sent_time;
          c = (if cubic_min_rtt c = 0 \<or> rtt < cubic_min_rtt c then c\<lparr>cubic_min_rtt := rtt\<rparr> else c)
      in if xqc_cubic_in_congestion_recovery sent_time c then c
         else if cubic_cwnd c < cubic_ssthresh c
         then c\<lparr>tcp_cwnd := tcp_cwnd c + ucast acked_bytes, cubic_cwnd := cubic_cwnd c + ucast acked_bytes\<rparr>
         else
           let c = c\<lparr>tcp_cwnd_cnt := tcp_cwnd_cnt c + ucast acked_bytes\<rparr>;
               c = (if tcp_cwnd_cnt c \<ge> tcp_cwnd c then c\<lparr>tcp_cwnd := tcp_cwnd c + of_nat XQC_MSS, tcp_cwnd_cnt := 0\<rparr> else c)
           in xqc_cubic_update cbrt acked_bytes now c)"

definition xqc_cubic_reset_cwnd :: "xqc_cubic_t \<Rightarrow> xqc_cubic_t" where
  "xqc_cubic_reset_cwnd c = c\<lparr>epoch_start := 0, cubic_cwnd := XQC_CUBIC_MIN_WIN, tcp_cwnd := XQC_CUBIC_MIN_WIN,
     last_max_cwnd := XQC_CUBIC_MIN_WIN\<rparr>"

definition xqc_cubic_in_slow_start :: "xqc_cubic_t \<Rightarrow> bool" where
  "xqc_cubic_in_slow_start c \<longleftrightarrow> cubic_cwnd c < cubic_ssthresh c"

section \<open>Specification\<close>

definition reno_inv :: "xqc_new_reno_t \<Rightarrow> bool" where
  "reno_inv r \<longleftrightarrow> XQC_kMinimumWindow \<le> reno_congestion_window r"

text \<open>The acknowledgement does not take the window around the end of its type.\<close>

definition reno_ack_fits :: "acked_packet \<Rightarrow> xqc_new_reno_t \<Rightarrow> bool" where
  "reno_ack_fits a r \<longleftrightarrow> unat (reno_congestion_window r) + unat (ap_used_size a) < 2 ^ 32"

definition cubic_inv :: "xqc_cubic_t \<Rightarrow> bool" where
  "cubic_inv c \<longleftrightarrow> XQC_CUBIC_MIN_WIN \<le> tcp_cwnd c \<and> tcp_cwnd c \<le> cubic_cwnd c"

definition cubic_ack_fits :: "acked_packet \<Rightarrow> xqc_cubic_t \<Rightarrow> bool" where
  "cubic_ack_fits a c \<longleftrightarrow> cubic_cwnd c < 2 ^ 63"

locale cong_ctl =
  fixes on_lost :: "usec \<Rightarrow> usec \<Rightarrow> 's \<Rightarrow> 's"
    and on_ack :: "'a \<Rightarrow> 's \<Rightarrow> 's res"
    and reset_cwnd :: "'s \<Rightarrow> 's"
    and get_cwnd :: "'s \<Rightarrow> u64"
    and sent_in_recovery :: "usec \<Rightarrow> 's \<Rightarrow> bool"
    and ack_fits :: "'a \<Rightarrow> 's \<Rightarrow> bool"
    and inv :: "'s \<Rightarrow> bool"
    and min_win :: u64
  assumes lost_inv: "inv s \<Longrightarrow> inv (on_lost t now s)"
    and ack_inv: "inv s \<Longrightarrow> ack_fits a s \<Longrightarrow> \<exists>s'. on_ack a s = Ok s' \<and> inv s'"
    and reset_inv: "inv s \<Longrightarrow> inv (reset_cwnd s)"
    and window_floor: "inv s \<Longrightarrow> min_win \<le> get_cwnd s"
    and lost_shrinks: "inv s \<Longrightarrow> get_cwnd (on_lost t now s) \<le> get_cwnd s"
    and lost_in_recovery: "sent_in_recovery t s \<Longrightarrow> get_cwnd (on_lost t now s) = get_cwnd s \<and> sent_in_recovery t' (on_lost t now s) = sent_in_recovery t' s"
    and lost_enters_recovery: "\<not> sent_in_recovery t s \<Longrightarrow> t' \<le> now \<Longrightarrow> sent_in_recovery t' (on_lost t now s)"
begin

lemma step_inv:
  "inv s \<Longrightarrow> (case e of Cc_Ack a \<Rightarrow> ack_fits a s | _ \<Rightarrow> True) \<Longrightarrow> \<exists>s'. cc_step on_lost on_ack reset_cwnd e s = Ok s' \<and> inv s'"
  by (cases e) (auto simp: lost_inv ack_inv reset_inv)

text \<open>No run faults or takes the window below the minimum.\<close>

lemma run_window:
  "inv s \<Longrightarrow> cc_acks on_lost on_ack reset_cwnd ack_fits es s \<Longrightarrow>
     \<exists>s'. cc_run on_lost on_ack reset_cwnd es s = Ok s' \<and> inv s' \<and> min_win \<le> get_cwnd s'"
proof (induction es arbitrary: s)
  case Nil
  then show ?case by (simp add: window_floor)
next
  case (Cons e es)
  obtain s' where s': "cc_step on_lost on_ack reset_cwnd e s = Ok s'" "inv s'"
    using step_inv [of s e] Cons.prems by auto
  then show ?case using Cons.IH [of s'] Cons.prems by simp
qed

text \<open>A burst of losses of packets that were all sent before the reaction to the first of them costs one reduction.\<close>

lemma recovery_losses:
  "\<forall>(t', n')\<in>set ts. sent_in_recovery t' s \<Longrightarrow> get_cwnd (fold (\<lambda>(t', n'). on_lost t' n') ts s) = get_cwnd s"
proof (induction ts arbitrary: s)
  case (Cons x ts)
  then have "sent_in_recovery (fst x) s" by (auto split: prod.splits)
  from lost_in_recovery [OF this, where now = "snd x"] Cons show ?case by (auto split: prod.splits)
qed simp

lemma burst_once:
  "\<not> sent_in_recovery t s \<Longrightarrow> \<forall>(t', n')\<in>set ts. t' \<le> now \<Longrightarrow>
     get_cwnd (fold (\<lambda>(t', n'). on_lost t' n') ts (on_lost t now s)) = get_cwnd (on_lost t now s)"
  by (rule recovery_losses) (auto simp: lost_enters_recovery)

end

declare bit_len.simps [simp del]

section \<open>Properties\<close>

lemma unat_ucast_u64 [simp]: "unat (ucast (w::u32) :: u64) = unat w"
proof -
  have "unat w < 2 ^ 64" using unsigned_less [where 'a = nat, of w] by simp
  then show ?thesis by (simp add: unsigned_ucast_eq take_bit_nat_eq_self)
qed

lemma bit_len_le: "n < 2 ^ k \<Longrightarrow> bit_len n \<le> k"
proof (induction k arbitrary: n)
  case 0
  then show ?case by (simp add: bit_len.simps)
next
  case (Suc k)
  then have "bit_len (n div 2) \<le> k" by (simp add: div_less_iff_less_mult)
  then show ?case by (simp add: bit_len.simps [of n])
qed

lemma round_up: "(q::nat) * m + r = n \<Longrightarrow> m \<le> 2 * r \<Longrightarrow> m \<le> 256 \<Longrightarrow> (q + 1) * m \<le> n + 128"
  by simp

lemma float_of_u32_le: "float_of_u32 w \<le> unat w + 128"
proof -
  define e where "e = bit_len (unat w) - 24"
  have "bit_len (unat w) \<le> 32" using unsigned_less [where 'a = nat, of w] by (intro bit_len_le) simp
  then have "(2::nat) ^ e \<le> 2 ^ 8" unfolding e_def by (intro power_increasing) auto
  then have up: "2 ^ e \<le> 2 * (unat w mod 2 ^ e) \<Longrightarrow> (unat w div 2 ^ e + 1) * 2 ^ e \<le> unat w + 128"
    by (intro round_up [where r = "unat w mod 2 ^ e"] div_mult_mod_eq) simp_all
  have down: "unat w div 2 ^ e * 2 ^ e \<le> unat w + 128"
    using div_times_less_eq_dividend [of "unat w" "2 ^ e"] by linarith
  show ?thesis
    unfolding float_of_u32_def Let_def e_def [symmetric] using up down by simp
qed

lemma times_half_le: "unat (times_half w) \<le> (unat w + 128) div 2"
proof -
  have b: "float_of_u32 w div 2 \<le> (unat w + 128) div 2" using float_of_u32_le by (rule div_le_mono)
  also have "\<dots> < 2 ^ 32" using unsigned_less [where 'a = nat, of w] by simp
  finally show ?thesis using b unfolding times_half_def unat_of_nat by simp
qed

interpretation reno: cong_ctl xqc_reno_on_lost xqc_reno_on_ack xqc_reno_reset_cwnd xqc_reno_get_cwnd
  xqc_reno_was_pkt_sent_in_recovery reno_ack_fits reno_inv "ucast XQC_kMinimumWindow"
proof
  fix s t now
  assume "reno_inv s"
  then have w: "2432 \<le> unat (reno_congestion_window s)" by (simp add: reno_inv_def word_le_nat_alt)
  show "reno_inv (xqc_reno_on_lost t now s)"
    using \<open>reno_inv s\<close> by (simp add: xqc_reno_on_lost_def reno_inv_def Let_def)
  have "unat (times_half (reno_congestion_window s)) \<le> unat (reno_congestion_window s)"
    using times_half_le [of "reno_congestion_window s"] w by linarith
  then show "xqc_reno_get_cwnd (xqc_reno_on_lost t now s) \<le> xqc_reno_get_cwnd s"
    using \<open>reno_inv s\<close> by (simp add: xqc_reno_get_cwnd_def xqc_reno_on_lost_def reno_inv_def Let_def word_le_nat_alt max_def)
next
  fix s and a :: acked_packet
  assume "reno_inv s" "reno_ack_fits a s"
  then have w: "2432 \<le> unat (reno_congestion_window s)" "unat (reno_congestion_window s) + unat (ap_used_size a) < 2 ^ 32"
    by (simp_all add: reno_inv_def reno_ack_fits_def word_le_nat_alt)
  define x :: u32 where "x = 1216 * ap_used_size a div reno_congestion_window s"
  have "unat x \<le> unat (ap_used_size a)"
  proof -
    have "unat x = 1216 * unat (ap_used_size a) mod 2 ^ 32 div unat (reno_congestion_window s)"
      by (simp add: x_def unat_div unat_word_ariths)
    also have "\<dots> \<le> 1216 * unat (ap_used_size a) div 2432"
      using w(1) by (intro order.trans [OF div_le_mono [OF mod_less_eq_dividend] div_le_mono2]) simp_all
    finally show ?thesis by simp
  qed
  then have "2432 \<le> unat (reno_congestion_window s + x)" "2432 \<le> unat (reno_congestion_window s + ap_used_size a)"
    using w by (simp_all add: unat_word_ariths)
  moreover have "reno_congestion_window s \<noteq> 0" using w(1) by auto
  ultimately show "\<exists>s'. xqc_reno_on_ack a s = Ok s' \<and> reno_inv s'"
    using \<open>reno_inv s\<close> by (auto simp: xqc_reno_on_ack_def Let_def reno_inv_def word_le_nat_alt x_def)
qed (auto simp: xqc_reno_reset_cwnd_def reno_inv_def xqc_reno_get_cwnd_def xqc_reno_on_lost_def xqc_reno_was_pkt_sent_in_recovery_def Let_def
    word_le_nat_alt)

text \<open>One acknowledgement of Cubic: the estimates stay in order, and the window grows by the larger of the
  acknowledged bytes and one packet at most, whatever the cube root gives and however the target underflows.\<close>

lemma cubic_update_window:
  assumes "0 < tcp_cwnd c"
  shows "cubic_cwnd (xqc_cubic_update cbrt b now c) = max (tcp_cwnd c) (cubic_cwnd (xqc_cubic_update cbrt b now c))"
    and "cubic_cwnd (xqc_cubic_update cbrt b now c) \<le> max (tcp_cwnd c) (cubic_cwnd c + ucast (b div 2))"
    and "tcp_cwnd (xqc_cubic_update cbrt b now c) = tcp_cwnd c"
  using assms by (auto simp: xqc_cubic_update_def Let_def max_def min_def not_le)

lemma cubic_on_ack_window:
  assumes "cubic_inv c" "cubic_ack_fits a c"
  shows "cubic_inv (xqc_cubic_on_ack cbrt a c)
    \<and> unat (cubic_cwnd (xqc_cubic_on_ack cbrt a c)) \<le> unat (cubic_cwnd c) + max (unat (ap_used_size a)) XQC_MSS"
proof -
  define b where "b = ap_used_size a"
  define c1 where "c1 = (if cubic_min_rtt c = 0 \<or> ap_now a - ap_sent_time a < cubic_min_rtt c
    then c\<lparr>cubic_min_rtt := ap_now a - ap_sent_time a\<rparr> else c)"
  define c2 where "c2 = (let c = c1\<lparr>tcp_cwnd_cnt := tcp_cwnd_cnt c1 + ucast b\<rparr> in
    if tcp_cwnd_cnt c \<ge> tcp_cwnd c then c\<lparr>tcp_cwnd := tcp_cwnd c + of_nat XQC_MSS, tcp_cwnd_cnt := 0\<rparr> else c)"
  have u: "4864 \<le> unat (tcp_cwnd c)" "unat (tcp_cwnd c) \<le> unat (cubic_cwnd c)" "unat (cubic_cwnd c) < 2 ^ 63"
    "unat b < 2 ^ 32" using assms unsigned_less [where 'a = nat, of b]
    by (simp_all add: cubic_inv_def cubic_ack_fits_def word_le_nat_alt word_less_nat_alt)
  have c1: "tcp_cwnd c1 = tcp_cwnd c" "cubic_cwnd c1 = cubic_cwnd c" by (simp_all add: c1_def)
  have c2: "cubic_cwnd c2 = cubic_cwnd c" "unat (tcp_cwnd c) \<le> unat (tcp_cwnd c2)" "unat (tcp_cwnd c2) \<le> unat (tcp_cwnd c) + XQC_MSS"
    using u by (simp_all add: c2_def c1 Let_def unat_word_ariths)
  have add: "unat (cubic_cwnd c + ucast b) = unat (cubic_cwnd c) + unat b" "unat (tcp_cwnd c + ucast b) = unat (tcp_cwnd c) + unat b"
    "unat (cubic_cwnd c + ucast (b div 2)) = unat (cubic_cwnd c) + unat b div 2"
    using u by (simp_all add: unat_word_ariths unat_div)
  have "0 < tcp_cwnd c2" using c2 u by (simp add: word_less_nat_alt)
  note up = cubic_update_window [OF this, of cbrt b "ap_now a"]
  have upd: "cubic_inv (xqc_cubic_update cbrt b (ap_now a) c2)
    \<and> unat (cubic_cwnd (xqc_cubic_update cbrt b (ap_now a) c2)) \<le> unat (cubic_cwnd c) + max (unat b) XQC_MSS"
  proof
    show "cubic_inv (xqc_cubic_update cbrt b (ap_now a) c2)"
      using up(1,3) c2 u by (simp add: cubic_inv_def word_le_nat_alt max_def split: if_splits)
    show "unat (cubic_cwnd (xqc_cubic_update cbrt b (ap_now a) c2)) \<le> unat (cubic_cwnd c) + max (unat b) XQC_MSS"
      using up(2) c2 u add by (auto simp: word_le_nat_alt max_def split: if_splits)
  qed
  show ?thesis
    unfolding xqc_cubic_on_ack_def Let_def b_def [symmetric] c1_def [symmetric] c2_def [unfolded Let_def, symmetric]
    using upd u add assms(1) by (simp add: c1 cubic_inv_def word_le_nat_alt)
qed

interpretation cubic: cong_ctl xqc_cubic_on_lost "\<lambda>a c. Ok (xqc_cubic_on_ack cbrt a c)" xqc_cubic_reset_cwnd cubic_cwnd
  xqc_cubic_in_congestion_recovery cubic_ack_fits cubic_inv XQC_CUBIC_MIN_WIN
  for cbrt
proof
  fix s :: xqc_cubic_t and t now :: usec
  have "unat (cubic_cwnd s * XQC_CUBIC_BETA div XQC_CUBIC_BETA_SCALE) \<le> unat (cubic_cwnd s) * 718 div 1024"
    by (simp add: unat_div unat_word_ariths div_le_mono)
  then have "unat (cubic_cwnd s * XQC_CUBIC_BETA div XQC_CUBIC_BETA_SCALE) \<le> unat (cubic_cwnd s)" by linarith
  then show "cubic_inv s \<Longrightarrow> cubic_cwnd (xqc_cubic_on_lost t now s) \<le> cubic_cwnd s"
    by (auto simp: xqc_cubic_on_lost_def cubic_inv_def Let_def word_le_nat_alt max_def)
  show "cubic_inv s \<Longrightarrow> cubic_inv (xqc_cubic_on_lost t now s)"
    by (simp add: xqc_cubic_on_lost_def cubic_inv_def Let_def)
next
  fix s :: xqc_cubic_t and a :: acked_packet
  show "cubic_inv s \<Longrightarrow> cubic_ack_fits a s \<Longrightarrow> \<exists>s'. Ok (xqc_cubic_on_ack cbrt a s) = Ok s' \<and> cubic_inv s'"
    using cubic_on_ack_window by blast
qed (auto simp: xqc_cubic_reset_cwnd_def cubic_inv_def xqc_cubic_on_lost_def xqc_cubic_in_congestion_recovery_def Let_def)

text \<open>C36. New Reno never faults and never lets its window fall below two packets: this holds in every run of losses,
  acknowledgements and resets whose acknowledgements do not carry the 32-bit window around the end of its type.\<close>

theorem reno_window_floor:
  assumes "cc_acks xqc_reno_on_lost xqc_reno_on_ack xqc_reno_reset_cwnd reno_ack_fits es (xqc_reno_init r)"
  shows "\<exists>r'. cc_run xqc_reno_on_lost xqc_reno_on_ack xqc_reno_reset_cwnd es (xqc_reno_init r) = Ok r'
    \<and> ucast XQC_kMinimumWindow \<le> xqc_reno_get_cwnd r'"
  using reno.run_window [OF _ assms] by (auto simp: reno_inv_def xqc_reno_init_def)

theorem reno_window_floor_witness:
  "\<exists>r'. cc_run xqc_reno_on_lost xqc_reno_on_ack xqc_reno_reset_cwnd
       [Cc_Ack \<lparr>ap_sent_time = 5, ap_used_size = 1216, ap_cwnd_limited = None, ap_now = 9\<rparr>, Cc_Lost 6 10, Cc_Reset]
       (xqc_reno_init \<lparr>reno_congestion_window = 0, reno_ssthresh = 0, reno_recovery_start_time = 0\<rparr>) = Ok r'
     \<and> ucast XQC_kMinimumWindow \<le> xqc_reno_get_cwnd r'"
  by (rule reno_window_floor)
    (simp add: xqc_reno_init_def reno_ack_fits_def xqc_reno_on_ack_def xqc_reno_was_pkt_sent_in_recovery_def)

text \<open>C37. Cubic never lets its window fall below four packets in any run, for every cube root, as long as the window
  stays below \<open>2 ^ 63\<close>.\<close>

theorem cubic_window_floor:
  assumes "cc_acks xqc_cubic_on_lost (\<lambda>a c. Ok (xqc_cubic_on_ack cbrt a c)) xqc_cubic_reset_cwnd cubic_ack_fits es (xqc_cubic_init params c)"
  shows "\<exists>c'. cc_run xqc_cubic_on_lost (\<lambda>a c. Ok (xqc_cubic_on_ack cbrt a c)) xqc_cubic_reset_cwnd es (xqc_cubic_init params c) = Ok c'
    \<and> XQC_CUBIC_MIN_WIN \<le> cubic_cwnd c'"
  using cubic.run_window [OF _ assms] by (auto simp: cubic_inv_def xqc_cubic_init_def Let_def split: option.splits)

theorem cubic_window_floor_witness:
  "\<exists>c'. cc_run xqc_cubic_on_lost (\<lambda>a c. Ok (xqc_cubic_on_ack (\<lambda>x. x) a c)) xqc_cubic_reset_cwnd
       [Cc_Lost 6 10, Cc_Ack \<lparr>ap_sent_time = 11, ap_used_size = 1216, ap_cwnd_limited = None, ap_now = 19\<rparr>, Cc_Lost 12 20]
       (xqc_cubic_init None \<lparr>init_cwnd = 0, cubic_cwnd = 0, tcp_cwnd = 0, tcp_cwnd_cnt = 0, last_max_cwnd = 0, cubic_ssthresh = 0,
          bic_origin_point = 0, bic_K = 0, epoch_start = 0, cubic_min_rtt = 0, congestion_recovery_start_time = 0\<rparr>) = Ok c'
     \<and> XQC_CUBIC_MIN_WIN \<le> cubic_cwnd c'"
  by (rule cubic_window_floor)
    (simp add: xqc_cubic_init_def cubic_ack_fits_def xqc_cubic_on_lost_def xqc_cubic_in_congestion_recovery_def)

text \<open>C38. A burst of losses costs one reduction: when a loss opens a recovery period, any further losses of packets sent before it
  opened leave the window of Reno and of Cubic where the first loss put it.\<close>

theorem loss_burst_reduces_once:
  assumes "\<forall>(t', n')\<in>set ts. t' \<le> now"
  shows "(\<not> xqc_reno_was_pkt_sent_in_recovery t r \<longrightarrow>
      xqc_reno_get_cwnd (fold (\<lambda>(t', n'). xqc_reno_on_lost t' n') ts (xqc_reno_on_lost t now r)) = xqc_reno_get_cwnd (xqc_reno_on_lost t now r))
    \<and> (\<not> xqc_cubic_in_congestion_recovery t c \<longrightarrow>
      cubic_cwnd (fold (\<lambda>(t', n'). xqc_cubic_on_lost t' n') ts (xqc_cubic_on_lost t now c)) = cubic_cwnd (xqc_cubic_on_lost t now c))"
  using reno.burst_once [OF _ assms] cubic.burst_once [OF _ assms] by blast

theorem loss_burst_reduces_once_witness:
  "xqc_reno_get_cwnd (xqc_reno_on_lost 7 12 (xqc_reno_on_lost 6 10
     \<lparr>reno_congestion_window = 40000, reno_ssthresh = 0, reno_recovery_start_time = 0\<rparr>)) =
   xqc_reno_get_cwnd (xqc_reno_on_lost 6 10 \<lparr>reno_congestion_window = 40000, reno_ssthresh = 0, reno_recovery_start_time = 0\<rparr>)"
  using loss_burst_reduces_once [of "[(7, 12)]" 10 6 "\<lparr>reno_congestion_window = 40000, reno_ssthresh = 0, reno_recovery_start_time = 0\<rparr>"]
  by (simp add: xqc_reno_was_pkt_sent_in_recovery_def)

text \<open>C39. One acknowledgement raises the window of Cubic by the larger of the acknowledged bytes and one packet at most; that the
  target is computed with wrap-around does no harm.\<close>

theorem cubic_growth_bounded:
  assumes "cubic_inv c" "cubic_cwnd c < 2 ^ 63"
  shows "unat (cubic_cwnd (xqc_cubic_on_ack cbrt a c)) \<le> unat (cubic_cwnd c) + max (unat (ap_used_size a)) XQC_MSS"
  using cubic_on_ack_window [OF assms(1), of a cbrt] assms(2) by (simp add: cubic_ack_fits_def)

theorem cubic_growth_bounded_witness:
  "unat (cubic_cwnd (xqc_cubic_on_ack (\<lambda>x. x) \<lparr>ap_sent_time = 11, ap_used_size = 100, ap_cwnd_limited = None, ap_now = 19\<rparr>
     \<lparr>init_cwnd = 0, cubic_cwnd = 4864, tcp_cwnd = 4864, tcp_cwnd_cnt = 0, last_max_cwnd = 9000, cubic_ssthresh = 0,
          bic_origin_point = 0, bic_K = 0, epoch_start = 0, cubic_min_rtt = 0, congestion_recovery_start_time = 0\<rparr>)) \<le> 4864 + XQC_MSS"
  using cubic_growth_bounded [of "\<lparr>init_cwnd = 0, cubic_cwnd = 4864, tcp_cwnd = 4864, tcp_cwnd_cnt = 0, last_max_cwnd = 9000, cubic_ssthresh = 0,
          bic_origin_point = 0, bic_K = 0, epoch_start = 0, cubic_min_rtt = 0, congestion_recovery_start_time = 0\<rparr>" "\<lambda>x. x"
      "\<lparr>ap_sent_time = 11, ap_used_size = 100, ap_cwnd_limited = None, ap_now = 19\<rparr>"]
  by (simp add: cubic_inv_def)

end
