(* ===== verification/XQC_Send_State.thy ===== *)
theory XQC_Send_State
  imports XQC_Conn XQC_Cong_Ctl
begin

text \<open>
  The state of the send side: sent packets, the delivery rate sample and the send control
  (\<^verbatim>\<open>transport/xqc_packet_out.h\<close>, \<^verbatim>\<open>congestion_control/xqc_sample.h\<close>, \<^verbatim>\<open>transport/xqc_send_ctl.h\<close>).

  \<^item> Packets are shared between lists and point at each other through \<^verbatim>\<open>po_origin\<close>, so they live in a store: a packet is its
    address \<open>pid\<close>, \<open>ctl_store\<close> holds the structures and the intrusive lists of the code are lists of addresses.
  \<^item> A timer is the time at which it expires, \<open>None\<close> when it is not set.
  \<^item> The state of the congestion controller is the type parameter of the send control; its callbacks are a record.
  \<^item> \<^verbatim>\<open>ctl_conn\<close> is the connection itself, \<^verbatim>\<open>ctl_conn->streams_hash\<close> is \<open>ctl_streams\<close>, and what the send control reads of the
    settings of the connection is \<open>ctl_settings\<close>. \<open>ctl_next\<close> is the address of the next allocated packet: an allocation does not fail.
\<close>

section \<open>Sent packets\<close>

type_synonym pid = nat

abbreviation "XQC_POF_IN_FLIGHT \<equiv> (0x01::u32)"
abbreviation "XQC_POF_LOST \<equiv> (0x02::u32)"
abbreviation "XQC_POF_TLP \<equiv> (0x10::u32)"
abbreviation "XQC_POF_STREAM_UNACK \<equiv> (0x20::u32)"
abbreviation "XQC_POF_RETRANSED \<equiv> (0x40::u32)"

text \<open>The used entries of \<^verbatim>\<open>po_stream_frames\<close>.\<close>

record po_stream_frame =
  ps_stream_id :: u64
  ps_has_fin :: bool
  ps_is_reset :: bool

record sent_packet = packet_out +
  po_origin :: "pid option"
  po_ack_offset :: u32
  po_flag :: u32
  po_origin_ref_cnt :: u32
  po_acked :: bool
  po_stream_frames :: "po_stream_frame list"

section \<open>Streams\<close>

datatype xqc_send_stream_state =
    XQC_SEND_STREAM_ST_READY | XQC_SEND_STREAM_ST_SEND | XQC_SEND_STREAM_ST_DATA_SENT | XQC_SEND_STREAM_ST_DATA_RECVD
  | XQC_SEND_STREAM_ST_RESET_SENT | XQC_SEND_STREAM_ST_RESET_RECVD

datatype xqc_recv_stream_state =
    XQC_RECV_STREAM_ST_RECV | XQC_RECV_STREAM_ST_SIZE_KNOWN | XQC_RECV_STREAM_ST_DATA_RECVD | XQC_RECV_STREAM_ST_DATA_READ
  | XQC_RECV_STREAM_ST_RESET_RECVD | XQC_RECV_STREAM_ST_RESET_READ

text \<open>What the send control reads and writes of a stream; \<open>stream_need_close\<close> is the flag \<^verbatim>\<open>XQC_STREAM_FLAG_NEED_CLOSE\<close>, \<open>stream_ready\<close>
  are the flags that say that the stream is in the lists of readable and writable streams.\<close>

record xqc_stream =
  stream_state_send :: xqc_send_stream_state
  stream_state_recv :: xqc_recv_stream_state
  stream_unacked_pkt :: u32
  stream_need_close :: bool
  stream_ready :: "bool \<times> bool"
  stream_close_time :: usec
  first_snd_time :: usec
  local_fin_snd_time :: usec
  local_reset_time :: usec
  first_fin_ack_time :: usec
  all_data_acked_time :: usec
  close_time :: usec

section \<open>Delivery rate samples\<close>

record xqc_sample =
  smp_now :: usec
  smp_prior_delivered :: u64
  smp_interval :: usec
  smp_delivered :: u32
  smp_acked :: u32
  smp_bytes_inflight :: u32
  smp_prior_inflight :: u32
  smp_rtt :: usec
  smp_is_app_limited :: u32
  smp_loss :: u32
  smp_total_acked :: u64
  smp_srtt :: usec
  smp_prior_time :: usec
  smp_ack_elapse :: usec
  smp_send_elapse :: usec
  smp_delivery_rate :: u32
  smp_lagest_ack_time :: usec
  smp_po_sent_time :: usec
  smp_prior_lost :: u32
  smp_tx_in_flight :: u64
  smp_lost_pkts :: u32

section \<open>Congestion control callbacks\<close>

text \<open>An absent callback is \<open>None\<close>. A controller with \<^verbatim>\<open>xqc_cong_ctl_init_bbr\<close> is not modelled.\<close>

record 'cc cong_callback =
  cong_on_lost :: "usec \<Rightarrow> usec \<Rightarrow> 'cc \<Rightarrow> 'cc"
  cong_on_ack :: "(acked_packet \<Rightarrow> 'cc \<Rightarrow> 'cc res) option"
  cong_on_ack_multiple_pkts :: "(usec \<Rightarrow> u64 \<Rightarrow> xqc_sample \<Rightarrow> 'cc \<Rightarrow> 'cc res) option"
  cong_get_cwnd :: "'cc \<Rightarrow> u64"
  cong_get_pacing_rate :: "'cc \<Rightarrow> u32"
  cong_in_slow_start :: "'cc \<Rightarrow> bool"
  cong_reset_cwnd :: "('cc \<Rightarrow> 'cc) option"
  cong_restart_from_idle :: "u64 \<Rightarrow> 'cc \<Rightarrow> 'cc"

text \<open>The tables of New Reno and Cubic. \<^verbatim>\<open>xqc_cong_ctl_get_pacing_rate\<close> is absent there and called only for a controller with
  \<^verbatim>\<open>xqc_cong_ctl_on_ack_multiple_pkts\<close>; restarting from idle does nothing.\<close>

definition xqc_reno_cb :: "xqc_new_reno_t cong_callback" where
  "xqc_reno_cb = \<lparr>cong_on_lost = xqc_reno_on_lost, cong_on_ack = Some xqc_reno_on_ack, cong_on_ack_multiple_pkts = None,
     cong_get_cwnd = xqc_reno_get_cwnd, cong_get_pacing_rate = (\<lambda>_. 0), cong_in_slow_start = xqc_reno_in_slow_start,
     cong_reset_cwnd = Some xqc_reno_reset_cwnd, cong_restart_from_idle = (\<lambda>_ cc. cc)\<rparr>"

definition xqc_cubic_cb :: "(u64 \<Rightarrow> u64) \<Rightarrow> xqc_cubic_t cong_callback" where
  "xqc_cubic_cb cbrt = \<lparr>cong_on_lost = xqc_cubic_on_lost, cong_on_ack = Some (\<lambda>a c. Ok (xqc_cubic_on_ack cbrt a c)),
     cong_on_ack_multiple_pkts = None, cong_get_cwnd = cubic_cwnd, cong_get_pacing_rate = (\<lambda>_. 0),
     cong_in_slow_start = xqc_cubic_in_slow_start, cong_reset_cwnd = Some xqc_cubic_reset_cwnd, cong_restart_from_idle = (\<lambda>_ cc. cc)\<rparr>"

section \<open>The send control\<close>

record xqc_pacing =
  pacing_on :: bool
  bytes_budget :: u32
  last_sent_time :: usec
  pending_budget :: u32

datatype xqc_send_ctl_timer_type =
    XQC_TIMER_ACK_INIT | XQC_TIMER_ACK_HSK | XQC_TIMER_ACK_01RTT | XQC_TIMER_LOSS_DETECTION | XQC_TIMER_IDLE
  | XQC_TIMER_DRAINING | XQC_TIMER_PACING | XQC_TIMER_STREAM_CLOSE | XQC_TIMER_PING | XQC_TIMER_RETIRE_CID
  | XQC_TIMER_LINGER_CLOSE | XQC_TIMER_KEY_UPDATE | XQC_TIMER_NAT_REBINDING

text \<open>What the send control reads of the connection's settings; \<open>set_hsk_keys\<close> is the answer of the TLS layer for the handshake keys.\<close>

record send_settings =
  so_sndbuf :: u32
  anti_amplification_limit :: u32
  spurious_loss_detect_on :: bool
  remote_max_ack_delay :: u64
  local_max_ack_delay :: u64
  set_ack_delay_exponent :: nat
  set_mss :: u32
  set_pkt_out_size :: u32
  set_hsk_keys :: bool

record 'cc xqc_send_ctl =
  ctl_conn :: xqc_connection
  ctl_streams :: "u64 \<Rightarrow> xqc_stream option"
  ctl_closing_streams :: "u64 list"
  ctl_settings :: send_settings
  ctl_next :: pid
  ctl_store :: "pid \<Rightarrow> sent_packet"
  ctl_send_packets :: "pid list"
  ctl_send_packets_high_pri :: "pid list"
  ctl_unacked_packets :: "xqc_pkt_num_space \<Rightarrow> pid list"
  ctl_pto_probe_packets :: "pid list"
  ctl_lost_packets :: "pid list"
  ctl_free_packets :: "pid list"
  ctl_buff_1rtt_packets :: "pid list"
  ctl_packets_used :: u32
  ctl_packets_free :: u32
  ctl_packets_used_max :: u32
  ctl_packet_number :: "xqc_pkt_num_space \<Rightarrow> pktno"
  ctl_largest_ack_both :: "xqc_pkt_num_space \<Rightarrow> pktno"
  ctl_largest_sent :: "xqc_pkt_num_space \<Rightarrow> pktno"
  ctl_largest_acked :: "xqc_pkt_num_space \<Rightarrow> pktno"
  ctl_largest_acked_sent_time :: "xqc_pkt_num_space \<Rightarrow> usec"
  ctl_loss_time :: "xqc_pkt_num_space \<Rightarrow> usec"
  ctl_last_inflight_pkt_sent_time :: usec
  ctl_time_of_last_sent_ack_eliciting_packet :: "xqc_pkt_num_space \<Rightarrow> usec"
  ctl_last_sent_ack_eliciting_packet_number :: "xqc_pkt_num_space \<Rightarrow> pktno"
  ctl_srtt :: usec
  ctl_rttvar :: usec
  ctl_minrtt :: usec
  ctl_latest_rtt :: usec
  ctl_first_rtt_sample_time :: usec
  ctl_timer :: "xqc_send_ctl_timer_type \<Rightarrow> usec option"
  ctl_pto_count :: u32
  ctl_send_count :: u32
  ctl_lost_count :: u32
  ctl_tlp_count :: u32
  ctl_spurious_loss_count :: u32
  ctl_recv_count :: u32
  ctl_max_bytes_in_flight :: u32
  ctl_is_cwnd_limited :: bool
  ctl_bytes_in_flight :: u32
  ctl_bytes_ack_eliciting_inflight :: "xqc_pkt_num_space \<Rightarrow> u32"
  ctl_prior_bytes_in_flight :: u32
  ctl_bytes_send :: u64
  ctl_bytes_recv :: u64
  ctl_cong :: 'cc
  ctl_prior_delivered :: u64
  ctl_delivered :: u64
  ctl_app_limited :: u64
  ctl_delivered_time :: usec
  ctl_first_sent_time :: usec
  ctl_lost_pkts_number :: u32
  ctl_reordering_packet_threshold :: pktno
  ctl_reordering_time_threshold_shift :: nat
  ctl_sampler :: xqc_sample
  ctl_pacing :: xqc_pacing

section \<open>Timers\<close>

definition xqc_send_ctl_timer_is_set :: "'cc xqc_send_ctl \<Rightarrow> xqc_send_ctl_timer_type \<Rightarrow> bool" where
  "xqc_send_ctl_timer_is_set ctl type \<longleftrightarrow> ctl_timer ctl type \<noteq> None"

definition xqc_send_ctl_timer_set :: "xqc_send_ctl_timer_type \<Rightarrow> usec \<Rightarrow> usec \<Rightarrow> 'cc xqc_send_ctl \<Rightarrow> 'cc xqc_send_ctl" where
  "xqc_send_ctl_timer_set type now inter_time ctl = ctl\<lparr>ctl_timer := (ctl_timer ctl)(type := Some (now + inter_time))\<rparr>"

definition xqc_send_ctl_timer_unset :: "xqc_send_ctl_timer_type \<Rightarrow> 'cc xqc_send_ctl \<Rightarrow> 'cc xqc_send_ctl" where
  "xqc_send_ctl_timer_unset type ctl = ctl\<lparr>ctl_timer := (ctl_timer ctl)(type := None)\<rparr>"

end
