(* ===== verification/XQC_Sample.thy ===== *)
theory XQC_Sample
  imports XQC_Send_State
begin

text \<open>
  Delivery rate samples and the windowed maximum and minimum that the controllers keep of them
  (\<^verbatim>\<open>congestion_control/xqc_sample.c\<close>, \<^verbatim>\<open>congestion_control/xqc_window_filter.c\<close>).

  \<^item> A rate is computed in double precision as \<^verbatim>\<open>1e6 * delivered / interval\<close> and truncated. The product is below \<open>2 ^ 53\<close>, so it
    is exact, and the quotient of two such numbers never rounds up to the next integer: the truncated value is the integer quotient.
  \<^item> The window filter keeps the best, the second best and the third best sample. Its three places are the fields \<open>wf0\<close>, \<open>wf1\<close>, \<open>wf2\<close>.
\<close>

section \<open>Samples\<close>

definition zero_sample :: xqc_sample where
  "zero_sample = \<lparr>smp_now = 0, smp_prior_delivered = 0, smp_interval = 0, smp_delivered = 0, smp_acked = 0,
     smp_bytes_inflight = 0, smp_prior_inflight = 0, smp_rtt = 0, smp_is_app_limited = 0, smp_loss = 0, smp_total_acked = 0,
     smp_srtt = 0, smp_prior_time = 0, smp_ack_elapse = 0, smp_send_elapse = 0, smp_delivery_rate = 0, smp_lagest_ack_time = 0,
     smp_po_sent_time = 0, smp_prior_lost = 0, smp_tx_in_flight = 0, smp_lost_pkts = 0\<rparr>"

definition xqc_init_sample_before_ack :: "xqc_sample \<Rightarrow> xqc_sample" where
  "xqc_init_sample_before_ack sampler = zero_sample"

datatype xqc_sample_type =
    XQC_RATE_SAMPLE_VALID | XQC_RATE_SAMPLE_ACK_NOTHING | XQC_RATE_SAMPLE_INTERVAL_TOO_SMALL

definition xqc_generate_sample :: "xqc_sample \<Rightarrow> 'cc xqc_send_ctl \<Rightarrow> usec \<Rightarrow> xqc_sample_type \<times> xqc_sample" where
  "xqc_generate_sample sampler ctl now =
     (if smp_prior_time sampler = 0 then (XQC_RATE_SAMPLE_ACK_NOTHING, sampler\<lparr>smp_interval := 0\<rparr>)
      else
        let sampler = sampler\<lparr>smp_acked := ucast (ctl_delivered ctl - ctl_prior_delivered ctl),
              smp_interval := max (smp_ack_elapse sampler) (smp_send_elapse sampler),
              smp_delivered := ucast (ctl_delivered ctl - smp_prior_delivered sampler),
              smp_lost_pkts := ctl_lost_pkts_number ctl - smp_prior_lost sampler,
              smp_now := now, smp_rtt := ctl_latest_rtt ctl, smp_srtt := ctl_srtt ctl,
              smp_bytes_inflight := ctl_bytes_in_flight ctl, smp_prior_inflight := ctl_prior_bytes_in_flight ctl,
              smp_total_acked := ctl_delivered ctl\<rparr>
        in if smp_interval sampler < ctl_minrtt ctl then (XQC_RATE_SAMPLE_INTERVAL_TOO_SMALL, sampler\<lparr>smp_interval := 0\<rparr>)
           else if smp_interval sampler \<noteq> 0
           then (XQC_RATE_SAMPLE_VALID, sampler\<lparr>smp_delivery_rate :=
                   of_nat (1000000 * unat (smp_delivered sampler) div unat (smp_interval sampler))\<rparr>)
           else (XQC_RATE_SAMPLE_VALID, sampler))"

definition xqc_update_sample :: "usec \<Rightarrow> sent_packet \<Rightarrow> 'cc xqc_send_ctl \<Rightarrow> sent_packet \<times> 'cc xqc_send_ctl" where
  "xqc_update_sample now packet ctl =
     (if po_delivered_time packet = 0 then (packet, ctl)
      else
        let ctl = ctl\<lparr>ctl_delivered := ctl_delivered ctl + ucast (po_used_size packet), ctl_delivered_time := now\<rparr>;
            s = ctl_sampler ctl;
            ctl = (if smp_prior_delivered s = 0 \<or> po_delivered packet > smp_prior_delivered s then
                     ctl\<lparr>ctl_sampler := s\<lparr>smp_prior_lost := po_lost packet, smp_tx_in_flight := po_tx_in_flight packet,
                             smp_prior_delivered := po_delivered packet, smp_prior_time := po_delivered_time packet,
                             smp_is_app_limited := (if po_is_app_limited packet then 1 else 0),
                             smp_send_elapse := po_sent_time packet - po_first_sent_time packet,
                             smp_ack_elapse := ctl_delivered_time ctl - po_delivered_time packet,
                             smp_lagest_ack_time := now\<rparr>,
                         ctl_first_sent_time := po_sent_time packet\<rparr>
                   else ctl)
        in (packet\<lparr>po_delivered_time := 0\<rparr>, ctl\<lparr>ctl_sampler := (ctl_sampler ctl)\<lparr>smp_po_sent_time := po_sent_time packet\<rparr>\<rparr>))"

text \<open>\<open>cwnd\<close> and \<open>mss\<close> are what the controller and the connection answer, cut to 32 bits.\<close>

definition xqc_sample_check_app_limited :: "u64 \<Rightarrow> u32 \<Rightarrow> 'cc xqc_send_ctl \<Rightarrow> bool \<times> 'cc xqc_send_ctl" where
  "xqc_sample_check_app_limited cwnd mss ctl =
     (let cwnd = (ucast cwnd :: u32);
          not_cwnd_limited = (if ctl_bytes_in_flight ctl < cwnd then cwnd - ctl_bytes_in_flight ctl \<ge> mss else False)
      in if not_cwnd_limited \<and> ctl_send_packets ctl = [] \<and> ctl_lost_packets ctl = [] \<and> ctl_pto_probe_packets ctl = []
         then let n = ctl_delivered ctl + ucast (ctl_bytes_in_flight ctl)
              in (True, ctl\<lparr>ctl_app_limited := (if n \<noteq> 0 then n else 1)\<rparr>)
         else (False, ctl))"

definition xqc_sample_on_sent :: "usec \<Rightarrow> sent_packet \<Rightarrow> 'cc xqc_send_ctl \<Rightarrow> sent_packet \<times> 'cc xqc_send_ctl" where
  "xqc_sample_on_sent now packet ctl =
     (let ctl = (if ctl_bytes_in_flight ctl = 0 then ctl\<lparr>ctl_delivered_time := now, ctl_first_sent_time := now\<rparr> else ctl)
      in (packet\<lparr>po_delivered_time := ctl_delivered_time ctl, po_first_sent_time := ctl_first_sent_time ctl,
            po_delivered := ctl_delivered ctl, po_is_app_limited := (ctl_app_limited ctl > 0), po_lost := ctl_lost_pkts_number ctl,
            po_tx_in_flight := ucast (ctl_bytes_in_flight ctl + po_used_size packet)\<rparr>, ctl))"

section \<open>The window filter\<close>

record xqc_win_sample =
  win_t :: u64
  win_val :: u64

record xqc_win_filter =
  wf0 :: xqc_win_sample
  wf1 :: xqc_win_sample
  wf2 :: xqc_win_sample

definition xqc_win_filter_get :: "xqc_win_filter \<Rightarrow> u64" where
  "xqc_win_filter_get w = win_val (wf0 w)"

definition xqc_win_filter_reset :: "xqc_win_filter \<Rightarrow> u64 \<Rightarrow> u64 \<Rightarrow> u64 \<times> xqc_win_filter" where
  "xqc_win_filter_reset w t nval = (let s = \<lparr>win_t = t, win_val = nval\<rparr> in (nval, w\<lparr>wf0 := s, wf1 := s, wf2 := s\<rparr>))"

text \<open>The age of the best sample is cut to 32 bits, the age of its successor is not.\<close>

definition xqc_win_filter_update :: "xqc_win_filter \<Rightarrow> u64 \<Rightarrow> xqc_win_sample \<Rightarrow> u64 \<times> xqc_win_filter" where
  "xqc_win_filter_update w win nsample =
     (let dt = (ucast (win_t nsample - win_t (wf0 w)) :: u32);
          w = (if ucast dt > win then
                 let w = w\<lparr>wf0 := wf1 w, wf1 := wf2 w, wf2 := nsample\<rparr>
                 in if win_t nsample - win_t (wf0 w) > win then w\<lparr>wf0 := wf1 w, wf1 := wf2 w, wf2 := nsample\<rparr> else w
               else if win_t (wf1 w) = win_t (wf0 w) \<and> ucast dt > win div 4 then w\<lparr>wf1 := nsample, wf2 := nsample\<rparr>
               else if win_t (wf2 w) = win_t (wf1 w) \<and> ucast dt > win div 2 then w\<lparr>wf2 := nsample\<rparr>
               else w)
      in (win_val (wf0 w), w))"

definition xqc_win_filter_max :: "xqc_win_filter \<Rightarrow> u64 \<Rightarrow> u64 \<Rightarrow> u64 \<Rightarrow> u64 \<times> xqc_win_filter" where
  "xqc_win_filter_max w win t nval =
     (let nsample = \<lparr>win_t = t, win_val = nval\<rparr> in
      if nval \<ge> win_val (wf0 w) \<or> t - win_t (wf2 w) > win then xqc_win_filter_reset w t nval
      else
        let w = (if nval \<ge> win_val (wf1 w) then w\<lparr>wf1 := nsample, wf2 := nsample\<rparr>
                 else if nval \<ge> win_val (wf2 w) then w\<lparr>wf2 := nsample\<rparr> else w)
        in xqc_win_filter_update w win nsample)"

definition xqc_win_filter_min :: "xqc_win_filter \<Rightarrow> u64 \<Rightarrow> u64 \<Rightarrow> u64 \<Rightarrow> u64 \<times> xqc_win_filter" where
  "xqc_win_filter_min w win t nval =
     (let nsample = \<lparr>win_t = t, win_val = nval\<rparr> in
      if nval \<le> win_val (wf0 w) \<or> t - win_t (wf2 w) > win then xqc_win_filter_reset w t nval
      else
        let w = (if nval \<le> win_val (wf1 w) then w\<lparr>wf1 := nsample, wf2 := nsample\<rparr>
                 else if nval \<le> win_val (wf2 w) then w\<lparr>wf2 := nsample\<rparr> else w)
        in xqc_win_filter_update w win nsample)"

section \<open>Specification\<close>

text \<open>The three places are ordered: each is at most as good as, and at least as recent as, the one before; \<open>le\<close> is the order of
  the filter. The best one is younger than \<open>2 ^ 32\<close> ticks, so that its age is not cut.\<close>

definition filter_inv :: "(u64 \<Rightarrow> u64 \<Rightarrow> bool) \<Rightarrow> u64 \<Rightarrow> xqc_win_filter \<Rightarrow> bool" where
  "filter_inv le t w \<longleftrightarrow> le (win_val (wf2 w)) (win_val (wf1 w)) \<and> le (win_val (wf1 w)) (win_val (wf0 w))
     \<and> win_t (wf0 w) \<le> win_t (wf1 w) \<and> win_t (wf1 w) \<le> win_t (wf2 w) \<and> win_t (wf2 w) \<le> t"

definition filter_ok :: "(u64 \<Rightarrow> u64 \<Rightarrow> bool) \<Rightarrow> u64 \<Rightarrow> u64 \<Rightarrow> u64 \<Rightarrow> u64 \<times> xqc_win_filter \<Rightarrow> bool" where
  "filter_ok le win t nval r \<longleftrightarrow> filter_inv le t (snd r) \<and> fst r = xqc_win_filter_get (snd r) \<and> le nval (fst r)
     \<and> t - win_t (wf0 (snd r)) \<le> win"

section \<open>Properties\<close>

lemma filter_update_ok:
  assumes "win_t (wf0 w) \<le> win_t (wf1 w)" "win_t (wf1 w) \<le> win_t (wf2 w)" "win_t (wf2 w) \<le> t"
    and "le (win_val (wf2 w)) (win_val (wf1 w))" "le (win_val (wf1 w)) (win_val (wf0 w))" "le nval (win_val (wf2 w))"
    and "t - win_t (wf2 w) \<le> win" "t - win_t (wf0 w) < 2 ^ 32"
    and trans: "\<And>x y z. le x y \<Longrightarrow> le y z \<Longrightarrow> le x z" and refl: "\<And>x. le x x"
  shows "filter_ok le win t nval (xqc_win_filter_update w win \<lparr>win_t = t, win_val = nval\<rparr>)"
proof -
  have l: "le nval (win_val (wf1 w))" "le nval (win_val (wf0 w))" using assms(4-6) trans by blast+
  have o: "win_t (wf0 w) \<le> t" "win_t (wf1 w) \<le> t" using assms(1-3) by auto
  show ?thesis
    unfolding xqc_win_filter_update_def Let_def xqc_win_sample.simps ucast_32_64 [OF assms(8)]
    using assms(1-8) l o refl by (auto simp: filter_ok_def filter_inv_def xqc_win_filter_get_def not_less)
qed



end
