(* ===== verification/XQC_RLCC.thy ===== *)
theory XQC_RLCC
  imports XQC_Sample
begin

text \<open>
  The controller that reinforcement learning drives (\<^verbatim>\<open>congestion_control/rlcc.c\<close>). On acknowledgements the engine smooths its samples
  and, once per interval, publishes the state of the path over Redis and signals the action thread; the thread reads the
  answer of the agent and changes the window.

  \<^item> \<^verbatim>\<open>plan\<close> is the constant 2 in both functions, so the other plans are dead code. The action plans 3 and 4 are modelled beside the
    live one; plan 1 multiplies by single precision numbers and is not modelled.
  \<^item> Redis is a parameter: a reply is its type and the strings of its elements, a published state is the list of the twelve numbers
    that \<^verbatim>\<open>sprintf\<close> prints.
  \<^item> \<^verbatim>\<open>sscanf("%d")\<close> is \<open>scan_int\<close>, and \<^verbatim>\<open>sprintf("%d")\<close> is \<open>show_int\<close>. An action that is not a number leaves the variable
    of the code uninitialised; it is \<open>Fault\<close> here, as is a number outside the type \<^verbatim>\<open>int\<close>.
  \<^item> \<^verbatim>\<open>cwnd_int * XQC_RLCC_MSS\<close> is a 32-bit product, stored in a 64-bit field.
\<close>

section \<open>Numbers on the wire\<close>

definition is_digit :: "char \<Rightarrow> bool" where
  "is_digit c \<longleftrightarrow> 48 \<le> (of_char c :: nat) \<and> (of_char c :: nat) \<le> 57"

definition digit_val :: "char \<Rightarrow> nat" where
  "digit_val c = of_char c - 48"

definition is_blank :: "char \<Rightarrow> bool" where
  "is_blank c \<longleftrightarrow> (of_char c :: nat) = 32 \<or> 9 \<le> (of_char c :: nat) \<and> (of_char c :: nat) \<le> 13"

fun scan_digits :: "nat \<Rightarrow> string \<Rightarrow> nat" where
  "scan_digits acc [] = acc"
| "scan_digits acc (c # cs) = (if is_digit c then scan_digits (10 * acc + digit_val c) cs else acc)"

definition scan_int :: "string \<Rightarrow> int option" where
  "scan_int s =
     (let s = dropWhile is_blank s;
          neg = (s \<noteq> [] \<and> hd s = CHR ''-'');
          s = (if s \<noteq> [] \<and> (hd s = CHR ''-'' \<or> hd s = CHR ''+'') then tl s else s)
      in if s = [] \<or> \<not> is_digit (hd s) then None
         else let v = (if neg then - int (scan_digits 0 s) else int (scan_digits 0 s))
              in if - (2 ^ 31) \<le> v \<and> v < 2 ^ 31 then Some v else None)"

fun show_nat :: "nat \<Rightarrow> string" where
  "show_nat n = (if n < 10 then [char_of (48 + n)] else show_nat (n div 10) @ [char_of (48 + n mod 10)])"

definition show_int :: "int \<Rightarrow> string" where
  "show_int v = (if v < 0 then CHR ''-'' # show_nat (nat (- v)) else show_nat (nat v))"

text \<open>The bytes that \<^verbatim>\<open>sprintf\<close> writes for a message, without the final zero.\<close>

fun print_message :: "int list \<Rightarrow> string" where
  "print_message [] = []"
| "print_message [v] = show_int v"
| "print_message (v # vs) = show_int v @ CHR '';'' # print_message vs"

section \<open>State\<close>

abbreviation "XQC_RLCC_INIT_WIN_INT \<equiv> (32::u32)"
abbreviation "XQC_RLCC_MIN_WINDOW_INT \<equiv> (4::u32)"
abbreviation "XQC_RLCC_INIT_WIN \<equiv> (38912::u64)"
abbreviation "XQC_RLCC_MIN_WINDOW \<equiv> (4864::u64)"
abbreviation "XQC_RLCC_INF \<equiv> (0x7fffffff::u64)"
abbreviation "SAMPLE_INTERVAL \<equiv> (100000::u64)"
abbreviation "MSEC2SEC \<equiv> (1000000::u64)"
abbreviation "XQC_DEFAULT_PACING_RATE \<equiv> (9728::u64)"
abbreviation "XQC_INITIAL_RTT_US \<equiv> (250000::u64)"

definition xqc_pacing_rate_max :: u64 where
  "xqc_pacing_rate_max = (- 1) div MSEC2SEC"

record xqc_rlcc =
  rl_cwnd :: u64
  rl_pacing_rate :: u64
  rl_timestamp :: usec
  rl_sample_start :: usec
  rl_sample_stop :: usec
  rl_rtt :: usec
  rl_srtt :: usec
  rl_lost_interval :: int
  rl_lost :: u32
  rl_before_lost :: u32
  rl_delivery_rate :: u32
  rl_inflight :: u32
  rl_prior_cwnd :: u64
  rl_prior_pacing_rate :: u64
  rl_min_rtt :: usec
  rl_min_rtt_timestamp :: usec
  rl_in_recovery :: bool
  rl_is_slow_start :: bool
  rl_path_flag :: u32
  rl_cwnd_int :: u32
  rl_up_times :: u8
  rl_down_times :: u8
  rl_up_n :: u8
  rl_up_change_EMA :: u32
  rl_up_stay_EMA :: u32
  rl_down_change_EMA :: u32
  rl_down_stay_EMA :: u32
  rl_before_total_sent :: u64
  rl_sent_timestamp :: usec
  rl_throughput :: u32

definition xqc_rlcc_calc_pacing_rate_by_cwnd :: "xqc_rlcc \<Rightarrow> xqc_rlcc" where
  "xqc_rlcc_calc_pacing_rate_by_cwnd r =
     (let srtt = (if rl_srtt r = 0 then XQC_INITIAL_RTT_US else rl_srtt r)
      in r\<lparr>rl_pacing_rate := max (min (rl_cwnd r * MSEC2SEC div srtt) xqc_pacing_rate_max) XQC_DEFAULT_PACING_RATE\<rparr>)"

definition EMA :: "u32 \<Rightarrow> u32 \<Rightarrow> u32 \<Rightarrow> u32" where
  "EMA new old rate = new div rate + (rate - 1) * old div rate"

section \<open>Actions\<close>

text \<open>\<^verbatim>\<open>cwnd_int += cwnd_value\<close> with its guard, the base window, and the window and rate that follow from it; the end of plans 2
  and 4. The negation of the least \<^verbatim>\<open>int\<close> overflows.\<close>

definition rlcc_base_window :: "xqc_rlcc \<Rightarrow> xqc_rlcc" where
  "rlcc_base_window r =
     (let r = (if rl_cwnd_int r < XQC_RLCC_MIN_WINDOW_INT then r\<lparr>rl_cwnd_int := XQC_RLCC_MIN_WINDOW_INT\<rparr> else r);
          r = r\<lparr>rl_cwnd := ucast (rl_cwnd_int r * of_nat XQC_MSS)\<rparr>
      in xqc_rlcc_calc_pacing_rate_by_cwnd r)"

definition rlcc_add_window :: "int \<Rightarrow> xqc_rlcc \<Rightarrow> xqc_rlcc res" where
  "rlcc_add_window cwnd_value r =
     (if cwnd_value = - (2 ^ 31) then Fault
      else let tmp = (if cwnd_value > 0 then cwnd_value else - cwnd_value);
               r = (if rl_cwnd_int r \<ge> of_int tmp \<or> cwnd_value > 0
                    then r\<lparr>rl_cwnd_int := rl_cwnd_int r + of_int cwnd_value\<rparr> else r)
           in Ok (rlcc_base_window r))"

definition up_actions_list :: "u32 list" where
  "up_actions_list = [30, 150, 750, 3750, 18750, 93750, 468750, 2343750]"

definition down_actions_list :: "u32 list" where
  "down_actions_list = [1, 3, 5, 9, 15, 21, 33, 51]"

definition rlcc_plan3 :: "int \<Rightarrow> xqc_rlcc \<Rightarrow> xqc_rlcc res" where
  "rlcc_plan3 cwnd_value r =
     (if cwnd_value = 1 then
        if length up_actions_list \<le> unat (rl_up_n r) \<or> rl_cwnd_int r = 0 then Fault
        else
          let a = up_actions_list ! unat (rl_up_n r) div rl_cwnd_int r;
              a = (if a = 0 then 1 else a);
              r = r\<lparr>rl_cwnd_int := rl_cwnd_int r + a, rl_up_times := rl_up_times r + 1, rl_down_times := 0\<rparr>;
              ifup = (if rl_min_rtt r < SAMPLE_INTERVAL then 3 else 1);
              r = (if rl_up_times r > ifup \<and> rl_up_n r < 7 then r\<lparr>rl_up_n := rl_up_n r + 1\<rparr> else r)
          in Ok (rlcc_base_window r)
      else if cwnd_value = - 1 then
        let d = unat (rl_down_times r);
            r = (if d < 8 then
                   if rl_cwnd_int r > down_actions_list ! d then r\<lparr>rl_cwnd_int := rl_cwnd_int r - down_actions_list ! d\<rparr> else r
                 else r\<lparr>rl_cwnd_int := rl_cwnd_int r - drop_bit 1 (rl_cwnd_int r)\<rparr>);
            r = r\<lparr>rl_down_times := rl_down_times r + 1, rl_up_times := 0\<rparr>;
            r = (if rl_up_n r > 0 then r\<lparr>rl_up_n := rl_up_n r - 1\<rparr> else r)
        in Ok (rlcc_base_window r)
      else Ok (rlcc_base_window (if rl_up_n r > 0 then r\<lparr>rl_up_n := rl_up_n r - 1\<rparr> else r)))"

definition rlcc_plan4 :: "int \<Rightarrow> xqc_rlcc \<Rightarrow> xqc_rlcc res" where
  "rlcc_plan4 cwnd_value r =
     (if cwnd_value = 0 then
        rlcc_add_window 0 (r\<lparr>rl_up_stay_EMA := EMA 50000 (rl_up_stay_EMA r) 4, rl_up_change_EMA := EMA 50000 (rl_up_change_EMA r) 4,
          rl_down_stay_EMA := EMA 50000 (rl_down_stay_EMA r) 4, rl_down_change_EMA := EMA 50000 (rl_down_change_EMA r) 4\<rparr>)
      else if cwnd_value = 1 then
        let r = r\<lparr>rl_up_change_EMA := EMA 100000 (rl_up_change_EMA r) 16, rl_up_stay_EMA := EMA 2000 (rl_up_stay_EMA r) 16,
                  rl_down_change_EMA := EMA 50000 (rl_down_change_EMA r) 4\<rparr>
        in if rl_up_stay_EMA r = 0 then Fault
           else rlcc_add_window (int (unat (rl_up_change_EMA r div rl_up_stay_EMA r)) + 1) r
      else if cwnd_value = - 1 then
        let r = r\<lparr>rl_down_stay_EMA := EMA 2000 (rl_down_stay_EMA r) 16, rl_down_change_EMA := EMA 100000 (rl_down_change_EMA r) 16,
                  rl_up_change_EMA := EMA 50000 (rl_up_change_EMA r) 4\<rparr>
        in if rl_down_stay_EMA r = 0 then Fault
           else rlcc_add_window (- int (unat (rl_down_change_EMA r div rl_down_stay_EMA r)) - 1) r
      else rlcc_add_window cwnd_value r)"

text \<open>A reply of Redis: an array of elements, of which some have a string, or anything else.\<close>

datatype redis_reply = Redis_Array "string option list" | Redis_Other

definition get_result_from_reply :: "redis_reply \<Rightarrow> xqc_rlcc \<Rightarrow> xqc_rlcc res" where
  "get_result_from_reply reply r =
     (let plan = (2::nat) in
      case reply of
        Redis_Other \<Rightarrow> Ok r
      | Redis_Array elements \<Rightarrow>
          if length elements \<le> 2 then Fault
          else case elements ! 2 of
                 None \<Rightarrow> Fault
               | Some s \<Rightarrow>
                   (case scan_int s of
                      None \<Rightarrow> Fault
                    | Some cwnd_value \<Rightarrow>
                        if plan = 2 then rlcc_add_window cwnd_value r
                        else if plan = 3 then rlcc_plan3 cwnd_value r
                        else if plan = 4 then rlcc_plan4 cwnd_value r
                        else Ok r))"

section \<open>The controller\<close>

definition xqc_rlcc_init :: "usec \<Rightarrow> u32 option \<Rightarrow> xqc_rlcc" where
  "xqc_rlcc_init now path_flag =
     (let r = \<lparr>rl_cwnd = XQC_RLCC_INIT_WIN, rl_pacing_rate = 0, rl_timestamp = now, rl_sample_start = 0, rl_sample_stop = 0,
               rl_rtt = XQC_RLCC_INF, rl_srtt = 0, rl_lost_interval = 0, rl_lost = 0, rl_before_lost = 0, rl_delivery_rate = 0,
               rl_inflight = 0, rl_prior_cwnd = XQC_RLCC_INIT_WIN, rl_prior_pacing_rate = 0, rl_min_rtt = XQC_RLCC_INF,
               rl_min_rtt_timestamp = 0, rl_in_recovery = False, rl_is_slow_start = False, rl_path_flag = 0,
               rl_cwnd_int = XQC_RLCC_INIT_WIN_INT, rl_up_times = 0, rl_down_times = 0, rl_up_n = 0,
               rl_up_change_EMA = 1000, rl_up_stay_EMA = 1000, rl_down_change_EMA = 1000, rl_down_stay_EMA = 1000,
               rl_before_total_sent = 0, rl_sent_timestamp = now, rl_throughput = 0\<rparr>;
          r = xqc_rlcc_calc_pacing_rate_by_cwnd r;
          r = r\<lparr>rl_prior_pacing_rate := rl_pacing_rate r\<rparr>
      in case path_flag of Some f \<Rightarrow> r\<lparr>rl_path_flag := f\<rparr> | None \<Rightarrow> r)"

definition probe_minrtt :: "xqc_sample \<Rightarrow> xqc_rlcc \<Rightarrow> xqc_rlcc" where
  "probe_minrtt sampler r =
     (if rl_min_rtt r = 0 \<or> smp_rtt sampler < rl_min_rtt r
      then r\<lparr>rl_min_rtt := smp_rtt sampler, rl_min_rtt_timestamp := smp_now sampler\<rparr> else r)"

text \<open>\<^verbatim>\<open>x -= x >> 2; x += y >> 2;\<close>\<close>

definition smooth :: "'a::len word \<Rightarrow> 'a word \<Rightarrow> 'a word" where
  "smooth old new = old - drop_bit 2 old + drop_bit 2 new"

definition rlcc_before_sample :: "usec \<Rightarrow> u64 \<Rightarrow> xqc_sample \<Rightarrow> xqc_rlcc \<Rightarrow> xqc_rlcc" where
  "rlcc_before_sample now bytes_send sampler r =
     (if rl_sample_start r > now
      then r\<lparr>rl_rtt := smp_rtt sampler, rl_srtt := smp_rtt sampler, rl_inflight := smp_bytes_inflight sampler,
             rl_lost := smp_lost_pkts sampler, rl_delivery_rate := smp_delivery_rate sampler,
             rl_before_total_sent := bytes_send, rl_sent_timestamp := now, rl_before_lost := smp_lost_pkts sampler\<rparr>
      else r)"

definition rlcc_sample :: "usec \<Rightarrow> xqc_sample \<Rightarrow> xqc_rlcc \<Rightarrow> xqc_rlcc" where
  "rlcc_sample now sampler r =
     (if rl_sample_start r \<le> now
      then r\<lparr>rl_rtt := smooth (rl_rtt r) (smp_rtt sampler), rl_srtt := smooth (rl_srtt r) (smp_srtt sampler),
             rl_inflight := smooth (rl_inflight r) (smp_bytes_inflight sampler), rl_lost := smooth (rl_lost r) (smp_lost_pkts sampler),
             rl_delivery_rate := smooth (rl_delivery_rate r) (smp_delivery_rate sampler)\<rparr>
      else r)"

text \<open>The numbers of the message, as \<^verbatim>\<open>%d\<close> and \<^verbatim>\<open>%ld\<close> print the words.\<close>

definition rlcc_message :: "u32 \<Rightarrow> xqc_sample \<Rightarrow> xqc_rlcc \<Rightarrow> int list" where
  "rlcc_message sent_interval sampler r =
     [sint (ucast (drop_bit 10 (rl_cwnd r)) :: u32), sint (ucast (drop_bit 10 (rl_pacing_rate r)) :: u32), sint (rl_rtt r),
      sint (rl_min_rtt r), sint (rl_srtt r), sint (rl_inflight r), rl_lost_interval r, sint (rl_lost r),
      sint (smp_is_app_limited sampler), sint (rl_delivery_rate r), sint (rl_throughput r), sint sent_interval]"

text \<open>The end of an interval. The throughput is computed in double precision and converted to 32 bits: a zero interval or a
  larger value is undefined.\<close>

definition rlcc_stop :: "usec \<Rightarrow> u64 \<Rightarrow> xqc_sample \<Rightarrow> xqc_rlcc \<Rightarrow> (xqc_rlcc \<times> int list option) res" where
  "rlcc_stop now bytes_send sampler r =
     (if rl_sample_stop r \<le> now then
        let r = r\<lparr>rl_timestamp := now, rl_sample_start := now + rl_min_rtt r\<rparr>;
            r = r\<lparr>rl_sample_stop := rl_sample_start r + min (rl_min_rtt r) SAMPLE_INTERVAL\<rparr>;
            sent_interval = (ucast (bytes_send - rl_before_total_sent r) :: u32);
            dt = unat (now - rl_sent_timestamp r);
            throughput = 1000000 * unat sent_interval div dt
        in if dt = 0 \<or> 2 ^ 32 \<le> throughput then Fault
           else
             let r = r\<lparr>rl_throughput := of_nat throughput,
                       rl_lost_interval := max (sint (smp_lost_pkts sampler - rl_before_lost r)) 0\<rparr>
             in Ok (r, if rl_path_flag r \<noteq> 0 then Some (rlcc_message sent_interval sampler r) else None)
      else Ok (r, None))"

text \<open>\<open>bytes_send\<close> is \<^verbatim>\<open>sampler->send_ctl->ctl_bytes_send\<close>.\<close>

definition xqc_rlcc_on_ack :: "usec \<Rightarrow> u64 \<Rightarrow> xqc_sample \<Rightarrow> xqc_rlcc \<Rightarrow> (xqc_rlcc \<times> int list option) res" where
  "xqc_rlcc_on_ack now bytes_send sampler r =
     (let r = probe_minrtt sampler r;
          r = rlcc_before_sample now bytes_send sampler r;
          r = rlcc_sample now sampler r
      in rlcc_stop now bytes_send sampler r)"

definition xqc_rlcc_on_lost :: "usec \<Rightarrow> usec \<Rightarrow> xqc_rlcc \<Rightarrow> xqc_rlcc" where
  "xqc_rlcc_on_lost lost_sent_time now r = r"

definition xqc_rlcc_get_cwnd :: "xqc_rlcc \<Rightarrow> u64" where
  "xqc_rlcc_get_cwnd r = rl_cwnd r"

definition xqc_rlcc_reset_cwnd :: "xqc_rlcc \<Rightarrow> xqc_rlcc" where
  "xqc_rlcc_reset_cwnd r =
     xqc_rlcc_calc_pacing_rate_by_cwnd (r\<lparr>rl_cwnd := XQC_RLCC_MIN_WINDOW, rl_cwnd_int := XQC_RLCC_MIN_WINDOW_INT\<rparr>)"

definition xqc_rlcc_get_pacing_rate :: "xqc_rlcc \<Rightarrow> u32" where
  "xqc_rlcc_get_pacing_rate r = ucast (rl_pacing_rate r)"

definition xqc_rlcc_in_recovery :: "xqc_rlcc \<Rightarrow> bool" where
  "xqc_rlcc_in_recovery r = rl_in_recovery r"

text \<open>The table of the controller. \<^verbatim>\<open>xqc_cong_ctl_on_ack\<close> and \<^verbatim>\<open>xqc_cong_ctl_in_slow_start\<close> are absent; the send control asks for the
  latter only on behalf of controllers with the former. The published message is outside of the send control.\<close>

definition xqc_rlcc_cb :: "xqc_rlcc cong_callback" where
  "xqc_rlcc_cb = \<lparr>cong_on_lost = xqc_rlcc_on_lost, cong_on_ack = None,
     cong_on_ack_multiple_pkts = Some (\<lambda>now bytes_send sampler r. bind_res (xqc_rlcc_on_ack now bytes_send sampler r) (\<lambda>(r, m). Ok r)),
     cong_get_cwnd = xqc_rlcc_get_cwnd, cong_get_pacing_rate = xqc_rlcc_get_pacing_rate, cong_in_slow_start = (\<lambda>_. False),
     cong_reset_cwnd = Some xqc_rlcc_reset_cwnd, cong_restart_from_idle = (\<lambda>_ r. r)\<rparr>"

section \<open>Interleavings of the engine, the action thread and the agent\<close>

text \<open>The engine runs, or has published a state and waits for the mutex to signal the thread. The thread is about to take the mutex,
  waits on the condition, or has been woken and reads the reply of the agent; there it holds the mutex.\<close>

datatype rlcc_engine = Engine_Running | Engine_Signalling
datatype rlcc_thread = Thread_Locking | Thread_Waiting | Thread_Receiving

record rlcc_system =
  sys_rlcc :: xqc_rlcc
  sys_engine :: rlcc_engine
  sys_thread :: rlcc_thread
  sys_replies :: "redis_reply list"
  sys_published :: "int list list"

text \<open>What the condition variable does with a signal: a waiting thread wakes, otherwise the signal is lost.\<close>

definition cond_signal :: "rlcc_thread \<Rightarrow> rlcc_thread" where
  "cond_signal t = (if t = Thread_Waiting then Thread_Receiving else t)"

inductive rlcc_step :: "rlcc_system \<Rightarrow> rlcc_system \<Rightarrow> bool" where
  rlcc_ack: "sys_engine s = Engine_Running \<Longrightarrow> xqc_rlcc_on_ack now bytes_send sampler (sys_rlcc s) = Ok (r, None)
    \<Longrightarrow> rlcc_step s (s\<lparr>sys_rlcc := r\<rparr>)"
| rlcc_publish: "sys_engine s = Engine_Running \<Longrightarrow> xqc_rlcc_on_ack now bytes_send sampler (sys_rlcc s) = Ok (r, Some m)
    \<Longrightarrow> rlcc_step s (s\<lparr>sys_rlcc := r, sys_published := sys_published s @ [m], sys_engine := Engine_Signalling\<rparr>)"
| rlcc_signal: "sys_engine s = Engine_Signalling \<Longrightarrow> sys_thread s \<noteq> Thread_Receiving
    \<Longrightarrow> rlcc_step s (s\<lparr>sys_engine := Engine_Running, sys_thread := cond_signal (sys_thread s)\<rparr>)"
| rlcc_reset: "sys_engine s = Engine_Running \<Longrightarrow> rlcc_step s (s\<lparr>sys_rlcc := xqc_rlcc_reset_cwnd (sys_rlcc s)\<rparr>)"
| rlcc_wait: "sys_thread s = Thread_Locking \<Longrightarrow> rlcc_step s (s\<lparr>sys_thread := Thread_Waiting\<rparr>)"
| rlcc_spurious: "sys_thread s = Thread_Waiting \<Longrightarrow> rlcc_step s (s\<lparr>sys_thread := Thread_Receiving\<rparr>)"
| rlcc_act: "sys_thread s = Thread_Receiving \<Longrightarrow> sys_replies s = reply # rest \<Longrightarrow> get_result_from_reply reply (sys_rlcc s) = Ok r
    \<Longrightarrow> rlcc_step s (s\<lparr>sys_rlcc := r, sys_replies := rest, sys_thread := Thread_Locking\<rparr>)"
| rlcc_redis_error: "sys_thread s = Thread_Receiving \<Longrightarrow> rlcc_step s (s\<lparr>sys_thread := Thread_Locking\<rparr>)"
| rlcc_agent: "rlcc_step s (s\<lparr>sys_replies := sys_replies s @ [reply]\<rparr>)"

definition rlcc_start :: "usec \<Rightarrow> u32 option \<Rightarrow> rlcc_system" where
  "rlcc_start now path_flag = \<lparr>sys_rlcc = xqc_rlcc_init now path_flag, sys_engine = Engine_Running, sys_thread = Thread_Locking,
     sys_replies = [], sys_published = []\<rparr>"

definition rlcc_reachable :: "rlcc_system \<Rightarrow> bool" where
  "rlcc_reachable s \<longleftrightarrow> (\<exists>now path_flag. rlcc_step\<^sup>*\<^sup>* (rlcc_start now path_flag) s)"

section \<open>Specification\<close>

definition rlcc_wf :: "xqc_rlcc \<Rightarrow> bool" where
  "rlcc_wf r \<longleftrightarrow> XQC_RLCC_MIN_WINDOW_INT \<le> rl_cwnd_int r \<and> rl_cwnd r = ucast (rl_cwnd_int r * of_nat XQC_MSS)
     \<and> XQC_DEFAULT_PACING_RATE \<le> rl_pacing_rate r \<and> rl_pacing_rate r \<le> xqc_pacing_rate_max"

text \<open>The largest window, in packets, whose size in bytes has 32 bits.\<close>

abbreviation "rlcc_max_packets \<equiv> (3532045::nat)"

datatype rlcc_event = Rl_Ack usec u64 xqc_sample | Rl_Action redis_reply

fun rlcc_handle :: "rlcc_event \<Rightarrow> xqc_rlcc \<Rightarrow> xqc_rlcc res" where
  "rlcc_handle (Rl_Ack now bytes_send sampler) r = bind_res (xqc_rlcc_on_ack now bytes_send sampler r) (\<lambda>(r, m). Ok r)"
| "rlcc_handle (Rl_Action reply) r = get_result_from_reply reply r"

definition rlcc_inv :: "xqc_rlcc \<Rightarrow> bool" where
  "rlcc_inv r \<longleftrightarrow> rlcc_wf r \<and> unat (rl_cwnd_int r) \<le> rlcc_max_packets"

fun rlcc_fits :: "rlcc_event \<Rightarrow> xqc_rlcc \<Rightarrow> bool" where
  "rlcc_fits (Rl_Ack now bytes_send sampler) r \<longleftrightarrow> xqc_rlcc_on_ack now bytes_send sampler r \<noteq> Fault"
| "rlcc_fits (Rl_Action reply) r \<longleftrightarrow> (case reply of
     Redis_Other \<Rightarrow> True
   | Redis_Array es \<Rightarrow> (\<exists>s v. length es > 2 \<and> es ! 2 = Some s \<and> scan_int s = Some v \<and> \<bar>v\<bar> + int (unat (rl_cwnd_int r)) \<le> int rlcc_max_packets))"

text \<open>A sample of one millisecond, for the concrete runs.\<close>

definition demo_sample :: xqc_sample where
  "demo_sample = zero_sample\<lparr>smp_rtt := 1000, smp_srtt := 1000\<rparr>"

section \<open>Properties\<close>

declare show_nat.simps [simp del]

lemma pacing_rate_wf:
  "XQC_DEFAULT_PACING_RATE \<le> rl_pacing_rate (xqc_rlcc_calc_pacing_rate_by_cwnd r) \<and> rl_pacing_rate (xqc_rlcc_calc_pacing_rate_by_cwnd r) \<le> xqc_pacing_rate_max"
proof -
  have "XQC_DEFAULT_PACING_RATE \<le> xqc_pacing_rate_max" unfolding xqc_pacing_rate_max_def by simp
  then show ?thesis unfolding xqc_rlcc_calc_pacing_rate_by_cwnd_def Let_def by simp
qed

lemma calc_pacing_rate_frame [simp]:
  "rl_cwnd (xqc_rlcc_calc_pacing_rate_by_cwnd r) = rl_cwnd r" "rl_cwnd_int (xqc_rlcc_calc_pacing_rate_by_cwnd r) = rl_cwnd_int r"
  by (simp_all add: xqc_rlcc_calc_pacing_rate_by_cwnd_def Let_def)

lemma base_window_wf: "rlcc_wf (rlcc_base_window r)"
  using pacing_rate_wf by (simp add: rlcc_wf_def rlcc_base_window_def Let_def not_less)

lemma add_window_wf: "rlcc_add_window v r = Ok r' \<Longrightarrow> rlcc_wf r'"
  by (auto simp: rlcc_add_window_def Let_def base_window_wf split: if_splits)

lemma reply_wf: "rlcc_wf r \<Longrightarrow> get_result_from_reply reply r = Ok r' \<Longrightarrow> rlcc_wf r'"
  by (auto simp: get_result_from_reply_def dest: add_window_wf split: redis_reply.splits if_splits option.splits)

lemma on_ack_frame:
  "xqc_rlcc_on_ack now b smp r = Ok (r', m) \<Longrightarrow> rl_cwnd r' = rl_cwnd r \<and> rl_cwnd_int r' = rl_cwnd_int r \<and> rl_pacing_rate r' = rl_pacing_rate r"
  by (auto simp: xqc_rlcc_on_ack_def rlcc_stop_def rlcc_sample_def rlcc_before_sample_def probe_minrtt_def Let_def split: if_splits)

lemma on_ack_wf: "rlcc_wf r \<Longrightarrow> xqc_rlcc_on_ack now b smp r = Ok (r', m) \<Longrightarrow> rlcc_wf r'"
  by (auto dest: on_ack_frame simp: rlcc_wf_def)

lemma reset_wf: "rlcc_wf (xqc_rlcc_reset_cwnd r)"
  using pacing_rate_wf by (simp add: rlcc_wf_def xqc_rlcc_reset_cwnd_def)

lemma init_wf: "rlcc_wf (xqc_rlcc_init now f)"
proof -
  have "rlcc_wf (xqc_rlcc_init now None)"
    unfolding rlcc_wf_def xqc_rlcc_init_def Let_def using pacing_rate_wf by simp
  then show ?thesis by (cases f) (simp_all add: rlcc_wf_def xqc_rlcc_init_def Let_def)
qed

lemma step_wf: "rlcc_step s s' \<Longrightarrow> rlcc_wf (sys_rlcc s) \<Longrightarrow> rlcc_wf (sys_rlcc s')"
  by (induction rule: rlcc_step.induct) (auto simp: reset_wf intro: on_ack_wf reply_wf)

lemma reachable_wf: "rlcc_reachable s \<Longrightarrow> rlcc_wf (sys_rlcc s)"
proof -
  assume "rlcc_reachable s"
  then obtain now f where "rlcc_step\<^sup>*\<^sup>* (rlcc_start now f) s" by (auto simp: rlcc_reachable_def)
  then show ?thesis
    by (induction rule: rtranclp_induct) (simp_all add: rlcc_start_def init_wf step_wf)
qed

lemma window_bytes:
  assumes "rlcc_wf r" "unat (rl_cwnd_int r) \<le> rlcc_max_packets"
  shows "unat (rl_cwnd r) = unat (rl_cwnd_int r) * XQC_MSS"
  using assms by (simp add: rlcc_wf_def unat_word_ariths)

lemma add_window_fits:
  assumes "rlcc_inv r" "\<bar>v\<bar> + int (unat (rl_cwnd_int r)) \<le> int rlcc_max_packets"
  shows "\<exists>r'. rlcc_add_window v r = Ok r' \<and> rlcc_inv r'"
proof -
  have c: "4 \<le> unat (rl_cwnd_int r)" "unat (rl_cwnd_int r) \<le> rlcc_max_packets"
    using assms(1) by (simp_all add: rlcc_inv_def rlcc_wf_def word_le_nat_alt)
  define k where "k = nat \<bar>v\<bar>"
  have k: "k + unat (rl_cwnd_int r) \<le> rlcc_max_packets" using assms(2) unfolding k_def by linarith
  have "v \<noteq> - (2 ^ 31)" using k by (auto simp: k_def)
  then have ok: "\<exists>r'. rlcc_add_window v r = Ok r'" by (simp add: rlcc_add_window_def Let_def)
  then obtain r' where r': "rlcc_add_window v r = Ok r'" by blast
  have "unat (rl_cwnd_int r') \<le> rlcc_max_packets"
  proof (cases "0 < v")
    case True
    then have "v = int k" by (simp add: k_def)
    then have "unat (rl_cwnd_int r + of_int v) = unat (rl_cwnd_int r) + k" using k by (simp add: unat_word_ariths unat_of_nat)
    then show ?thesis using r' True k c
      by (auto simp: rlcc_add_window_def rlcc_base_window_def Let_def split: if_splits)
  next
    case False
    then have "v = - int k" by (simp add: k_def)
    moreover have "unat (rl_cwnd_int r - of_nat k) \<le> rlcc_max_packets" if "of_nat k \<le> rl_cwnd_int r"
      using that c by (simp add: unat_sub)
    ultimately show ?thesis using r' False c
      by (auto simp: rlcc_add_window_def rlcc_base_window_def Let_def split: if_splits)
  qed
  then show ?thesis using add_window_wf [OF r'] r' by (simp add: rlcc_inv_def)
qed

interpretation rlcc: cong_ctl xqc_rlcc_on_lost rlcc_handle xqc_rlcc_reset_cwnd xqc_rlcc_get_cwnd
  "\<lambda>_ _. True" rlcc_fits rlcc_inv XQC_RLCC_MIN_WINDOW
proof
  fix r a
  assume inv: "rlcc_inv r" and fits: "rlcc_fits a r"
  show "\<exists>r'. rlcc_handle a r = Ok r' \<and> rlcc_inv r'"
  proof (cases a)
    case (Rl_Ack now b smp)
    then obtain r' m where "xqc_rlcc_on_ack now b smp r = Ok (r', m)"
      using fits by (auto simp: xqc_rlcc_on_ack_def rlcc_stop_def Let_def split: if_splits)
    then show ?thesis using Rl_Ack inv on_ack_wf on_ack_frame by (fastforce simp: rlcc_inv_def)
  next
    case (Rl_Action reply)
    then show ?thesis using fits inv add_window_fits
      by (fastforce simp: get_result_from_reply_def split: redis_reply.splits)
  qed
next
  fix r
  assume "rlcc_inv r"
  then have "4 \<le> unat (rl_cwnd_int r)" "unat (rl_cwnd r) = unat (rl_cwnd_int r) * XQC_MSS"
    using window_bytes by (simp_all add: rlcc_inv_def rlcc_wf_def word_le_nat_alt)
  then show "XQC_RLCC_MIN_WINDOW \<le> xqc_rlcc_get_cwnd r" by (simp add: xqc_rlcc_get_cwnd_def word_le_nat_alt)
next
  fix r :: xqc_rlcc
  show "rlcc_inv (xqc_rlcc_reset_cwnd r)" using reset_wf [of r] by (simp add: rlcc_inv_def xqc_rlcc_reset_cwnd_def)
qed (simp_all add: xqc_rlcc_on_lost_def)

text \<open>The digits that are printed are the digits that are read.\<close>

lemma digit_plain: "is_digit c \<Longrightarrow> c \<noteq> CHR ''-'' \<and> c \<noteq> CHR ''+'' \<and> \<not> is_blank c"
  by (auto simp: is_digit_def is_blank_def)

lemma digit_char: "n < 10 \<Longrightarrow> is_digit (char_of (48 + n)) \<and> digit_val (char_of (48 + n)) = n"
  by (simp add: is_digit_def digit_val_def of_char_of)

lemma scan_digits_append: "\<forall>c\<in>set s. is_digit c \<Longrightarrow> scan_digits acc (s @ t) = scan_digits (scan_digits acc s) t"
  by (induction s arbitrary: acc) auto

lemma show_nat_digits: "\<forall>c\<in>set (show_nat n). is_digit c"
  by (induction n rule: show_nat.induct) (subst show_nat.simps, use digit_char in auto)

lemma scan_show_nat: "scan_digits 0 (show_nat n) = n"
proof (induction n rule: show_nat.induct)
  case (1 n)
  then show ?case using digit_char [of n] digit_char [of "n mod 10"] show_nat_digits
    by (subst show_nat.simps) (simp add: scan_digits_append)
qed

lemma show_nat_length: "n < 10 ^ k \<Longrightarrow> 0 < k \<Longrightarrow> length (show_nat n) \<le> k"
proof (induction k arbitrary: n)
  case (Suc k)
  show ?case
  proof (cases "n < 10")
    case True
    then show ?thesis by (simp add: show_nat.simps [of n])
  next
    case False
    then have "k \<noteq> 0" using Suc.prems by (cases k) auto
    moreover have "n div 10 < 10 ^ k" using Suc.prems by (simp add: div_less_iff_less_mult)
    ultimately show ?thesis using Suc.IH [of "n div 10"] False by (simp add: show_nat.simps [of n])
  qed
qed simp

lemma show_nat_hd: "show_nat n \<noteq> [] \<and> is_digit (hd (show_nat n))"
proof -
  have "show_nat n \<noteq> []" by (subst show_nat.simps) simp
  then show ?thesis using show_nat_digits [of n] hd_in_set by blast
qed

lemma scan_show_int:
  assumes "- (2 ^ 31) \<le> v" "v < 2 ^ 31"
  shows "scan_int (show_int v) = Some v"
proof -
  have plain: "dropWhile is_blank (show_nat n) = show_nat n" "hd (show_nat n) \<noteq> CHR ''-''" "hd (show_nat n) \<noteq> CHR ''+''" for n
    using show_nat_hd [of n] digit_plain [of "hd (show_nat n)"] by (auto simp: dropWhile_eq_self_iff)
  show ?thesis
  proof (cases "v < 0")
    case True
    then show ?thesis using assms show_nat_hd [of "nat (- v)"]
      by (simp add: scan_int_def show_int_def is_blank_def scan_show_nat Let_def)
  next
    case False
    then show ?thesis using assms show_nat_hd [of "nat v"] plain [of "nat v"]
      by (simp add: scan_int_def show_int_def scan_show_nat Let_def)
  qed
qed

lemma show_int_length: "\<bar>v\<bar> < 10 ^ k \<Longrightarrow> 0 < k \<Longrightarrow> length (show_int v) \<le> k + 1"
  using show_nat_length [of "nat \<bar>v\<bar>" k] by (auto simp: show_int_def nat_less_iff)

lemma print_message_length:
  "\<forall>v\<in>set vs. length (show_int v) \<le> k \<Longrightarrow> length (print_message vs) \<le> length vs * (k + 1)"
  by (induction vs rule: print_message.induct) auto

lemma sint_digits:
  "\<bar>sint (w::u64)\<bar> < 10000000000000000000" "\<bar>sint (x::u32)\<bar> < 10000000000000000000"
  using sint_greater_eq [of w] sint_less [of w] sint_greater_eq [of x] sint_less [of x] by (auto simp: abs_less_iff)

lemma sampling_frame [simp]:
  "rl_sample_stop (rlcc_sample now sampler (rlcc_before_sample now b sampler (probe_minrtt sampler r))) = rl_sample_stop r"
  "rl_path_flag (rlcc_sample now sampler (rlcc_before_sample now b sampler (probe_minrtt sampler r))) = rl_path_flag r"
  by (simp_all add: rlcc_sample_def rlcc_before_sample_def probe_minrtt_def)

lemma stop_publishes:
  assumes "rlcc_stop now b sampler r = Ok (r', m)"
  shows "m = (if rl_sample_stop r \<le> now \<and> rl_path_flag r \<noteq> 0
                then Some (rlcc_message (ucast (b - rl_before_total_sent r)) sampler r') else None)"
    and "rl_sample_stop r \<le> now \<Longrightarrow> rl_lost_interval r' = max (sint (smp_lost_pkts sampler - rl_before_lost r)) 0
           \<and> rl_sample_start r' = now + rl_min_rtt r' \<and> rl_sample_stop r' = rl_sample_start r' + min (rl_min_rtt r') SAMPLE_INTERVAL"
    and "\<not> rl_sample_stop r \<le> now \<Longrightarrow> r' = r"
  using assms by (auto simp: rlcc_stop_def Let_def split: if_splits)

lemma on_ack_message: "xqc_rlcc_on_ack now b sampler r = Ok (r', m) \<Longrightarrow> m \<noteq> None \<longleftrightarrow> rl_sample_stop r \<le> now \<and> rl_path_flag r \<noteq> 0"
  using stop_publishes(1) [of now b sampler "rlcc_sample now sampler (rlcc_before_sample now b sampler (probe_minrtt sampler r))" r' m]
  by (simp add: xqc_rlcc_on_ack_def Let_def)

lemma message_length:
  fixes w x :: u32
  assumes "rl_lost_interval r = max (sint w) 0"
  shows "length (print_message (rlcc_message x sampler r)) < 500"
proof -
  have "\<forall>v\<in>set (rlcc_message x sampler r). \<bar>v\<bar> < 10000000000000000000"
    using sint_less [of w] by (auto simp: rlcc_message_def assms sint_digits)
  then have "\<forall>v\<in>set (rlcc_message x sampler r). length (show_int v) \<le> 20" using show_int_length [where k = 19] by fastforce
  then show ?thesis using print_message_length [of "rlcc_message x sampler r" 20] by (simp add: rlcc_message_def)
qed

lemma rlcc_reachable_start: "rlcc_reachable (rlcc_start now path_flag)"
  by (auto simp: rlcc_reachable_def)

lemma rlcc_reachable_step: "rlcc_reachable s \<Longrightarrow> rlcc_step s s' \<Longrightarrow> rlcc_reachable s'"
  unfolding rlcc_reachable_def by (meson rtranclp.rtrancl_into_rtrancl)

text \<open>While the engine waits for the mutex that the woken thread holds, nothing but an answer of the agent or a failure of the
  connection to it can happen.\<close>

inductive_cases rlcc_stepE: "rlcc_step s s'"

lemma blocked_step:
  assumes "sys_engine s = Engine_Signalling" "sys_thread s = Thread_Receiving" "sys_replies s = []" "rlcc_step s s'"
  shows "(\<exists>reply. s' = s\<lparr>sys_replies := [reply]\<rparr>) \<or> s' = s\<lparr>sys_thread := Thread_Locking\<rparr>"
  using assms(4) assms(1-3) by (cases rule: rlcc_stepE) auto

text \<open>Acknowledgements one interval apart.\<close>

lemma rlcc_publish_now:
  assumes "rlcc_reachable s" "sys_engine s = Engine_Running" "rl_path_flag (sys_rlcc s) \<noteq> 0"
    "xqc_rlcc_on_ack now b smp (sys_rlcc s) = Ok (r, m)" "rl_sample_stop (sys_rlcc s) \<le> now"
  shows "\<exists>v. m = Some v \<and> rlcc_reachable (s\<lparr>sys_rlcc := r, sys_published := sys_published s @ [v], sys_engine := Engine_Signalling\<rparr>)"
proof -
  obtain v where v: "m = Some v" using on_ack_message [OF assms(4)] assms(3,5) by auto
  then show ?thesis using rlcc_reachable_step [OF assms(1) rlcc_publish] assms by auto
qed

lemma add_window_value:
  assumes inv: "rlcc_inv r" and fit: "\<bar>v\<bar> + int (unat (rl_cwnd_int r)) \<le> int rlcc_max_packets"
    and r': "rlcc_add_window v r = Ok r'"
  shows "int (unat (rl_cwnd_int r')) = (if 0 \<le> int (unat (rl_cwnd_int r)) + v then max 4 (int (unat (rl_cwnd_int r)) + v) else int (unat (rl_cwnd_int r)))"
proof -
  define n k where "n = unat (rl_cwnd_int r)" and "k = nat \<bar>v\<bar>"
  have n: "4 \<le> n" using inv by (simp add: rlcc_inv_def rlcc_wf_def word_le_nat_alt n_def)
  have kn: "k + n \<le> rlcc_max_packets" using fit unfolding n_def k_def by linarith
  note n = n kn
  have ci: "rl_cwnd_int r = of_nat n" by (simp add: n_def)
  have base: "unat (rl_cwnd_int (rlcc_base_window x)) = max 4 (unat (rl_cwnd_int x))" for x
    by (simp add: rlcc_base_window_def Let_def word_less_nat_alt max_def)
  have of: "unat (of_nat m :: u32) = m" if "m \<le> rlcc_max_packets" for m using that by (simp add: unat_of_nat)
  show ?thesis
  proof (cases "0 < v")
    case True
    then have v: "v = int k" by (simp add: k_def)
    have "unat (of_nat n + of_nat k :: u32) = n + k" using of [of "n + k"] n by simp
    then have "unat (rl_cwnd_int r') = max 4 (n + k)"
      using r' True n by (auto simp: rlcc_add_window_def Let_def base v ci of split: if_splits)
    then show ?thesis unfolding n_def [symmetric] by (simp only: v of_nat_max of_nat_add) simp
  next
    case False
    then have v: "v = - int k" by (simp add: k_def)
    have le: "(of_nat k :: u32) \<le> of_nat n \<longleftrightarrow> k \<le> n" using of n by (simp add: word_le_nat_alt)
    have "k \<le> n \<Longrightarrow> unat (of_nat n - of_nat k :: u32) = n - k" using le of n by (simp add: unat_sub)
    then have "unat (rl_cwnd_int r') = (if k \<le> n then max 4 (n - k) else n)"
      using r' False n le by (auto simp: rlcc_add_window_def Let_def base v ci of split: if_splits)
    then show ?thesis unfolding n_def [symmetric] by (simp only: v) (auto simp: of_nat_diff)
  qed
qed

lemma on_ack_total:
  assumes "rl_sample_start r \<le> now" "rl_sent_timestamp r \<noteq> now" "rl_before_total_sent r = b"
  shows "\<exists>r' m. xqc_rlcc_on_ack now b smp r = Ok (r', m)"
proof -
  define r1 where "r1 = rlcc_sample now smp (rlcc_before_sample now b smp (probe_minrtt smp r))"
  have "rl_sent_timestamp r1 = rl_sent_timestamp r" "rl_before_total_sent r1 = b"
    using assms by (auto simp: r1_def rlcc_sample_def rlcc_before_sample_def probe_minrtt_def not_less)
  moreover have "unat (now - rl_sent_timestamp r) \<noteq> 0" using assms(2) by (simp add: unsigned_eq_0_iff)
  ultimately show ?thesis by (simp add: xqc_rlcc_on_ack_def r1_def [symmetric] rlcc_stop_def Let_def)
qed

lemma rlcc_blocked_reachable:
  "\<exists>s. rlcc_reachable s \<and> sys_engine s = Engine_Signalling \<and> sys_thread s = Thread_Receiving \<and> sys_replies s = []"
proof -
  define s0 where "s0 = (rlcc_start 0 (Some 1))\<lparr>sys_thread := Thread_Waiting\<rparr>"
  have s0: "rlcc_reachable s0"
    unfolding s0_def by (rule rlcc_reachable_step [OF rlcc_reachable_start rlcc_wait]) (simp add: rlcc_start_def)
  have f0: "sys_engine s0 = Engine_Running" "rl_path_flag (sys_rlcc s0) \<noteq> 0" "rl_sample_stop (sys_rlcc s0) \<le> 1000" "sys_thread s0 = Thread_Waiting" "sys_replies s0 = []"
    by (simp_all add: s0_def rlcc_start_def xqc_rlcc_init_def xqc_rlcc_calc_pacing_rate_by_cwnd_def Let_def)
  obtain r1 m1 where a1: "xqc_rlcc_on_ack 1000 0 demo_sample (sys_rlcc s0) = Ok (r1, m1)"
    and r1: "rl_path_flag r1 = 1" "rl_sample_stop r1 \<le> 4000" "rl_sample_start r1 \<le> 4000" "rl_sent_timestamp r1 = 0" "rl_before_total_sent r1 = 0"
    by (simp add: s0_def rlcc_start_def xqc_rlcc_init_def xqc_rlcc_calc_pacing_rate_by_cwnd_def xqc_rlcc_on_ack_def rlcc_stop_def rlcc_sample_def
      rlcc_before_sample_def probe_minrtt_def demo_sample_def zero_sample_def Let_def)
  obtain v where v: "rlcc_reachable (s0\<lparr>sys_rlcc := r1, sys_published := sys_published s0 @ [v], sys_engine := Engine_Signalling\<rparr>)"
    using rlcc_publish_now [OF s0 f0(1,2) a1 f0(3)] by auto
  define s2 where "s2 = s0\<lparr>sys_rlcc := r1, sys_published := sys_published s0 @ [v], sys_engine := Engine_Running, sys_thread := Thread_Receiving\<rparr>"
  have s2: "rlcc_reachable s2" using rlcc_reachable_step [OF v rlcc_signal] f0 by (simp add: s2_def cond_signal_def)
  obtain r2 m2 where a2: "xqc_rlcc_on_ack 4000 0 demo_sample (sys_rlcc s2) = Ok (r2, m2)"
    using on_ack_total [of r1 4000 0 demo_sample] r1 by (auto simp: s2_def)
  obtain v where "rlcc_reachable (s2\<lparr>sys_rlcc := r2, sys_published := sys_published s2 @ [v], sys_engine := Engine_Signalling\<rparr>)"
    using rlcc_publish_now [OF s2 _ _ a2] r1 by (auto simp: s2_def)
  then show ?thesis using f0 by (auto simp: s2_def intro!: exI)
qed









text \<open>C34. An acknowledgement publishes a state exactly at the end of an interval on a path that has a flag, the text of the state
  fits its buffer of 500 bytes, and the next interval ends after the new minimum and the sampling time.\<close>

theorem rlcc_publishes:
  assumes "xqc_rlcc_on_ack now bytes_send sampler r = Ok (r', m)"
  shows "(m \<noteq> None \<longleftrightarrow> rl_sample_stop r \<le> now \<and> rl_path_flag r \<noteq> 0)
    \<and> (case m of None \<Rightarrow> True | Some vs \<Rightarrow> length (print_message vs) < 500)
    \<and> rl_sample_stop r' = (if rl_sample_stop r \<le> now then now + rl_min_rtt r' + min (rl_min_rtt r') SAMPLE_INTERVAL else rl_sample_stop r)"
proof -
  define r1 where "r1 = rlcc_sample now sampler (rlcc_before_sample now bytes_send sampler (probe_minrtt sampler r))"
  have fr: "rl_sample_stop r1 = rl_sample_stop r" "rl_path_flag r1 = rl_path_flag r" by (simp_all add: r1_def)
  have "rlcc_stop now bytes_send sampler r1 = Ok (r', m)" using assms by (simp add: xqc_rlcc_on_ack_def r1_def Let_def)
  note stop = stop_publishes [OF this, unfolded fr]
  show ?thesis
  proof (cases "rl_sample_stop r \<le> now")
    case True
    then show ?thesis using stop(1) stop(2) [OF True] message_length by (auto simp: fr)
  next
    case False
    then show ?thesis using stop(1) stop(3) [OF False] by (auto simp: fr)
  qed
qed

theorem rlcc_publishes_witness:
  "\<exists>r m. xqc_rlcc_on_ack 1000 0 demo_sample (xqc_rlcc_init 0 (Some 1)) = Ok (r, Some m) \<and> length (print_message m) < 500"
proof -
  have i: "rl_path_flag (xqc_rlcc_init 0 (Some 1)) = 1" "rl_sample_stop (xqc_rlcc_init 0 (Some 1)) = 0"
    "rl_sent_timestamp (xqc_rlcc_init 0 (Some 1)) = 0" "rl_before_total_sent (xqc_rlcc_init 0 (Some 1)) = 0" "rl_sample_start (xqc_rlcc_init 0 (Some 1)) = 0"
    by (simp_all add: xqc_rlcc_init_def xqc_rlcc_calc_pacing_rate_by_cwnd_def Let_def)
  then obtain r m where a: "xqc_rlcc_on_ack 1000 0 demo_sample (xqc_rlcc_init 0 (Some 1)) = Ok (r, m)"
    using on_ack_total [of "xqc_rlcc_init 0 (Some 1)" 1000 0 demo_sample] by auto
  then show ?thesis using rlcc_publishes [OF a] i by (auto split: option.splits)
qed


end
