(* ===== verification/XQC_Frame_Ack.thy ===== *)
theory XQC_Frame_Ack
  imports XQC_Packet XQC_Recv_Record
begin

text \<open>
  The ACK frame (\<^verbatim>\<open>xqc_gen_ack_frame\<close> and \<^verbatim>\<open>xqc_parse_ack_frame\<close> of \<^verbatim>\<open>transport/xqc_frame_parser.c\<close>): the
  generator writes the ranges of a receive record, the parser turns them back into ranges.

  The generator may use the ACK reserve behind the usable size of the packet. It keeps range lengths and
  gaps in \<^verbatim>\<open>unsigned\<close> variables, so both are cut to 32 bits before they are written; the parser works with
  64 bits and does not reject ranges that go below zero.
\<close>

section \<open>Generating\<close>

abbreviation "XQC_MAX_ACK_RANGE_CNT \<equiv> (64::nat)"

text \<open>\<^verbatim>\<open>dst_buf + dst_buf_len\<close>, with the length computed at 32 bits.\<close>

definition ack_end :: "packet_out \<Rightarrow> nat" where
  "ack_end po = po_dst po + unat (po_buf_size po - po_used_size po + of_nat XQC_ACK_SPACE)"

text \<open>
  The loop over the ranges from the second on: \<open>Inl\<close> when the packet is full, otherwise the number of
  ranges written and the cursor behind them.
\<close>

fun gen_ack_ranges :: "nat \<Rightarrow> pktno \<Rightarrow> xqc_pktno_range list \<Rightarrow> nat \<Rightarrow> cursor \<Rightarrow> (packet_out + nat \<times> cursor) option" where
  "gen_ack_ranges end prev_low [] range_count c = Some (Inr (range_count, c))"
| "gen_ack_ranges end prev_low (range_node # rest) range_count (dst_buf, po) =
     (let gap = (ucast (prev_low - high range_node - 2) :: u32);
          acks = (ucast (high range_node - low range_node) :: u32);
          need = xqc_vint_len_by_val (ucast gap) + xqc_vint_len_by_val (ucast acks)
      in if dst_buf + need > end then Some (Inl po)
         else do {
           c \<leftarrow> put (vint_enc (ucast gap)) (dst_buf, po);
           c \<leftarrow> put (vint_enc (ucast acks)) c;
           let range_count = range_count + 1;
           if range_count \<ge> XQC_MAX_ACK_RANGE_CNT - 1 then Some (Inr (range_count, c))
           else gen_ack_ranges end (low range_node) rest range_count c
         })"

text \<open>On success: the length, \<^verbatim>\<open>has_gap\<close> and \<^verbatim>\<open>largest_ack\<close>.\<close>

definition xqc_gen_ack_frame ::
  "usec \<Rightarrow> nat \<Rightarrow> xqc_recv_record \<Rightarrow> packet_out \<Rightarrow> ((xqc_errno + nat \<times> bool \<times> pktno) \<times> packet_out) option" where
  "xqc_gen_ack_frame now ack_delay_exponent recv_record po = (case range_list recv_record of
     [] \<Rightarrow> Some (Inl XQC_ENULLPTR, po)
   | first_range # rest \<Rightarrow>
       let ack_delay = now - largest_pkt_recv_time recv_record;
           lagest_recv = high first_range;
           first_ack_range = (ucast (lagest_recv - low first_range) :: u32);
           ack_delay = drop_bit ack_delay_exponent ack_delay;
           need = 1 + xqc_vint_len_by_val lagest_recv + xqc_vint_len_by_val ack_delay + 1
                  + xqc_vint_len_by_val (ucast first_ack_range)
       in if po_dst po + need > ack_end po then Some (Inl XQC_ENOBUF, po)
          else do {
            c \<leftarrow> put [0x02] (po_dst po, po);
            c \<leftarrow> put (vint_enc lagest_recv) c;
            (p_range_count, po) \<leftarrow> put (vint_enc ack_delay) c;
            c \<leftarrow> put (vint_enc (ucast first_ack_range)) (p_range_count + 1, po);
            r \<leftarrow> gen_ack_ranges (ack_end po) (low first_range) rest 0 c;
            (case r of
               Inl po \<Rightarrow> Some (Inl XQC_ENOBUF, po)
             | Inr (range_count, dst_buf, po) \<Rightarrow> do {
                 po \<leftarrow> put_at p_range_count (xqc_vint_write (of_nat range_count) 0 1) po;
                 Some (Inr (dst_buf - po_dst po, range_count > 0, lagest_recv),
                       po\<lparr>po_frame_types := po_frame_types po OR XQC_FRAME_BIT XQC_FRAME_ACK\<rparr>)
               })
          })"

section \<open>Parsing\<close>

record xqc_ack_info =
  ack_pns :: xqc_pkt_num_space
  ack_ranges :: "xqc_pktno_range list"
  ack_delay :: usec

text \<open>\<^verbatim>\<open>n_ranges\<close> is the length of \<open>ack_ranges\<close>. Ranges beyond the capacity are read and dropped.\<close>

fun parse_ack_ranges :: "packet_in \<Rightarrow> nat \<Rightarrow> nat \<Rightarrow> xqc_pktno_range list \<Rightarrow> (nat \<times> xqc_pktno_range list) res" where
  "parse_ack_ranges pi 0 p ranges = Ok (p, ranges)"
| "parse_ack_ranges pi (Suc n) p ranges =
     bind_res (pi_vint pi p) (\<lambda>(p, gap).
     bind_res (pi_vint pi p) (\<lambda>(p, range).
       parse_ack_ranges pi n p
         (if length ranges < XQC_MAX_ACK_RANGE_CNT
          then ranges @ [\<lparr>low = low (last ranges) - gap - 2 - range, high = low (last ranges) - gap - 2\<rparr>]
          else ranges)))"

text \<open>\<open>ack_delay_exponent\<close> is that of the peer's settings.\<close>

definition xqc_parse_ack_frame :: "nat \<Rightarrow> packet_in \<Rightarrow> (xqc_ack_info \<times> packet_in) res" where
  "xqc_parse_ack_frame ack_delay_exponent pi =
     bind_res (pi_byte pi (pi_pos pi)) (\<lambda>first_byte.
     bind_res (pi_vint pi (Suc (pi_pos pi))) (\<lambda>(p, largest_acked).
     bind_res (pi_vint pi p) (\<lambda>(p, delay).
     bind_res (pi_vint pi p) (\<lambda>(p, ack_range_count).
     bind_res (pi_vint pi p) (\<lambda>(p, first_ack_range).
     bind_res (parse_ack_ranges pi (unat ack_range_count) p
                 [\<lparr>low = largest_acked - first_ack_range, high = largest_acked\<rparr>]) (\<lambda>(p, ranges).
       Ok (\<lparr>ack_pns = pkt_pns (pi_pkt pi), ack_ranges = ranges, ack_delay = push_bit ack_delay_exponent delay\<rparr>,
           pi_advance XQC_FRAME_ACK p pi)))))))"

section \<open>The wire format\<close>

text \<open>The bytes of an ACK frame for a list of ranges, and the ranges whose lengths and gaps fit the 32 bit
  variables of the generator.\<close>

fun ack_range_bytes :: "pktno \<Rightarrow> xqc_pktno_range list \<Rightarrow> u8 list" where
  "ack_range_bytes prev_low [] = []"
| "ack_range_bytes prev_low (r # rs) =
     vint_enc (ucast (ucast (prev_low - high r - 2) :: u32)) @ vint_enc (ucast (ucast (high r - low r) :: u32))
       @ ack_range_bytes (low r) rs"

definition ack_bytes :: "usec \<Rightarrow> xqc_pktno_range list \<Rightarrow> u8 list" where
  "ack_bytes delay rs = (case rs of [] \<Rightarrow> [] | r # rest \<Rightarrow>
     0x02 # vint_enc (high r) @ vint_enc delay @ vint_enc (of_nat (length rest))
       @ vint_enc (ucast (ucast (high r - low r) :: u32)) @ ack_range_bytes (low r) rest)"

fun ranges_fit32 :: "xqc_pktno_range list \<Rightarrow> bool" where
  "ranges_fit32 [] = True"
| "ranges_fit32 [r] = (high r - low r < 2 ^ 32)"
| "ranges_fit32 (r # q # rs) = (high r - low r < 2 ^ 32 \<and> low r - high q - 2 < 2 ^ 32 \<and> ranges_fit32 (q # rs))"

text \<open>The memory of a packet has changed at most from position \<open>a\<close> on and before position \<open>b\<close>.\<close>

definition written_between :: "nat \<Rightarrow> nat \<Rightarrow> packet_out \<Rightarrow> packet_out \<Rightarrow> bool" where
  "written_between a b po po' \<longleftrightarrow> length (po_buf po') = length (po_buf po) \<and> take a (po_buf po') = take a (po_buf po)
     \<and> drop b (po_buf po') = drop b (po_buf po) \<and> po_used_size po' = po_used_size po \<and> po_dst po' = po_dst po"

section \<open>Lemmas\<close>

lemma put_at_append_Some:
  "put_at p xs po = Some po1 \<Longrightarrow> put_at q ys po1 = Some po2 \<Longrightarrow> q = p + length xs \<Longrightarrow> put_at p (xs @ ys) po = Some po2"
  using put_at_append_bind [of q p xs po ys Some] by simp

lemma put_at_prepend_Some:
  "put_at q ys po = Some po1 \<Longrightarrow> put_at p xs po1 = Some po2 \<Longrightarrow> q = p + length xs \<Longrightarrow> put_at p (xs @ ys) po = Some po2"
  using put_at_prepend_bind [of q p xs ys po Some] by simp

lemma put_Some_put_at: "put bs (d, po) = Some (d', po') \<longleftrightarrow> put_at d bs po = Some po' \<and> d' = d + length bs"
  by (auto simp: put_def)

lemma gen_ack_ranges_result:
  "gen_ack_ranges e pl rs cnt (d, po) = Some (Inr (cnt', d', po')) \<Longrightarrow> cnt < 63 \<Longrightarrow>
     put_at p xs po0 = Some po \<Longrightarrow> d = p + length xs \<Longrightarrow>
     cnt' = cnt + min (length rs) (63 - cnt)
     \<and> put_at p (xs @ ack_range_bytes pl (take (63 - cnt) rs)) po0 = Some po'
     \<and> d' = p + length (xs @ ack_range_bytes pl (take (63 - cnt) rs))"
proof (induction rs arbitrary: pl cnt d po xs)
  case (Cons r rest)
  let ?g = "vint_enc (ucast (ucast (pl - high r - 2) :: u32))"
  let ?a = "vint_enc (ucast (ucast (high r - low r) :: u32))"
  obtain po1 po2 where p1: "put_at d ?g po = Some po1" "put_at (d + length ?g) ?a po1 = Some po2"
    and rec: "(if Suc cnt \<ge> 63 then Some (Inr (Suc cnt, d + length ?g + length ?a, po2))
       else gen_ack_ranges e (low r) rest (Suc cnt) (d + length ?g + length ?a, po2)) = Some (Inr (cnt', d', po'))"
    using Cons.prems(1) by (auto simp: Let_def put_bind Option.bind_eq_Some_conv split: if_splits)
  have q: "put_at p (xs @ ?g @ ?a) po0 = Some po2"
    using put_at_append_Some [OF put_at_append_Some [OF Cons.prems(3) p1(1) Cons.prems(4)] p1(2)] Cons.prems(4) by simp
  have t: "take (63 - cnt) (r # rest) = r # take (63 - Suc cnt) rest" using Cons.prems(2) by (simp add: take_Cons')
  show ?case
  proof (cases "Suc cnt \<ge> 63")
    case True
    then show ?thesis using rec q t Cons.prems by simp
  next
    case False
    then have "gen_ack_ranges e (low r) rest (Suc cnt) (d + length ?g + length ?a, po2) = Some (Inr (cnt', d', po'))" using rec by simp
    from Cons.IH [OF this _ q] show ?thesis using False Cons.prems t by simp
  qed
qed simp

lemma gen_ack_frame_result:
  assumes "xqc_gen_ack_frame now e rr po = Some (Inr (n, has_gap, largest), po')"
  shows "\<exists>r rest. range_list rr = r # rest \<and> largest = high r \<and> (has_gap \<longleftrightarrow> rest \<noteq> []) \<and>
    (let bs = ack_bytes (drop_bit e (now - largest_pkt_recv_time rr)) (take 64 (range_list rr)) in
     n = length bs \<and> po_dst po + n \<le> length (po_buf po) \<and> po' = po_appended XQC_FRAME_ACK po bs)"
proof -
  define delay where "delay = drop_bit e (now - largest_pkt_recv_time rr)"
  obtain r rest where rs: "range_list rr = r # rest" using assms by (auto simp: xqc_gen_ack_frame_def split: list.splits)
  let ?f = "vint_enc (ucast (ucast (high r - low r) :: u32))"
  define h where "h = 0x02 # vint_enc (high r) @ vint_enc delay"
  define pc where "pc = po_dst po + length h"
  have pc': "pc = Suc (po_dst po + length (vint_enc (high r)) + length (vint_enc delay))" by (simp add: pc_def h_def)
  obtain po1 po2 cnt d po3 po4 where w: "put_at (po_dst po) h po = Some po1" "put_at (pc + 1) ?f po1 = Some po2"
    "gen_ack_ranges (ack_end po1) (low r) rest 0 (pc + 1 + length ?f, po2) = Some (Inr (cnt, d, po3))"
    "put_at pc (xqc_vint_write (of_nat cnt) 0 1) po3 = Some po4"
    and res: "n = d - po_dst po4" "has_gap \<longleftrightarrow> cnt > 0" "largest = high r" "po' = po4\<lparr>po_frame_types := po_frame_types po4 OR XQC_FRAME_BIT XQC_FRAME_ACK\<rparr>"
    using assms
    apply (simp add: xqc_gen_ack_frame_def rs Let_def delay_def[symmetric] put_bind put_at_append_bind h_def[symmetric] split: if_splits)
    apply (clarsimp simp: Option.bind_eq_Some_conv pc')
    apply (case_tac yb)
     apply (auto simp: Option.bind_eq_Some_conv)
    done
  from gen_ack_ranges_result [OF w(3) _ w(2)] have g: "cnt = min (length rest) 63"
    "put_at (pc + 1) (?f @ ack_range_bytes (low r) (take 63 rest)) po1 = Some po3" "d = pc + 1 + length (?f @ ack_range_bytes (low r) (take 63 rest))"
    by simp_all
  have "(of_nat cnt :: u64) < 64" using g(1) by (simp add: word_less_nat_alt unat_of_nat)
  then have c: "xqc_vint_write (of_nat cnt) 0 1 = vint_enc (of_nat (length (take 63 rest)))" "length (vint_enc (of_nat cnt)) = 1"
    using g(1) vint_enc_small[of "of_nat cnt"] by (auto simp: vint_enc_def xqc_vint_get_2bit_def xqc_vint_len_def word_less_nat_alt word_le_nat_alt min.commute)
  let ?bs = "ack_bytes delay (take 64 (range_list rr))"
  have "put_at pc (vint_enc (of_nat cnt) @ ?f @ ack_range_bytes (low r) (take 63 rest)) po1 = Some po4"
    using put_at_prepend_Some [OF g(2) w(4)] c g(1) by (simp add: min.commute)
  then have "put_at (po_dst po) (h @ vint_enc (of_nat cnt) @ ?f @ ack_range_bytes (low r) (take 63 rest)) po = Some po4"
    using put_at_append_Some [OF w(1)] by (simp add: pc_def)
  then have p: "put_at (po_dst po) ?bs po = Some po4" using rs g(1) by (simp add: ack_bytes_def h_def min.commute)
  have "po_dst po4 = po_dst po" using p by (auto simp: put_at_def po_dst_def)
  then have "n = length ?bs" using res(1) g c by (simp add: pc_def ack_bytes_def rs h_def min.commute)
  then show ?thesis using p res rs g(1) by (auto simp: delay_def[symmetric] put_at_def mem_write_def po_appended_def split: if_splits)
qed

lemma small_u32: "(ucast (x::u32) :: u64) < 2 ^ 62"
proof -
  have "unat x < 2 ^ 32" using unsigned_less [of x] by simp
  then show ?thesis by (simp add: word_less_nat_alt unsigned_ucast_eq take_bit_nat_eq_self)
qed

lemma range_eta: "\<lparr>low = low r, high = high r\<rparr> = (r :: xqc_pktno_range)" by (cases r) simp

lemma parse_ack_ranges_bytes:
  assumes "pi_rest pi p = ack_range_bytes (low (last ranges)) rs @ rest" "ranges \<noteq> []"
    "ranges_fit32 (last ranges # rs)" "length ranges + length rs \<le> 64"
  shows "parse_ack_ranges pi (length rs) p ranges = Ok (p + length (ack_range_bytes (low (last ranges)) rs), ranges @ rs)"
  using assms
proof (induction rs arbitrary: p ranges)
  case (Cons r rs)
  let ?pl = "low (last ranges)"
  let ?g = "?pl - high r - 2" and ?a = "high r - low r"
  have f: "?g < 2 ^ 32" "?a < 2 ^ 32" "ranges_fit32 (r # rs)" using Cons.prems(3) by (cases rs; simp)+
  have u: "ucast (ucast ?g :: u32) = ?g" "ucast (ucast ?a :: u32) = ?a" using f ucast_32_64 by auto
  have s: "?g < 2 ^ 62" "?a < 2 ^ 62" using small_u32 [of "ucast ?g"] small_u32 [of "ucast ?a"] unfolding u by auto
  let ?p' = "p + length (vint_enc ?g) + length (vint_enc ?a)"
  have v: "pi_vint pi p = Ok (p + length (vint_enc ?g), ?g)" "pi_vint pi (p + length (vint_enc ?g)) = Ok (?p', ?a)"
    using Cons.prems(1) s by (simp_all add: u pi_vint_def pi_rest_simps vint_read_enc)
  have "pi_rest pi ?p' = ack_range_bytes (low (last (ranges @ [r]))) rs @ rest"
    using Cons.prems(1) by (simp add: u pi_rest_simps)
  from Cons.IH [OF this] have "parse_ack_ranges pi (length rs) ?p' (ranges @ [r]) = Ok (?p' + length (ack_range_bytes (low r) rs), ranges @ r # rs)"
    using f(3) Cons.prems(4) by simp
  then show ?case using v Cons.prems(4) by (simp add: u add.assoc range_eta)
qed simp

lemma parse_ack_bytes:
  assumes "pi_rest pi (pi_pos pi) = ack_bytes delay (r # rs) @ rest"
    "high r < 2 ^ 62" "delay < 2 ^ 62" "ranges_fit32 (r # rs)" "length rs < 64"
  shows "xqc_parse_ack_frame e pi = Ok (\<lparr>ack_pns = pkt_pns (pi_pkt pi), ack_ranges = r # rs, ack_delay = push_bit e delay\<rparr>,
    pi_advance XQC_FRAME_ACK (pi_pos pi + length (ack_bytes delay (r # rs))) pi)"
proof -
  let ?a = "high r - low r"
  have u: "ucast (ucast ?a :: u32) = ?a" using assms(4) ucast_32_64 by (cases rs) auto
  have s: "?a < 2 ^ 62" using small_u32 [of "ucast ?a"] unfolding u by auto
  have c: "(of_nat (length rs) :: u64) < 2 ^ 62" "unat (of_nat (length rs) :: u64) = length rs"
    using assms(5) by (simp_all add: word_less_nat_alt unat_of_nat)
  let ?p = "pi_pos pi + length (0x02 # vint_enc (high r) @ vint_enc delay @ vint_enc (of_nat (length rs)) @ vint_enc ?a)"
  have "pi_rest pi ?p = ack_range_bytes (low r) rs @ rest" using assms(1) by (simp add: ack_bytes_def u pi_rest_simps)
  then have "parse_ack_ranges pi (length rs) ?p [r] = Ok (?p + length (ack_range_bytes (low r) rs), r # rs)"
    using parse_ack_ranges_bytes [of pi ?p "[r]" rs rest] assms(4,5) by simp
  then show ?thesis using assms(1-3) s c
    by (simp add: xqc_parse_ack_frame_def ack_bytes_def u pi_byte_rest pi_vint_def pi_rest_simps vint_read_enc range_eta add.assoc [symmetric])
qed

lemma ranges_fit32_take: "ranges_fit32 rs \<Longrightarrow> ranges_fit32 (take n rs)"
proof (induction rs arbitrary: n rule: ranges_fit32.induct)
  case (3 r q rs)
  then have "ranges_fit32 (take (n - 1) (q # rs))" by auto
  with 3(2) show ?case by (cases n; cases "n - 1") auto
qed (auto simp: take_Cons')

lemma ack_end_wf:
  assumes "po_wf po"
  shows "ack_end po = po_dst po + po_room po + 16"
proof -
  have "po_room po < 0x10000" using po_room_eq [OF assms] po_size_bound [OF assms] by simp
  then show ?thesis by (simp add: ack_end_def po_room_def unat_word_ariths)
qed

text \<open>Writes between two positions of the packet's memory.\<close>

lemma written_refl [simp]: "written_between a b po po"
  by (simp add: written_between_def)

lemma written_trans: "written_between a b po po1 \<Longrightarrow> written_between a b po1 po2 \<Longrightarrow> written_between a b po po2"
  by (simp add: written_between_def)

lemma written_types: "written_between a b po po' \<Longrightarrow> written_between a b po (po'\<lparr>po_frame_types := t\<rparr>)"
  by (simp add: written_between_def po_dst_def)

lemma put_at_written:
  "a \<le> d \<Longrightarrow> d + length bs \<le> b \<Longrightarrow> b \<le> length (po_buf po) \<Longrightarrow> \<exists>po'. put_at d bs po = Some po' \<and> written_between a b po po'"
  by (simp add: put_at_def mem_write_def written_between_def po_dst_def)

lemma gen_ack_ranges_safe:
  "a \<le> d \<Longrightarrow> d \<le> e \<Longrightarrow> e \<le> length (po_buf po) \<Longrightarrow> \<exists>x. gen_ack_ranges e pl rs cnt (d, po) = Some x \<and>
    (case x of Inl po' \<Rightarrow> written_between a e po po' | Inr (cnt', d', po') \<Rightarrow> d' \<le> e \<and> written_between a e po po')"
proof (induction rs arbitrary: pl cnt d po)
  case (Cons r rs)
  let ?g = "vint_enc (ucast (ucast (pl - high r - 2) :: u32))"
  let ?a = "vint_enc (ucast (ucast (high r - low r) :: u32))"
  show ?case
  proof (cases "d + (length ?g + length ?a) \<le> e")
    case True
    obtain po1 where p: "put_at d (?g @ ?a) po = Some po1" "written_between a e po po1"
      using put_at_written [of a d "?g @ ?a" e po] True Cons.prems by auto
    then have "e \<le> length (po_buf po1)" using Cons.prems by (simp add: written_between_def)
    then obtain x where x: "gen_ack_ranges e (low r) rs (Suc cnt) (d + length ?g + length ?a, po1) = Some x"
      "case x of Inl po' \<Rightarrow> written_between a e po1 po' | Inr (cnt', d', po') \<Rightarrow> d' \<le> e \<and> written_between a e po1 po'"
      using Cons.IH [of "d + length ?g + length ?a" po1 "low r" "Suc cnt"] True Cons.prems by auto
    then have "case x of Inl po' \<Rightarrow> written_between a e po po' | Inr (cnt', d', po') \<Rightarrow> d' \<le> e \<and> written_between a e po po'"
      using written_trans [OF p(2)] by (auto split: sum.splits prod.splits)
    then show ?thesis using x(1) p True
      by (simp add: length_vint_enc [symmetric] put_bind put_at_append_bind Let_def)
  qed (simp add: length_vint_enc [symmetric])
qed simp

lemma gen_ack_frame_safe:
  assumes "po_wf po"
  shows "\<exists>r po'. xqc_gen_ack_frame now e rr po = Some (r, po') \<and> written_between (po_dst po) (ack_end po) po po'
    \<and> (case r of Inl err \<Rightarrow> err = (if range_list rr = [] then XQC_ENULLPTR else XQC_ENOBUF)
      | Inr (n, has_gap, largest) \<Rightarrow> po_dst po + n \<le> ack_end po)"
proof (cases "range_list rr")
  case (Cons r rest)
  let ?f = "vint_enc (ucast (ucast (high r - low r) :: u32))"
  define delay where "delay = drop_bit e (now - largest_pkt_recv_time rr)"
  define h where "h = 0x02 # vint_enc (high r) @ vint_enc delay"
  define w where "w = written_between (po_dst po) (ack_end po)"
  have cap: "ack_end po \<le> length (po_buf po)" using po_room_capacity [OF assms, of "po_room po + 16"] ack_end_wf [OF assms] by simp
  have len: "w po x \<Longrightarrow> ack_end po \<le> length (po_buf x)" for x using cap by (simp add: w_def written_between_def)
  show ?thesis
  proof (cases "po_dst po + length h + 1 + length ?f \<le> ack_end po")
    case True
    obtain po1 where p1: "put_at (po_dst po) h po = Some po1" "w po po1"
      using put_at_written [of "po_dst po" "po_dst po" h "ack_end po" po] True cap by (auto simp: w_def)
    obtain po2 where p2: "put_at (po_dst po + length h + 1) ?f po1 = Some po2" "w po1 po2"
      using put_at_written [of "po_dst po" "po_dst po + length h + 1" ?f "ack_end po" po1] True len [OF p1(2)] unfolding w_def by auto
    have w2: "w po po2" using written_trans p1(2) p2(2) unfolding w_def by blast
    have e: "ack_end po1 = ack_end po" using p1(1) by (auto simp: put_at_def ack_end_def po_dst_def)
    have "po_dst po \<le> po_dst po + length h + 1 + length ?f" by simp
    then obtain x where x: "gen_ack_ranges (ack_end po) (low r) rest 0 (po_dst po + length h + 1 + length ?f, po2) = Some x"
      "case x of Inl po' \<Rightarrow> w po2 po' | Inr (cnt', d', po') \<Rightarrow> d' \<le> ack_end po \<and> w po2 po'"
      using gen_ack_ranges_safe [OF _ True len [OF w2], of "po_dst po" "low r" rest 0] unfolding w_def by blast
    have one: "length (xqc_vint_write v 0 (Suc 0)) = 1" for v using length_vint_write [of 0 v] by (simp add: xqc_vint_len_def)
    have g: "xqc_gen_ack_frame now e rr po = (case x of
        Inl po' \<Rightarrow> Some (Inl XQC_ENOBUF, po')
      | Inr (cnt, d, po') \<Rightarrow> Option.bind (put_at (po_dst po + length h) (xqc_vint_write (of_nat cnt) 0 1) po') (\<lambda>po4.
          Some (Inr (d - po_dst po4, cnt > 0, high r), po4\<lparr>po_frame_types := po_frame_types po4 OR XQC_FRAME_BIT XQC_FRAME_ACK\<rparr>)))"
      using p1(1) p2(1) x(1) True
      by (cases x) (simp_all add: xqc_gen_ack_frame_def Cons Let_def delay_def [symmetric] length_vint_enc [symmetric] put_bind
        put_at_append_bind h_def e add.assoc split: prod.split)
    show ?thesis
    proof (cases x)
      case (Inl po')
      then have "w po po'" using x(2) w2 written_trans unfolding w_def by auto
      then show ?thesis using Inl Cons unfolding g w_def by simp
    next
      case (Inr y)
      obtain cnt d po' where y: "y = (cnt, d, po')" by (cases y)
      then have d: "d \<le> ack_end po" "w po2 po'" using x(2) Inr by auto
      then have d: "d \<le> ack_end po" "w po po'" using w2 written_trans unfolding w_def by blast+
      obtain po4 where p4: "put_at (po_dst po + length h) (xqc_vint_write (of_nat cnt) 0 1) po' = Some po4" "w po' po4"
        using put_at_written [of "po_dst po" "po_dst po + length h" "xqc_vint_write (of_nat cnt) 0 1" "ack_end po" po']
          len [OF d(2)] True one unfolding w_def by auto
      have w4: "w po po4" using written_trans d(2) p4(2) unfolding w_def by blast
      have "po_dst po4 = po_dst po" using w4 by (simp add: w_def written_between_def)
      then have "xqc_gen_ack_frame now e rr po =
          Some (Inr (d - po_dst po, cnt > 0, high r), po4\<lparr>po_frame_types := po_frame_types po4 OR XQC_FRAME_BIT XQC_FRAME_ACK\<rparr>)"
        unfolding g Inr y using p4(1) by simp
      moreover have "po_dst po + (d - po_dst po) \<le> ack_end po" using True d(1) by simp
      ultimately show ?thesis using written_types [OF w4 [unfolded w_def]] by simp
    qed
  next
    case False
    then show ?thesis by (auto simp: xqc_gen_ack_frame_def Cons Let_def delay_def [symmetric] length_vint_enc [symmetric] h_def)
  qed
qed (simp add: xqc_gen_ack_frame_def)

section \<open>Properties\<close>

text \<open>C2. Acknowledgements arrive as recorded. When \<^verbatim>\<open>xqc_gen_ack_frame\<close> has written the frame for a
  well-formed record whose ranges and gaps fit 32 bits, \<^verbatim>\<open>xqc_parse_ack_frame\<close> on those bytes yields exactly
  the first 64 ranges of the record, which acknowledge only received packets, and all of them when there are
  no more ranges; the delay is the measured one up to the two exponents, and the reported largest number is
  that of the record.\<close>

theorem ack_frame_roundtrip:
  assumes "rr_wf rr" "ranges_fit32 (range_list rr)" "now - largest_pkt_recv_time rr < 2 ^ 62"
    and "xqc_gen_ack_frame now e rr po = Some (Inr (n, has_gap, largest), po')"
    and "pi_rest pi (pi_pos pi) = take n (drop (po_dst po) (po_buf po')) @ rest"
  shows "xqc_parse_ack_frame e' pi =
      Ok (\<lparr>ack_pns = pkt_pns (pi_pkt pi), ack_ranges = take 64 (range_list rr),
            ack_delay = push_bit e' (drop_bit e (now - largest_pkt_recv_time rr))\<rparr>,
          pi_advance XQC_FRAME_ACK (pi_pos pi + n) pi)
    \<and> largest = xqc_recv_record_largest rr \<and> ranges_set (take 64 (range_list rr)) \<subseteq> rr_set rr
    \<and> (length (range_list rr) \<le> 64 \<longrightarrow> ranges_set (take 64 (range_list rr)) = rr_set rr)"
proof -
  define delay where "delay = drop_bit e (now - largest_pkt_recv_time rr)"
  obtain r rs where rs: "range_list rr = r # rs" and l: "largest = high r"
    and n: "n = length (ack_bytes delay (take 64 (range_list rr)))" "po_dst po + n \<le> length (po_buf po)"
      "po' = po_appended XQC_FRAME_ACK po (ack_bytes delay (take 64 (range_list rr)))"
    using gen_ack_frame_result [OF assms(4)] by (auto simp: Let_def delay_def)
  have d: "delay < 2 ^ 62"
    unfolding delay_def using word_drop_bit_le assms(3) by (rule order_le_less_trans)
  have t: "take 64 (range_list rr) = r # take 63 rs" by (simp add: rs)
  have "pi_rest pi (pi_pos pi) = ack_bytes delay (r # take 63 rs) @ rest"
    using assms(5) n po_appended_bytes [of po "ack_bytes delay (take 64 (range_list rr))"] by (simp add: t)
  from parse_ack_bytes [OF this _ d, of e'] have "xqc_parse_ack_frame e' pi =
      Ok (\<lparr>ack_pns = pkt_pns (pi_pkt pi), ack_ranges = take 64 (range_list rr), ack_delay = push_bit e' delay\<rparr>,
          pi_advance XQC_FRAME_ACK (pi_pos pi + n) pi)"
    using assms(1) ranges_fit32_take [OF assms(2), of 64] by (simp add: t n(1) rr_wf_def ranges_wf_def rs)
  moreover have "ranges_set (take 64 (range_list rr)) \<subseteq> rr_set rr"
    unfolding rr_set_def ranges_set_def using set_take_subset [of 64 "range_list rr"] by blast
  moreover have "largest = xqc_recv_record_largest rr" by (simp add: l rs xqc_recv_record_largest_def)
  ultimately show ?thesis by (simp add: delay_def rr_set_def)
qed

theorem ack_frame_roundtrip_witness:
  "xqc_parse_ack_frame 3 (xqc_packet_in_init [0x02, 7, 0, 1, 2, 0, 2] 0 zero_packet_in) =
     Ok (\<lparr>ack_pns = XQC_PNS_INIT, ack_ranges = [\<lparr>low = 5, high = 7\<rparr>, \<lparr>low = 1, high = 3\<rparr>], ack_delay = 0\<rparr>,
         pi_advance XQC_FRAME_ACK 7 (xqc_packet_in_init [0x02, 7, 0, 1, 2, 0, 2] 0 zero_packet_in))"
proof -
  let ?rr = "\<lparr>range_list = [\<lparr>low = 5, high = 7\<rparr>, \<lparr>low = 1, high = 3\<rparr>], largest_pkt_recv_time = 2, rr_del_from = 0\<rparr>"
  let ?po = "the (xqc_packet_out_create (Some (replicate 40 0)) 8)"
  let ?pi = "xqc_packet_in_init [0x02, 7, 0, 1, 2, 0, 2] 0 zero_packet_in"
  have gen: "xqc_gen_ack_frame 5 3 ?rr ?po = Some (Inr (7, True, 7), po_appended XQC_FRAME_ACK ?po [0x02, 7, 0, 1, 2, 0, 2])"
    by (simp add: xqc_gen_ack_frame_def xqc_packet_out_create_def ack_end_def po_dst_def vint_enc_small length_vint_enc [symmetric]
        put_bind put_at_def mem_write_def po_appended_def xqc_vint_write_def be64_bytes_def xqc_vint_usable_bits_def)
  from ack_frame_roundtrip [OF _ _ _ gen, where pi = ?pi and rest = "[]" and e' = 3] show ?thesis
    by (simp add: rr_wf_def ranges_wf_def xqc_packet_in_init_def zero_packet_in_def zero_packet_def pi_rest_def
        xqc_packet_out_create_def po_dst_def po_appended_def)
qed

text \<open>C10. Generating an ACK frame stays in its place. On a packet within its usable size the generator does not
  write outside the allocated memory, however many ranges the record has: whether it succeeds or fails, only bytes behind
  the used size and within the usable size and the ACK reserve of 16 bytes have changed, so the earlier frames and the
  16 bytes behind the reserve, the room of the AEAD tag, are untouched. A frame that is written ends within that reserve, and the
  generator fails only with an empty record or for want of room.\<close>

theorem ack_frame_gen_safe:
  assumes "po_wf po"
  shows "\<exists>r po'. xqc_gen_ack_frame now e rr po = Some (r, po')
    \<and> take (po_dst po) (po_buf po') = take (po_dst po) (po_buf po)
    \<and> drop (unat (po_buf_size po) + XQC_ACK_SPACE) (po_buf po') = drop (unat (po_buf_size po) + XQC_ACK_SPACE) (po_buf po)
    \<and> length (po_buf po') = unat (po_buf_size po) + XQC_ACK_SPACE + XQC_TLS_AEAD_OVERHEAD_MAX_LEN
    \<and> (case r of
        Inl err \<Rightarrow> err = (if range_list rr = [] then XQC_ENULLPTR else XQC_ENOBUF)
      | Inr (n, has_gap, largest) \<Rightarrow> po_dst po + n \<le> unat (po_buf_size po) + XQC_ACK_SPACE)"
proof -
  have e: "ack_end po = unat (po_buf_size po) + XQC_ACK_SPACE"
    using ack_end_wf [OF assms] po_room_eq [OF assms] po_dst_le [OF assms] by simp
  obtain r po' where g: "xqc_gen_ack_frame now e rr po = Some (r, po')" "written_between (po_dst po) (ack_end po) po po'"
    "case r of Inl err \<Rightarrow> err = (if range_list rr = [] then XQC_ENULLPTR else XQC_ENOBUF)
      | Inr (n, has_gap, largest) \<Rightarrow> po_dst po + n \<le> ack_end po"
    using gen_ack_frame_safe [OF assms] by blast
  then show ?thesis using assms unfolding written_between_def e po_wf_def by (intro exI [of _ r] exI [of _ po']) simp
qed

theorem ack_frame_gen_safe_witness:
  "\<exists>r po'. xqc_gen_ack_frame 5 3 \<lparr>range_list = [\<lparr>low = 5, high = 7\<rparr>], largest_pkt_recv_time = 2, rr_del_from = 0\<rparr>
     (the (xqc_packet_out_create (Some (replicate 40 0)) 8)) = Some (r, po') \<and> drop 24 (po_buf po') = replicate 16 0"
  using ack_frame_gen_safe [of "the (xqc_packet_out_create (Some (replicate 40 0)) 8)" 5 3
      "\<lparr>range_list = [\<lparr>low = 5, high = 7\<rparr>], largest_pkt_recv_time = 2, rr_del_from = 0\<rparr>"]
  by (auto simp: xqc_packet_out_create_def po_wf_def)

text \<open>C14. The ACK parser does not reject a first range larger than the largest acknowledged number: the low
  end of the range wraps around at 64 bits and lies above the high end.\<close>

theorem ack_frame_underflow_accepted:
  assumes "pi_rest pi (pi_pos pi) = 0x02 # vint_enc largest @ vint_enc delay @ vint_enc 0 @ vint_enc first_range @ rest"
    and "largest < first_range" "first_range < 2 ^ 62" "delay < 2 ^ 62"
  shows "\<exists>info pi'. xqc_parse_ack_frame e pi = Ok (info, pi') \<and> (\<exists>r\<in>set (ack_ranges info). high r < low r)"
proof -
  have "largest < 2 ^ 62" using assms(2,3) by simp
  moreover have "largest < largest - first_range" using assms(2,3) by (rule word_underflow)
  ultimately show ?thesis using assms
    by (simp add: xqc_parse_ack_frame_def pi_byte_rest pi_vint_def pi_rest_simps vint_read_enc)
qed

theorem ack_frame_underflow_accepted_witness:
  "\<exists>info pi'. xqc_parse_ack_frame 3 (xqc_packet_in_init [0x02, 1, 0, 0, 5] 0 zero_packet_in) = Ok (info, pi')
     \<and> (\<exists>r\<in>set (ack_ranges info). high r < low r)"
  by (rule ack_frame_underflow_accepted [where largest = 1 and delay = 0 and first_range = 5 and rest = "[]"])
    (simp_all add: xqc_packet_in_init_def zero_packet_in_def pi_rest_def vint_enc_small)

end
