(* ===== verification/XQC_Pacing.thy ===== *)
theory XQC_Pacing
  imports XQC_Send_State
begin

text \<open>
  Pacing (\<^verbatim>\<open>transport/xqc_pacing.c\<close>, and the pacing timer of \<^verbatim>\<open>transport/xqc_send_ctl.h\<close>): a budget of bytes that grows with the
  pacing rate, and a timer for the packet that does not fit into it.

  \<^item> \<open>ctl_pacing\<close> holds the pacing state, \<^verbatim>\<open>pacing->ctl_ctx\<close> is the send control that contains it. \<open>clk\<close> is what
    \<^verbatim>\<open>xqc_monotonic_timestamp\<close> returns during the call.
  \<^item> An unset timer has the expire time 0, as \<^verbatim>\<open>xqc_send_ctl_timer_unset\<close> and the zeroed allocation leave it.
  \<^item> A division by zero is \<open>Fault\<close>.
\<close>

section \<open>The pacing timer\<close>

definition xqc_send_pacing_timer_set :: "xqc_send_ctl_timer_type \<Rightarrow> usec \<Rightarrow> 'cc xqc_send_ctl \<Rightarrow> 'cc xqc_send_ctl" where
  "xqc_send_pacing_timer_set type expire ctl = ctl\<lparr>ctl_timer := (ctl_timer ctl)(type := Some expire)\<rparr>"

definition xqc_send_pacing_timer_isset :: "'cc xqc_send_ctl \<Rightarrow> xqc_send_ctl_timer_type \<Rightarrow> bool" where
  "xqc_send_pacing_timer_isset ctl type \<longleftrightarrow> ctl_timer ctl type \<noteq> None"

definition xqc_send_pacing_timer_update :: "xqc_send_ctl_timer_type \<Rightarrow> usec \<Rightarrow> 'cc xqc_send_ctl \<Rightarrow> 'cc xqc_send_ctl" where
  "xqc_send_pacing_timer_update type new_expire ctl =
     (if new_expire - (case ctl_timer ctl type of None \<Rightarrow> 0 | Some e \<Rightarrow> e) < 1000 then ctl
      else case ctl_timer ctl type of
             Some _ \<Rightarrow> ctl\<lparr>ctl_timer := (ctl_timer ctl)(type := Some new_expire)\<rparr>
           | None \<Rightarrow> xqc_send_pacing_timer_set type new_expire ctl)"

section \<open>The budget\<close>

abbreviation "XQC_MAX_BURST_NUM \<equiv> (10 * of_nat XQC_MSS :: u64)"
abbreviation "XQC_PACING_DELAY_US \<equiv> (1000 :: u64)"
abbreviation "XQC_CLOCK_GRANULARITY_US \<equiv> (1000 :: u64)"

definition upd_pacing :: "(xqc_pacing \<Rightarrow> xqc_pacing) \<Rightarrow> 'cc xqc_send_ctl \<Rightarrow> 'cc xqc_send_ctl" where
  "upd_pacing f ctl = ctl\<lparr>ctl_pacing := f (ctl_pacing ctl)\<rparr>"

definition xqc_pacing_init :: "'cc cong_callback \<Rightarrow> bool \<Rightarrow> 'cc xqc_send_ctl \<Rightarrow> 'cc xqc_send_ctl" where
  "xqc_pacing_init cb paced = upd_pacing (\<lambda>_. \<lparr>pacing_on = paced \<or> cong_on_ack_multiple_pkts cb \<noteq> None,
     bytes_budget = ucast XQC_MAX_BURST_NUM, last_sent_time = 0, pending_budget = 0\<rparr>)"

definition xqc_pacing_rate_calc :: "'cc cong_callback \<Rightarrow> 'cc xqc_send_ctl \<Rightarrow> u64" where
  "xqc_pacing_rate_calc cb ctl =
     (if cong_on_ack_multiple_pkts cb \<noteq> None then ucast (cong_get_pacing_rate cb (ctl_cong ctl))
      else
        let cwnd = cong_get_cwnd cb (ctl_cong ctl);
            srtt = (if ctl_srtt ctl = 0 then 250 * 1000 else ctl_srtt ctl);
            pacing_rate = cwnd * 1000000 div srtt;
            pacing_rate = (if pacing_rate = 0 then 2 * of_nat XQC_MSS * 1000000 div (250 * 1000) else pacing_rate)
        in if cong_in_slow_start cb (ctl_cong ctl) then pacing_rate * 2 else pacing_rate * 12 div 10)"

definition xqc_pacing_max_burst_size :: "'cc cong_callback \<Rightarrow> 'cc xqc_send_ctl \<Rightarrow> u32" where
  "xqc_pacing_max_burst_size cb ctl =
     (let t_diff = XQC_PACING_DELAY_US + XQC_CLOCK_GRANULARITY_US;
          max_burst_bytes = t_diff * xqc_pacing_rate_calc cb ctl div 1000000
      in ucast (max XQC_MAX_BURST_NUM max_burst_bytes))"

definition xqc_pacing_calc_budget :: "'cc cong_callback \<Rightarrow> usec \<Rightarrow> 'cc xqc_send_ctl \<Rightarrow> u32" where
  "xqc_pacing_calc_budget cb now ctl =
     (let p = ctl_pacing ctl;
          max_burst_bytes = xqc_pacing_max_burst_size cb ctl;
          budget = (if last_sent_time p = 0 then max_burst_bytes
                    else ucast (ucast (bytes_budget p) + (now - last_sent_time p) * xqc_pacing_rate_calc cb ctl div 1000000))
      in min budget max_burst_bytes)"

definition xqc_pacing_on_timeout :: "'cc cong_callback \<Rightarrow> usec \<Rightarrow> 'cc xqc_send_ctl \<Rightarrow> 'cc xqc_send_ctl" where
  "xqc_pacing_on_timeout cb clk ctl =
     (let budget = xqc_pacing_calc_budget cb clk ctl
      in upd_pacing (\<lambda>p. p\<lparr>bytes_budget := max budget (bytes_budget p + pending_budget p), pending_budget := 0, last_sent_time := clk\<rparr>) ctl)"

definition xqc_pacing_on_packet_sent :: "'cc cong_callback \<Rightarrow> usec \<Rightarrow> u32 \<Rightarrow> 'cc xqc_send_ctl \<Rightarrow> 'cc xqc_send_ctl" where
  "xqc_pacing_on_packet_sent cb clk bytes ctl =
     (let budget = xqc_pacing_calc_budget cb clk ctl;
          budget = (if bytes > budget then 0 else budget - bytes)
      in upd_pacing (\<lambda>p. p\<lparr>bytes_budget := budget, last_sent_time := clk\<rparr>) ctl)"

definition xqc_pacing_time_until_send :: "'cc cong_callback \<Rightarrow> u32 \<Rightarrow> 'cc xqc_send_ctl \<Rightarrow> (usec \<times> 'cc xqc_send_ctl) res" where
  "xqc_pacing_time_until_send cb bytes ctl =
     (let p = ctl_pacing ctl; rate = xqc_pacing_rate_calc cb ctl in
      if bytes_budget p \<ge> bytes then Ok (0, ctl)
      else if rate = 0 then Fault
      else let delay_us = ucast (bytes - bytes_budget p) * 1000000 div rate
           in Ok (max delay_us XQC_PACING_DELAY_US, upd_pacing (\<lambda>p. p\<lparr>pending_budget := bytes - bytes_budget p\<rparr>) ctl))"

definition xqc_pacing_can_write :: "'cc cong_callback \<Rightarrow> usec \<Rightarrow> u32 \<Rightarrow> 'cc xqc_send_ctl \<Rightarrow> (bool \<times> 'cc xqc_send_ctl) res" where
  "xqc_pacing_can_write cb clk total_bytes ctl =
     (if xqc_send_pacing_timer_isset ctl XQC_TIMER_PACING then Ok (False, ctl)
      else bind_res (xqc_pacing_time_until_send cb total_bytes ctl) (\<lambda>(delay, ctl).
             if delay \<noteq> 0 then Ok (False, xqc_send_pacing_timer_update XQC_TIMER_PACING (clk + delay) ctl)
             else Ok (True, ctl)))"

definition xqc_pacing_on_app_limit :: "usec \<Rightarrow> 'cc xqc_send_ctl \<Rightarrow> 'cc xqc_send_ctl" where
  "xqc_pacing_on_app_limit clk = upd_pacing (\<lambda>p. p\<lparr>bytes_budget := ucast XQC_MAX_BURST_NUM, last_sent_time := clk\<rparr>)"

definition xqc_pacing_is_on :: "'cc xqc_send_ctl \<Rightarrow> bool" where
  "xqc_pacing_is_on ctl = pacing_on (ctl_pacing ctl)"

end
