(* ===== verification/XQC_Send_Ctl.thy ===== *)
theory XQC_Send_Ctl
  imports XQC_Sample XQC_Frame_Ack XQC_Pacing
begin

text \<open>
  The send control (\<^verbatim>\<open>transport/xqc_send_ctl.c\<close>, \<^verbatim>\<open>xqc_send_ctl.h\<close>, \<^verbatim>\<open>xqc_packet_out.c\<close>): the packets in flight and their bytes,
  retransmitted copies and their origins, round trip times, acknowledgements, loss detection and the timers that drive it.

  \<^item> \<^verbatim>\<open>xqc_list_for_each_safe\<close> runs over the list as it was when the loop started. The bodies remove the current packet and packets
    that were sent before it, so the loop of the code visits the same packets.
  \<^item> \<open>clk\<close> is what \<^verbatim>\<open>xqc_monotonic_timestamp\<close> returns during the call.
  \<^item> Logging and \<^verbatim>\<open>ctl_info\<close>, which only the log reads, are left out.
\<close>

section \<open>Packets in the store\<close>

definition has_pof :: "u32 \<Rightarrow> sent_packet \<Rightarrow> bool" where
  "has_pof f po \<longleftrightarrow> po_flag po AND f \<noteq> 0"

definition set_pof :: "u32 \<Rightarrow> sent_packet \<Rightarrow> sent_packet" where
  "set_pof f po = po\<lparr>po_flag := po_flag po OR f\<rparr>"

definition clear_pof :: "u32 \<Rightarrow> sent_packet \<Rightarrow> sent_packet" where
  "clear_pof f po = po\<lparr>po_flag := po_flag po AND NOT f\<rparr>"

definition upd_po :: "pid \<Rightarrow> (sent_packet \<Rightarrow> sent_packet) \<Rightarrow> 'cc xqc_send_ctl \<Rightarrow> 'cc xqc_send_ctl" where
  "upd_po p f ctl = ctl\<lparr>ctl_store := (ctl_store ctl)(p := f (ctl_store ctl p))\<rparr>"

abbreviation po_pns :: "sent_packet \<Rightarrow> xqc_pkt_num_space" where
  "po_pns po \<equiv> pkt_pns (po_pkt po)"

abbreviation po_num :: "sent_packet \<Rightarrow> pktno" where
  "po_num po \<equiv> pkt_num (po_pkt po)"

text \<open>\<^verbatim>\<open>xqc_list_del_init\<close> takes the packet out of the list it is in.\<close>

definition list_del :: "pid \<Rightarrow> 'cc xqc_send_ctl \<Rightarrow> 'cc xqc_send_ctl" where
  "list_del p ctl = ctl\<lparr>ctl_send_packets := remove1 p (ctl_send_packets ctl),
     ctl_send_packets_high_pri := remove1 p (ctl_send_packets_high_pri ctl),
     ctl_unacked_packets := (\<lambda>pns. remove1 p (ctl_unacked_packets ctl pns)),
     ctl_pto_probe_packets := remove1 p (ctl_pto_probe_packets ctl), ctl_lost_packets := remove1 p (ctl_lost_packets ctl),
     ctl_free_packets := remove1 p (ctl_free_packets ctl), ctl_buff_1rtt_packets := remove1 p (ctl_buff_1rtt_packets ctl)\<rparr>"

definition xqc_send_ctl_remove_unacked :: "pid \<Rightarrow> 'cc xqc_send_ctl \<Rightarrow> 'cc xqc_send_ctl" where
  "xqc_send_ctl_remove_unacked p ctl = list_del p ctl"

definition xqc_send_ctl_insert_unacked :: "pid \<Rightarrow> xqc_pkt_num_space \<Rightarrow> 'cc xqc_send_ctl \<Rightarrow> 'cc xqc_send_ctl" where
  "xqc_send_ctl_insert_unacked p pns ctl =
     ctl\<lparr>ctl_unacked_packets := (ctl_unacked_packets ctl)(pns := ctl_unacked_packets ctl pns @ [p])\<rparr>"

definition xqc_send_ctl_remove_send :: "pid \<Rightarrow> 'cc xqc_send_ctl \<Rightarrow> 'cc xqc_send_ctl" where
  "xqc_send_ctl_remove_send p ctl = list_del p ctl"

definition xqc_send_ctl_insert_send :: "pid \<Rightarrow> 'cc xqc_send_ctl \<Rightarrow> 'cc xqc_send_ctl" where
  "xqc_send_ctl_insert_send p ctl = ctl\<lparr>ctl_send_packets := ctl_send_packets ctl @ [p], ctl_packets_used := ctl_packets_used ctl + 1\<rparr>"

definition xqc_send_ctl_insert_probe :: "pid \<Rightarrow> 'cc xqc_send_ctl \<Rightarrow> 'cc xqc_send_ctl" where
  "xqc_send_ctl_insert_probe p ctl = ctl\<lparr>ctl_pto_probe_packets := ctl_pto_probe_packets ctl @ [p]\<rparr>"

definition xqc_send_ctl_insert_lost :: "pid \<Rightarrow> 'cc xqc_send_ctl \<Rightarrow> 'cc xqc_send_ctl" where
  "xqc_send_ctl_insert_lost p ctl = ctl\<lparr>ctl_lost_packets := ctl_lost_packets ctl @ [p]\<rparr>"

definition xqc_send_ctl_remove_free :: "pid \<Rightarrow> 'cc xqc_send_ctl \<Rightarrow> 'cc xqc_send_ctl" where
  "xqc_send_ctl_remove_free p ctl = (list_del p ctl)\<lparr>ctl_packets_free := ctl_packets_free ctl - 1\<rparr>"

definition xqc_send_ctl_insert_free :: "pid \<Rightarrow> 'cc xqc_send_ctl \<Rightarrow> 'cc xqc_send_ctl" where
  "xqc_send_ctl_insert_free p ctl = ctl\<lparr>ctl_free_packets := ctl_free_packets ctl @ [p],
     ctl_packets_free := ctl_packets_free ctl + 1, ctl_packets_used := ctl_packets_used ctl - 1\<rparr>"

definition xqc_send_ctl_move_to_head :: "pid \<Rightarrow> 'cc xqc_send_ctl \<Rightarrow> 'cc xqc_send_ctl" where
  "xqc_send_ctl_move_to_head p ctl = (let ctl = list_del p ctl in ctl\<lparr>ctl_send_packets := p # ctl_send_packets ctl\<rparr>)"

definition xqc_send_ctl_move_to_high_pri :: "pid \<Rightarrow> 'cc xqc_send_ctl \<Rightarrow> 'cc xqc_send_ctl" where
  "xqc_send_ctl_move_to_high_pri p ctl =
     (let ctl = list_del p ctl in ctl\<lparr>ctl_send_packets_high_pri := ctl_send_packets_high_pri ctl @ [p]\<rparr>)"

definition xqc_send_ctl_move_to_send :: "pid \<Rightarrow> 'cc xqc_send_ctl \<Rightarrow> 'cc xqc_send_ctl" where
  "xqc_send_ctl_move_to_send p ctl = (let ctl = list_del p ctl in ctl\<lparr>ctl_send_packets := ctl_send_packets ctl @ [p]\<rparr>)"

definition xqc_send_ctl_can_write :: "'cc xqc_send_ctl \<Rightarrow> bool" where
  "xqc_send_ctl_can_write ctl \<longleftrightarrow> ctl_packets_used ctl < ctl_packets_used_max ctl"

section \<open>Bytes in flight\<close>

definition xqc_send_ctl_increase_inflight :: "pid \<Rightarrow> 'cc xqc_send_ctl \<Rightarrow> 'cc xqc_send_ctl" where
  "xqc_send_ctl_increase_inflight p ctl =
     (let po = ctl_store ctl p; pns = po_pns po in
      if \<not> has_pof XQC_POF_IN_FLIGHT po \<and> XQC_CAN_IN_FLIGHT (po_frame_types po) \<and> XQC_IS_ACK_ELICITING (po_frame_types po)
      then upd_po p (set_pof XQC_POF_IN_FLIGHT)
             (ctl\<lparr>ctl_bytes_in_flight := ctl_bytes_in_flight ctl + po_used_size po,
                ctl_bytes_ack_eliciting_inflight := (ctl_bytes_ack_eliciting_inflight ctl)
                  (pns := ctl_bytes_ack_eliciting_inflight ctl pns + po_used_size po)\<rparr>)
      else ctl)"

definition xqc_send_ctl_decrease_inflight :: "pid \<Rightarrow> 'cc xqc_send_ctl \<Rightarrow> 'cc xqc_send_ctl" where
  "xqc_send_ctl_decrease_inflight p ctl =
     (let po = ctl_store ctl p; pns = po_pns po; e = ctl_bytes_ack_eliciting_inflight ctl in
      if has_pof XQC_POF_IN_FLIGHT po \<and> XQC_IS_ACK_ELICITING (po_frame_types po)
      then upd_po p (clear_pof XQC_POF_IN_FLIGHT)
             (if e pns < po_used_size po
              then ctl\<lparr>ctl_bytes_ack_eliciting_inflight := e(pns := 0), ctl_bytes_in_flight := 0\<rparr>
              else ctl\<lparr>ctl_bytes_ack_eliciting_inflight := e(pns := e pns - po_used_size po),
                     ctl_bytes_in_flight := ctl_bytes_in_flight ctl - po_used_size po\<rparr>)
      else ctl)"

section \<open>Timers of the loss detection\<close>

abbreviation "XQC_kGranularity \<equiv> (2::u64)"

definition xqc_send_ctl_calc_pto :: "'cc xqc_send_ctl \<Rightarrow> usec" where
  "xqc_send_ctl_calc_pto ctl = ctl_srtt ctl + max (4 * ctl_rttvar ctl) (XQC_kGranularity * 1000)
     + local_max_ack_delay (ctl_settings ctl) * 1000"

definition xqc_conn_is_handshake_confirmed :: "xqc_connection \<Rightarrow> bool" where
  "xqc_conn_is_handshake_confirmed c \<longleftrightarrow> has_flag XQC_CONN_FLAG_HANDSHAKE_CONFIRMED c"

definition xqc_send_ctl_ack_received_in_pns :: "'cc xqc_send_ctl \<Rightarrow> xqc_pkt_num_space \<Rightarrow> bool" where
  "xqc_send_ctl_ack_received_in_pns ctl pns \<longleftrightarrow> ctl_largest_acked_sent_time ctl pns > 0"

definition xqc_conn_peer_complete_address_validation :: "'cc xqc_send_ctl \<Rightarrow> bool" where
  "xqc_conn_peer_complete_address_validation ctl \<longleftrightarrow>
     (if conn_type (ctl_conn ctl) = XQC_CONN_TYPE_SERVER then True
      else has_flag XQC_CONN_FLAG_HANDSHAKE_CONFIRMED (ctl_conn ctl) \<or> xqc_send_ctl_ack_received_in_pns ctl XQC_PNS_HSK)"

definition xqc_send_ctl_check_anti_amplification :: "u64 \<Rightarrow> 'cc xqc_send_ctl \<Rightarrow> bool" where
  "xqc_send_ctl_check_anti_amplification byte_cnt ctl \<longleftrightarrow>
     conn_type (ctl_conn ctl) = XQC_CONN_TYPE_SERVER \<and> ctl_bytes_send ctl > 0
     \<and> \<not> has_flag XQC_CONN_FLAG_ADDR_VALIDATED (ctl_conn ctl)
     \<and> ctl_bytes_send ctl + byte_cnt \<ge> ucast (anti_amplification_limit (ctl_settings ctl)) * ctl_bytes_recv ctl"

definition xqc_send_ctl_can_send :: "'cc cong_callback \<Rightarrow> sent_packet \<Rightarrow> 'cc xqc_send_ctl \<Rightarrow> bool" where
  "xqc_send_ctl_can_send cb packet_out ctl =
     (let congestion_window = (ucast (cong_get_cwnd cb (ctl_cong ctl)) :: u32);
          congestion_window = (if so_sndbuf (ctl_settings ctl) > 0 then min congestion_window (so_sndbuf (ctl_settings ctl))
                               else congestion_window);
          can = \<not> (ctl_bytes_in_flight ctl + po_used_size packet_out > congestion_window)
      in if conn_type (ctl_conn ctl) = XQC_CONN_TYPE_SERVER \<and> \<not> has_flag XQC_CONN_FLAG_ADDR_VALIDATED (ctl_conn ctl)
            \<and> xqc_send_ctl_check_anti_amplification (ucast (po_used_size packet_out)) ctl
         then False else can)"

definition xqc_send_ctl_get_earliest_loss_time :: "'cc xqc_send_ctl \<Rightarrow> usec \<times> xqc_pkt_num_space" where
  "xqc_send_ctl_get_earliest_loss_time ctl =
     fold (\<lambda>pns (time, pns_ret). if ctl_loss_time ctl pns \<noteq> 0 \<and> (time = 0 \<or> ctl_loss_time ctl pns < time)
                               then (ctl_loss_time ctl pns, pns) else (time, pns_ret))
       [XQC_PNS_HSK, XQC_PNS_APP_DATA] (ctl_loss_time ctl XQC_PNS_INIT, XQC_PNS_INIT)"

text \<open>\<^verbatim>\<open>1 << n\<close> of type \<^verbatim>\<open>int\<close>, converted to 64 bits; shifts by 32 and more are undefined in C.\<close>

definition xqc_send_ctl_pow :: "u32 \<Rightarrow> u64" where
  "xqc_send_ctl_pow n = scast (push_bit (unat n) (1::u32))"

text \<open>The loop over the packet number spaces, which ends at the application data of an unconfirmed handshake.\<close>

fun pto_spaces :: "'cc xqc_send_ctl \<Rightarrow> xqc_pkt_num_space list \<Rightarrow> usec \<Rightarrow> usec \<times> xqc_pkt_num_space \<Rightarrow> usec \<times> xqc_pkt_num_space" where
  "pto_spaces ctl [] duration r = r"
| "pto_spaces ctl (pns # rest) duration (pto_timeout, pns_ret) =
     (if ctl_bytes_ack_eliciting_inflight ctl pns > 0 then
        if pns = XQC_PNS_APP_DATA \<and> \<not> xqc_conn_is_handshake_confirmed (ctl_conn ctl) then (pto_timeout, pns_ret)
        else
          let duration = (if pns = XQC_PNS_APP_DATA
                then duration + remote_max_ack_delay (ctl_settings ctl) * 1000 * xqc_send_ctl_pow (ctl_pto_count ctl) else duration);
              t = ctl_time_of_last_sent_ack_eliciting_packet ctl pns + duration
          in pto_spaces ctl rest duration (if t < pto_timeout then (t, pns) else (pto_timeout, pns_ret))
      else pto_spaces ctl rest duration (pto_timeout, pns_ret))"

definition xqc_send_ctl_get_pto_time_and_space :: "usec \<Rightarrow> 'cc xqc_send_ctl \<Rightarrow> usec \<times> xqc_pkt_num_space" where
  "xqc_send_ctl_get_pto_time_and_space clk ctl =
     (let duration = (ctl_srtt ctl + max (4 * ctl_rttvar ctl) (XQC_kGranularity * 1000)) * xqc_send_ctl_pow (ctl_pto_count ctl)
      in if ctl_bytes_in_flight ctl = 0
         then (clk + duration, if set_hsk_keys (ctl_settings ctl) then XQC_PNS_HSK else XQC_PNS_INIT)
         else pto_spaces ctl [XQC_PNS_INIT, XQC_PNS_HSK, XQC_PNS_APP_DATA] duration (- 1, XQC_PNS_INIT))"

definition xqc_send_ctl_set_loss_detection_timer :: "usec \<Rightarrow> 'cc xqc_send_ctl \<Rightarrow> 'cc xqc_send_ctl" where
  "xqc_send_ctl_set_loss_detection_timer clk ctl =
     (let loss_time = fst (xqc_send_ctl_get_earliest_loss_time ctl)
      in if loss_time \<noteq> 0
         then xqc_send_ctl_timer_set XQC_TIMER_LOSS_DETECTION clk (if loss_time > clk then loss_time - clk else 0) ctl
         else if xqc_send_ctl_check_anti_amplification 0 ctl then xqc_send_ctl_timer_unset XQC_TIMER_LOSS_DETECTION ctl
         else if ctl_bytes_ack_eliciting_inflight ctl XQC_PNS_INIT = 0 \<and> ctl_bytes_ack_eliciting_inflight ctl XQC_PNS_HSK = 0
              \<and> ctl_bytes_ack_eliciting_inflight ctl XQC_PNS_APP_DATA = 0 \<and> xqc_conn_peer_complete_address_validation ctl
         then xqc_send_ctl_timer_unset XQC_TIMER_LOSS_DETECTION ctl
         else let timeout = fst (xqc_send_ctl_get_pto_time_and_space clk ctl)
              in xqc_send_ctl_timer_set XQC_TIMER_LOSS_DETECTION clk (if timeout > clk then timeout - clk else 0) ctl)"

definition xqc_send_ctl_rearm_ld_timer :: "usec \<Rightarrow> 'cc xqc_send_ctl \<Rightarrow> 'cc xqc_send_ctl" where
  "xqc_send_ctl_rearm_ld_timer clk ctl =
     (if xqc_send_ctl_timer_is_set ctl XQC_TIMER_LOSS_DETECTION then ctl else xqc_send_ctl_set_loss_detection_timer clk ctl)"

definition xqc_send_ctl_on_dgram_received :: "usec \<Rightarrow> u64 \<Rightarrow> 'cc xqc_send_ctl \<Rightarrow> 'cc xqc_send_ctl" where
  "xqc_send_ctl_on_dgram_received clk dgram_size ctl =
     (let aal = xqc_send_ctl_check_anti_amplification 0 ctl;
          ctl = ctl\<lparr>ctl_recv_count := ctl_recv_count ctl + 1, ctl_bytes_recv := ctl_bytes_recv ctl + dgram_size\<rparr>
      in if aal \<and> \<not> xqc_send_ctl_check_anti_amplification 0 ctl then xqc_send_ctl_set_loss_detection_timer clk ctl else ctl)"

section \<open>Streams of a packet\<close>

definition upd_stream :: "u64 \<Rightarrow> (xqc_stream \<Rightarrow> xqc_stream) \<Rightarrow> 'cc xqc_send_ctl \<Rightarrow> 'cc xqc_send_ctl" where
  "upd_stream sid f ctl = ctl\<lparr>ctl_streams := (ctl_streams ctl)(sid := map_option f (ctl_streams ctl sid))\<rparr>"

text \<open>\<^verbatim>\<open>stream\<close> is the stream \<open>sid\<close>, which exists.\<close>

definition xqc_stream_maybe_need_close :: "usec \<Rightarrow> u64 \<Rightarrow> xqc_stream \<Rightarrow> 'cc xqc_send_ctl \<Rightarrow> 'cc xqc_send_ctl" where
  "xqc_stream_maybe_need_close clk sid stream ctl =
     (if stream_need_close stream then ctl
      else
        let f = (\<lambda>s. if stream_state_send s = XQC_SEND_STREAM_ST_DATA_RECVD \<and> all_data_acked_time s = 0
                     then s\<lparr>all_data_acked_time := clk\<rparr> else s);
            ctl = upd_stream sid f ctl
        in if stream_state_send stream \<in> {XQC_SEND_STREAM_ST_DATA_RECVD, XQC_SEND_STREAM_ST_RESET_RECVD}
              \<and> stream_state_recv stream \<in> {XQC_RECV_STREAM_ST_DATA_READ, XQC_RECV_STREAM_ST_RESET_READ}
           then
             let pto = xqc_send_ctl_calc_pto ctl;
                 new_expire = clk + 3 * pto;
                 ctl = (case ctl_timer ctl XQC_TIMER_STREAM_CLOSE of
                          Some e \<Rightarrow> if new_expire < e then xqc_send_ctl_timer_set XQC_TIMER_STREAM_CLOSE clk (3 * pto) ctl else ctl
                        | None \<Rightarrow> xqc_send_ctl_timer_set XQC_TIMER_STREAM_CLOSE clk (3 * pto) ctl);
                 ctl = upd_stream sid (\<lambda>s. s\<lparr>stream_need_close := True, stream_close_time := new_expire, stream_ready := (False, False),
                         close_time := if close_time s = 0 then clk else close_time s\<rparr>) ctl
             in ctl\<lparr>ctl_closing_streams := ctl_closing_streams ctl @ [sid]\<rparr>
           else ctl)"

definition reset_acked_frame :: "usec \<Rightarrow> po_stream_frame \<Rightarrow> 'cc xqc_send_ctl \<Rightarrow> 'cc xqc_send_ctl" where
  "reset_acked_frame clk f ctl = (case ctl_streams ctl (ps_stream_id f) of
     Some s \<Rightarrow>
       if ps_is_reset f \<and> stream_state_send s = XQC_SEND_STREAM_ST_RESET_SENT
       then let s = s\<lparr>stream_state_send := XQC_SEND_STREAM_ST_RESET_RECVD\<rparr>
            in xqc_stream_maybe_need_close clk (ps_stream_id f) s (upd_stream (ps_stream_id f) (\<lambda>_. s) ctl)
       else ctl
   | None \<Rightarrow> ctl)"

definition xqc_send_ctl_on_reset_stream_acked :: "usec \<Rightarrow> pid \<Rightarrow> 'cc xqc_send_ctl \<Rightarrow> 'cc xqc_send_ctl" where
  "xqc_send_ctl_on_reset_stream_acked clk p ctl =
     (let po = ctl_store ctl p in
      if po_frame_types po AND XQC_FRAME_BIT XQC_FRAME_RESET_STREAM \<noteq> 0
      then fold (reset_acked_frame clk) (po_stream_frames po) ctl else ctl)"

definition sent_stream_frame :: "po_stream_frame \<Rightarrow> 'cc xqc_send_ctl \<Rightarrow> 'cc xqc_send_ctl" where
  "sent_stream_frame f = upd_stream (ps_stream_id f) (\<lambda>s.
     let s = s\<lparr>stream_unacked_pkt := stream_unacked_pkt s + 1\<rparr>;
         s = (if stream_state_send s = XQC_SEND_STREAM_ST_READY then s\<lparr>stream_state_send := XQC_SEND_STREAM_ST_SEND\<rparr> else s)
     in if ps_has_fin f \<and> stream_state_send s = XQC_SEND_STREAM_ST_SEND
        then s\<lparr>stream_state_send := XQC_SEND_STREAM_ST_DATA_SENT\<rparr> else s)"

definition xqc_send_ctl_increase_unacked_stream_ref :: "pid \<Rightarrow> 'cc xqc_send_ctl \<Rightarrow> 'cc xqc_send_ctl" where
  "xqc_send_ctl_increase_unacked_stream_ref p ctl =
     (let po = ctl_store ctl p in
      if po_frame_types po AND XQC_FRAME_BIT XQC_FRAME_STREAM \<noteq> 0 \<and> \<not> has_pof XQC_POF_STREAM_UNACK po
      then upd_po p (set_pof XQC_POF_STREAM_UNACK)
             (if po_origin po = None then fold sent_stream_frame (po_stream_frames po) ctl else ctl)
      else ctl)"

definition acked_stream_frame :: "usec \<Rightarrow> po_stream_frame \<Rightarrow> 'cc xqc_send_ctl \<Rightarrow> 'cc xqc_send_ctl" where
  "acked_stream_frame clk f ctl = (case ctl_streams ctl (ps_stream_id f) of
     Some s \<Rightarrow>
       let s = (if stream_unacked_pkt s = 0 then s else s\<lparr>stream_unacked_pkt := stream_unacked_pkt s - 1\<rparr>);
           s = (if ps_has_fin f \<and> first_fin_ack_time s = 0 then s\<lparr>first_fin_ack_time := clk\<rparr> else s)
       in if stream_unacked_pkt s = 0 \<and> stream_state_send s = XQC_SEND_STREAM_ST_DATA_SENT
          then let s = s\<lparr>stream_state_send := XQC_SEND_STREAM_ST_DATA_RECVD\<rparr>
               in xqc_stream_maybe_need_close clk (ps_stream_id f) s (upd_stream (ps_stream_id f) (\<lambda>_. s) ctl)
          else upd_stream (ps_stream_id f) (\<lambda>_. s) ctl
   | None \<Rightarrow> ctl)"

definition xqc_send_ctl_decrease_unacked_stream_ref :: "usec \<Rightarrow> pid \<Rightarrow> 'cc xqc_send_ctl \<Rightarrow> 'cc xqc_send_ctl" where
  "xqc_send_ctl_decrease_unacked_stream_ref clk p ctl =
     (let po = ctl_store ctl p in
      if has_pof XQC_POF_STREAM_UNACK po
      then
        let first_time_ack = (\<not> po_acked po \<and> (case po_origin po of None \<Rightarrow> True | Some q \<Rightarrow> \<not> po_acked (ctl_store ctl q)))
        in upd_po p (clear_pof XQC_POF_STREAM_UNACK)
             (if first_time_ack then fold (acked_stream_frame clk) (po_stream_frames po) ctl else ctl)
      else ctl)"

definition sent_stream_stats :: "usec \<Rightarrow> po_stream_frame \<Rightarrow> 'cc xqc_send_ctl \<Rightarrow> 'cc xqc_send_ctl" where
  "sent_stream_stats now f = upd_stream (ps_stream_id f) (\<lambda>s. s\<lparr>
     first_snd_time := if first_snd_time s = 0 then now else first_snd_time s,
     local_fin_snd_time := if ps_has_fin f then now else local_fin_snd_time s,
     local_reset_time := if ps_is_reset f then now else local_reset_time s\<rparr>)"

definition xqc_send_ctl_update_stream_stats_on_sent :: "pid \<Rightarrow> usec \<Rightarrow> 'cc xqc_send_ctl \<Rightarrow> 'cc xqc_send_ctl" where
  "xqc_send_ctl_update_stream_stats_on_sent p now ctl =
     (let po = ctl_store ctl p in
      if po_frame_types po AND XQC_FRAME_BIT XQC_FRAME_STREAM \<noteq> 0 then fold (sent_stream_stats now) (po_stream_frames po) ctl else ctl)"

section \<open>Allocation and copies\<close>

definition zero_packet_out :: "u8 list \<Rightarrow> u32 \<Rightarrow> sent_packet" where
  "zero_packet_out buf buf_size = \<lparr>po_pkt = zero_packet, po_buf = buf, po_ppktno = None, po_payload = None, po_padding = None,
     po_buf_size = buf_size, po_used_size = 0, po_frame_types = 0, po_largest_ack = 0, po_sent_time = 0, po_delivered = 0,
     po_delivered_time = 0, po_first_sent_time = 0, po_is_app_limited = False, po_tx_in_flight = 0, po_lost = 0,
     po_origin = None, po_ack_offset = 0, po_flag = 0, po_origin_ref_cnt = 0, po_acked = False, po_stream_frames = []\<rparr>"

definition xqc_packet_out_get :: "'cc xqc_send_ctl \<Rightarrow> pid \<times> 'cc xqc_send_ctl" where
  "xqc_packet_out_get ctl = (case ctl_free_packets ctl of
     p # _ \<Rightarrow> (p, upd_po p (\<lambda>po. zero_packet_out (po_buf po) (po_buf_size po)) (xqc_send_ctl_remove_free p ctl))
   | [] \<Rightarrow> let p = ctl_next ctl; n = set_pkt_out_size (ctl_settings ctl)
           in (p, upd_po p (\<lambda>_. zero_packet_out (replicate (unat n + XQC_PACKET_OUT_EXT_SPACE) 0) n) (ctl\<lparr>ctl_next := p + 1\<rparr>)))"

definition xqc_packet_out_copy :: "pid \<Rightarrow> pid \<Rightarrow> 'cc xqc_send_ctl \<Rightarrow> 'cc xqc_send_ctl res" where
  "xqc_packet_out_copy dst src ctl =
     (let s = ctl_store ctl src; buf = po_buf (ctl_store ctl dst); n = unat (po_used_size s);
          origin = (case po_origin s of None \<Rightarrow> src | Some q \<Rightarrow> q)
      in if n > length buf \<or> n > length (po_buf s) then Fault
         else Ok (upd_po origin (\<lambda>po. po\<lparr>po_origin_ref_cnt := po_origin_ref_cnt po + 1\<rparr>)
                    (upd_po dst (\<lambda>_. s\<lparr>po_origin_ref_cnt := 0, po_buf := take n (po_buf s) @ drop n buf, po_origin := Some origin\<rparr>) ctl)))"

definition xqc_maybe_recycle_packet_out :: "pid \<Rightarrow> 'cc xqc_send_ctl \<Rightarrow> 'cc xqc_send_ctl" where
  "xqc_maybe_recycle_packet_out p ctl =
     (if po_frame_types (ctl_store ctl p) = 0 then xqc_send_ctl_insert_free p (list_del p ctl) else ctl)"

text \<open>The part of a packet that the frame generators work on.\<close>

definition with_packet_out :: "packet_out \<Rightarrow> sent_packet \<Rightarrow> sent_packet" where
  "with_packet_out base po = packet_out.extend base (packet_out.more po)"

definition xqc_write_ack_to_one_packet :: "usec \<Rightarrow> pid \<Rightarrow> xqc_pkt_num_space \<Rightarrow> 'cc xqc_send_ctl \<Rightarrow> (ret \<times> 'cc xqc_send_ctl) res" where
  "xqc_write_ack_to_one_packet clk p pns ctl =
     (let po = ctl_store ctl p; c = ctl_conn ctl in
      case xqc_gen_ack_frame clk (set_ack_delay_exponent (ctl_settings ctl)) (recv_record c (po_pns po)) (packet_out.truncate po) of
        None \<Rightarrow> Fault
      | Some (Inl e, base) \<Rightarrow> Ok (Some e, xqc_maybe_recycle_packet_out p (upd_po p (with_packet_out base) ctl))
      | Some (Inr (len, has_gap, largest_ack), base) \<Rightarrow>
          let ctl = upd_po p (\<lambda>po. (with_packet_out base po)\<lparr>po_ack_offset := po_used_size po,
                      po_used_size := po_used_size po + of_nat len, po_largest_ack := largest_ack\<rparr>) ctl;
              c = c\<lparr>ack_eliciting_pkt := (ack_eliciting_pkt c)(pns := 0)\<rparr>;
              c = c\<lparr>conn_flag := if has_gap then conn_flag c OR XQC_CONN_FLAG XQC_CONN_FLAG_ACK_HAS_GAP
                                  else conn_flag c AND NOT (XQC_CONN_FLAG XQC_CONN_FLAG_ACK_HAS_GAP)\<rparr>;
              c = c\<lparr>conn_flag := conn_flag c AND NOT (should_ack_flag pns)\<rparr>
          in Ok (None, ctl\<lparr>ctl_conn := c\<rparr>))"

text \<open>The common part of \<^verbatim>\<open>xqc_send_ctl_copy_to_lost\<close> and \<^verbatim>\<open>xqc_send_ctl_copy_to_pto_probe_list\<close>: a copy whose ACK frame is written anew.\<close>

definition copy_with_ack :: "usec \<Rightarrow> pid \<Rightarrow> 'cc xqc_send_ctl \<Rightarrow> (pid \<times> 'cc xqc_send_ctl) res" where
  "copy_with_ack clk p ctl =
     (let (new_po, ctl) = xqc_packet_out_get ctl in
      bind_res (xqc_packet_out_copy new_po p ctl) (\<lambda>ctl.
        let po = ctl_store ctl new_po in
        if po_ack_offset po > 0 \<and> po_frame_types po AND XQC_FRAME_BIT XQC_FRAME_ACK \<noteq> 0
        then bind_res (xqc_write_ack_to_one_packet clk new_po (po_pns po)
                 (upd_po new_po (\<lambda>po. po\<lparr>po_frame_types := po_frame_types po AND NOT (XQC_FRAME_BIT XQC_FRAME_ACK),
                                         po_used_size := po_ack_offset po\<rparr>) ctl))
               (\<lambda>(ret, ctl). Ok (new_po, ctl))
        else Ok (new_po, ctl)))"

definition xqc_send_ctl_copy_to_lost :: "usec \<Rightarrow> pid \<Rightarrow> 'cc xqc_send_ctl \<Rightarrow> 'cc xqc_send_ctl res" where
  "xqc_send_ctl_copy_to_lost clk p ctl =
     bind_res (copy_with_ack clk p ctl) (\<lambda>(new_po, ctl).
       let ctl = xqc_send_ctl_insert_lost new_po ctl
       in Ok (upd_po p (set_pof XQC_POF_RETRANSED) (ctl\<lparr>ctl_packets_used := ctl_packets_used ctl + 1\<rparr>)))"

definition xqc_send_ctl_copy_to_pto_probe_list :: "usec \<Rightarrow> pid \<Rightarrow> 'cc xqc_send_ctl \<Rightarrow> 'cc xqc_send_ctl res" where
  "xqc_send_ctl_copy_to_pto_probe_list clk p ctl =
     bind_res (copy_with_ack clk p ctl) (\<lambda>(new_po, ctl).
       let ctl = xqc_send_ctl_insert_probe new_po ctl
       in Ok (upd_po p (set_pof XQC_POF_RETRANSED) (ctl\<lparr>ctl_packets_used := ctl_packets_used ctl + 1\<rparr>)))"

definition xqc_send_ctl_maybe_remove_unacked :: "pid \<Rightarrow> 'cc xqc_send_ctl \<Rightarrow> 'cc xqc_send_ctl" where
  "xqc_send_ctl_maybe_remove_unacked p ctl =
     (let po = ctl_store ctl p in
      if po_origin po = None \<and> po_origin_ref_cnt po \<noteq> 0 then ctl
      else
        let ctl = xqc_send_ctl_insert_free p (xqc_send_ctl_remove_unacked p ctl) in
        case po_origin po of
          None \<Rightarrow> ctl
        | Some q \<Rightarrow>
            let ctl = upd_po q (\<lambda>po. po\<lparr>po_origin_ref_cnt := po_origin_ref_cnt po - 1\<rparr>) ctl
            in if po_origin_ref_cnt (ctl_store ctl q) = 0
               then xqc_send_ctl_insert_free q (xqc_send_ctl_remove_unacked q ctl) else ctl)"

section \<open>Sent packets\<close>

definition xqc_send_ctl_update_cwnd_limited :: "'cc cong_callback \<Rightarrow> 'cc xqc_send_ctl \<Rightarrow> 'cc xqc_send_ctl" where
  "xqc_send_ctl_update_cwnd_limited cb ctl =
     (let ctl = (if ctl_bytes_in_flight ctl > ctl_max_bytes_in_flight ctl
                 then ctl\<lparr>ctl_max_bytes_in_flight := ctl_bytes_in_flight ctl\<rparr> else ctl);
          cwnd_bytes = (ucast (cong_get_cwnd cb (ctl_cong ctl)) :: u32)
      in ctl\<lparr>ctl_is_cwnd_limited := ctl_bytes_in_flight ctl + set_mss (ctl_settings ctl) > cwnd_bytes\<rparr>)"

definition sent_in_flight :: "'cc cong_callback \<Rightarrow> usec \<Rightarrow> pid \<Rightarrow> usec \<Rightarrow> 'cc xqc_send_ctl \<Rightarrow> 'cc xqc_send_ctl" where
  "sent_in_flight cb clk p now ctl =
     (let po = ctl_store ctl p; pns = po_pns po; eliciting = XQC_IS_ACK_ELICITING (po_frame_types po);
          ctl = (if eliciting
                 then ctl\<lparr>ctl_time_of_last_sent_ack_eliciting_packet :=
                            (ctl_time_of_last_sent_ack_eliciting_packet ctl)(pns := po_sent_time po),
                          ctl_last_sent_ack_eliciting_packet_number := (ctl_last_sent_ack_eliciting_packet_number ctl)(pns := po_num po)\<rparr>
                 else ctl);
          ctl = xqc_send_ctl_update_stream_stats_on_sent p now ctl;
          ctl = (if ctl_bytes_in_flight ctl = 0
                 then ctl\<lparr>ctl_cong := cong_restart_from_idle cb (ctl_last_inflight_pkt_sent_time ctl) (ctl_cong ctl)\<rparr> else ctl);
          ctl = (if \<not> has_pof XQC_POF_IN_FLIGHT po
                 then xqc_send_ctl_increase_unacked_stream_ref p (xqc_send_ctl_increase_inflight p ctl) else ctl);
          ctl = (if eliciting then xqc_send_ctl_set_loss_detection_timer clk ctl else ctl);
          ctl = (if has_pof XQC_POF_LOST po
                 then upd_po p (clear_pof XQC_POF_LOST) (ctl\<lparr>ctl_lost_count := ctl_lost_count ctl + 1\<rparr>)
                 else if has_pof XQC_POF_TLP po
                 then upd_po p (clear_pof XQC_POF_TLP) (ctl\<lparr>ctl_tlp_count := ctl_tlp_count ctl + 1\<rparr>)
                 else ctl);
          ctl = ctl\<lparr>ctl_send_count := ctl_send_count ctl + 1, ctl_last_inflight_pkt_sent_time := now\<rparr>
      in xqc_send_ctl_update_cwnd_limited cb ctl)"

definition xqc_send_ctl_on_packet_sent :: "'cc cong_callback \<Rightarrow> usec \<Rightarrow> pid \<Rightarrow> usec \<Rightarrow> 'cc xqc_send_ctl \<Rightarrow> 'cc xqc_send_ctl" where
  "xqc_send_ctl_on_packet_sent cb clk p now ctl =
     (let (po, ctl) = xqc_sample_on_sent now (ctl_store ctl p) ctl;
          ctl = upd_po p (\<lambda>_. po) ctl;
          pns = po_pns po;
          ctl = (if po_num po > ctl_largest_sent ctl pns then ctl\<lparr>ctl_largest_sent := (ctl_largest_sent ctl)(pns := po_num po)\<rparr> else ctl);
          ctl = ctl\<lparr>ctl_bytes_send := ctl_bytes_send ctl + ucast (po_used_size po)\<rparr>
      in if XQC_CAN_IN_FLIGHT (po_frame_types po) then sent_in_flight cb clk p now ctl else ctl)"

section \<open>Acknowledged packets\<close>

definition xqc_send_ctl_is_cwnd_limited :: "'cc cong_callback \<Rightarrow> 'cc xqc_send_ctl \<Rightarrow> bool" where
  "xqc_send_ctl_is_cwnd_limited cb ctl =
     (if cong_in_slow_start cb (ctl_cong ctl)
      then (ucast (cong_get_cwnd cb (ctl_cong ctl)) :: u32) < push_bit 1 (ctl_max_bytes_in_flight ctl)
      else ctl_is_cwnd_limited ctl)"

definition xqc_send_ctl_cc_on_ack :: "'cc cong_callback \<Rightarrow> pid \<Rightarrow> usec \<Rightarrow> 'cc xqc_send_ctl \<Rightarrow> 'cc xqc_send_ctl res" where
  "xqc_send_ctl_cc_on_ack cb p now ctl = (case cong_on_ack cb of
     None \<Rightarrow> Ok ctl
   | Some f \<Rightarrow>
       let po = ctl_store ctl p;
           a = \<lparr>ap_sent_time = po_sent_time po, ap_used_size = po_used_size po,
                ap_cwnd_limited = Some (xqc_send_ctl_is_cwnd_limited cb ctl), ap_now = now\<rparr>
       in bind_res (f a (ctl_cong ctl)) (\<lambda>cc. Ok (ctl\<lparr>ctl_cong := cc\<rparr>)))"

text \<open>What happens to an acknowledged packet in front of the controller, and the marks behind it.\<close>

definition acked_in_flight :: "usec \<Rightarrow> pid \<Rightarrow> 'cc xqc_send_ctl \<Rightarrow> 'cc xqc_send_ctl" where
  "acked_in_flight clk p ctl =
     (let ctl = xqc_send_ctl_decrease_inflight p ctl;
          ctl = xqc_send_ctl_on_reset_stream_acked clk p ctl;
          po = ctl_store ctl p;
          ctl = (if po_frame_types po AND XQC_FRAME_BIT XQC_FRAME_CRYPTO \<noteq> 0 \<and> po_pns po = XQC_PNS_HSK
                 then ctl\<lparr>ctl_conn := set_flag XQC_CONN_FLAG_HSK_ACKED (ctl_conn ctl)\<rparr> else ctl)
      in if po_frame_types po AND XQC_FRAME_BIT XQC_FRAME_NEW_CONNECTION_ID \<noteq> 0
         then upd_po p (\<lambda>po. po\<lparr>po_frame_types := po_frame_types po AND NOT (XQC_FRAME_BIT XQC_FRAME_NEW_CONNECTION_ID)\<rparr>)
                (ctl\<lparr>ctl_conn := set_flag XQC_CONN_FLAG_NEW_CID_RECEIVED (ctl_conn ctl)\<rparr>)
         else ctl)"

definition acked_start :: "usec \<Rightarrow> pid \<Rightarrow> 'cc xqc_send_ctl \<Rightarrow> 'cc xqc_send_ctl" where
  "acked_start clk p ctl =
     (let c = ctl_conn ctl;
          ctl = (if conn_type c = XQC_CONN_TYPE_SERVER
                    \<and> po_frame_types (ctl_store ctl p) AND XQC_FRAME_BIT XQC_FRAME_HANDSHAKE_DONE \<noteq> 0
                 then ctl\<lparr>ctl_conn := set_flag XQC_CONN_FLAG_HANDSHAKE_DONE_ACKED c\<rparr> else ctl)
      in xqc_send_ctl_decrease_unacked_stream_ref clk p ctl)"

definition mark_acked :: "pid \<Rightarrow> 'cc xqc_send_ctl \<Rightarrow> 'cc xqc_send_ctl" where
  "mark_acked p ctl =
     (let ctl = upd_po p (\<lambda>po. po\<lparr>po_acked := True\<rparr>) ctl
      in case po_origin (ctl_store ctl p) of None \<Rightarrow> ctl | Some q \<Rightarrow> upd_po q (\<lambda>po. po\<lparr>po_acked := True\<rparr>) ctl)"

definition xqc_send_ctl_on_packet_acked ::
  "'cc cong_callback \<Rightarrow> usec \<Rightarrow> pid \<Rightarrow> usec \<Rightarrow> bool \<Rightarrow> 'cc xqc_send_ctl \<Rightarrow> 'cc xqc_send_ctl res" where
  "xqc_send_ctl_on_packet_acked cb clk p now do_cc ctl =
     (let ctl = acked_start clk p ctl
      in bind_res (if has_pof XQC_POF_IN_FLIGHT (ctl_store ctl p)
                   then let ctl = acked_in_flight clk p ctl in if do_cc then xqc_send_ctl_cc_on_ack cb p now ctl else Ok ctl
                   else Ok ctl)
           (\<lambda>ctl. Ok (mark_acked p ctl)))"

definition xqc_send_ctl_indirectly_ack_po :: "'cc cong_callback \<Rightarrow> usec \<Rightarrow> pid \<Rightarrow> 'cc xqc_send_ctl \<Rightarrow> (bool \<times> 'cc xqc_send_ctl) res" where
  "xqc_send_ctl_indirectly_ack_po cb clk p ctl =
     (let po = ctl_store ctl p;
          origin_acked = (case po_origin po of None \<Rightarrow> False | Some q \<Rightarrow> po_acked (ctl_store ctl q))
      in if po_acked po \<or> origin_acked
         then bind_res (if origin_acked then xqc_send_ctl_on_packet_acked cb clk p 0 False ctl else Ok ctl)
                (\<lambda>ctl. Ok (True, xqc_send_ctl_maybe_remove_unacked p ctl))
         else Ok (False, ctl))"

section \<open>Round trip times\<close>

definition xqc_send_ctl_update_rtt :: "usec \<Rightarrow> usec \<Rightarrow> usec \<Rightarrow> 'cc xqc_send_ctl \<Rightarrow> 'cc xqc_send_ctl" where
  "xqc_send_ctl_update_rtt clk latest_rtt delay ctl =
     (if ctl_first_rtt_sample_time ctl = 0
      then ctl\<lparr>ctl_minrtt := latest_rtt, ctl_srtt := latest_rtt, ctl_rttvar := drop_bit 1 latest_rtt, ctl_first_rtt_sample_time := clk\<rparr>
      else
        let ctl = ctl\<lparr>ctl_minrtt := min latest_rtt (ctl_minrtt ctl)\<rparr>;
            delay = (if xqc_conn_is_handshake_confirmed (ctl_conn ctl)
                         then min delay (remote_max_ack_delay (ctl_settings ctl) * 1000) else delay);
            adjusted_rtt = (if latest_rtt \<ge> ctl_minrtt ctl + delay then latest_rtt - delay else latest_rtt);
            srtt = ctl_srtt ctl;
            ctl = ctl\<lparr>ctl_rttvar := ctl_rttvar ctl - drop_bit 2 (ctl_rttvar ctl)\<rparr>;
            ctl = ctl\<lparr>ctl_rttvar := ctl_rttvar ctl + drop_bit 2 (if srtt > adjusted_rtt then srtt - adjusted_rtt else adjusted_rtt - srtt)\<rparr>
        in ctl\<lparr>ctl_srtt := srtt - drop_bit 3 srtt + drop_bit 3 adjusted_rtt\<rparr>)"

text \<open>The loop that raises the time threshold.\<close>

fun raise_time_threshold :: "usec \<Rightarrow> usec \<Rightarrow> nat \<Rightarrow> nat" where
  "raise_time_threshold max_rtt reorder_time_interval shift =
     (if max_rtt + drop_bit shift max_rtt < reorder_time_interval \<and> shift > 0
      then raise_time_threshold max_rtt reorder_time_interval (shift - 1) else shift)"

definition xqc_send_ctl_on_spurious_loss_detected :: "usec \<Rightarrow> pktno \<Rightarrow> pktno \<Rightarrow> usec \<Rightarrow> 'cc xqc_send_ctl \<Rightarrow> 'cc xqc_send_ctl" where
  "xqc_send_ctl_on_spurious_loss_detected ack_recv_time largest_ack spurious_loss_pktnum spurious_loss_sent_time ctl =
     (if \<not> spurious_loss_detect_on (ctl_settings ctl) then ctl
      else if largest_ack < spurious_loss_pktnum then ctl
      else
        let ctl = ctl\<lparr>ctl_reordering_packet_threshold := max (ctl_reordering_packet_threshold ctl) (largest_ack - spurious_loss_pktnum + 1)\<rparr>
        in if ack_recv_time < spurious_loss_sent_time then ctl
           else ctl\<lparr>ctl_reordering_time_threshold_shift :=
                  raise_time_threshold (max (ctl_latest_rtt ctl) (ctl_srtt ctl)) (ack_recv_time - spurious_loss_sent_time)
                    (ctl_reordering_time_threshold_shift ctl)\<rparr>)"

section \<open>Loss detection\<close>

abbreviation "XQC_CONSECUTIVE_PTO_THRESH \<equiv> (2::u32)"
abbreviation "XQC_kPersistentCongestionThreshold \<equiv> (3::u64)"

definition xqc_send_ctl_in_persistent_congestion :: "sent_packet \<Rightarrow> usec \<Rightarrow> 'cc xqc_send_ctl \<Rightarrow> bool" where
  "xqc_send_ctl_in_persistent_congestion largest_lost now ctl \<longleftrightarrow>
     ctl_pto_count ctl \<ge> XQC_CONSECUTIVE_PTO_THRESH
     \<and> now - po_sent_time largest_lost > (ctl_srtt ctl + max (push_bit 2 (ctl_rttvar ctl)) XQC_kGranularity
          + remote_max_ack_delay (ctl_settings ctl) * 1000) * XQC_kPersistentCongestionThreshold"

definition xqc_send_ctl_congestion_event :: "'cc cong_callback \<Rightarrow> usec \<Rightarrow> usec \<Rightarrow> 'cc xqc_send_ctl \<Rightarrow> 'cc xqc_send_ctl" where
  "xqc_send_ctl_congestion_event cb clk sent_time ctl = ctl\<lparr>ctl_cong := cong_on_lost cb sent_time clk (ctl_cong ctl)\<rparr>"

record loss_thresholds =
  loss_delay :: usec
  lost_send_time :: usec
  lost_pn :: pktno

definition loss_thresholds_of :: "xqc_pkt_num_space \<Rightarrow> usec \<Rightarrow> 'cc xqc_send_ctl \<Rightarrow> loss_thresholds" where
  "loss_thresholds_of pns now ctl =
     (let d = max (ctl_latest_rtt ctl) (ctl_srtt ctl);
          d = d + drop_bit (ctl_reordering_time_threshold_shift ctl) d;
          d = max d XQC_kGranularity;
          n = ctl_largest_acked ctl pns
      in \<lparr>loss_delay = d, lost_send_time = now - d,
          lost_pn = if n > ctl_reordering_packet_threshold ctl then n - ctl_reordering_packet_threshold ctl else n\<rparr>)"

text \<open>One round of the loop: the send control, the number of lost packets and the largest of them.\<close>

definition detect_lost_one ::
  "'cc cong_callback \<Rightarrow> usec \<Rightarrow> xqc_pkt_num_space \<Rightarrow> loss_thresholds \<Rightarrow> pid \<Rightarrow> 'cc xqc_send_ctl \<times> u64 \<times> pid option
     \<Rightarrow> ('cc xqc_send_ctl \<times> u64 \<times> pid option) res" where
  "detect_lost_one cb clk pns th p = (\<lambda>(ctl, lost_n, largest_lost).
     if po_num (ctl_store ctl p) > ctl_largest_acked ctl pns then Ok (ctl, lost_n, largest_lost)
     else bind_res (xqc_send_ctl_indirectly_ack_po cb clk p ctl) (\<lambda>(acked, ctl).
       let po = ctl_store ctl p in
       if acked then Ok (ctl, lost_n, largest_lost)
       else if po_sent_time po \<le> lost_send_time th \<or> po_num po \<le> lost_pn th then
         if has_pof XQC_POF_IN_FLIGHT po then
           let ctl = xqc_send_ctl_decrease_inflight p ctl in
           bind_res (if \<not> XQC_NEED_REPAIR (po_frame_types po)
                     then Ok (xqc_send_ctl_insert_free p (xqc_send_ctl_remove_unacked p ctl))
                     else xqc_send_ctl_copy_to_lost clk p ctl) (\<lambda>ctl.
             Ok (ctl, lost_n + 1, case largest_lost of
                   None \<Rightarrow> Some p
                 | Some q \<Rightarrow> if po_num (ctl_store ctl p) > po_num (ctl_store ctl q) then Some p else Some q))
         else Ok (ctl, lost_n, largest_lost)
       else
         let t = po_sent_time po + loss_delay th; l = ctl_loss_time ctl
         in Ok (ctl\<lparr>ctl_loss_time := l(pns := if l pns = 0 then t else min (l pns) t)\<rparr>, lost_n, largest_lost)))"

fun detect_lost_loop ::
  "'cc cong_callback \<Rightarrow> usec \<Rightarrow> xqc_pkt_num_space \<Rightarrow> loss_thresholds \<Rightarrow> pid list \<Rightarrow> 'cc xqc_send_ctl \<times> u64 \<times> pid option
     \<Rightarrow> ('cc xqc_send_ctl \<times> u64 \<times> pid option) res" where
  "detect_lost_loop cb clk pns th [] s = Ok s"
| "detect_lost_loop cb clk pns th (p # ps) s = bind_res (detect_lost_one cb clk pns th p s) (detect_lost_loop cb clk pns th ps)"

definition on_packets_lost :: "'cc cong_callback \<Rightarrow> usec \<Rightarrow> usec \<Rightarrow> sent_packet \<Rightarrow> 'cc xqc_send_ctl \<Rightarrow> 'cc xqc_send_ctl" where
  "on_packets_lost cb clk now largest_lost ctl =
     (let ctl = xqc_send_ctl_congestion_event cb clk (po_sent_time largest_lost) ctl
      in if ctl_first_rtt_sample_time ctl = 0 then ctl
         else case cong_reset_cwnd cb of
                None \<Rightarrow> ctl
              | Some reset \<Rightarrow>
                  if xqc_send_ctl_in_persistent_congestion largest_lost now ctl
                  then ctl\<lparr>ctl_max_bytes_in_flight := 0, ctl_cong := reset (ctl_cong ctl)\<rparr> else ctl)"

definition xqc_send_ctl_detect_lost ::
  "'cc cong_callback \<Rightarrow> usec \<Rightarrow> xqc_pkt_num_space \<Rightarrow> usec \<Rightarrow> 'cc xqc_send_ctl \<Rightarrow> 'cc xqc_send_ctl res" where
  "xqc_send_ctl_detect_lost cb clk pns now ctl =
     (let ctl = ctl\<lparr>ctl_loss_time := (ctl_loss_time ctl)(pns := 0), ctl_sampler := (ctl_sampler ctl)\<lparr>smp_loss := 0\<rparr>\<rparr> in
      if ctl_largest_acked ctl pns = - 1 then Ok ctl
      else bind_res (detect_lost_loop cb clk pns (loss_thresholds_of pns now ctl) (ctl_unacked_packets ctl pns) (ctl, 0, None))
        (\<lambda>(ctl, lost_n, largest_lost).
           let ctl = ctl\<lparr>ctl_lost_pkts_number := ctl_lost_pkts_number ctl + ucast lost_n,
                         ctl_sampler := (ctl_sampler ctl)\<lparr>smp_loss := ucast lost_n\<rparr>\<rparr>
           in Ok (case largest_lost of None \<Rightarrow> ctl | Some q \<Rightarrow> on_packets_lost cb clk now (ctl_store ctl q) ctl)))"

section \<open>Acknowledgements\<close>

text \<open>The loop that moves to the range of a packet number; the ranges are in reverse order, so the last range comes first.\<close>

fun range_advance :: "pktno \<Rightarrow> xqc_pktno_range list \<Rightarrow> xqc_pktno_range list" where
  "range_advance n (r # r' # rs) = (if n > high r then range_advance n (r' # rs) else r # r' # rs)"
| "range_advance n rs = rs"

text \<open>The local variables of the handler.\<close>

record ack_locals =
  update_rtt :: bool
  has_ack_eliciting :: bool
  spurious_loss :: "(pktno \<times> usec) option"
  need_del_record :: bool

definition ack_one ::
  "'cc cong_callback \<Rightarrow> usec \<Rightarrow> xqc_pkt_num_space \<Rightarrow> pktno \<Rightarrow> usec \<Rightarrow> pid \<Rightarrow> ack_locals \<times> 'cc xqc_send_ctl
     \<Rightarrow> (ack_locals \<times> 'cc xqc_send_ctl) res" where
  "ack_one cb clk pns largest_ack ack_recv_time p = (\<lambda>(l, ctl).
     let po = ctl_store ctl p;
         ctl = (if po_num po \<ge> ctl_largest_acked ctl pns
                then ctl\<lparr>ctl_largest_acked := (ctl_largest_acked ctl)(pns := po_num po),
                         ctl_largest_acked_sent_time := (ctl_largest_acked_sent_time ctl)(pns := po_sent_time po)\<rparr>
                else ctl);
         (l, ctl) = (if po_largest_ack po > ctl_largest_ack_both ctl pns
                     then (l\<lparr>need_del_record := True\<rparr>,
                           ctl\<lparr>ctl_largest_ack_both := (ctl_largest_ack_both ctl)(pns := po_largest_ack po)\<rparr>)
                     else (l, ctl));
         (po, ctl) = xqc_update_sample ack_recv_time po ctl;
         ctl = upd_po p (\<lambda>_. po) ctl;
         (l, ctl) = (if \<not> po_acked po \<and> has_pof XQC_POF_RETRANSED po
                     then (l\<lparr>spurious_loss := case spurious_loss l of None \<Rightarrow> Some (po_num po, po_sent_time po) | Some x \<Rightarrow> Some x\<rparr>,
                           ctl\<lparr>ctl_spurious_loss_count := ctl_spurious_loss_count ctl + 1\<rparr>)
                     else (l, ctl))
     in bind_res (xqc_send_ctl_on_packet_acked cb clk p ack_recv_time True ctl) (\<lambda>ctl.
          let ctl = xqc_send_ctl_maybe_remove_unacked p ctl;
              po = ctl_store ctl p;
              l = (if XQC_IS_ACK_ELICITING (po_frame_types po) then l\<lparr>has_ack_eliciting := True\<rparr> else l)
          in Ok (if po_num po = largest_ack \<and> po_num po = ctl_largest_acked ctl pns
                 then (l\<lparr>update_rtt := True\<rparr>, ctl\<lparr>ctl_latest_rtt := ack_recv_time - ctl_largest_acked_sent_time ctl pns\<rparr>)
                 else (l, ctl))))"

fun ack_loop ::
  "'cc cong_callback \<Rightarrow> usec \<Rightarrow> xqc_pkt_num_space \<Rightarrow> pktno \<Rightarrow> usec \<Rightarrow> xqc_pktno_range list \<Rightarrow> pid list \<Rightarrow> ack_locals \<times> 'cc xqc_send_ctl
     \<Rightarrow> (ack_locals \<times> 'cc xqc_send_ctl) res" where
  "ack_loop cb clk pns largest_ack ack_recv_time rs [] s = Ok s"
| "ack_loop cb clk pns largest_ack ack_recv_time rs (p # ps) s =
     (let n = po_num (ctl_store (snd s) p) in
      if n > largest_ack then Ok s
      else let rs = range_advance n rs in
        if n \<ge> low (hd rs)
        then bind_res (ack_one cb clk pns largest_ack ack_recv_time p s) (ack_loop cb clk pns largest_ack ack_recv_time rs ps)
        else ack_loop cb clk pns largest_ack ack_recv_time rs ps s)"

text \<open>The end of the handler: what the controllers that take a sample per acknowledgement are told.\<close>

definition cc_on_sample :: "'cc cong_callback \<Rightarrow> usec \<Rightarrow> usec \<Rightarrow> 'cc xqc_send_ctl \<Rightarrow> 'cc xqc_send_ctl res" where
  "cc_on_sample cb clk ack_recv_time ctl = (case cong_on_ack_multiple_pkts cb of
     None \<Rightarrow> Ok ctl
   | Some f \<Rightarrow>
       let (sample_type, sampler) = xqc_generate_sample (ctl_sampler ctl) ctl ack_recv_time;
           ctl = ctl\<lparr>ctl_sampler := sampler\<rparr>
       in if sample_type \<noteq> XQC_RATE_SAMPLE_ACK_NOTHING
          then bind_res (f clk (ctl_bytes_send ctl) sampler (ctl_cong ctl)) (\<lambda>cc. Ok (ctl\<lparr>ctl_cong := cc\<rparr>))
          else Ok ctl)"

text \<open>Behind the loop over the unacknowledged packets.\<close>

definition ack_finish ::
  "'cc cong_callback \<Rightarrow> usec \<Rightarrow> xqc_pkt_num_space \<Rightarrow> pktno \<Rightarrow> usec \<Rightarrow> usec \<Rightarrow> ack_locals \<times> 'cc xqc_send_ctl \<Rightarrow> 'cc xqc_send_ctl res" where
  "ack_finish cb clk pns largest_ack ack_recv_time delay = (\<lambda>(l, ctl).
     let ctl = (if update_rtt l \<and> has_ack_eliciting l then xqc_send_ctl_update_rtt clk (ctl_latest_rtt ctl) delay ctl else ctl);
         ctl = (case spurious_loss l of
                  None \<Rightarrow> ctl
                | Some (n, t) \<Rightarrow> xqc_send_ctl_on_spurious_loss_detected ack_recv_time largest_ack n t ctl)
     in bind_res (xqc_send_ctl_detect_lost cb clk pns ack_recv_time ctl) (\<lambda>ctl.
          let c = ctl_conn ctl;
              ctl = (if need_del_record l
                     then ctl\<lparr>ctl_conn := c\<lparr>recv_record := (recv_record c)(pns := xqc_recv_record_del (ctl_largest_ack_both ctl pns + 1)
                                                                                      (recv_record c pns))\<rparr>\<rparr>
                     else ctl);
              ctl = (if xqc_conn_peer_complete_address_validation ctl then ctl\<lparr>ctl_pto_count := 0\<rparr> else ctl);
              ctl = xqc_send_ctl_set_loss_detection_timer clk ctl;
              ctl = (if ctl_app_limited ctl \<noteq> 0 \<and> ctl_delivered ctl > ctl_app_limited ctl then ctl\<lparr>ctl_app_limited := 0\<rparr> else ctl)
          in cc_on_sample cb clk ack_recv_time ctl))"

text \<open>An \<open>xqc_ack_info\<close> has at least one range.\<close>

definition xqc_send_ctl_on_ack_received ::
  "'cc cong_callback \<Rightarrow> usec \<Rightarrow> xqc_ack_info \<Rightarrow> usec \<Rightarrow> 'cc xqc_send_ctl \<Rightarrow> (ret \<times> 'cc xqc_send_ctl) res" where
  "xqc_send_ctl_on_ack_received cb clk ack_info ack_recv_time ctl =
     (if ack_ranges ack_info = [] then Fault
      else
        let largest_ack = high (hd (ack_ranges ack_info)); pns = ack_pns ack_info;
            ctl = ctl\<lparr>ctl_prior_delivered := ctl_delivered ctl, ctl_prior_bytes_in_flight := ctl_bytes_in_flight ctl\<rparr>;
            a = ctl_largest_acked ctl;
            ctl = ctl\<lparr>ctl_largest_acked := a(pns := if a pns = - 1 then largest_ack else max (a pns) largest_ack)\<rparr>
        in if largest_ack > ctl_largest_sent ctl pns then Ok (Some XQC_EPROTO, ctl)
           else
             let ctl = ctl\<lparr>ctl_sampler := xqc_init_sample_before_ack (ctl_sampler ctl)\<rparr>
             in bind_res (ack_loop cb clk pns largest_ack ack_recv_time (rev (ack_ranges ack_info)) (ctl_unacked_packets ctl pns)
                    (\<lparr>update_rtt = False, has_ack_eliciting = False, spurious_loss = None, need_del_record = False\<rparr>, ctl))
                  (\<lambda>s. bind_res (ack_finish cb clk pns largest_ack ack_recv_time (ack_delay ack_info) s)
                         (\<lambda>ctl. Ok (None, ctl))))"

section \<open>Discarding packet number spaces\<close>

definition drop_from_list_one :: "xqc_pkt_type \<Rightarrow> pid \<Rightarrow> 'cc xqc_send_ctl \<Rightarrow> 'cc xqc_send_ctl" where
  "drop_from_list_one type p ctl =
     (if pkt_type (po_pkt (ctl_store ctl p)) = type then xqc_send_ctl_insert_free p (xqc_send_ctl_remove_send p ctl) else ctl)"

definition xqc_send_ctl_drop_packets_from_list_with_type ::
  "xqc_pkt_type \<Rightarrow> ('cc xqc_send_ctl \<Rightarrow> pid list) \<Rightarrow> 'cc xqc_send_ctl \<Rightarrow> 'cc xqc_send_ctl" where
  "xqc_send_ctl_drop_packets_from_list_with_type type list ctl = fold (drop_from_list_one type) (list ctl) ctl"

definition drop_unacked_one :: "usec \<Rightarrow> pid \<Rightarrow> 'cc xqc_send_ctl \<Rightarrow> 'cc xqc_send_ctl" where
  "drop_unacked_one clk p ctl =
     (let ctl = xqc_send_ctl_insert_free p (xqc_send_ctl_remove_unacked p ctl);
          ctl = xqc_send_ctl_decrease_inflight p ctl
      in xqc_send_ctl_decrease_unacked_stream_ref clk p ctl)"

definition xqc_send_ctl_drop_packets_with_type :: "usec \<Rightarrow> xqc_pkt_type \<Rightarrow> 'cc xqc_send_ctl \<Rightarrow> 'cc xqc_send_ctl" where
  "xqc_send_ctl_drop_packets_with_type clk type ctl =
     (let pns = xqc_packet_type_to_pns type in
      if pns = XQC_PNS_N then ctl
      else
        let ctl = fold (drop_unacked_one clk) (ctl_unacked_packets ctl pns) ctl;
            ctl = xqc_send_ctl_drop_packets_from_list_with_type type ctl_send_packets_high_pri ctl;
            ctl = xqc_send_ctl_drop_packets_from_list_with_type type ctl_send_packets ctl;
            ctl = xqc_send_ctl_drop_packets_from_list_with_type type ctl_lost_packets ctl
        in xqc_send_ctl_drop_packets_from_list_with_type type ctl_pto_probe_packets ctl)"

definition xqc_send_ctl_on_pns_discard :: "usec \<Rightarrow> xqc_pkt_num_space \<Rightarrow> 'cc xqc_send_ctl \<Rightarrow> 'cc xqc_send_ctl" where
  "xqc_send_ctl_on_pns_discard clk pns ctl =
     xqc_send_ctl_set_loss_detection_timer clk
       (ctl\<lparr>ctl_time_of_last_sent_ack_eliciting_packet := (ctl_time_of_last_sent_ack_eliciting_packet ctl)(pns := 0),
            ctl_loss_time := (ctl_loss_time ctl)(pns := 0), ctl_pto_count := 0\<rparr>)"

definition xqc_send_ctl_drop_pkts_with_pn :: "usec \<Rightarrow> xqc_pkt_num_space \<Rightarrow> 'cc xqc_send_ctl \<Rightarrow> 'cc xqc_send_ctl" where
  "xqc_send_ctl_drop_pkts_with_pn clk pn ctl =
     xqc_send_ctl_on_pns_discard clk pn (case pn of
       XQC_PNS_INIT \<Rightarrow> xqc_send_ctl_drop_packets_with_type clk XQC_PTYPE_INIT ctl
     | XQC_PNS_HSK \<Rightarrow> xqc_send_ctl_drop_packets_with_type clk XQC_PTYPE_HSK ctl
     | _ \<Rightarrow> ctl)"

definition drop_0rtt_unacked_one :: "usec \<Rightarrow> pid \<Rightarrow> 'cc xqc_send_ctl \<Rightarrow> 'cc xqc_send_ctl" where
  "drop_0rtt_unacked_one clk p ctl =
     (if pkt_type (po_pkt (ctl_store ctl p)) = XQC_PTYPE_0RTT then
        let ctl = xqc_send_ctl_insert_free p (xqc_send_ctl_remove_unacked p ctl);
            ctl = xqc_send_ctl_decrease_inflight p ctl
        in if po_origin (ctl_store ctl p) = None then xqc_send_ctl_decrease_unacked_stream_ref clk p ctl else ctl
      else ctl)"

definition xqc_send_ctl_drop_0rtt_packets :: "usec \<Rightarrow> 'cc xqc_send_ctl \<Rightarrow> 'cc xqc_send_ctl" where
  "xqc_send_ctl_drop_0rtt_packets clk ctl =
     (let ctl = fold (drop_0rtt_unacked_one clk) (ctl_unacked_packets ctl XQC_PNS_APP_DATA) ctl;
          ctl = xqc_send_ctl_drop_packets_from_list_with_type XQC_PTYPE_0RTT ctl_send_packets ctl;
          ctl = xqc_send_ctl_drop_packets_from_list_with_type XQC_PTYPE_0RTT ctl_lost_packets ctl
      in xqc_send_ctl_drop_packets_from_list_with_type XQC_PTYPE_0RTT ctl_pto_probe_packets ctl)"

section \<open>Creation and reset\<close>

abbreviation "XQC_CTL_PACKETS_USED_MAX \<equiv> (16000::u32)"
abbreviation "XQC_PING_TIMEOUT \<equiv> (15000::u64)"

text \<open>The assignments that \<^verbatim>\<open>xqc_send_ctl_create\<close> and \<^verbatim>\<open>xqc_send_ctl_reset\<close> share: \<open>cb\<close> is the controller of the settings,
  \<open>cc\<close> its initialised state, \<open>idle_timeout\<close>, \<open>ping_on\<close> and \<open>paced\<close> are the settings of the connection.\<close>

definition init_send_ctl :: "'cc cong_callback \<Rightarrow> usec \<Rightarrow> 'cc \<Rightarrow> u64 \<Rightarrow> bool \<Rightarrow> bool \<Rightarrow> 'cc xqc_send_ctl \<Rightarrow> 'cc xqc_send_ctl" where
  "init_send_ctl cb now cc idle_timeout ping_on paced ctl =
     (let ctl = ctl\<lparr>ctl_pto_count := 0, ctl_minrtt := 0xffffffff, ctl_srtt := 250000, ctl_rttvar := 125000, ctl_max_bytes_in_flight := 0,
            ctl_reordering_packet_threshold := 3, ctl_reordering_time_threshold_shift := 3, ctl_largest_acked := (\<lambda>_. - 1),
            ctl_time_of_last_sent_ack_eliciting_packet := (\<lambda>_. 0), ctl_loss_time := (\<lambda>_. 0), ctl_largest_acked_sent_time := (\<lambda>_. 0),
            ctl_is_cwnd_limited := False, ctl_delivered := 0, ctl_lost_pkts_number := 0, ctl_last_inflight_pkt_sent_time := 0,
            ctl_packets_used_max := XQC_CTL_PACKETS_USED_MAX, ctl_timer := (\<lambda>_. None),
            ctl_conn := (ctl_conn ctl)\<lparr>ack_timer := (\<lambda>_. None)\<rparr>\<rparr>;
          ctl = xqc_send_ctl_timer_set XQC_TIMER_IDLE now (idle_timeout * 1000) ctl;
          ctl = (if ping_on \<and> conn_type (ctl_conn ctl) = XQC_CONN_TYPE_CLIENT
                 then xqc_send_ctl_timer_set XQC_TIMER_PING now (XQC_PING_TIMEOUT * 1000) ctl else ctl)
      in xqc_pacing_init cb paced (ctl\<lparr>ctl_cong := cc\<rparr>))"

definition xqc_send_ctl_create ::
  "'cc cong_callback \<Rightarrow> usec \<Rightarrow> xqc_connection \<Rightarrow> send_settings \<Rightarrow> 'cc \<Rightarrow> u64 \<Rightarrow> bool \<Rightarrow> bool \<Rightarrow> 'cc xqc_send_ctl" where
  "xqc_send_ctl_create cb now conn settings cc idle_timeout ping_on paced =
     init_send_ctl cb now cc idle_timeout ping_on paced
       \<lparr>ctl_conn = conn, ctl_streams = (\<lambda>_. None), ctl_closing_streams = [], ctl_settings = settings, ctl_next = 0,
        ctl_store = (\<lambda>_. zero_packet_out [] 0), ctl_send_packets = [], ctl_send_packets_high_pri = [], ctl_unacked_packets = (\<lambda>_. []),
        ctl_pto_probe_packets = [], ctl_lost_packets = [], ctl_free_packets = [], ctl_buff_1rtt_packets = [],
        ctl_packets_used = 0, ctl_packets_free = 0, ctl_packets_used_max = 0, ctl_packet_number = (\<lambda>_. 0),
        ctl_largest_ack_both = (\<lambda>_. 0), ctl_largest_sent = (\<lambda>_. 0), ctl_largest_acked = (\<lambda>_. 0),
        ctl_largest_acked_sent_time = (\<lambda>_. 0), ctl_loss_time = (\<lambda>_. 0), ctl_last_inflight_pkt_sent_time = 0,
        ctl_time_of_last_sent_ack_eliciting_packet = (\<lambda>_. 0), ctl_last_sent_ack_eliciting_packet_number = (\<lambda>_. 0),
        ctl_srtt = 0, ctl_rttvar = 0, ctl_minrtt = 0, ctl_latest_rtt = 0, ctl_first_rtt_sample_time = 0, ctl_timer = (\<lambda>_. None),
        ctl_pto_count = 0, ctl_send_count = 0, ctl_lost_count = 0, ctl_tlp_count = 0, ctl_spurious_loss_count = 0, ctl_recv_count = 0,
        ctl_max_bytes_in_flight = 0, ctl_is_cwnd_limited = False, ctl_bytes_in_flight = 0,
        ctl_bytes_ack_eliciting_inflight = (\<lambda>_. 0), ctl_prior_bytes_in_flight = 0, ctl_bytes_send = 0, ctl_bytes_recv = 0,
        ctl_cong = cc, ctl_prior_delivered = 0, ctl_delivered = 0, ctl_app_limited = 0, ctl_delivered_time = 0,
        ctl_first_sent_time = 0, ctl_lost_pkts_number = 0, ctl_reordering_packet_threshold = 0,
        ctl_reordering_time_threshold_shift = 0, ctl_sampler = zero_sample,
        ctl_pacing = \<lparr>pacing_on = False, bytes_budget = 0, last_sent_time = 0, pending_budget = 0\<rparr>\<rparr>"

definition reset_unacked_one :: "pid \<Rightarrow> 'cc xqc_send_ctl \<Rightarrow> 'cc xqc_send_ctl" where
  "reset_unacked_one p ctl = xqc_send_ctl_decrease_inflight p (xqc_send_ctl_move_to_send p ctl)"

definition xqc_send_ctl_reset :: "'cc cong_callback \<Rightarrow> usec \<Rightarrow> 'cc \<Rightarrow> u64 \<Rightarrow> bool \<Rightarrow> bool \<Rightarrow> 'cc xqc_send_ctl \<Rightarrow> 'cc xqc_send_ctl" where
  "xqc_send_ctl_reset cb now cc idle_timeout ping_on paced ctl =
     (let ctl = init_send_ctl cb now cc idle_timeout ping_on paced ctl;
          ctl = fold (\<lambda>pns ctl. fold reset_unacked_one (ctl_unacked_packets ctl pns) ctl) [XQC_PNS_INIT, XQC_PNS_HSK, XQC_PNS_APP_DATA] ctl;
          ctl = fold xqc_send_ctl_move_to_send (ctl_send_packets_high_pri ctl) ctl;
          ctl = fold xqc_send_ctl_move_to_send (ctl_lost_packets ctl) ctl
      in fold xqc_send_ctl_move_to_send (ctl_pto_probe_packets ctl) ctl)"

end
