(* ===== verification/XQC_Packet_Parser.thy ===== *)
theory XQC_Packet_Parser
  imports XQC_Conn
begin

text \<open>
  Packet headers and packet numbers (\<^verbatim>\<open>transport/xqc_packet_parser.c\<close>, and the entry point
  \<^verbatim>\<open>xqc_packet_parse_single\<close> of \<^verbatim>\<open>xqc_packet.c\<close>). A parser takes the connection and the
  packet; its result is \<open>None\<close> when it touches memory outside a buffer, an error with the connection as
  the parser left it, or the connection and the packet. On an error the packet is dropped, so the
  connection ids it may have filled in by then are not part of the result. A generator writes at the
  start of the packet's memory and moves a cursor, as the frame generators do.
\<close>

section \<open>Header sizes and packet numbers\<close>

abbreviation "XQC_LONG_HEADER_LENGTH_BYTE \<equiv> (2::nat)"
abbreviation "XQC_PACKET_VERSION_LENGTH \<equiv> (4::nat)"
abbreviation "XQC_PACKET_LONG_HEADER_PREFIX_LENGTH \<equiv> 1 + XQC_PACKET_VERSION_LENGTH"
abbreviation "XQC_RESET_TOKEN_LEN \<equiv> (16::nat)"

definition xqc_packet_number_bits2len :: "u8 \<Rightarrow> nat" where
  "xqc_packet_number_bits2len b = unat b + 1"

definition xqc_short_packet_header_size :: "u8 \<Rightarrow> u8 \<Rightarrow> nat" where
  "xqc_short_packet_header_size dcid_len pktno_bits = 1 + unat dcid_len + xqc_packet_number_bits2len pktno_bits"

text \<open>The sum is taken at the 32 bits of \<^verbatim>\<open>unsigned\<close>.\<close>

definition xqc_long_packet_header_size :: "u8 \<Rightarrow> u8 \<Rightarrow> u32 \<Rightarrow> u8 \<Rightarrow> xqc_pkt_type \<Rightarrow> u32" where
  "xqc_long_packet_header_size dcid_len scid_len token_len pktno_bits t =
     1 + 4 + 2 + ucast dcid_len + ucast scid_len
     + (if t = XQC_PTYPE_INIT then of_nat (xqc_vint_len_by_val (ucast token_len)) + token_len else 0)
     + of_nat XQC_LONG_HEADER_LENGTH_BYTE + of_nat (xqc_packet_number_bits2len pktno_bits)"

text \<open>The argument is the \<^verbatim>\<open>packet_number_len\<close> bytes at \<^verbatim>\<open>pos\<close>.\<close>

definition xqc_packet_parse_packet_number :: "u8 list \<Rightarrow> u64" where
  "xqc_packet_parse_packet_number bs = foldl (\<lambda>n b. push_bit 8 n + ucast b) 0 bs"

definition xqc_packet_decode_packet_number :: "pktno \<Rightarrow> pktno \<Rightarrow> nat \<Rightarrow> pktno" where
  "xqc_packet_decode_packet_number largest_pn truncated_pn pn_nbits =
     (let expected_pn = largest_pn + 1;
          pn_win = push_bit pn_nbits 1;
          pn_hwin = drop_bit 1 pn_win;
          pn_mask = pn_win - 1;
          candidate_pn = (expected_pn AND NOT pn_mask) OR truncated_pn
      in if candidate_pn + pn_hwin \<le> expected_pn then candidate_pn + pn_win
         else if candidate_pn > expected_pn + pn_hwin \<and> candidate_pn > pn_win then candidate_pn - pn_win
         else candidate_pn)"

definition xqc_write_packet_number :: "pktno \<Rightarrow> u8 \<Rightarrow> u8 list" where
  "xqc_write_packet_number packet_number packet_number_bits =
     (let packet_number_len = xqc_packet_number_bits2len packet_number_bits
      in (if packet_number_len = 4 then [ucast (drop_bit 24 packet_number)] else [])
       @ (if packet_number_len \<ge> 3 then [ucast (drop_bit 16 packet_number)] else [])
       @ (if packet_number_len \<ge> 2 then [ucast (drop_bit 8 packet_number)] else [])
       @ [ucast packet_number])"

text \<open>The fields of a short header's first byte that are read after header protection is removed.\<close>

definition XQC_PACKET_SHORT_HEADER_PKTNO_LEN :: "u8 \<Rightarrow> nat" where
  "XQC_PACKET_SHORT_HEADER_PKTNO_LEN b = unat (b AND 0x03) + 1"

definition XQC_PACKET_SHORT_HEADER_KEY_PHASE :: "u8 \<Rightarrow> u8" where
  "XQC_PACKET_SHORT_HEADER_KEY_PHASE b = drop_bit 2 (b AND 0x04)"

definition XQC_PACKET_IS_LONG_HEADER :: "u8 \<Rightarrow> bool" where
  "XQC_PACKET_IS_LONG_HEADER b \<longleftrightarrow> b AND 0x80 = 0x80"

definition XQC_PACKET_IS_SHORT_HEADER :: "u8 \<Rightarrow> bool" where
  "XQC_PACKET_IS_SHORT_HEADER b \<longleftrightarrow> b AND 0xC0 = 0x40"

definition XQC_PACKET_LONG_HEADER_GET_TYPE :: "u8 \<Rightarrow> u8" where
  "XQC_PACKET_LONG_HEADER_GET_TYPE b = drop_bit 4 (b AND 0x30)"

definition xqc_parse_uint32 :: "u8 \<Rightarrow> u8 \<Rightarrow> u8 \<Rightarrow> u8 \<Rightarrow> u32" where
  "xqc_parse_uint32 b0 b1 b2 b3 = push_bit 24 (ucast b0) OR push_bit 16 (ucast b1) OR push_bit 8 (ucast b2) OR ucast b3"

primrec pkt_type_code :: "xqc_pkt_type \<Rightarrow> nat" where
  "pkt_type_code XQC_PTYPE_INIT = 0"
| "pkt_type_code XQC_PTYPE_0RTT = 1"
| "pkt_type_code XQC_PTYPE_HSK = 2"
| "pkt_type_code XQC_PTYPE_RETRY = 3"
| "pkt_type_code XQC_PTYPE_SHORT_HEADER = 4"
| "pkt_type_code XQC_PTYPE_VERSION_NEGOTIATION = 5"
| "pkt_type_code XQC_PTYPE_NUM = 6"

section \<open>Connection ids of a datagram\<close>

text \<open>The engine's look at a datagram before it knows the connection; \<open>cid_len\<close> is the configured length.\<close>

definition xqc_packet_parse_cid :: "xqc_cid \<Rightarrow> xqc_cid \<Rightarrow> u8 \<Rightarrow> u8 list \<Rightarrow> (xqc_errno + xqc_cid \<times> xqc_cid) option" where
  "xqc_packet_parse_cid dcid scid cid_len buf =
     (if length buf = 0 then Some (Inl XQC_EPARAM)
      else if buf ! 0 AND 0x40 = 0 \<and> buf ! 0 AND 0x80 = 0 then Some (Inl XQC_EILLPKT)
      else if XQC_PACKET_IS_SHORT_HEADER (buf ! 0) then
        if length buf < 1 + unat cid_len then Some (Inl XQC_EILLPKT)
        else do { bs \<leftarrow> mem_read buf 1 (unat cid_len); Some (Inr (xqc_cid_set dcid bs, scid)) }
      else if length buf < XQC_PACKET_LONG_HEADER_PREFIX_LENGTH + 2 then Some (Inl XQC_EILLPKT)
      else
        let pos = 1 + XQC_PACKET_VERSION_LENGTH; dcid_len = unat (buf ! pos) in
        if dcid_len > XQC_MAX_CID_LEN then Some (Inl XQC_EILLPKT)
        else let pos = pos + 1 in
        if length buf - pos < dcid_len + 1 then Some (Inl XQC_EILLPKT)
        else do {
          d \<leftarrow> mem_read buf pos dcid_len;
          let pos = pos + dcid_len;
          let scid_len = unat (buf ! pos);
          if scid_len > XQC_MAX_CID_LEN then Some (Inl XQC_EILLPKT)
          else let pos = pos + 1 in
          if length buf - pos < scid_len then Some (Inl XQC_EILLPKT)
          else do {
            s \<leftarrow> mem_read buf pos scid_len;
            Some (Inr (dcid\<lparr>cid_buf := d\<rparr>, scid\<lparr>cid_buf := s\<rparr>))
          }
        })"

section \<open>Writing headers\<close>

text \<open>\<open>dcid\<close> is the \<^verbatim>\<open>dcid_len\<close> bytes of the connection id; the sum \<^verbatim>\<open>need\<close> does not wrap for these lengths.\<close>

definition xqc_gen_short_packet_header ::
  "packet_out \<Rightarrow> u8 list \<Rightarrow> u8 \<Rightarrow> pktno \<Rightarrow> bool \<Rightarrow> gen_result" where
  "xqc_gen_short_packet_header po dcid packet_number_bits packet_number key_phase =
     (let spin_bit = 0x01; reserved_bits = 0x00; key_phase_bit = (if key_phase then 0x01 else 0x00);
          packet_number_len = xqc_packet_number_bits2len packet_number_bits;
          need = 1 + length dcid + packet_number_len;
          dst_buf_size = po_room po;
          po = po\<lparr>po_pkt := (po_pkt po)\<lparr>pkt_type := XQC_PTYPE_SHORT_HEADER\<rparr>\<rparr>
      in if need > dst_buf_size then gen_error XQC_ENOBUF po
         else do {
           c \<leftarrow> put [0x40 OR push_bit 5 spin_bit OR push_bit 3 reserved_bits OR push_bit 2 key_phase_bit OR packet_number_bits] (0, po);
           (d, po) \<leftarrow> put dcid c;
           (d', po) \<leftarrow> put (xqc_write_packet_number packet_number packet_number_bits) (d, po\<lparr>po_ppktno := Some d\<rparr>);
           Some (Inr need, po\<lparr>po_payload := Some d'\<rparr>)
         })"

definition xqc_gen_long_packet_header ::
  "packet_out \<Rightarrow> u8 list \<Rightarrow> u8 list \<Rightarrow> u8 list \<Rightarrow> xqc_proto_version \<Rightarrow> u8 \<Rightarrow> gen_result" where
  "xqc_gen_long_packet_header po dcid scid token ver pktno_bits =
     (let t = pkt_type (po_pkt po); packet_number = pkt_num (po_pkt po); token_len = (of_nat (length token) :: u32);
          need = xqc_long_packet_header_size (of_nat (length dcid)) (of_nat (length scid)) token_len pktno_bits t;
          dst_buf_size = po_room po
      in if \<not> xqc_check_proto_version_valid ver then gen_error XQC_EPROTO po
         else if unat need > dst_buf_size then gen_error XQC_ENOBUF po
         else if length scid < 3 then gen_error XQC_EILLPKT po
         else do {
           c \<leftarrow> put [0xC0 OR push_bit 4 (of_nat (pkt_type_code t)) OR pktno_bits] (0, po);
           c \<leftarrow> put (xqc_proto_version_field ver) c;
           c \<leftarrow> put [of_nat (length dcid)] c;
           c \<leftarrow> put dcid c;
           c \<leftarrow> put [of_nat (length scid)] c;
           c \<leftarrow> put scid c;
           (d, po) \<leftarrow> (if t = XQC_PTYPE_INIT then do {
               let bits = xqc_vint_get_2bit (ucast token_len);
               c \<leftarrow> put (xqc_vint_write (ucast token_len) bits (xqc_vint_len bits)) c;
               (if token_len > 0 then put token c else Some c)
             } else Some c);
           let d = d + XQC_LONG_HEADER_LENGTH_BYTE;
           (d', po) \<leftarrow> put (xqc_write_packet_number packet_number pktno_bits) (d, po\<lparr>po_ppktno := Some d\<rparr>);
           Some (Inr d', po\<lparr>po_payload := Some d'\<rparr>)
         })"

text \<open>The length field is two bytes before the packet number; without a packet number the pointer is NULL.\<close>

definition xqc_long_packet_update_length :: "packet_out \<Rightarrow> packet_out option" where
  "xqc_long_packet_update_length po =
     (if pkt_type (po_pkt po) \<in> {XQC_PTYPE_INIT, XQC_PTYPE_HSK, XQC_PTYPE_0RTT} then
        case po_ppktno po of
          None \<Rightarrow> None
        | Some d \<Rightarrow>
            if d < XQC_LONG_HEADER_LENGTH_BYTE then None
            else let plength = d - XQC_LONG_HEADER_LENGTH_BYTE;
                     len = (of_nat (po_dst po) - of_nat d :: u32)
                 in put_at plength (xqc_vint_write (ucast len) 0x01 2) po
      else Some po)"

definition xqc_short_packet_update_key_phase :: "packet_out \<Rightarrow> bool \<Rightarrow> packet_out option" where
  "xqc_short_packet_update_key_phase po key_phase =
     (if pkt_type (po_pkt po) = XQC_PTYPE_SHORT_HEADER then
        case po_buf po of
          [] \<Rightarrow> None
        | b # _ \<Rightarrow> put_at 0 [(b AND NOT (push_bit 2 1)) OR push_bit 2 (if key_phase then 0x01 else 0x00)] po
      else Some po)"

definition xqc_short_packet_update_dcid :: "packet_out \<Rightarrow> xqc_connection \<Rightarrow> packet_out option" where
  "xqc_short_packet_update_dcid po c = put_at 1 (cid_buf (current_dcid (dcid_set c))) po"

text \<open>The draft layout of a Retry packet with 4-bit length fields; the lengths are truncated to the byte.\<close>

definition xqc_gen_retry_packet :: "u8 list \<Rightarrow> u8 list \<Rightarrow> u8 list \<Rightarrow> u8 list \<Rightarrow> u32 \<Rightarrow> u8 list" where
  "xqc_gen_retry_packet dcid scid odcid token ver =
     [0xC0 OR push_bit 4 3 OR (of_nat (length odcid) - 3)]
     @ [ucast (drop_bit 24 ver), ucast (drop_bit 16 ver), ucast (drop_bit 8 ver), ucast ver]
     @ [push_bit 4 (of_nat (length dcid) - 3) OR (of_nat (length scid) - 3)]
     @ dcid @ scid @ odcid @ token"

section \<open>Parsing headers\<close>

type_synonym parse_result = "((xqc_errno \<times> xqc_connection) + (xqc_connection \<times> packet_in)) option"

definition parse_error :: "xqc_errno \<Rightarrow> xqc_connection \<Rightarrow> parse_result" where
  "parse_error e c = Some (Inl (e, c))"

definition set_pkt :: "(xqc_packet \<Rightarrow> xqc_packet) \<Rightarrow> packet_in \<Rightarrow> packet_in" where
  "set_pkt f pi = pi\<lparr>pi_pkt := f (pi_pkt pi)\<rparr>"

definition pi_read :: "packet_in \<Rightarrow> nat \<Rightarrow> nat \<Rightarrow> u8 list option" where
  "pi_read pi p n = mem_read (pi_buf pi) p n"

definition xqc_packet_parse_short_header :: "xqc_connection \<Rightarrow> packet_in \<Rightarrow> parse_result" where
  "xqc_packet_parse_short_header c pi =
     (let pos = pi_pos pi; cid_len = length (cid_buf (user_scid (scid_set c)));
          pi = set_pkt (\<lambda>p. p\<lparr>pkt_type := XQC_PTYPE_SHORT_HEADER, pkt_pns := XQC_PNS_APP_DATA\<rparr>) pi
      in if pi_last pi - pos < 1 + cid_len then parse_error XQC_EILLPKT c
         else do {
           fb \<leftarrow> pi_read pi pos 1;
           if hd fb AND 0x40 = 0 then parse_error XQC_EILLPKT c
           else do {
             let pos = pos + 1;
             cid \<leftarrow> pi_read pi pos cid_len;
             let pi = set_pkt (\<lambda>p. p\<lparr>pkt_dcid := xqc_cid_set (pkt_dcid p) cid\<rparr>) pi;
             let pos = pos + cid_len;
             let (r, ss) = xqc_conn_check_dcid (scid_set c) (pkt_dcid (pi_pkt pi));
             let c = c\<lparr>scid_set := ss\<rparr>;
             if r \<noteq> None then parse_error XQC_EILLPKT c
             else
               let pi = set_pkt (\<lambda>p. p\<lparr>pkt_length := of_nat (pi_last pi - pos), pkt_num_offset := pos\<rparr>) pi;
                   c = (if conn_type c = XQC_CONN_TYPE_CLIENT then c\<lparr>discard_vn_flag := 1\<rparr> else c)
               in Some (Inr (c, pi))
           }
         })"

text \<open>
  The end that Initial, 0-RTT and Handshake packets share: the Length field at \<open>pos\<close>, then the end of the
  packet and the offset of the packet number. \<open>size + length\<close> is the 64-bit sum the code compares with.
\<close>

definition parse_length :: "xqc_connection \<Rightarrow> packet_in \<Rightarrow> nat \<Rightarrow> parse_result" where
  "parse_length c pi pos =
     (case xqc_vint_read (pi_rest pi pos) of
        None \<Rightarrow> parse_error XQC_EILLPKT c
      | Some (sz, len) \<Rightarrow>
          if of_nat (pi_last pi - pos) < (of_nat sz + len :: u64) then parse_error XQC_EILLPKT c
          else let pos = pos + sz; last_end = pi_last pi;
                   pi = set_pkt (\<lambda>p. p\<lparr>pkt_length := len, pkt_num_offset := pos\<rparr>) (pi\<lparr>pi_last := pos + unat len\<rparr>)
               in if pi_last pi > last_end then parse_error XQC_EILLPKT c else Some (Inr (c, pi)))"

definition xqc_packet_parse_initial :: "xqc_connection \<Rightarrow> packet_in \<Rightarrow> parse_result" where
  "xqc_packet_parse_initial c pi =
     (let pos = pi_pos pi;
          pi = set_pkt (\<lambda>p. p\<lparr>pkt_type := XQC_PTYPE_INIT, pkt_pns := XQC_PNS_INIT\<rparr>) pi;
          first = (\<not> has_flag XQC_CONN_FLAG_INIT_RECVD c)
      in if conn_state c = XQC_CONN_STATE_SERVER_INIT \<and> first \<and> pi_last pi < XQC_PACKET_INITIAL_MIN_LENGTH
         then parse_error XQC_EILLPKT (XQC_CONN_ERR c TRA_PROTOCOL_VIOLATION)
         else
           let c = (if (conn_state c = XQC_CONN_STATE_SERVER_INIT \<or> conn_state c = XQC_CONN_STATE_CLIENT_INITIAL_SENT) \<and> first
                    then set_flag XQC_CONN_FLAG_INIT_RECVD c else c)
           in case xqc_vint_read (pi_rest pi pos) of
                None \<Rightarrow> parse_error XQC_EILLPKT c
              | Some (sz, token_len) \<Rightarrow>
                  if of_nat (pi_last pi - pos) < (of_nat sz + token_len :: u64) then parse_error XQC_EILLPKT c
                  else let pos = pos + sz in
                  if token_len > of_nat XQC_MAX_TOKEN_LEN then parse_error XQC_EILLPKT c
                  else do {
                    c \<leftarrow> (if conn_type c = XQC_CONN_TYPE_SERVER then do {
                            bs \<leftarrow> pi_read pi pos (unat token_len);
                            t \<leftarrow> mem_write (conn_token c) 0 bs;
                            Some (c\<lparr>conn_token := t, conn_token_len := ucast token_len\<rparr>)
                          } else Some c);
                    parse_length c pi (pos + unat token_len)
                  })"

definition xqc_packet_parse_zero_rtt :: "xqc_connection \<Rightarrow> packet_in \<Rightarrow> parse_result" where
  "xqc_packet_parse_zero_rtt c pi =
     (let pi = set_pkt (\<lambda>p. p\<lparr>pkt_type := XQC_PTYPE_0RTT, pkt_pns := XQC_PNS_APP_DATA\<rparr>) pi
      in parse_length c pi (pi_pos pi))"

definition xqc_packet_parse_handshake :: "xqc_connection \<Rightarrow> packet_in \<Rightarrow> parse_result" where
  "xqc_packet_parse_handshake c pi =
     (let pi = set_pkt (\<lambda>p. p\<lparr>pkt_type := XQC_PTYPE_HSK, pkt_pns := XQC_PNS_HSK\<rparr>) pi
      in parse_length c pi (pi_pos pi))"

text \<open>
  The pseudo packet is built in an array of \<^verbatim>\<open>RETRY_PSEUDO_PACKET_SIZE\<close> bytes. The code is returned
  as the TLS layer gave it, also when only the length of the tag is wrong.
\<close>

abbreviation "RETRY_PSEUDO_PACKET_SIZE \<equiv> 3 * (1 + XQC_MAX_CID_LEN) + 1 + 4 + XQC_MAX_TOKEN_LEN"

definition xqc_conn_cal_retry_integrity_tag :: "tls_env \<Rightarrow> xqc_connection \<Rightarrow> packet_in \<Rightarrow> (ret \<times> u8 list) option" where
  "xqc_conn_cal_retry_integrity_tag tls c pi =
     (let odcid = cid_buf (original_dcid c); retry_len = length (pi_buf pi) - XQC_RETRY_INTEGRITY_TAG_LEN in do {
        b \<leftarrow> mem_write (replicate RETRY_PSEUDO_PACKET_SIZE 0) 0 [of_nat (length odcid)];
        b \<leftarrow> mem_write b 1 odcid;
        bs \<leftarrow> pi_read pi 0 retry_len;
        b \<leftarrow> mem_write b (1 + length odcid) bs;
        Some (tls_cal_retry_integrity_tag tls (take (1 + length odcid + retry_len) b))
      })"

text \<open>Resetting the send controller does not concern the modelled fields.\<close>

definition xqc_conn_on_recv_retry :: "tls_env \<Rightarrow> xqc_connection \<Rightarrow> xqc_cid \<Rightarrow> ret \<times> xqc_connection" where
  "xqc_conn_on_recv_retry tls c retry_scid =
     (let c = set_flag XQC_CONN_FLAG_RETRY_RECVD c;
          c = c\<lparr>dcid_set := (dcid_set c)\<lparr>current_dcid := xqc_cid_copy (current_dcid (dcid_set c)) retry_scid\<rparr>\<rparr>;
          r = tls_reset_initial tls (version c) retry_scid
      in if r \<noteq> None then (r, c) else (resend_packets tls, c))"

definition xqc_packet_parse_retry :: "tls_env \<Rightarrow> xqc_connection \<Rightarrow> packet_in \<Rightarrow> parse_result" where
  "xqc_packet_parse_retry tls c pi =
     (let pi = set_pkt (\<lambda>p. p\<lparr>pkt_type := XQC_PTYPE_RETRY\<rparr>) pi
      in if conn_type c \<noteq> XQC_CONN_TYPE_CLIENT then parse_error XQC_EPROTO c
         else if xqc_cid_is_equal (original_dcid c) (pkt_scid (pi_pkt pi)) then parse_error XQC_EILLPKT c
         else if has_flag XQC_CONN_FLAG_RETRY_RECVD c \<or> has_flag XQC_CONN_FLAG_INIT_RECVD c
         then Some (Inr (c, pi\<lparr>pi_pos := pi_last pi\<rparr>))
         else
           let pos = pi_pos pi in
           if pi_last pi - pos < XQC_RETRY_INTEGRITY_TAG_LEN + 1 then parse_error XQC_EILLPKT c
           else let retry_token_len = pi_last pi - pos - XQC_RETRY_INTEGRITY_TAG_LEN in
           if retry_token_len > XQC_MAX_TOKEN_LEN then parse_error XQC_EILLPKT c
           else do {
             bs \<leftarrow> pi_read pi pos retry_token_len;
             t \<leftarrow> mem_write (conn_token c) 0 bs;
             let c = c\<lparr>conn_token := t, conn_token_len := of_nat retry_token_len\<rparr>;
             let pos = pos + retry_token_len;
             (r, tag) \<leftarrow> xqc_conn_cal_retry_integrity_tag tls c pi;
             if r \<noteq> None then parse_error XQC_EILLPKT c
             else do {
               recv_tag \<leftarrow> pi_read pi pos XQC_RETRY_INTEGRITY_TAG_LEN;
               if length tag \<noteq> XQC_RETRY_INTEGRITY_TAG_LEN \<or> tag \<noteq> recv_tag
               then Some (Inr (c, pi\<lparr>pi_pos := pi_last pi\<rparr>))
               else let pi = pi\<lparr>pi_last := pos + XQC_RETRY_INTEGRITY_TAG_LEN\<rparr>;
                        (r, c) = xqc_conn_on_recv_retry tls c (pkt_scid (pi_pkt pi))
                    in case r of Some e \<Rightarrow> parse_error e c | None \<Rightarrow> Some (Inr (c, pi))
             }
           })"

text \<open>The supported versions of a Version Negotiation packet, without zero and duplicates, 256 at most.\<close>

fun vn_collect :: "u8 list \<Rightarrow> u32 list \<Rightarrow> u32 list" where
  "vn_collect (b0 # b1 # b2 # b3 # rest) acc =
     (let v = xqc_parse_uint32 b0 b1 b2 b3
      in vn_collect rest (if v \<noteq> 0 \<and> xqc_uint32_list_find acc v = - 1 \<and> length acc < 256 then acc @ [v] else acc))"
| "vn_collect _ acc = acc"

text \<open>The first version of the packet that the configuration has, 0 when there is none.\<close>

fun vn_choose :: "u32 list \<Rightarrow> u32 list \<Rightarrow> u32" where
  "vn_choose config [] = 0"
| "vn_choose config (v # vs) = (if xqc_uint32_list_find config v \<noteq> - 1 then v else vn_choose config vs)"

text \<open>The comparison with \<^verbatim>\<open>c->version\<close> is with the enumeration value, as in the code.\<close>

definition xqc_packet_parse_version_negotiation :: "xqc_connection \<Rightarrow> packet_in \<Rightarrow> parse_result" where
  "xqc_packet_parse_version_negotiation c pi =
     (if \<not> xqc_cid_is_equal (original_dcid c) (pkt_scid (pi_pkt pi)) then parse_error XQC_EILLPKT c
      else
        let pi = set_pkt (\<lambda>p. p\<lparr>pkt_type := XQC_PTYPE_VERSION_NEGOTIATION\<rparr>) pi; pos = pi_pos pi in
        if pi_last pi - pos < XQC_PACKET_VERSION_LENGTH then parse_error XQC_EILLPKT c
        else if conn_state c \<noteq> XQC_CONN_STATE_CLIENT_INITIAL_SENT then parse_error XQC_ESTATE c
        else if conn_type c \<noteq> XQC_CONN_TYPE_CLIENT then parse_error XQC_EPROTO c
        else if discard_vn_flag c \<noteq> 0 then Some (Inr (c, pi\<lparr>pi_pos := pi_last pi\<rparr>))
        else do {
          bs \<leftarrow> pi_read pi pos (pi_last pi - pos);
          let supported_version_list = vn_collect bs [];
          let pi = pi\<lparr>pi_pos := pi_last pi\<rparr>;
          if xqc_uint32_list_find supported_version_list (of_nat (version_code (version c))) \<noteq> - 1 then Some (Inr (c, pi))
          else let version_chosen = vn_choose (support_version_list c) supported_version_list in
          if version_chosen = 0 then parse_error XQC_ESYS c
          else
            let c = (case version_of_value version_chosen of Some i \<Rightarrow> c\<lparr>version := i\<rparr> | None \<Rightarrow> c)
            in Some (Inr (c\<lparr>discard_vn_flag := 1\<rparr>, pi))
        })"

text \<open>The type of a long header is two bits, or Version Negotiation when the version is 0.\<close>

definition long_header_type :: "u8 \<Rightarrow> u32 \<Rightarrow> xqc_pkt_type" where
  "long_header_type fb v =
     (if v = 0 then XQC_PTYPE_VERSION_NEGOTIATION
      else let t = XQC_PACKET_LONG_HEADER_GET_TYPE fb
           in if t = 0 then XQC_PTYPE_INIT else if t = 1 then XQC_PTYPE_0RTT
              else if t = 2 then XQC_PTYPE_HSK else XQC_PTYPE_RETRY)"

definition parse_long_body :: "tls_env \<Rightarrow> xqc_pkt_type \<Rightarrow> xqc_connection \<Rightarrow> packet_in \<Rightarrow> parse_result" where
  "parse_long_body tls t c pi = (case t of
     XQC_PTYPE_INIT \<Rightarrow> xqc_packet_parse_initial c pi
   | XQC_PTYPE_0RTT \<Rightarrow> xqc_packet_parse_zero_rtt c pi
   | XQC_PTYPE_HSK \<Rightarrow> xqc_packet_parse_handshake c pi
   | XQC_PTYPE_RETRY \<Rightarrow> xqc_packet_parse_retry tls c pi
   | XQC_PTYPE_VERSION_NEGOTIATION \<Rightarrow> xqc_packet_parse_version_negotiation c pi
   | _ \<Rightarrow> parse_error XQC_EILLPKT c)"

text \<open>The rest of the long header once both connection ids are read: the check of the connection ids,
  the version check, the type's own parser, and the flag that stops version negotiation.\<close>

definition parse_long_rest :: "tls_env \<Rightarrow> xqc_pkt_type \<Rightarrow> u32 \<Rightarrow> xqc_connection \<Rightarrow> packet_in \<Rightarrow> parse_result" where
  "parse_long_rest tls t v c pi =
     (if t \<noteq> XQC_PTYPE_INIT \<and> t \<noteq> XQC_PTYPE_0RTT \<and> has_flag XQC_CONN_FLAG_DCID_OK c
         \<and> (xqc_cid_in_cid_set (scid_cids (scid_set c)) (pkt_dcid (pi_pkt pi)) = None
            \<or> xqc_cid_in_cid_set (dcid_cids (dcid_set c)) (pkt_scid (pi_pkt pi)) = None)
      then parse_error XQC_EILLPKT c
      else
        let (r, c) = xqc_conn_version_check tls c v in
        if r \<noteq> None then parse_error XQC_EVERSION (set_flag XQC_CONN_FLAG_VERSION_NEGOTIATION c)
        else do {
          r \<leftarrow> parse_long_body tls t c pi;
          (case r of
             Inl e \<Rightarrow> Some (Inl e)
           | Inr (c, pi) \<Rightarrow> Some (Inr (if conn_type c = XQC_CONN_TYPE_CLIENT then c\<lparr>discard_vn_flag := 1\<rparr> else c, pi)))
        })"

definition xqc_packet_parse_long_header :: "tls_env \<Rightarrow> xqc_connection \<Rightarrow> packet_in \<Rightarrow> parse_result" where
  "xqc_packet_parse_long_header tls c pi =
     (let pos = pi_pos pi in
      if pi_last pi - pos < XQC_PACKET_LONG_HEADER_PREFIX_LENGTH + 2 then parse_error XQC_EILLPKT c
      else do {
        h \<leftarrow> pi_read pi pos (XQC_PACKET_LONG_HEADER_PREFIX_LENGTH + 1);
        let fixed_bit = h ! 0 AND 0x40;
        let v = xqc_parse_uint32 (h ! 1) (h ! 2) (h ! 3) (h ! 4);
        let t = long_header_type (h ! 0) v;
        if t \<noteq> XQC_PTYPE_VERSION_NEGOTIATION \<and> fixed_bit = 0 then parse_error XQC_EILLPKT c
        else
          let dcid_len = unat (h ! 5); pos = pos + 6 in
          if pi_last pi - pos < dcid_len + 1 \<or> dcid_len > XQC_MAX_CID_LEN then parse_error XQC_EILLPKT c
          else do {
            d \<leftarrow> pi_read pi pos dcid_len;
            let pos = pos + dcid_len;
            l \<leftarrow> pi_read pi pos 1;
            let scid_len = unat (hd l);
            let pos = pos + 1;
            if pi_last pi - pos < scid_len \<or> scid_len > XQC_MAX_CID_LEN then parse_error XQC_EILLPKT c
            else do {
              s \<leftarrow> pi_read pi pos scid_len;
              let pos = pos + scid_len;
              parse_long_rest tls t v c
                (set_pkt (\<lambda>p. p\<lparr>pkt_dcid := (pkt_dcid p)\<lparr>cid_buf := d\<rparr>, pkt_scid := (pkt_scid p)\<lparr>cid_buf := s\<rparr>\<rparr>) (pi\<lparr>pi_pos := pos\<rparr>))
            }
          }
      })"

definition xqc_packet_parse_single :: "tls_env \<Rightarrow> bool \<Rightarrow> xqc_connection \<Rightarrow> packet_in \<Rightarrow> parse_result" where
  "xqc_packet_parse_single tls alloc_ok c pi =
     (if pi_last pi - pi_pos pi = 0 then parse_error XQC_EILLPKT c
      else do {
        fb \<leftarrow> map_option hd (pi_read pi (pi_pos pi) 1);
        if XQC_PACKET_IS_SHORT_HEADER fb then do {
          r \<leftarrow> xqc_packet_parse_short_header c pi;
          (case r of
             Inl e \<Rightarrow> Some (Inl e)
           | Inr (c, pi) \<Rightarrow>
               if \<not> xqc_conn_check_handshake_completed c
               then parse_error XQC_EWAITING (snd (xqc_conn_buff_undecrypt_packet_in alloc_ok pi c XQC_ENC_LEV_1RTT))
               else Some (Inr (c, pi)))
        }
        else if XQC_PACKET_IS_LONG_HEADER fb then
          let t = XQC_PACKET_LONG_HEADER_GET_TYPE fb;
              c = (if t = of_nat (pkt_type_code XQC_PTYPE_0RTT) then set_flag XQC_CONN_FLAG_HAS_0RTT c else c)
          in if t = of_nat (pkt_type_code XQC_PTYPE_0RTT) \<and> \<not> tls_rx_key_ready tls XQC_ENC_LEV_0RTT
             then parse_error XQC_EWAITING (snd (xqc_conn_buff_undecrypt_packet_in alloc_ok pi c XQC_ENC_LEV_0RTT))
             else if t = of_nat (pkt_type_code XQC_PTYPE_HSK) \<and> \<not> tls_rx_key_ready tls XQC_ENC_LEV_HSK
             then parse_error XQC_EWAITING (snd (xqc_conn_buff_undecrypt_packet_in alloc_ok pi c XQC_ENC_LEV_HSK))
             else xqc_packet_parse_long_header tls c pi
        else parse_error XQC_EIGNORE_PKT c
      })"

section \<open>Stateless reset\<close>

text \<open>\<open>hmac\<close> is the digest of the connection id under the configured key; at most \<open>token_len\<close> bytes are taken,
  the rest of the token keeps the zeros it was initialised with.\<close>

definition xqc_gen_reset_token :: "(u8 list \<Rightarrow> u8 list) \<Rightarrow> xqc_cid \<Rightarrow> nat \<Rightarrow> u8 list" where
  "xqc_gen_reset_token hmac cid token_len =
     (let output = take token_len (hmac (cid_buf cid)) in output @ replicate (token_len - length output) 0)"

definition xqc_gen_reset_packet :: "(u8 list \<Rightarrow> u8 list) \<Rightarrow> xqc_cid \<Rightarrow> u8 list res" where
  "xqc_gen_reset_packet hmac cid =
     (let unpredictable_len = 23; dst = [0x40] in
      if length (cid_buf cid) > 0 then
        let dst = dst @ cid_buf cid; padding_len = int unpredictable_len - int (length dst) in
        if padding_len < 0 then Err XQC_EILLPKT
        else Ok (dst @ replicate (nat padding_len) 0 @ xqc_gen_reset_token hmac cid XQC_RESET_TOKEN_LEN)
      else Err XQC_EILLPKT)"

definition xqc_is_reset_packet :: "(u8 list \<Rightarrow> u8 list) \<Rightarrow> xqc_cid \<Rightarrow> u8 list \<Rightarrow> bool option" where
  "xqc_is_reset_packet hmac cid buf =
     (case buf of
        [] \<Rightarrow> None
      | fb # _ \<Rightarrow>
          Some (if XQC_PACKET_IS_LONG_HEADER fb then False
                else if length buf < 39 then False
                else drop (length buf - XQC_RESET_TOKEN_LEN) buf = xqc_gen_reset_token hmac cid XQC_RESET_TOKEN_LEN))"

section \<open>Specification\<close>

definition long_prefix :: "u8 \<Rightarrow> u8 list \<Rightarrow> u8 list \<Rightarrow> u8 list \<Rightarrow> u8 list" where
  "long_prefix fb vb d s = [fb] @ vb @ [of_nat (length d)] @ d @ [of_nat (length s)] @ s"

definition long_pi :: "u8 list \<Rightarrow> u8 list \<Rightarrow> packet_in \<Rightarrow> packet_in" where
  "long_pi d s pi = set_pkt (\<lambda>p. p\<lparr>pkt_dcid := (pkt_dcid p)\<lparr>cid_buf := d\<rparr>, pkt_scid := (pkt_scid p)\<lparr>cid_buf := s\<rparr>\<rparr>)
     (pi\<lparr>pi_pos := 7 + length d + length s\<rparr>)"

text \<open>Both connection ids of a packet are known to the connection.\<close>

definition cids_known :: "xqc_connection \<Rightarrow> u8 list \<Rightarrow> u8 list \<Rightarrow> bool" where
  "cids_known c d s \<longleftrightarrow> d \<in> (cid_buf \<circ> inner_cid) ` set (cid_list (scid_cids (scid_set c)))
     \<and> s \<in> (cid_buf \<circ> inner_cid) ` set (cid_list (dcid_cids (dcid_set c)))"

text \<open>The Length field of a long header: always two bytes.\<close>

definition len_field :: "nat \<Rightarrow> u8 list" where
  "len_field n = xqc_vint_write (of_nat n) 1 2"

definition long_header :: "packet_out \<Rightarrow> u8 list \<Rightarrow> u8 list \<Rightarrow> u8 list \<Rightarrow> xqc_proto_version \<Rightarrow> u8 \<Rightarrow> u8 list" where
  "long_header po dcid scid token ver bits =
     long_prefix (0xC0 OR push_bit 4 (of_nat (pkt_type_code (pkt_type (po_pkt po)))) OR bits) (xqc_proto_version_field ver) dcid scid
     @ (if pkt_type (po_pkt po) = XQC_PTYPE_INIT then vint_enc (of_nat (length token)) @ token else [])"

text \<open>The arrays of a connection have their declared sizes.\<close>

definition conn_wf :: "xqc_connection \<Rightarrow> bool" where
  "conn_wf c \<longleftrightarrow> length (conn_token c) = XQC_MAX_TOKEN_LEN \<and> length (cid_buf (original_dcid c)) \<le> XQC_MAX_CID_LEN"

text \<open>A parser stayed in bounds: no fault, the arrays keep their sizes, the packet it returns lies in the datagram,
  and its packet number and payload end where the packet ends.\<close>

definition pkt_bounds :: "packet_in \<Rightarrow> packet_in \<Rightarrow> bool" where
  "pkt_bounds pi pi' \<longleftrightarrow> pi_buf pi' = pi_buf pi \<and> pi_pos pi' \<le> pi_last pi' \<and> pi_last pi' \<le> length (pi_buf pi)
     \<and> (xqc_has_packet_number (pi_pkt pi') \<longrightarrow> 0 < pkt_num_offset (pi_pkt pi')
          \<and> pkt_num_offset (pi_pkt pi') + unat (pkt_length (pi_pkt pi')) = pi_last pi')"

definition parse_safe :: "packet_in \<Rightarrow> parse_result \<Rightarrow> bool" where
  "parse_safe pi r \<longleftrightarrow> (case r of None \<Rightarrow> False | Some (Inl (e, c)) \<Rightarrow> conn_wf c | Some (Inr (c, pi')) \<Rightarrow> conn_wf c \<and> pkt_bounds pi pi')"

text \<open>Every packet that a parser returns has the property \<open>P\<close>.\<close>

definition returns :: "(packet_in \<Rightarrow> bool) \<Rightarrow> parse_result \<Rightarrow> bool" where
  "returns P r \<longleftrightarrow> (\<forall>c pi. r = Some (Inr (c, pi)) \<longrightarrow> P pi)"

definition has_cids :: "xqc_cid \<Rightarrow> xqc_cid \<Rightarrow> packet_in \<Rightarrow> bool" where
  "has_cids d s pi \<longleftrightarrow> pkt_dcid (pi_pkt pi) = d \<and> pkt_scid (pi_pkt pi) = s"

section \<open>Properties\<close>

lemma pn_bits_cases: "bits \<le> (3::u8) \<Longrightarrow> bits = 0 \<or> bits = 1 \<or> bits = 2 \<or> bits = 3"
proof -
  assume "bits \<le> 3"
  then have "unat bits \<in> {0, 1, 2, 3}" by (auto simp: word_le_nat_alt)
  then show ?thesis by (auto simp: word_unat_eq_iff)
qed

lemma bit_byte_at:
  "bit (push_bit m (ucast (ucast (drop_bit m (pn::u64)) :: u8)) :: u64) n \<longleftrightarrow> m \<le> n \<and> n < m + 8 \<and> n < 64 \<and> bit pn n"
  by (auto simp: bit_simps)

lemma bit_low_byte: "bit (ucast (ucast (pn::u64) :: u8) :: u64) n \<longleftrightarrow> n < 8 \<and> bit pn n"
  by (auto simp: bit_simps)

lemma parse_write_packet_number:
  assumes "bits \<le> (3::u8)"
  shows "xqc_packet_parse_packet_number (xqc_write_packet_number pn bits) = take_bit (8 * (unat bits + 1)) pn"
  using pn_bits_cases [OF assms]
  by (elim disjE; simp add: xqc_packet_parse_packet_number_def xqc_write_packet_number_def xqc_packet_number_bits2len_def be_push_add)
    (rule bit_word_eqI; auto simp: bit_or_iff bit_take_bit_iff bit_byte_at bit_low_byte)+

lemma length_write_packet_number:
  "bits \<le> (3::u8) \<Longrightarrow> length (xqc_write_packet_number pn bits) = unat bits + 1"
  using pn_bits_cases [of bits]
  by (auto simp: xqc_write_packet_number_def xqc_packet_number_bits2len_def)

lemma unat_exp: "n < 64 \<Longrightarrow> unat (2 ^ n :: u64) = 2 ^ n"
proof -
  assume "n < 64"
  then have "(2::nat) ^ n < 2 ^ 64" by (intro power_strict_increasing) simp_all
  then have "unat (of_nat (2 ^ n) :: u64) = 2 ^ n" by (simp add: unat_of_nat del: of_nat_power)
  then show ?thesis by simp
qed

lemma unat_drop_bit: "n < 64 \<Longrightarrow> unat (drop_bit n (e::u64)) = unat e div 2 ^ n"
  by (simp add: drop_bit_eq_div unat_div unat_exp)

text \<open>Setting the low bits of a number: the candidate packet number of RFC 9000 A.3 as a sum.\<close>

lemma unat_clear_low:
  assumes "n < 64"
  shows "unat ((e::u64) AND NOT (mask n)) = unat e div 2 ^ n * 2 ^ n"
proof -
  have "e AND NOT (mask n) = push_bit n (drop_bit n e)"
    by (rule bit_word_eqI) (auto simp: bit_simps)
  moreover have "unat (drop_bit n e) * 2 ^ n < 2 ^ 64"
    using unsigned_less [where 'a = nat, of e] by (simp add: unat_drop_bit assms le_less_trans [OF div_times_less_eq_dividend])
  ultimately show ?thesis using assms
    by (simp add: push_bit_eq_mult unat_word_ariths unat_drop_bit unat_exp)
qed

lemma unat_candidate:
  fixes e t :: u64
  assumes "n < 64" "unat t < 2 ^ n"
  shows "unat ((e AND NOT (push_bit n 1 - 1)) OR t) = unat e div 2 ^ n * 2 ^ n + unat t"
proof -
  have m: "push_bit n 1 - 1 = (mask n :: u64)" by (simp add: mask_eq_exp_minus_1 push_bit_eq_mult)
  have "t < 2 ^ n" using assms by (simp add: word_less_nat_alt unat_exp)
  then have t: "\<not> bit t i" if "n \<le> i" for i
    using word_bit_bounded [of t n i] assms(1) that by auto
  have "(e AND NOT (mask n)) OR t = (e AND NOT (mask n)) + t"
    by (rule disjunctive_add [symmetric]) (use t not_le in \<open>auto simp: bit_simps\<close>)
  moreover have "unat e div 2 ^ n * 2 ^ n + unat t < 2 ^ 64"
  proof -
    obtain q where q: "(2::nat) ^ 64 = 2 ^ n * q" using assms(1) by (metis le_add_diff_inverse less_imp_le power_add)
    have "unat e div 2 ^ n < q" using q unsigned_less [where 'a = nat, of e] by (simp add: less_mult_imp_div_less mult.commute)
    then have "(unat e div 2 ^ n + 1) * 2 ^ n \<le> q * 2 ^ n" by (intro mult_le_mono1) simp
    then show ?thesis using assms(2) q by (simp add: mult.commute)
  qed
  ultimately show ?thesis using unat_clear_low [OF assms(1), of e] unfolding m by (simp add: unat_word_ariths)
qed

lemma window_lin:
  fixes aw bw w h r t :: nat
  assumes "bw = aw \<or> bw = aw + w \<or> aw = bw + w" "aw + r < bw + t + h" "bw + t \<le> aw + r + h" "r < w" "t < w" "w = 2 * h"
  shows "bw + t = (if aw + t + h \<le> aw + r then aw + t + w
    else if aw + t > aw + r + h \<and> aw + t > w then aw + t - w else aw + t)"
  using assms by (elim disjE) (auto simp: not_less not_le)

lemma window_nat:
  fixes E P h :: nat
  assumes "E < P + h" "P \<le> E + h" and w: "w = 2 * h" and C: "C = E div w * w + P mod w"
  shows "P = (if C + h \<le> E then C + w else if C > E + h \<and> C > w then C - w else C)"
proof -
  define a b r t where "a = E div w" "b = P div w" "r = E mod w" "t = P mod w"
  have h: "0 < h" using assms(1,2) by (cases h) auto
  have E: "E = a * w + r" and P: "P = b * w + t" and "r < w" "t < w"
    using h w by (simp_all only: a_b_r_t_def div_mult_mod_eq) (simp_all)
  have "b * w < (a + 2) * w" "a * w < (b + 2) * w"
    using assms(1,2) E P \<open>r < w\<close> \<open>t < w\<close> w unfolding add_mult_distrib by linarith+
  then have "b < a + 2" "a < b + 2" by (simp_all only: mult_less_cancel2)
  then consider "b = a" | "b = Suc a" | "a = Suc b" by linarith
  then have "b * w = a * w \<or> b * w = a * w + w \<or> a * w = b * w + w" by cases simp_all
  moreover have "C = a * w + t" using C by (simp only: a_b_r_t_def)
  ultimately show ?thesis
    using window_lin [of "b * w" "a * w" w r t h] assms(1,2) E P \<open>r < w\<close> \<open>t < w\<close> w by (simp only:)
qed

text \<open>RFC 9000 A.3: a truncated number is decoded to the only number within half a window of the expected one.\<close>

lemma decode_packet_number_correct:
  assumes n: "1 \<le> n" "n \<le> 32" and "largest < 2 ^ 62" "pn < 2 ^ 62"
    and win: "unat largest + 1 < unat pn + 2 ^ (n - 1)" "unat pn \<le> unat largest + 1 + 2 ^ (n - 1)"
  shows "xqc_packet_decode_packet_number largest (take_bit n pn) n = pn"
proof -
  define w hw :: u64 where "w = push_bit n 1" and "hw = drop_bit 1 w"
  define e where "e = largest + 1"
  define C where "C = (e AND NOT (w - 1)) OR take_bit n pn"
  have e: "unat e = unat largest + 1" using assms(3) by (simp add: e_def word_less_nat_alt unat_word_ariths)
  have t: "unat (take_bit n pn) = unat pn mod 2 ^ n"
    by (simp add: take_bit_eq_mask unat_and_mask)
  have C: "unat C = unat e div 2 ^ n * 2 ^ n + unat pn mod 2 ^ n"
    unfolding C_def w_def t [symmetric] by (rule unat_candidate) (use n t in simp_all)
  have w: "unat w = 2 ^ n" "unat hw = 2 ^ (n - 1)"
    using n unat_exp [of n] by (cases n; simp add: push_bit_eq_mult unat_drop_bit w_def hw_def)+
  have pow: "(2::nat) ^ n = 2 * 2 ^ (n - 1)" using n by (cases n) simp_all
  have "(2::nat) ^ n \<le> 2 ^ 32" using n(2) by (rule power_increasing) simp
  then have pow2: "(2::nat) ^ n \<le> 4294967296" by simp
  have b: "unat pn < 4611686018427387904" "unat largest < 4611686018427387904" using assms(3,4) by (simp_all add: word_less_nat_alt)
  have Cb: "unat C < 4611686018427387904 + 4294967296 + 1"
  proof -
    have "unat pn mod 2 ^ n < 2 ^ n" by simp
    moreover have "unat e div 2 ^ n * 2 ^ n \<le> unat e" by simp
    ultimately show ?thesis using C b e pow2 by linarith
  qed
  have sums: "unat (C + hw) = unat C + 2 ^ (n - 1)" "unat (e + hw) = unat e + 2 ^ (n - 1)" "unat (C + w) = unat C + 2 ^ n"
    unfolding unat_word_ariths w using pow pow2 Cb b e by simp_all
  have d: "w < C \<Longrightarrow> unat (C - w) = unat C - 2 ^ n"
    using w(1) by (simp add: unat_sub less_imp_le)
  have "unat (xqc_packet_decode_packet_number largest (take_bit n pn) n) =
      (if unat C + 2 ^ (n - 1) \<le> unat e then unat C + 2 ^ n
       else if unat C > unat e + 2 ^ (n - 1) \<and> unat C > 2 ^ n then unat C - 2 ^ n else unat C)"
    unfolding xqc_packet_decode_packet_number_def Let_def e_def [symmetric] w_def [symmetric] hw_def [symmetric] C_def [symmetric]
    unfolding word_le_nat_alt word_less_nat_alt sums w
    using d unfolding word_less_nat_alt w by (auto simp: sums)
  also have "\<dots> = unat pn"
    by (rule window_nat [symmetric]) (use win e C pow in simp_all)
  finally show ?thesis by (simp add: word_unat_eq_iff)
qed

lemma pi_read_at:
  "pi_buf pi = xs @ ys @ zs \<Longrightarrow> p = length xs \<Longrightarrow> n = length ys \<Longrightarrow> pi_read pi p n = Some ys"
  by (simp add: pi_read_def mem_read_def)

lemma length_long_prefix: "length vb = 4 \<Longrightarrow> length (long_prefix fb vb d s) = 7 + length d + length s"
  by (simp add: long_prefix_def)

lemma cid_in_cid_set_iff:
  "xqc_cid_in_cid_set cs cid = None \<longleftrightarrow> cid_buf cid \<notin> (cid_buf \<circ> inner_cid) ` set (cid_list cs)"
  unfolding xqc_cid_in_cid_set_def cid_find_None_iff xqc_cid_is_equal_def by auto

lemma parse_long_prefix:
  assumes buf: "pi_buf pi = long_prefix fb [v0, v1, v2, v3] d s @ body" and "pi_pos pi = 0" "pi_last pi = length (pi_buf pi)"
    and "length d \<le> 20" "length s \<le> 20"
    and "fb AND 0x40 \<noteq> 0" "v = xqc_parse_uint32 v0 v1 v2 v3" "v \<noteq> 0"
    and "has_flag XQC_CONN_FLAG_DCID_OK c \<longrightarrow> long_header_type fb v \<in> {XQC_PTYPE_INIT, XQC_PTYPE_0RTT} \<or> cids_known c d s"
    and "xqc_conn_version_check tls c v = (None, c')"
  shows "xqc_packet_parse_long_header tls c pi =
    Option.bind (parse_long_body tls (long_header_type fb v) c' (long_pi d s pi)) (\<lambda>r. case r of
       Inl e \<Rightarrow> Some (Inl e)
     | Inr (c, pi) \<Rightarrow> Some (Inr (if conn_type c = XQC_CONN_TYPE_CLIENT then c\<lparr>discard_vn_flag := 1\<rparr> else c, pi)))"
proof -
  let ?t = "long_header_type fb v"
  have l: "length (pi_buf pi) = 7 + length d + length s + length body" by (simp add: buf long_prefix_def)
  note b = buf [unfolded long_prefix_def]
  have r0: "pi_read pi 0 6 = Some [fb, v0, v1, v2, v3, of_nat (length d)]"
    by (rule pi_read_at [of pi "[]" _ "d @ [of_nat (length s)] @ s @ body"]) (simp_all add: b)
  have r1: "pi_read pi 6 (length d) = Some d"
    by (rule pi_read_at [of pi "[fb, v0, v1, v2, v3, of_nat (length d)]" _ "[of_nat (length s)] @ s @ body"]) (simp_all add: b)
  have r2: "pi_read pi (6 + length d) 1 = Some [of_nat (length s)]"
    by (rule pi_read_at [of pi "[fb, v0, v1, v2, v3, of_nat (length d)] @ d" _ "s @ body"]) (simp_all add: b)
  have r3: "pi_read pi (7 + length d) (length s) = Some s"
    by (rule pi_read_at [of pi "[fb, v0, v1, v2, v3, of_nat (length d)] @ d @ [of_nat (length s)]" _ body]) (simp_all add: b)
  have u: "unat (of_nat (length d) :: u8) = length d" "unat (of_nat (length s) :: u8) = length s"
    using assms(4,5) by (simp_all add: unat_of_nat)
  have t: "?t \<noteq> XQC_PTYPE_VERSION_NEGOTIATION" using assms(8) by (simp add: long_header_type_def Let_def)
  show ?thesis
    unfolding xqc_packet_parse_long_header_def parse_long_rest_def Let_def
    using assms(2-6,9,10) l u t r1 r2 r3
    by (simp add: r0 assms(7) [symmetric] long_pi_def add.commute)
      (auto simp: cid_in_cid_set_iff cids_known_def set_pkt_def)
qed

lemma length_len_field [simp]: "length (len_field n) = 2"
  by (simp add: len_field_def xqc_vint_write_def be64_bytes_eq)

lemma vint_read_len_field: "n < 2 ^ 14 \<Longrightarrow> xqc_vint_read (len_field n @ rest) = Some (2, of_nat n)"
  unfolding len_field_def by (rule vint_rw1) (simp add: word_less_nat_alt unat_of_nat)

lemma parse_length_bytes:
  assumes "pi_rest pi pos = len_field (length pl) @ pl" "pi_last pi = pos + 2 + length pl" "length pl < 2 ^ 14"
  shows "parse_length c pi pos = Some (Inr (c, set_pkt (\<lambda>p. p\<lparr>pkt_length := of_nat (length pl), pkt_num_offset := pos + 2\<rparr>) pi))"
  using assms vint_read_len_field [OF assms(3), of pl] by (simp add: parse_length_def set_pkt_def unat_of_nat)

lemma put_chain: "Option.bind (put xs (d, po)) k =
    (if d + length xs \<le> length (po_buf po)
     then k (d + length xs, po\<lparr>po_buf := take d (po_buf po) @ xs @ drop (d + length xs) (po_buf po)\<rparr>) else None)"
  by (auto simp: put_def put_at_def mem_write_def)

lemma gen_long_result:
  assumes "xqc_gen_long_packet_header po dcid scid token ver bits = Some (Inr n, po1)"
    and "length token < 2 ^ 32"
  defines "h \<equiv> long_header po dcid scid token ver bits"
    and "pnb \<equiv> xqc_write_packet_number (pkt_num (po_pkt po)) bits"
  shows "n = length h + 2 + length pnb \<and> n \<le> length (po_buf po) \<and> 3 \<le> length scid \<and> xqc_check_proto_version_valid ver
    \<and> po1 = po\<lparr>po_ppktno := Some (length h + 2), po_payload := Some n,
        po_buf := h @ take 2 (drop (length h) (po_buf po)) @ pnb @ drop n (po_buf po)\<rparr>"
proof -
  let ?t = "pkt_type (po_pkt po)"
  have tl: "ucast (of_nat (length token) :: u32) = (of_nat (length token) :: u64)"
    using assms(2) by (simp add: unsigned_of_nat take_bit_eq_mod word_unat_eq_iff unat_of_nat)
  have tz: "(0 :: u32) < of_nat (length token) \<longleftrightarrow> token \<noteq> []"
    using assms(2) by (simp add: word_less_nat_alt unat_of_nat)
  have "xqc_check_proto_version_valid ver" "3 \<le> length scid"
    using assms(1) by (auto simp: xqc_gen_long_packet_header_def Let_def split: if_splits)
  moreover have "Option.bind (put h (0, po)) (\<lambda>(d, po). Option.bind (put pnb (d + 2, po\<lparr>po_ppktno := Some (d + 2)\<rparr>))
      (\<lambda>(d', po). Some (Inr d' :: xqc_errno + nat, po\<lparr>po_payload := Some d'\<rparr>))) = Some (Inr n, po1)"
  proof (cases "?t = XQC_PTYPE_INIT")
    case True
    then show ?thesis using assms(1)
      by (cases "token = []") (simp_all add: xqc_gen_long_packet_header_def Let_def tl tz put_put_bind h_def pnb_def
          long_header_def long_prefix_def vint_enc_def split: if_splits)
  next
    case False
    then show ?thesis using assms(1)
      by (simp add: xqc_gen_long_packet_header_def Let_def put_put_bind h_def pnb_def long_header_def long_prefix_def split: if_splits)
  qed
  ultimately show ?thesis
    by (auto simp: put_chain add.commute [of "length pnb"] split: if_splits)
qed

lemma proto_version_field_value:
  assumes "xqc_check_proto_version_valid ver"
  obtains v0 v1 v2 v3 where "xqc_proto_version_field ver = [v0, v1, v2, v3]"
    and "xqc_parse_uint32 v0 v1 v2 v3 = xqc_proto_version_value ver" and "xqc_proto_version_value ver \<noteq> 0"
  using assms that by (cases ver) (auto simp: xqc_check_proto_version_valid_def xqc_parse_uint32_def)

lemma long_first_byte:
  assumes "t \<in> {XQC_PTYPE_INIT, XQC_PTYPE_0RTT, XQC_PTYPE_HSK}" "bits \<le> 3" "v \<noteq> 0"
  shows "(0xC0 OR push_bit 4 (of_nat (pkt_type_code t)) OR bits) AND 0x40 \<noteq> (0::u8)
    \<and> long_header_type (0xC0 OR push_bit 4 (of_nat (pkt_type_code t)) OR bits) v = t"
  using assms(1,3) pn_bits_cases [OF assms(2)]
  by (auto simp: long_header_type_def XQC_PACKET_LONG_HEADER_GET_TYPE_def)

lemma update_length_bytes:
  assumes t: "pkt_type (po_pkt po) \<in> {XQC_PTYPE_INIT, XQC_PTYPE_HSK, XQC_PTYPE_0RTT}"
    and "po_ppktno po = Some (length h + 2)" "po_buf po = h @ [x, y] @ pl @ rest"
    and "po_dst po = length h + 2 + length pl" "xqc_long_packet_update_length po = Some po'"
  shows "po' = po\<lparr>po_buf := h @ len_field (length pl) @ pl @ rest\<rparr>"
proof -
  have "po_dst po < 2 ^ 32" using unsigned_less [where 'a = nat, of "po_used_size po"] by (simp add: po_dst_def)
  then have pl: "length pl < 2 ^ 32" using assms(4) by simp
  have "(of_nat (po_dst po) - of_nat (length h + 2) :: u32) = of_nat (length pl)"
    by (simp add: assms(4))
  moreover have "(ucast (of_nat (length pl) :: u32) :: u64) = of_nat (length pl)"
    using pl by (simp add: unsigned_of_nat take_bit_eq_mod word_unat_eq_iff unat_of_nat)
  ultimately have "xqc_long_packet_update_length po = put_at (length h) (len_field (length pl)) po"
    using t assms(2) by (auto simp: xqc_long_packet_update_length_def len_field_def)
  then show ?thesis
    using assms(3,5) by (auto simp: put_at_def mem_write_def)
qed

lemma of_nat_less_u64: "a < 2 ^ 64 \<Longrightarrow> b < 2 ^ 64 \<Longrightarrow> (of_nat a :: u64) < of_nat b \<longleftrightarrow> a < b"
  by (simp add: word_less_nat_alt unat_of_nat)

lemma pi_read_rest:
  "n \<le> length (pi_rest pi p) \<Longrightarrow> p \<le> length (pi_buf pi) \<Longrightarrow> pi_read pi p n = Some (take n (pi_rest pi p))"
  by (auto simp: pi_read_def mem_read_def pi_rest_def)

lemma parse_initial_bytes:
  assumes "pi_rest pi (pi_pos pi) = vint_enc (of_nat (length token)) @ token @ len_field (length pl) @ pl"
    and last: "pi_last pi = length (pi_buf pi)" and "length pl < 2 ^ 14" "length token \<le> 256" "length (conn_token c) = 256"
    and "has_flag XQC_CONN_FLAG_INIT_RECVD c \<or> 1200 \<le> pi_last pi" "length (pi_buf pi) < 2 ^ 31"
  shows "\<exists>c'. xqc_packet_parse_initial c pi = Some (Inr (c', set_pkt (\<lambda>p. p\<lparr>pkt_type := XQC_PTYPE_INIT, pkt_pns := XQC_PNS_INIT,
      pkt_length := of_nat (length pl), pkt_num_offset := pi_last pi - length pl\<rparr>) pi))
    \<and> conn_type c' = conn_type c
    \<and> (conn_type c = XQC_CONN_TYPE_SERVER \<longrightarrow> take (unat (conn_token_len c')) (conn_token c') = token)"
proof -
  let ?pi = "set_pkt (\<lambda>p. p\<lparr>pkt_type := XQC_PTYPE_INIT, pkt_pns := XQC_PNS_INIT\<rparr>) pi"
  define ve where "ve = vint_enc (of_nat (length token))"
  let ?rest = "token @ len_field (length pl) @ pl"
  let ?p1 = "pi_pos pi + length ve"
  have pi: "pi_last ?pi = pi_last pi" "pi_pos ?pi = pi_pos pi" "pi_rest ?pi = pi_rest pi" "pi_read ?pi = pi_read pi"
    by (auto simp: set_pkt_def pi_rest_def pi_read_def fun_eq_iff)
  have r0: "drop (pi_pos pi) (pi_buf pi) = ve @ ?rest" using assms(1) last by (simp add: pi_rest_def ve_def)
  have len: "length (pi_buf pi) = pi_pos pi + length ve + length token + 2 + length pl"
    using arg_cong [OF r0, of length] unfolding length_drop by (cases "pi_pos pi \<le> length (pi_buf pi)") simp_all
  have r1: "pi_rest pi (?p1 + length token) = len_field (length pl) @ pl"
    using assms(1) by (simp add: pi_rest_simps ve_def)
  have rd: "pi_read pi ?p1 (length token) = Some token"
    using pi_read_rest [of "length token" pi ?p1] assms(1) len by (simp add: pi_rest_simps ve_def)
  have tl: "unat (of_nat (length token) :: u64) = length token" using assms(4) by (simp add: unat_of_nat)
  have vr: "xqc_vint_read (pi_rest pi (pi_pos pi)) = Some (length ve, of_nat (length token))"
    unfolding assms(1) ve_def by (rule vint_read_enc) (use assms(4) in \<open>simp add: word_less_nat_alt tl\<close>)
  have ve: "length ve \<le> 8" by (simp add: ve_def length_vint_enc_le)
  have cmp: "\<not> (of_nat (pi_last pi - pi_pos pi) < (of_nat (length ve) + of_nat (length token) :: u64))"
    unfolding of_nat_add [symmetric] by (subst of_nat_less_u64) (use len last assms(3,4,7) ve in simp_all)
  have cmp2: "\<not> (of_nat (length token) > (of_nat 256 :: u64))"
    using assms(4) by (simp add: word_less_nat_alt unat_of_nat)
  have fin: "parse_length c'' ?pi (?p1 + length token) = Some (Inr (c'', set_pkt (\<lambda>p. p\<lparr>pkt_length := of_nat (length pl),
      pkt_num_offset := ?p1 + length token + 2\<rparr>) ?pi))" for c''
    by (rule parse_length_bytes) (use r1 len last assms(3) in \<open>simp_all add: pi\<close>)
  have off: "?p1 + length token + 2 = pi_last pi - length pl" using len last by simp
  define c1 where "c1 = (if (conn_state c = XQC_CONN_STATE_SERVER_INIT \<or> conn_state c = XQC_CONN_STATE_CLIENT_INITIAL_SENT)
      \<and> \<not> has_flag XQC_CONN_FLAG_INIT_RECVD c then set_flag XQC_CONN_FLAG_INIT_RECVD c else c)"
  have c1: "conn_token c1 = conn_token c" "conn_type c1 = conn_type c" by (simp_all add: c1_def set_flag_def)
  have "\<not> (conn_state c = XQC_CONN_STATE_SERVER_INIT \<and> \<not> has_flag XQC_CONN_FLAG_INIT_RECVD c \<and> pi_last pi < 1200)"
    using assms(6) by auto
  then have eq: "xqc_packet_parse_initial c pi = Option.bind (if conn_type c1 = XQC_CONN_TYPE_SERVER then do {
        bs \<leftarrow> pi_read pi ?p1 (length token); t \<leftarrow> mem_write (conn_token c1) 0 bs;
        Some (c1\<lparr>conn_token := t, conn_token_len := ucast (of_nat (length token) :: u64)\<rparr>) } else Some c1)
      (\<lambda>c. parse_length c ?pi (?p1 + length token))"
    unfolding xqc_packet_parse_initial_def Let_def pi vr c1_def [symmetric] using cmp cmp2 by (simp add: tl) blast
  have u: "unat (ucast (of_nat (length token) :: u64) :: u32) = length token"
    using assms(4) by (simp add: unat_ucast_u32 unat_of_nat)
  let ?pi' = "set_pkt (\<lambda>p. p\<lparr>pkt_type := XQC_PTYPE_INIT, pkt_pns := XQC_PNS_INIT,
      pkt_length := of_nat (length pl), pkt_num_offset := pi_last pi - length pl\<rparr>) pi"
  have fin': "parse_length c'' ?pi (?p1 + length token) = Some (Inr (c'', ?pi'))" for c''
    unfolding fin off by (simp add: set_pkt_def)
  show ?thesis
  proof (cases "conn_type c = XQC_CONN_TYPE_SERVER")
    case True
    then show ?thesis using assms(4,5) by (simp add: eq c1 rd mem_write_def fin' u)
  next
    case False
    then show ?thesis by (simp add: eq c1 fin')
  qed
qed

lemma long_pi_simps:
  "pi_pos (long_pi d s pi) = 7 + length d + length s" "pi_last (long_pi d s pi) = pi_last pi"
  "pi_buf (long_pi d s pi) = pi_buf pi"
  by (simp_all add: long_pi_def set_pkt_def)

lemma parse_other_bytes:
  assumes "pi_rest pi (pi_pos pi) = len_field (length pl) @ pl" "pi_last pi = length (pi_buf pi)" "length pl < 2 ^ 14"
    and "t \<in> {XQC_PTYPE_0RTT, XQC_PTYPE_HSK}"
  shows "parse_long_body tls t c pi = Some (Inr (c, set_pkt (\<lambda>p. p\<lparr>pkt_type := t, pkt_pns := xqc_packet_type_to_pns t,
      pkt_length := of_nat (length pl), pkt_num_offset := pi_last pi - length pl\<rparr>) pi))"
proof -
  have "length (pi_rest pi (pi_pos pi)) = 2 + length pl" by (simp add: assms(1))
  then have len: "length (pi_buf pi) = pi_pos pi + 2 + length pl" by (simp add: pi_rest_def assms(2))
  have "parse_length c (set_pkt f pi) (pi_pos pi) = Some (Inr (c, set_pkt (\<lambda>p. p\<lparr>pkt_length := of_nat (length pl),
      pkt_num_offset := pi_pos pi + 2\<rparr>) (set_pkt f pi)))" for f
    by (rule parse_length_bytes) (use assms len in \<open>simp_all add: set_pkt_def pi_rest_def\<close>)
  then show ?thesis using assms(2,4) len
    by (auto simp: parse_long_body_def xqc_packet_parse_zero_rtt_def xqc_packet_parse_handshake_def xqc_packet_type_to_pns_def
        set_pkt_def)
qed

text \<open>What the parser makes of a long header packet with the given payload, the packet number included.\<close>

lemma parse_long_packet:
  assumes buf: "pi_buf pi = long_header po dcid scid token ver bits @ len_field (length pl) @ pl"
    and pi: "pi_pos pi = 0" "pi_last pi = length (pi_buf pi)" "length (pi_buf pi) < 2 ^ 31"
    and len: "length dcid \<le> 20" "length scid \<le> 20" "length token \<le> 256" "length pl < 2 ^ 14" "bits \<le> 3"
    and t: "pkt_type (po_pkt po) = t" "t \<in> {XQC_PTYPE_INIT, XQC_PTYPE_0RTT, XQC_PTYPE_HSK}" and ver: "xqc_check_proto_version_valid ver"
    and c: "has_flag XQC_CONN_FLAG_DCID_OK c \<longrightarrow> t \<in> {XQC_PTYPE_INIT, XQC_PTYPE_0RTT} \<or> cids_known c dcid scid"
      "xqc_conn_version_check tls c (xqc_proto_version_value ver) = (None, c0)" "length (conn_token c) = 256"
      "t = XQC_PTYPE_INIT \<longrightarrow> has_flag XQC_CONN_FLAG_INIT_RECVD c \<or> 1200 \<le> length (pi_buf pi)"
  shows "\<exists>c'. xqc_packet_parse_long_header tls c pi = Some (Inr (c', set_pkt (\<lambda>p. p\<lparr>pkt_type := t, pkt_pns := xqc_packet_type_to_pns t,
      pkt_length := of_nat (length pl), pkt_num_offset := pi_last pi - length pl\<rparr>) (long_pi dcid scid pi)))
    \<and> (t = XQC_PTYPE_INIT \<and> conn_type c = XQC_CONN_TYPE_SERVER \<longrightarrow> take (unat (conn_token_len c')) (conn_token c') = token)"
proof -
  obtain v0 v1 v2 v3 where v: "xqc_proto_version_field ver = [v0, v1, v2, v3]"
    "xqc_parse_uint32 v0 v1 v2 v3 = xqc_proto_version_value ver" "xqc_proto_version_value ver \<noteq> 0"
    by (rule proto_version_field_value [OF ver])
  define fb :: u8 where "fb = 0xC0 OR push_bit 4 (of_nat (pkt_type_code t)) OR bits"
  define body where "body = (if t = XQC_PTYPE_INIT then vint_enc (of_nat (length token)) @ token else []) @ len_field (length pl) @ pl"
  have fb: "fb AND 0x40 \<noteq> 0" "long_header_type fb (xqc_proto_version_value ver) = t"
    using long_first_byte [OF t(2) len(5) v(3)] by (simp_all add: fb_def)
  have b: "pi_buf pi = long_prefix fb [v0, v1, v2, v3] dcid scid @ body"
    by (simp add: buf long_header_def t(1) fb_def v(1) body_def)
  have p: "xqc_packet_parse_long_header tls c pi =
    Option.bind (parse_long_body tls t c0 (long_pi dcid scid pi)) (\<lambda>r. case r of Inl e \<Rightarrow> Some (Inl e)
     | Inr (c, pi) \<Rightarrow> Some (Inr (if conn_type c = XQC_CONN_TYPE_CLIENT then c\<lparr>discard_vn_flag := 1\<rparr> else c, pi)))"
    using parse_long_prefix [OF b pi(1,2) len(1,2) fb(1) v(2) [symmetric] v(3) _ c(2)] fb(2) c(1) by simp
  have rest: "pi_rest (long_pi dcid scid pi) (pi_pos (long_pi dcid scid pi)) = body"
    unfolding pi_rest_def long_pi_simps pi(2) b length_long_prefix [of "[v0, v1, v2, v3]" fb dcid scid, simplified, symmetric]
    by simp
  have c0: "conn_type c0 = conn_type c" "conn_token c0 = conn_token c" "conn_flag c0 = conn_flag c"
    using c(2) by (auto simp: xqc_conn_version_check_def Let_def split: if_splits option.splits)
  show ?thesis
  proof (cases "t = XQC_PTYPE_INIT")
    case True
    obtain c' where "xqc_packet_parse_initial c0 (long_pi dcid scid pi) = Some (Inr (c', set_pkt (\<lambda>p. p\<lparr>pkt_type := XQC_PTYPE_INIT,
        pkt_pns := XQC_PNS_INIT, pkt_length := of_nat (length pl), pkt_num_offset := pi_last (long_pi dcid scid pi) - length pl\<rparr>) (long_pi dcid scid pi)))
      \<and> conn_type c' = conn_type c0 \<and> (conn_type c0 = XQC_CONN_TYPE_SERVER \<longrightarrow> take (unat (conn_token_len c')) (conn_token c') = token)"
      using parse_initial_bytes [of "long_pi dcid scid pi" token pl c0] rest True pi len c(3,4) c0
      by (auto simp: body_def long_pi_simps has_flag_def)
    then show ?thesis using True c0 by (auto simp: p parse_long_body_def xqc_packet_type_to_pns_def long_pi_simps)
  next
    case False
    then have "parse_long_body tls t c0 (long_pi dcid scid pi) = Some (Inr (c0, set_pkt (\<lambda>p. p\<lparr>pkt_type := t,
        pkt_pns := xqc_packet_type_to_pns t, pkt_length := of_nat (length pl),
        pkt_num_offset := pi_last (long_pi dcid scid pi) - length pl\<rparr>) (long_pi dcid scid pi)))"
      using parse_other_bytes [of "long_pi dcid scid pi" pl t tls c0] rest t(2) pi len by (simp add: body_def long_pi_simps)
    then show ?thesis using False by (simp add: p long_pi_simps)
  qed
qed

lemma gen_short_result:
  assumes "xqc_gen_short_packet_header po dcid bits pn key_phase = Some (Inr n, po1)"
  defines "fb \<equiv> 0x60 OR (if key_phase then 0x04 else 0) OR bits"
    and "pnb \<equiv> xqc_write_packet_number pn bits"
  shows "1 + length dcid + length pnb \<le> length (po_buf po) \<and> n = 1 + length dcid + (unat bits + 1)
    \<and> po_ppktno po1 = Some (1 + length dcid) \<and> po_payload po1 = Some (1 + length dcid + length pnb)
    \<and> po_buf po1 = fb # dcid @ pnb @ drop (1 + length dcid + length pnb) (po_buf po)"
proof -
  have "(0x40 OR push_bit 5 0x01 OR push_bit 3 0x00 OR push_bit 2 (if key_phase then 0x01 else 0x00) OR bits :: u8) = fb"
    by (simp add: fb_def or.assoc [symmetric])
  then show ?thesis
    using assms(1) by (auto simp: xqc_gen_short_packet_header_def Let_def put_put_bind put_chain pnb_def xqc_packet_number_bits2len_def
        ac_simps split: if_splits)
qed

lemma check_dcid_known:
  assumes "cid_buf dcid \<in> (cid_buf \<circ> inner_cid) ` set (cid_list (scid_cids ss))"
  shows "\<exists>ss'. xqc_conn_check_dcid ss dcid = (None, ss')"
proof -
  obtain i where i: "xqc_cid_in_cid_set (scid_cids ss) dcid = Some i" "i < length (cid_list (scid_cids ss))"
    using assms cid_in_cid_set_iff [of "scid_cids ss" dcid] cid_find_Some
    by (metis not_None_eq xqc_cid_in_cid_set_def)
  then show ?thesis
    by (cases "inner_state (cid_list (scid_cids ss) ! i)")
      (auto simp: xqc_conn_check_dcid_def switch_cases less_xqc_cid_state_def)
qed

lemma short_first_byte:
  assumes "bits \<le> 3"
  shows "(0x60 OR (if kp then 0x04 else 0) OR bits) AND 0x40 \<noteq> (0::u8)
    \<and> XQC_PACKET_SHORT_HEADER_PKTNO_LEN (0x60 OR (if kp then 0x04 else 0) OR bits) = unat bits + 1
    \<and> XQC_PACKET_SHORT_HEADER_KEY_PHASE (0x60 OR (if kp then 0x04 else 0) OR bits) = (if kp then 1 else 0)
    \<and> XQC_PACKET_IS_SHORT_HEADER (0x60 OR (if kp then 0x04 else 0) OR bits)"
  using pn_bits_cases [OF assms]
  by (auto simp: XQC_PACKET_SHORT_HEADER_PKTNO_LEN_def XQC_PACKET_SHORT_HEADER_KEY_PHASE_def XQC_PACKET_IS_SHORT_HEADER_def)

lemma parse_short_bytes:
  assumes buf: "pi_buf pi = fb # dcid @ pl" and pi: "pi_pos pi = 0" "pi_last pi = length (pi_buf pi)"
    and "length dcid = length (cid_buf (user_scid (scid_set c)))" "fb AND 0x40 \<noteq> 0"
    and "dcid \<in> (cid_buf \<circ> inner_cid) ` set (cid_list (scid_cids (scid_set c)))"
  shows "\<exists>c'. xqc_packet_parse_short_header c pi = Some (Inr (c', set_pkt (\<lambda>p. p\<lparr>pkt_type := XQC_PTYPE_SHORT_HEADER,
      pkt_pns := XQC_PNS_APP_DATA, pkt_dcid := xqc_cid_set (pkt_dcid p) dcid, pkt_length := of_nat (length pl),
      pkt_num_offset := 1 + length dcid\<rparr>) pi))"
proof -
  let ?pi = "set_pkt (\<lambda>p. p\<lparr>pkt_type := XQC_PTYPE_SHORT_HEADER, pkt_pns := XQC_PNS_APP_DATA\<rparr>) pi"
  let ?dcid = "xqc_cid_set (pkt_dcid (pi_pkt pi)) dcid"
  have pi': "pi_read (set_pkt f pi) = pi_read pi" "pi_last (set_pkt f pi) = pi_last pi" for f
    by (simp_all add: set_pkt_def pi_read_def fun_eq_iff)
  have "cid_buf ?dcid = dcid" by (simp add: xqc_cid_set_def)
  then obtain ss where ss: "xqc_conn_check_dcid (scid_set c) ?dcid = (None, ss)"
    using check_dcid_known [of ?dcid "scid_set c"] assms(6) by auto
  have r: "pi_read pi 0 (Suc 0) = Some [fb]" "pi_read pi (Suc 0) (length dcid) = Some dcid"
    using pi_read_at [of pi "[]" "[fb]" "dcid @ pl"] pi_read_at [of pi "[fb]" dcid pl] buf by simp_all
  have "length (pi_buf pi) = 1 + length dcid + length pl" by (simp add: buf)
  then show ?thesis
    using assms(5) pi ss r
    by (simp add: xqc_packet_parse_short_header_def Let_def pi' assms(4) [symmetric]) (simp add: set_pkt_def)
qed

lemma parse_safe_error [simp]: "parse_safe pi (parse_error e c) \<longleftrightarrow> conn_wf c"
  by (simp add: parse_safe_def parse_error_def)

lemma parse_safe_ok [simp]: "parse_safe pi (Some (Inr (c, pi'))) \<longleftrightarrow> conn_wf c \<and> pkt_bounds pi pi'"
  by (simp add: parse_safe_def)

lemma conn_wf_updates [simp]:
  "conn_wf (set_flag f c) = conn_wf c" "conn_wf (c\<lparr>version := v\<rparr>) = conn_wf c" "conn_wf (c\<lparr>discard_vn_flag := x\<rparr>) = conn_wf c"
  "conn_wf (c\<lparr>scid_set := ss\<rparr>) = conn_wf c" "conn_wf (c\<lparr>dcid_set := ds\<rparr>) = conn_wf c" "conn_wf (XQC_CONN_ERR c err) = conn_wf c"
  by (simp_all add: conn_wf_def set_flag_def XQC_CONN_ERR_def xqc_conn_closing_def)

lemma set_pkt_simps [simp]:
  "pi_last (set_pkt f pi) = pi_last pi" "pi_pos (set_pkt f pi) = pi_pos pi" "pi_buf (set_pkt f pi) = pi_buf pi"
  "pi_pkt (set_pkt f pi) = f (pi_pkt pi)" "pi_rest (set_pkt f pi) = pi_rest pi" "pi_read (set_pkt f pi) = pi_read pi"
  "pkt_bounds (set_pkt f pi) = pkt_bounds pi"
  by (auto simp: set_pkt_def pi_rest_def pi_read_def fun_eq_iff pkt_bounds_def)

lemma parse_safe_set_pkt [simp]: "parse_safe (set_pkt f pi) = parse_safe pi"
  by (intro ext) (simp add: parse_safe_def split: option.split sum.split)

lemma parse_length_safe:
  assumes "conn_wf c" "pi_pos pi \<le> pos" "pos \<le> pi_last pi" "pi_last pi \<le> length (pi_buf pi)"
  shows "parse_safe pi (parse_length c pi pos)"
proof (cases "xqc_vint_read (pi_rest pi pos)")
  case None
  then show ?thesis using assms(1) by (simp add: parse_length_def)
next
  case (Some a)
  obtain sz len where a: "a = (sz, len)" by (cases a)
  have "0 < sz" using vint_read_bounds [OF Some [unfolded a]] by simp
  then show ?thesis using assms Some
    by (auto simp: parse_length_def a pkt_bounds_def Let_def)
qed

lemma pi_read_in: "p + n \<le> length (pi_buf pi) \<Longrightarrow> pi_read pi p n = Some (take n (drop p (pi_buf pi)))"
  by (simp add: pi_read_def mem_read_def)

lemma u64_sum_le:
  assumes "\<not> (of_nat a < (of_nat b + w :: u64))" "unat w \<le> 2 ^ 32" "b \<le> 2 ^ 32" "a < 2 ^ 63"
  shows "b + unat w \<le> a"
proof -
  have "unat (of_nat b + w :: u64) = b + unat w" using assms(2,3) by (simp add: unat_word_ariths unat_of_nat)
  then show ?thesis using assms(1,4) by (simp add: word_less_nat_alt unat_of_nat)
qed

lemma store_token:
  "conn_wf c \<Longrightarrow> length bs \<le> 256 \<Longrightarrow> \<exists>t. mem_write (conn_token c) 0 bs = Some t \<and> conn_wf (c\<lparr>conn_token := t, conn_token_len := n\<rparr>)"
  by (auto simp: conn_wf_def mem_write_def)

lemma parse_initial_safe:
  assumes "conn_wf c" "pi_pos pi \<le> pi_last pi" "pi_last pi \<le> length (pi_buf pi)" "length (pi_buf pi) < 2 ^ 31"
  shows "parse_safe pi (xqc_packet_parse_initial c pi)"
proof -
  define pi1 where "pi1 = set_pkt (\<lambda>p. p\<lparr>pkt_type := XQC_PTYPE_INIT, pkt_pns := XQC_PNS_INIT\<rparr>) pi"
  define c1 where "c1 = (if (conn_state c = XQC_CONN_STATE_SERVER_INIT \<or> conn_state c = XQC_CONN_STATE_CLIENT_INITIAL_SENT)
      \<and> \<not> has_flag XQC_CONN_FLAG_INIT_RECVD c then set_flag XQC_CONN_FLAG_INIT_RECVD c else c)"
  have c1: "conn_wf c1" using assms(1) by (simp add: c1_def)
  have tail: "parse_safe pi (if of_nat (pi_last pi - pi_pos pi) < (of_nat sz + tl :: u64) then parse_error XQC_EILLPKT c1
      else if tl > of_nat XQC_MAX_TOKEN_LEN then parse_error XQC_EILLPKT c1
      else Option.bind (if conn_type c1 = XQC_CONN_TYPE_SERVER then do {
           bs \<leftarrow> pi_read pi (pi_pos pi + sz) (unat tl); t \<leftarrow> mem_write (conn_token c1) 0 bs;
           Some (c1\<lparr>conn_token := t, conn_token_len := ucast tl\<rparr>) } else Some c1)
         (\<lambda>c. parse_length c pi1 (pi_pos pi + sz + unat tl)))"
    if "xqc_vint_read (pi_rest pi (pi_pos pi)) = Some (sz, tl)" for sz tl
  proof (cases "of_nat (pi_last pi - pi_pos pi) < (of_nat sz + tl :: u64) \<or> tl > of_nat XQC_MAX_TOKEN_LEN")
    case True
    then show ?thesis using c1 by auto
  next
    case False
    then have tl: "unat tl \<le> 256" by (simp add: word_less_nat_alt)
    have sum: "sz + unat tl \<le> pi_last pi - pi_pos pi"
      by (rule u64_sum_le) (use False tl assms(3,4) vint_read_bounds [OF that] in auto)
    have pl: "parse_safe pi (parse_length c2 pi1 (pi_pos pi + sz + unat tl))" if "conn_wf c2" for c2
      using parse_length_safe [OF that, of pi1 "pi_pos pi + sz + unat tl"] sum assms(2,3) by (simp add: pi1_def)
    have rd: "pi_read pi (pi_pos pi + sz) (unat tl) = Some (take (unat tl) (drop (pi_pos pi + sz) (pi_buf pi)))"
      by (rule pi_read_in) (use sum assms(2,3) in auto)
    have "length (take (unat tl) (drop (pi_pos pi + sz) (pi_buf pi))) \<le> 256" using tl by (simp add: min.coboundedI2)
    from store_token [OF c1 this, of "ucast tl"] obtain t where
      "mem_write (conn_token c1) 0 (take (unat tl) (drop (pi_pos pi + sz) (pi_buf pi))) = Some t"
      "conn_wf (c1\<lparr>conn_token := t, conn_token_len := ucast tl\<rparr>)" by auto
    then show ?thesis using False c1 pl rd by auto
  qed
  show ?thesis
    unfolding xqc_packet_parse_initial_def Let_def pi1_def [symmetric] c1_def [symmetric]
    using tail c1 assms(1) by (auto simp: pi1_def split: option.splits)
qed

lemma on_recv_retry_wf:
  "conn_wf c \<Longrightarrow> xqc_conn_on_recv_retry tls c scid = (r, c') \<Longrightarrow> conn_wf c'"
  by (auto simp: xqc_conn_on_recv_retry_def Let_def split: if_splits)

lemma parse_retry_safe:
  assumes "conn_wf c" "pi_pos pi \<le> pi_last pi" "pi_last pi = length (pi_buf pi)" "pi_pos pi \<le> 47"
  shows "parse_safe pi (xqc_packet_parse_retry tls c pi)"
proof -
  define pi1 where "pi1 = set_pkt (\<lambda>p. p\<lparr>pkt_type := XQC_PTYPE_RETRY\<rparr>) pi"
  define n where "n = pi_last pi - pi_pos pi - 16"
  have b: "pkt_bounds pi (pi1\<lparr>pi_pos := pi_last pi\<rparr>)" "pkt_bounds pi (pi1\<lparr>pi_last := pi_last pi\<rparr>)"
    using assms(2,3) by (simp_all add: pkt_bounds_def pi1_def set_pkt_def xqc_has_packet_number_def)
  have pi1s: "pi_last pi1 = pi_last pi" "pi_pos pi1 = pi_pos pi" "pi_read pi1 = pi_read pi" "pi_buf pi1 = pi_buf pi"
    by (simp_all add: pi1_def)
  show ?thesis
  proof (cases "pi_last pi - pi_pos pi < 17 \<or> n > 256")
    case True
    then show ?thesis using assms(1) b(1)
      by (auto simp: xqc_packet_parse_retry_def Let_def n_def [symmetric] pi1_def [symmetric]) (auto simp: pi1_def n_def)
  next
    case False
    then have len: "length (pi_buf pi) = pi_pos pi + n + 16" "n \<le> 256" using assms(2,3) by (auto simp: n_def)
    obtain t where t: "mem_write (conn_token c) 0 (take n (drop (pi_pos pi) (pi_buf pi))) = Some t"
      "conn_wf (c\<lparr>conn_token := t, conn_token_len := of_nat n\<rparr>)"
      using store_token [OF assms(1), of "take n (drop (pi_pos pi) (pi_buf pi))" "of_nat n"] len by auto
    define c1 where "c1 = c\<lparr>conn_token := t, conn_token_len := of_nat n\<rparr>"
    have "1 + length (cid_buf (original_dcid c1)) + (length (pi_buf pi) - 16) \<le> 324"
      using t(2) len assms(4) by (simp add: conn_wf_def c1_def)
    then obtain r tag where tag: "xqc_conn_cal_retry_integrity_tag tls c1 pi1 = Some (r, tag)"
      by (cases "tls_cal_retry_integrity_tag tls (take (1 + length (cid_buf (original_dcid c1)) + (length (pi_buf pi) - 16))
          (of_nat (length (cid_buf (original_dcid c1))) # cid_buf (original_dcid c1) @ take (length (pi_buf pi) - 16) (pi_buf pi)))")
        (auto simp: xqc_conn_cal_retry_integrity_tag_def Let_def mem_write_def pi_read_def mem_read_def pi1_def)
    have rd: "pi_read pi (pi_pos pi) n = Some (take n (drop (pi_pos pi) (pi_buf pi)))"
      "pi_read pi (pi_pos pi + n) 16 = Some (take 16 (drop (pi_pos pi + n) (pi_buf pi)))"
      using len by (simp_all add: pi_read_in)
    have wf: "conn_wf c1" using t(2) by (simp add: c1_def)
    have fin: "parse_safe pi (case xqc_conn_on_recv_retry tls c1 x of (None, c) \<Rightarrow> Some (Inr (c, pi1\<lparr>pi_last := pi_pos pi + n + 16\<rparr>))
        | (Some e, c) \<Rightarrow> parse_error e c)" for x
      using b len assms(3) on_recv_retry_wf [OF wf] by (auto split: option.split prod.split)
    note d = xqc_packet_parse_retry_def [of tls c pi, unfolded Let_def, folded pi1_def, unfolded pi1s, folded n_def]
    show ?thesis unfolding d using False assms(1) b wf fin by (simp add: rd t(1) tag c1_def [symmetric])
  qed
qed

lemma parse_version_negotiation_safe:
  assumes "conn_wf c" "pi_pos pi \<le> pi_last pi" "pi_last pi \<le> length (pi_buf pi)"
  shows "parse_safe pi (xqc_packet_parse_version_negotiation c pi)"
proof -
  define pi1 where "pi1 = set_pkt (\<lambda>p. p\<lparr>pkt_type := XQC_PTYPE_VERSION_NEGOTIATION\<rparr>) pi"
  have pi1s: "pi_last pi1 = pi_last pi" "pi_pos pi1 = pi_pos pi" "pi_read pi1 = pi_read pi" by (simp_all add: pi1_def)
  have b: "pkt_bounds pi (pi1\<lparr>pi_pos := pi_last pi\<rparr>)"
    using assms(2,3) by (simp add: pkt_bounds_def pi1_def set_pkt_def xqc_has_packet_number_def)
  have rd: "pi_read pi (pi_pos pi) (pi_last pi - pi_pos pi) = Some (take (pi_last pi - pi_pos pi) (drop (pi_pos pi) (pi_buf pi)))"
    by (rule pi_read_in) (use assms(2,3) in simp)
  show ?thesis
    unfolding xqc_packet_parse_version_negotiation_def Let_def pi1_def [symmetric] pi1s rd
    using assms(1) b by (auto split: option.split)
qed

lemma parse_long_body_safe:
  assumes "conn_wf c" "pi_pos pi \<le> pi_last pi" "pi_last pi = length (pi_buf pi)" "length (pi_buf pi) < 2 ^ 31" "pi_pos pi \<le> 47"
  shows "parse_safe pi (parse_long_body tls t c pi)"
proof -
  have "parse_safe pi (parse_length c (set_pkt f pi) (pi_pos pi))" for f
    using parse_length_safe [OF assms(1), of "set_pkt f pi" "pi_pos pi"] assms(2,3) by simp
  then show ?thesis
    using parse_initial_safe [OF assms(1,2) _ assms(4)] parse_retry_safe [OF assms(1-3,5)] parse_version_negotiation_safe [OF assms(1,2)] assms
    by (cases t) (auto simp: parse_long_body_def xqc_packet_parse_zero_rtt_def xqc_packet_parse_handshake_def)
qed

lemma version_check_wf: "xqc_conn_version_check tls c v = (r, c') \<Longrightarrow> conn_wf c \<Longrightarrow> conn_wf c'"
  by (auto simp: xqc_conn_version_check_def Let_def split: if_splits option.splits)

lemma parse_safe_cong: "pi_buf pi = pi_buf pi' \<Longrightarrow> parse_safe pi = parse_safe pi'"
  by (intro ext) (simp add: parse_safe_def pkt_bounds_def split: option.split sum.split)

lemma parse_long_rest_safe:
  assumes "conn_wf c" "pi_pos pi \<le> pi_last pi" "pi_last pi = length (pi_buf pi)" "length (pi_buf pi) < 2 ^ 31" "pi_pos pi \<le> 47"
  shows "parse_safe pi (parse_long_rest tls t v c pi)"
proof (cases "xqc_conn_version_check tls c v")
  case (Pair r c1)
  then have "conn_wf c1" using version_check_wf assms(1) by blast
  then show ?thesis
    using parse_long_body_safe [OF _ assms(2-5), of c1 tls t] assms(1) unfolding parse_long_rest_def Pair
    by (auto simp: parse_safe_def parse_error_def split: option.splits sum.splits)
qed

lemma parse_long_header_safe:
  assumes "conn_wf c" "pi_pos pi = 0" "pi_last pi = length (pi_buf pi)" "length (pi_buf pi) < 2 ^ 31"
  shows "parse_safe pi (xqc_packet_parse_long_header tls c pi)"
proof (cases "pi_last pi < 7")
  case True
  then show ?thesis using assms(1,2) by (simp add: xqc_packet_parse_long_header_def)
next
  case False
  define h where "h = take 6 (pi_buf pi)"
  define d where "d = unat (h ! 5)"
  define l where "l = take 1 (drop (6 + d) (pi_buf pi))"
  define s where "s = unat (hd l)"
  have h: "pi_read pi 0 6 = Some h" using False assms(3) by (simp add: pi_read_in h_def)
  have rest: "parse_safe pi (parse_long_rest tls t v c (set_pkt f (pi\<lparr>pi_pos := p\<rparr>)))" if "p \<le> pi_last pi" "p \<le> 47" for t v f p
    using parse_long_rest_safe [OF assms(1), of "set_pkt f (pi\<lparr>pi_pos := p\<rparr>)" tls t v] that assms(3,4)
      parse_safe_cong [of "set_pkt f (pi\<lparr>pi_pos := p\<rparr>)" pi] by simp
  note defs = xqc_packet_parse_long_header_def Let_def
  show ?thesis
  proof (cases "pi_last pi - 6 < d + 1 \<or> d > 20")
    case True
    then show ?thesis using False assms(1-3) by (auto simp: defs h d_def)
  next
    case d: False
    have l1: "7 + d \<le> length (pi_buf pi)" "d \<le> 20" using False d assms(3) by linarith+
    have r1: "pi_read pi 6 d = Some (take d (drop 6 (pi_buf pi)))" "pi_read pi (6 + d) (Suc 0) = Some l"
      using l1 by (simp_all add: pi_read_in l_def)
    show ?thesis
    proof (cases "pi_last pi - (7 + d) < s \<or> s > 20")
      case True
      then show ?thesis using False d assms(1-3) r1 unfolding defs by (auto simp: h d_def [symmetric] s_def)
    next
      case s: False
      have l2: "7 + d + s \<le> length (pi_buf pi)" "s \<le> 20" using l1 s assms(3) by linarith+
      have r2: "pi_read pi (7 + d) s = Some (take s (drop (7 + d) (pi_buf pi)))"
        using l2 by (simp add: pi_read_in)
      show ?thesis
        using False d s assms(1-3) rest l2 unfolding defs
        by (auto simp: h r1 r2 d_def [symmetric] s_def [symmetric])
    qed
  qed
qed

lemma parse_short_safe:
  assumes "conn_wf c" "pi_pos pi = 0" "pi_last pi = length (pi_buf pi)" "length (pi_buf pi) < 2 ^ 31"
  shows "parse_safe pi (xqc_packet_parse_short_header c pi)"
proof (cases "length (pi_buf pi) < 1 + length (cid_buf (user_scid (scid_set c)))")
  case True
  then show ?thesis using assms by (simp add: xqc_packet_parse_short_header_def)
next
  case False
  define n where "n = length (cid_buf (user_scid (scid_set c)))"
  have l: "1 + n \<le> length (pi_buf pi)" using False by (simp add: n_def)
  have rd: "pi_read pi 0 (Suc 0) = Some (take 1 (pi_buf pi))" "pi_read pi (Suc 0) n = Some (take n (drop 1 (pi_buf pi)))"
    using l by (simp_all add: pi_read_in)
  have u: "unat (of_nat (length (pi_buf pi) - (1 + n)) :: u64) = length (pi_buf pi) - (1 + n)"
    using assms(4) by (simp add: unat_of_nat del: of_nat_diff)
  show ?thesis
    using assms l rd u unfolding xqc_packet_parse_short_header_def Let_def n_def [symmetric]
    by (auto simp: pkt_bounds_def xqc_has_packet_number_def simp del: of_nat_diff split: prod.split)
qed

lemma buff_undecrypt_wf: "conn_wf c \<Longrightarrow> conn_wf (snd (xqc_conn_buff_undecrypt_packet_in a pi c l))"
  by (simp add: xqc_conn_buff_undecrypt_packet_in_def conn_wf_def Let_def)

lemma parse_single_safe:
  assumes "conn_wf c" "pi_pos pi = 0" "pi_last pi = length (pi_buf pi)" "length (pi_buf pi) < 2 ^ 31"
  shows "parse_safe pi (xqc_packet_parse_single tls alloc_ok c pi)"
proof (cases "pi_buf pi")
  case Nil
  then show ?thesis using assms by (simp add: xqc_packet_parse_single_def)
next
  case (Cons fb bs)
  then have rd: "pi_read pi 0 1 = Some [fb]" by (simp add: pi_read_def mem_read_def)
  have long: "parse_safe pi (xqc_packet_parse_long_header tls c' pi)" if "conn_wf c'" for c'
    by (rule parse_long_header_safe [OF that assms(2-4)])
  have short: "parse_safe pi (Option.bind (xqc_packet_parse_short_header c pi) (\<lambda>r. case r of
      Inl e \<Rightarrow> Some (Inl e)
    | Inr (c, pi) \<Rightarrow> if \<not> xqc_conn_check_handshake_completed c
        then parse_error XQC_EWAITING (snd (xqc_conn_buff_undecrypt_packet_in alloc_ok pi c XQC_ENC_LEV_1RTT))
        else Some (Inr (c, pi))))"
    using parse_short_safe [OF assms] buff_undecrypt_wf
    by (auto simp: parse_safe_def parse_error_def split: option.splits sum.splits)
  have "pi_last pi - pi_pos pi \<noteq> 0" using Cons assms by simp
  then show ?thesis
    unfolding xqc_packet_parse_single_def Let_def assms(2) rd
    using short long buff_undecrypt_wf assms(1) by (simp add: assms(2))
qed

lemma long_not_short:
  assumes "XQC_PACKET_IS_LONG_HEADER fb"
  shows "\<not> XQC_PACKET_IS_SHORT_HEADER fb"
proof
  assume "XQC_PACKET_IS_SHORT_HEADER fb"
  then have "(fb AND 0xC0) AND 0x80 = 0x40 AND 0x80" by (simp add: XQC_PACKET_IS_SHORT_HEADER_def)
  moreover have "(fb AND 0xC0) AND 0x80 = fb AND (0xC0 AND 0x80)" by (rule and.assoc)
  ultimately show False using assms by (simp add: XQC_PACKET_IS_LONG_HEADER_def)
qed

lemma conn_create_ok:
  "\<exists>c. xqc_conn_create True vs d s pv t = Some c \<and> conn_wf c \<and> conn_flag c = 0 \<and> conn_type c = t
     \<and> original_dcid c = zero_cid \<and> cid_buf (user_scid (scid_set c)) = cid_buf s \<and> cids_known c (cid_buf s) (cid_buf d)
     \<and> discard_vn_flag c = 0 \<and> support_version_list c = vs
     \<and> conn_state c = (if t = XQC_CONN_TYPE_SERVER then XQC_CONN_STATE_SERVER_INIT else XQC_CONN_STATE_CLIENT_INIT)
     \<and> version c = (if t = XQC_CONN_TYPE_SERVER then XQC_IDRAFT_INIT_VER
         else if xqc_check_proto_version_valid pv then pv else XQC_VERSION_V1)"
  by (cases t) (simp_all add: xqc_conn_create_def Let_def xqc_cid_set_insert_cid_def xqc_init_dcid_set_def xqc_init_scid_set_def
    xqc_init_cid_set_def zero_cid_set_def xqc_cid_copy_def cnt_inc_def conn_wf_def zero_cid_def cids_known_def)

text \<open>C20. Packet numbers survive truncation: the bytes written for a packet number, parsed and expanded against the largest
  packet number received, give the packet number back whenever it is within half a window of the one expected.\<close>

theorem packet_number_roundtrip:
  assumes "bits \<le> 3" "largest < 2 ^ 62" "pn < 2 ^ 62"
    and "unat largest + 1 < unat pn + 2 ^ (8 * (unat bits + 1) - 1)" "unat pn \<le> unat largest + 1 + 2 ^ (8 * (unat bits + 1) - 1)"
  shows "xqc_packet_decode_packet_number largest (xqc_packet_parse_packet_number (xqc_write_packet_number pn bits))
    (8 * (unat bits + 1)) = pn"
proof -
  have "unat bits \<le> 3" using assms(1) by (simp add: word_le_nat_alt)
  then have "8 * (unat bits + 1) \<le> 32" by simp
  then show ?thesis
    unfolding parse_write_packet_number [OF assms(1)] by (intro decode_packet_number_correct assms) simp_all
qed

theorem packet_number_roundtrip_witness:
  "xqc_packet_decode_packet_number 0xa82f30ea (xqc_packet_parse_packet_number (xqc_write_packet_number 0xa82f9b32 1)) 16
     = (0xa82f9b32 :: u64)"
  using packet_number_roundtrip [of 1 "0xa82f30ea" "0xa82f9b32"] by simp

text \<open>C19. Whatever a datagram of less than 2 GB holds, parsing a packet from it never reads or writes outside the datagram, the
  token array or the connection ids; a packet that is accepted lies inside the datagram, and its packet number
  and payload end where the packet ends.\<close>

theorem packet_parse_safe:
  assumes "conn_wf c" "length bs < 2 ^ 31"
  shows "parse_safe (xqc_packet_in_init bs t zero_packet_in)
    (xqc_packet_parse_single tls alloc_ok c (xqc_packet_in_init bs t zero_packet_in))"
  using assms by (intro parse_single_safe) (simp_all add: xqc_packet_in_init_def)

theorem packet_parse_safe_witness:
  "\<exists>c. xqc_conn_create True [] zero_cid zero_cid XQC_VERSION_V1 XQC_CONN_TYPE_SERVER = Some c
     \<and> (\<forall>tls. parse_safe (xqc_packet_in_init [0xC0, 0, 0, 0, 1, 21] 0 zero_packet_in)
         (xqc_packet_parse_single tls True c (xqc_packet_in_init [0xC0, 0, 0, 0, 1, 21] 0 zero_packet_in)))"
proof -
  obtain c where c: "xqc_conn_create True [] zero_cid zero_cid XQC_VERSION_V1 XQC_CONN_TYPE_SERVER = Some c" "conn_wf c"
    using conn_create_ok [of "[]" zero_cid zero_cid XQC_VERSION_V1 XQC_CONN_TYPE_SERVER] by blast
  then show ?thesis using packet_parse_safe [OF c(2), of "[0xC0, 0, 0, 0, 1, 21]"] by simp
qed

text \<open>C27. Stateless resets: the packet generated for a connection id of up to 22 bytes is recognised as a reset of that connection.\<close>

theorem reset_packet_recognised:
  assumes "xqc_gen_reset_packet hmac cid = Ok bs"
  shows "length bs = 39 \<and> xqc_is_reset_packet hmac cid bs = Some True"
proof -
  have tok: "length (xqc_gen_reset_token hmac cid 16) = 16" by (simp add: xqc_gen_reset_token_def Let_def)
  then show ?thesis
    using assms by (auto simp: xqc_gen_reset_packet_def xqc_is_reset_packet_def Let_def XQC_PACKET_IS_LONG_HEADER_def split: if_splits)
qed

theorem reset_packet_recognised_witness:
  "\<exists>bs. xqc_gen_reset_packet rev \<lparr>cid_buf = [1, 2, 3], cid_seq_num = 0\<rparr> = Ok bs
     \<and> length bs = 39 \<and> xqc_is_reset_packet rev \<lparr>cid_buf = [1, 2, 3], cid_seq_num = 0\<rparr> bs = Some True"
proof -
  obtain bs where bs: "xqc_gen_reset_packet rev \<lparr>cid_buf = [1, 2, 3], cid_seq_num = 0\<rparr> = Ok bs"
    by (simp add: xqc_gen_reset_packet_def)
  then show ?thesis using reset_packet_recognised [OF bs] by simp
qed

text \<open>The bytes of a long-header packet once its payload is written and its length is filled in.\<close>

lemma long_datagram:
  assumes gen: "xqc_gen_long_packet_header po dcid scid token ver bits = Some (Inr n, po1)"
    and wr: "mem_write (po_buf po1) n payload = Some buf"
    and upd: "xqc_long_packet_update_length (po1\<lparr>po_buf := buf, po_used_size := of_nat (n + length payload)\<rparr>) = Some po2"
    and t: "pkt_type (po_pkt po) \<in> {XQC_PTYPE_INIT, XQC_PTYPE_0RTT, XQC_PTYPE_HSK}"
    and len: "length dcid \<le> 20" "length scid \<le> 20" "length token \<le> 256" "bits \<le> 3" "unat bits + 1 + length payload < 2 ^ 14"
  defines "h \<equiv> long_header po dcid scid token ver bits"
    and "pl \<equiv> xqc_write_packet_number (pkt_num (po_pkt po)) bits @ payload"
  shows "take (po_dst po2) (po_buf po2) = h @ len_field (length pl) @ pl \<and> po_dst po2 = length h + 2 + length pl
    \<and> length h \<le> 600 \<and> xqc_check_proto_version_valid ver"
proof -
  define pnb where "pnb = xqc_write_packet_number (pkt_num (po_pkt po)) bits"
  have g: "n = length h + 2 + length pnb" "n \<le> length (po_buf po)" "xqc_check_proto_version_valid ver"
    "po1 = po\<lparr>po_ppktno := Some (length h + 2), po_payload := Some n,
        po_buf := h @ take 2 (drop (length h) (po_buf po)) @ pnb @ drop n (po_buf po)\<rparr>"
    using gen_long_result [OF gen] len(3) by (simp_all add: h_def pnb_def)
  have two: "\<exists>x y. take 2 (drop (length h) (po_buf po)) = [x, y]"
    using g(1,2) by (cases "drop (length h) (po_buf po)"; cases "tl (drop (length h) (po_buf po))") (auto dest: arg_cong [where f = length])
  then obtain x y where xy: "take 2 (drop (length h) (po_buf po)) = [x, y]" by blast
  have buf: "\<exists>rest. buf = h @ [x, y] @ pl @ rest"
    using wr by (auto simp: g xy mem_write_def pl_def pnb_def split: if_splits)
  then obtain rest where buf: "buf = h @ [x, y] @ pl @ rest" by blast
  have "length (xqc_proto_version_field ver) = 4" using g(3) by (cases ver) (simp_all add: xqc_check_proto_version_valid_def)
  then have hb: "length h \<le> 600" using len length_vint_enc_le [of "of_nat (length token)"]
    by (simp add: h_def long_header_def length_long_prefix)
  have lpl: "length pl = unat bits + 1 + length payload"
    by (simp add: pl_def length_write_packet_number [OF len(4)])
  have nl: "n + length payload = length h + 2 + length pl" by (simp add: g(1) pl_def pnb_def)
  have d: "unat (of_nat (n + length payload) :: u32) = length h + 2 + length pl"
  proof -
    have "length h + 2 + length pl < 2 ^ 32" using hb lpl len(5) by simp
    then show ?thesis unfolding nl unat_of_nat by simp
  qed
  from update_length_bytes [OF _ _ _ _ upd, of h x y pl rest]
  have "po2 = po1\<lparr>po_used_size := of_nat (n + length payload), po_buf := h @ len_field (length pl) @ pl @ rest\<rparr>"
    using t d by (auto simp: g(4) buf po_dst_def)
  then show ?thesis using d hb g(3) by (simp add: po_dst_def)
qed

text \<open>C21. Long headers round trip: the header generated for an Initial, 0-RTT or Handshake packet, followed by a payload and
  with its length field filled in, is parsed by the peer into the same type, connection ids and token; the
  bytes at the packet number offset are the packet number and the payload.\<close>

theorem long_header_roundtrip:
  fixes recv_time :: usec
  assumes gen: "xqc_gen_long_packet_header po dcid scid token ver bits = Some (Inr n, po1)"
    and wr: "mem_write (po_buf po1) n payload = Some buf"
    and upd: "xqc_long_packet_update_length (po1\<lparr>po_buf := buf, po_used_size := of_nat (n + length payload)\<rparr>) = Some po2"
    and t: "pkt_type (po_pkt po) \<in> {XQC_PTYPE_INIT, XQC_PTYPE_0RTT, XQC_PTYPE_HSK}"
    and len: "length dcid \<le> 20" "length scid \<le> 20" "length token \<le> 256" "bits \<le> 3" "unat bits + 1 + length payload < 2 ^ 14"
    and c: "has_flag XQC_CONN_FLAG_DCID_OK c \<longrightarrow> pkt_type (po_pkt po) \<in> {XQC_PTYPE_INIT, XQC_PTYPE_0RTT} \<or> cids_known c dcid scid"
      "xqc_conn_version_check tls c (xqc_proto_version_value ver) = (None, c0)" "conn_wf c"
      "pkt_type (po_pkt po) = XQC_PTYPE_INIT \<longrightarrow> has_flag XQC_CONN_FLAG_INIT_RECVD c \<or> 1200 \<le> po_dst po2"
  defines "pi \<equiv> xqc_packet_in_init (take (po_dst po2) (po_buf po2)) recv_time zero_packet_in"
  shows "\<exists>c' pi'. xqc_packet_parse_long_header tls c pi = Some (Inr (c', pi'))
    \<and> pkt_type (pi_pkt pi') = pkt_type (po_pkt po) \<and> pkt_pns (pi_pkt pi') = xqc_packet_type_to_pns (pkt_type (po_pkt po))
    \<and> cid_buf (pkt_dcid (pi_pkt pi')) = dcid \<and> cid_buf (pkt_scid (pi_pkt pi')) = scid
    \<and> drop (pkt_num_offset (pi_pkt pi')) (pi_buf pi') = xqc_write_packet_number (pkt_num (po_pkt po)) bits @ payload
    \<and> unat (pkt_length (pi_pkt pi')) = unat bits + 1 + length payload
    \<and> (pkt_type (po_pkt po) = XQC_PTYPE_INIT \<and> conn_type c = XQC_CONN_TYPE_SERVER
         \<longrightarrow> take (unat (conn_token_len c')) (conn_token c') = token)"
proof -
  define h where "h = long_header po dcid scid token ver bits"
  define pl where "pl = xqc_write_packet_number (pkt_num (po_pkt po)) bits @ payload"
  have po2: "take (po_dst po2) (po_buf po2) = h @ len_field (length pl) @ pl" "po_dst po2 = length h + 2 + length pl"
    "length h \<le> 600" "xqc_check_proto_version_valid ver"
    using long_datagram [OF gen wr upd t len] unfolding h_def [symmetric] pl_def [symmetric] by blast+
  have lpl: "length pl = unat bits + 1 + length payload"
    by (simp add: pl_def length_write_packet_number [OF len(4)])
  have pi: "pi_buf pi = h @ len_field (length pl) @ pl" "pi_pos pi = 0" "pi_last pi = length (pi_buf pi)"
    "length (pi_buf pi) < 2 ^ 31"
    unfolding pi_def xqc_packet_in_init_def po2(1) using po2(3) lpl len(5) by simp_all
  define pi' where "pi' = set_pkt (\<lambda>p. p\<lparr>pkt_type := pkt_type (po_pkt po), pkt_pns := xqc_packet_type_to_pns (pkt_type (po_pkt po)),
      pkt_length := of_nat (length pl), pkt_num_offset := pi_last pi - length pl\<rparr>) (long_pi dcid scid pi)"
  obtain c' where c': "xqc_packet_parse_long_header tls c pi = Some (Inr (c', pi'))"
    "pkt_type (po_pkt po) = XQC_PTYPE_INIT \<and> conn_type c = XQC_CONN_TYPE_SERVER \<longrightarrow> take (unat (conn_token_len c')) (conn_token c') = token"
    using parse_long_packet [OF pi(1) [unfolded h_def] pi(2-4) len(1-3) _ len(4) refl t po2(4) c(1,2)] c(3,4) lpl len(5)
    by (auto simp: pi(1) po2(2) conn_wf_def pi'_def)
  have "length pl < 2 ^ 64" using lpl len(5) by simp
  then have ul: "unat (of_nat (length pl) :: u64) = unat bits + 1 + length payload" unfolding unat_of_nat by (simp add: lpl)
  have pl: "xqc_write_packet_number (pkt_num (po_pkt po)) bits @ payload = pl" by (simp add: pl_def)
  show ?thesis
    using c' by (intro exI [of _ c'] exI [of _ pi']) (simp add: pi'_def pi long_pi_def ul pl)
qed

theorem long_header_roundtrip_witness:
  "\<exists>c c' pi'. xqc_conn_create True [] \<lparr>cid_buf = [7, 8, 9], cid_seq_num = 0\<rparr> \<lparr>cid_buf = [1, 2], cid_seq_num = 0\<rparr>
       XQC_VERSION_V1 XQC_CONN_TYPE_CLIENT = Some c
     \<and> xqc_packet_parse_long_header \<lparr>tls_init = \<lambda>_ _. None, tls_reset_initial = \<lambda>_ _. None,
          tls_cal_retry_integrity_tag = \<lambda>_. (None, []), tls_rx_key_ready = \<lambda>_. True, tls_tx_key_ready = \<lambda>_. True,
          resend_packets = None\<rparr> c
         (xqc_packet_in_init [0xE1, 0, 0, 0, 1, 2, 1, 2, 3, 7, 8, 9, 0x40, 4, 0, 5, 0xaa, 0xbb] 0 zero_packet_in) = Some (Inr (c', pi'))
     \<and> cid_buf (pkt_scid (pi_pkt pi')) = [7, 8, 9] \<and> pkt_type (pi_pkt pi') = XQC_PTYPE_HSK"
proof -
  let ?po0 = "the (xqc_packet_out_create (Some (replicate 40 0)) 40)"
  let ?po = "?po0\<lparr>po_pkt := zero_packet\<lparr>pkt_type := XQC_PTYPE_HSK, pkt_num := 5\<rparr>\<rparr>"
  let ?h = "[0xE1, 0, 0, 0, 1, 2, 1, 2, 3, 7, 8, 9] :: u8 list"
  let ?po1 = "?po\<lparr>po_ppktno := Some 14, po_payload := Some 16, po_buf := ?h @ [0, 0, 0, 5] @ replicate 24 0\<rparr>"
  let ?buf = "?h @ [0, 0, 0, 5, 0xaa, 0xbb] @ replicate 22 0"
  let ?po2 = "?po1\<lparr>po_buf := ?h @ [0x40, 4, 0, 5, 0xaa, 0xbb] @ replicate 22 0, po_used_size := 18\<rparr>"
  let ?tls = "\<lparr>tls_init = \<lambda>_ _. None, tls_reset_initial = \<lambda>_ _. None,
          tls_cal_retry_integrity_tag = \<lambda>_. (None, []), tls_rx_key_ready = \<lambda>_. True, tls_tx_key_ready = \<lambda>_. True,
          resend_packets = None\<rparr> :: tls_env"
  have gen: "xqc_gen_long_packet_header ?po [1, 2] [7, 8, 9] [] XQC_VERSION_V1 1 = Some (Inr 16, ?po1)"
    by code_simp
  have wr: "mem_write (po_buf ?po1) 16 [0xaa, 0xbb] = Some ?buf" by code_simp
  have upd: "xqc_long_packet_update_length (?po1\<lparr>po_buf := ?buf, po_used_size := of_nat (16 + length [0xaa, 0xbb :: u8])\<rparr>) = Some ?po2"
    by code_simp
  have dg: "take (po_dst ?po2) (po_buf ?po2) = [0xE1, 0, 0, 0, 1, 2, 1, 2, 3, 7, 8, 9, 0x40, 4, 0, 5, 0xaa, 0xbb]"
    by code_simp
  obtain c where c: "xqc_conn_create True [] \<lparr>cid_buf = [7, 8, 9], cid_seq_num = 0\<rparr> \<lparr>cid_buf = [1, 2], cid_seq_num = 0\<rparr>
       XQC_VERSION_V1 XQC_CONN_TYPE_CLIENT = Some c" "conn_wf c" "conn_flag c = 0" "conn_type c = XQC_CONN_TYPE_CLIENT"
    "cids_known c [1, 2] [7, 8, 9]"
    using conn_create_ok [of "[]" "\<lparr>cid_buf = [7, 8, 9], cid_seq_num = 0\<rparr>" "\<lparr>cid_buf = [1, 2], cid_seq_num = 0\<rparr>" XQC_VERSION_V1
      XQC_CONN_TYPE_CLIENT] by auto
  have "\<exists>c' pi'. xqc_packet_parse_long_header ?tls c (xqc_packet_in_init (take (po_dst ?po2) (po_buf ?po2)) 0 zero_packet_in) = Some (Inr (c', pi'))
    \<and> pkt_type (pi_pkt pi') = pkt_type (po_pkt ?po) \<and> cid_buf (pkt_scid (pi_pkt pi')) = [7, 8, 9]"
    using long_header_roundtrip [OF gen wr upd _ _ _ _ _ _ _ _ c(2), of ?tls c 0] c(4,5)
    by (auto simp: xqc_conn_version_check_def)
  then show ?thesis unfolding dg using c(1) by auto
qed

text \<open>C22. Short headers round trip: a generated short header followed by a payload is parsed, by the connection that owns the
  destination connection id, as a 1-RTT packet for that id; the first byte tells the length of the packet number
  and the key phase, and the bytes at the packet number offset are the packet number and the payload.\<close>

theorem short_header_roundtrip:
  fixes recv_time :: usec
  assumes gen: "xqc_gen_short_packet_header po dcid bits pn key_phase = Some (Inr n, po1)" and bits: "bits \<le> 3"
    and wr: "mem_write (po_buf po1) n payload = Some buf"
    and cid: "length dcid = length (cid_buf (user_scid (scid_set c)))"
      "dcid \<in> (cid_buf \<circ> inner_cid) ` set (cid_list (scid_cids (scid_set c)))"
  defines "pi \<equiv> xqc_packet_in_init (take (n + length payload) buf) recv_time zero_packet_in"
  shows "\<exists>c' pi'. xqc_packet_parse_short_header c pi = Some (Inr (c', pi'))
    \<and> pkt_type (pi_pkt pi') = XQC_PTYPE_SHORT_HEADER \<and> cid_buf (pkt_dcid (pi_pkt pi')) = dcid
    \<and> drop (pkt_num_offset (pi_pkt pi')) (pi_buf pi') = xqc_write_packet_number pn bits @ payload
    \<and> XQC_PACKET_SHORT_HEADER_PKTNO_LEN (hd (pi_buf pi')) = unat bits + 1
    \<and> XQC_PACKET_SHORT_HEADER_KEY_PHASE (hd (pi_buf pi')) = (if key_phase then 1 else 0)"
proof -
  define fb :: u8 where "fb = 0x60 OR (if key_phase then 0x04 else 0) OR bits"
  define pl where "pl = xqc_write_packet_number pn bits @ payload"
  note lp = length_write_packet_number [OF bits, of pn]
  have g: "n = 1 + length dcid + (unat bits + 1)"
    "po_buf po1 = fb # dcid @ xqc_write_packet_number pn bits @ drop n (po_buf po)"
    using gen_short_result [OF gen] by (simp_all add: fb_def lp)
  have "take (n + length payload) buf = fb # dcid @ pl"
    using wr by (auto simp: mem_write_def g pl_def lp split: if_splits)
  then have pi: "pi_buf pi = fb # dcid @ pl" "pi_pos pi = 0" "pi_last pi = length (pi_buf pi)"
    by (simp_all add: pi_def xqc_packet_in_init_def)
  note fb = short_first_byte [OF bits, of key_phase, folded fb_def]
  obtain c' where c': "xqc_packet_parse_short_header c pi = Some (Inr (c', set_pkt (\<lambda>p. p\<lparr>pkt_type := XQC_PTYPE_SHORT_HEADER,
      pkt_pns := XQC_PNS_APP_DATA, pkt_dcid := xqc_cid_set (pkt_dcid p) dcid, pkt_length := of_nat (length pl),
      pkt_num_offset := 1 + length dcid\<rparr>) pi))"
    using parse_short_bytes [OF pi cid(1) _ cid(2)] fb by blast
  show ?thesis
    by (rule exI [of _ c'], rule exI, rule conjI, rule c') (use fb in \<open>simp add: pi pl_def xqc_cid_set_def\<close>)
qed

theorem short_header_roundtrip_witness:
  "\<exists>c c' pi'. xqc_conn_create True [] \<lparr>cid_buf = [7, 8, 9], cid_seq_num = 0\<rparr> \<lparr>cid_buf = [1, 2], cid_seq_num = 0\<rparr>
       XQC_VERSION_V1 XQC_CONN_TYPE_CLIENT = Some c
     \<and> xqc_packet_parse_short_header c (xqc_packet_in_init [0x65, 1, 2, 0, 5, 0xaa, 0xbb] 0 zero_packet_in) = Some (Inr (c', pi'))
     \<and> cid_buf (pkt_dcid (pi_pkt pi')) = [1, 2]"
proof -
  let ?po = "the (xqc_packet_out_create (Some (replicate 10 0)) 10)"
  let ?po1 = "?po\<lparr>po_pkt := zero_packet\<lparr>pkt_type := XQC_PTYPE_SHORT_HEADER\<rparr>, po_ppktno := Some 3, po_payload := Some 5, po_buf := [0x65, 1, 2, 0, 5] @ replicate 5 0\<rparr>"
  have gen: "xqc_gen_short_packet_header ?po [1, 2] 1 5 True = Some (Inr 5, ?po1)" by code_simp
  have wr: "mem_write (po_buf ?po1) 5 [0xaa, 0xbb] = Some ([0x65, 1, 2, 0, 5, 0xaa, 0xbb] @ replicate 3 0)" by code_simp
  obtain c where c: "xqc_conn_create True [] \<lparr>cid_buf = [7, 8, 9], cid_seq_num = 0\<rparr> \<lparr>cid_buf = [1, 2], cid_seq_num = 0\<rparr>
       XQC_VERSION_V1 XQC_CONN_TYPE_CLIENT = Some c" "cid_buf (user_scid (scid_set c)) = [1, 2]" "cids_known c [1, 2] [7, 8, 9]"
    using conn_create_ok [of "[]" "\<lparr>cid_buf = [7, 8, 9], cid_seq_num = 0\<rparr>" "\<lparr>cid_buf = [1, 2], cid_seq_num = 0\<rparr>" XQC_VERSION_V1
      XQC_CONN_TYPE_CLIENT] by auto
  show ?thesis
    using short_header_roundtrip [OF gen _ wr, of c 0] c by (auto simp: cids_known_def)
qed

lemma returns_simps [simp]:
  "returns P (parse_error e c)" "returns P (Some (Inl x))" "returns P (Some (Inr y)) \<longleftrightarrow> P (snd y)"
  "returns P (Option.bind m f) \<longleftrightarrow> (\<forall>z. m = Some z \<longrightarrow> returns P (f z))"
  by (auto simp: returns_def parse_error_def bind_eq_Some_conv) (cases y; simp)

lemma parse_length_cids: "has_cids d s pi \<Longrightarrow> returns (has_cids d s) (parse_length c pi pos)"
  by (simp add: parse_length_def has_cids_def Let_def split: option.split prod.split)

lemma parse_initial_cids: "has_cids d s pi \<Longrightarrow> returns (has_cids d s) (xqc_packet_parse_initial c pi)"
  by (simp add: xqc_packet_parse_initial_def Let_def parse_length_cids has_cids_def split: option.split prod.split)

lemma parse_retry_cids: "has_cids d s pi \<Longrightarrow> returns (has_cids d s) (xqc_packet_parse_retry tls c pi)"
  by (simp add: xqc_packet_parse_retry_def Let_def has_cids_def split: option.split prod.split)

lemma parse_version_negotiation_cids: "has_cids d s pi \<Longrightarrow> returns (has_cids d s) (xqc_packet_parse_version_negotiation c pi)"
  by (simp add: xqc_packet_parse_version_negotiation_def Let_def has_cids_def)

lemma parse_long_body_cids: "has_cids d s pi \<Longrightarrow> returns (has_cids d s) (parse_long_body tls t c pi)"
  by (cases t) (simp_all add: parse_long_body_def parse_initial_cids parse_retry_cids parse_version_negotiation_cids
    xqc_packet_parse_zero_rtt_def xqc_packet_parse_handshake_def Let_def parse_length_cids has_cids_def)

lemma parse_long_rest_cids: "has_cids d s pi \<Longrightarrow> returns (has_cids d s) (parse_long_rest tls t v c pi)"
  using parse_long_body_cids [of d s pi tls t]
  by (auto simp: parse_long_rest_def Let_def returns_def [of _ "parse_long_body _ _ _ _"] split: sum.split prod.split)

lemma parse_long_header_cids:
  assumes parse: "xqc_packet_parse_long_header tls c pi = Some (Inr (c', pi'))"
    and pi: "pi_pos pi = 0" "pi_buf pi = bs" "pi_last pi = length bs"
  defines "dl \<equiv> unat (bs ! 5)" defines "sl \<equiv> unat (bs ! (6 + dl))"
  shows "dl \<le> 20 \<and> sl \<le> 20 \<and> 7 + dl + sl \<le> length bs
    \<and> pkt_dcid (pi_pkt pi') = (pkt_dcid (pi_pkt pi))\<lparr>cid_buf := take dl (drop 6 bs)\<rparr>
    \<and> pkt_scid (pi_pkt pi') = (pkt_scid (pi_pkt pi))\<lparr>cid_buf := take sl (drop (7 + dl) bs)\<rparr>"
proof -
  note pi [simp]
  have l7: "7 \<le> length bs"
    using parse unfolding xqc_packet_parse_long_header_def
    by (rule contrapos_pp) (simp add: parse_error_def)
  have rd: "pi_read pi 0 6 = Some (take 6 bs)" using l7 by (simp add: pi_read_in)
  have h: "take 6 bs ! 0 = bs ! 0" "take 6 bs ! 5 = bs ! 5" by simp_all
  have dl: "dl \<le> 20 \<and> 7 + dl \<le> length bs"
  proof (rule ccontr)
    assume "\<not> ?thesis"
    then have "length bs - 6 < dl + 1 \<or> dl > 20" using l7 by auto
    then show False using parse l7 rd h
      by (simp add: xqc_packet_parse_long_header_def Let_def parse_error_def dl_def [symmetric] split: if_splits)
  qed
  have rd2: "pi_read pi 6 dl = Some (take dl (drop 6 bs))" "pi_read pi (6 + dl) (Suc 0) = Some [bs ! (6 + dl)]"
    using dl by (simp_all add: pi_read_in) (simp add: take_Suc hd_drop_conv_nth)
  have sl: "sl \<le> 20 \<and> 7 + dl + sl \<le> length bs"
  proof (rule ccontr)
    assume "\<not> ?thesis"
    then have "length bs - (7 + dl) < sl \<or> sl > 20" using l7 dl by auto
    then show False using parse l7 dl rd rd2 h
      by (simp add: xqc_packet_parse_long_header_def Let_def parse_error_def dl_def [symmetric] sl_def [symmetric] split: if_splits)
  qed
  have "pi_read pi (7 + dl) sl = Some (take sl (drop (7 + dl) bs))" using sl by (simp add: pi_read_in)
  then have rest: "parse_long_rest tls (long_header_type (bs ! 0) (xqc_parse_uint32 (bs ! 1) (bs ! 2) (bs ! 3) (bs ! 4)))
      (xqc_parse_uint32 (bs ! 1) (bs ! 2) (bs ! 3) (bs ! 4)) c
      (set_pkt (\<lambda>p. p\<lparr>pkt_dcid := (pkt_dcid p)\<lparr>cid_buf := take dl (drop 6 bs)\<rparr>,
         pkt_scid := (pkt_scid p)\<lparr>cid_buf := take sl (drop (7 + dl) bs)\<rparr>\<rparr>) (pi\<lparr>pi_pos := 7 + dl + sl\<rparr>)) = Some (Inr (c', pi'))"
    using parse l7 dl sl rd rd2 h
    by (auto simp: xqc_packet_parse_long_header_def Let_def parse_error_def dl_def [symmetric] sl_def [symmetric] split: if_splits)
  have "has_cids ((pkt_dcid (pi_pkt pi))\<lparr>cid_buf := take dl (drop 6 bs)\<rparr>)
      ((pkt_scid (pi_pkt pi))\<lparr>cid_buf := take sl (drop (7 + dl) bs)\<rparr>) pi'"
    using parse_long_rest_cids [THEN iffD1 [OF returns_def], rule_format, OF _ rest] by (simp add: has_cids_def)
  then show ?thesis using dl sl by (simp add: has_cids_def)
qed

text \<open>C26. The router and the parser agree: the connection ids that \<^verbatim>\<open>xqc_packet_parse_cid\<close> takes from a long-header
  datagram, by which the engine finds the connection, are those the parser of the connection stores for the packet.\<close>

theorem parse_cid_agrees:
  fixes recv_time :: usec
  assumes parse: "xqc_packet_parse_long_header tls c (xqc_packet_in_init bs recv_time zero_packet_in) = Some (Inr (c', pi'))"
    and long: "XQC_PACKET_IS_LONG_HEADER (hd bs)"
  shows "xqc_packet_parse_cid zero_cid zero_cid n bs = Some (Inr (pkt_dcid (pi_pkt pi'), pkt_scid (pi_pkt pi')))"
proof -
  define dl where "dl = unat (bs ! 5)"
  define sl where "sl = unat (bs ! (6 + dl))"
  have p: "dl \<le> 20" "sl \<le> 20" "7 + dl + sl \<le> length bs" "pkt_dcid (pi_pkt pi') = zero_cid\<lparr>cid_buf := take dl (drop 6 bs)\<rparr>"
    "pkt_scid (pi_pkt pi') = zero_cid\<lparr>cid_buf := take sl (drop (7 + dl) bs)\<rparr>"
    using parse_long_header_cids [OF parse, of bs]
    by (simp_all add: dl_def sl_def xqc_packet_in_init_def zero_packet_in_def zero_packet_def)
  have "bs \<noteq> []" using p(3) by auto
  then have fb: "bs ! 0 AND 0x80 \<noteq> 0" "\<not> XQC_PACKET_IS_SHORT_HEADER (bs ! 0)"
    using long long_not_short [of "bs ! 0"] by (auto simp: hd_conv_nth XQC_PACKET_IS_LONG_HEADER_def)
  have rd: "mem_read bs 6 dl = Some (take dl (drop 6 bs))" "mem_read bs (7 + dl) sl = Some (take sl (drop (7 + dl) bs))"
    using p(3) by (simp_all add: mem_read_def)
  have "\<not> length bs - (7 + dl) < sl" "\<not> length bs - 6 < Suc dl" using p(3) by linarith+
  then show ?thesis
    using p fb rd by (simp add: xqc_packet_parse_cid_def Let_def dl_def [symmetric] sl_def [symmetric] \<open>bs \<noteq> []\<close>)
qed

theorem parse_cid_agrees_witness:
  "\<exists>c c' pi'. xqc_packet_parse_long_header \<lparr>tls_init = \<lambda>_ _. None, tls_reset_initial = \<lambda>_ _. None,
          tls_cal_retry_integrity_tag = \<lambda>_. (None, []), tls_rx_key_ready = \<lambda>_. True, tls_tx_key_ready = \<lambda>_. True,
          resend_packets = None\<rparr> c
         (xqc_packet_in_init [0xE1, 0, 0, 0, 1, 2, 1, 2, 3, 7, 8, 9, 0x40, 4, 0, 5, 0xaa, 0xbb] 0 zero_packet_in) = Some (Inr (c', pi'))
     \<and> xqc_packet_parse_cid zero_cid zero_cid 8 [0xE1, 0, 0, 0, 1, 2, 1, 2, 3, 7, 8, 9, 0x40, 4, 0, 5, 0xaa, 0xbb]
         = Some (Inr (pkt_dcid (pi_pkt pi'), pkt_scid (pi_pkt pi')))"
proof -
  let ?tls = "\<lparr>tls_init = \<lambda>_ _. None, tls_reset_initial = \<lambda>_ _. None,
          tls_cal_retry_integrity_tag = \<lambda>_. (None, []), tls_rx_key_ready = \<lambda>_. True, tls_tx_key_ready = \<lambda>_. True,
          resend_packets = None\<rparr> :: tls_env"
  let ?bs = "[0xE1, 0, 0, 0, 1, 2, 1, 2, 3, 7, 8, 9, 0x40, 4, 0, 5, 0xaa, 0xbb] :: u8 list"
  let ?c = "the (xqc_conn_create True [] zero_cid zero_cid XQC_VERSION_V1 XQC_CONN_TYPE_CLIENT)"
  have "case xqc_packet_parse_long_header ?tls ?c (xqc_packet_in_init ?bs 0 zero_packet_in) of Some (Inr _) \<Rightarrow> True | _ \<Rightarrow> False"
    by code_simp
  then obtain c' pi' where p: "xqc_packet_parse_long_header ?tls ?c (xqc_packet_in_init ?bs 0 zero_packet_in) = Some (Inr (c', pi'))"
    by (auto split: option.splits sum.splits)
  show ?thesis using parse_cid_agrees [OF p, of 8] p by (auto simp: XQC_PACKET_IS_LONG_HEADER_def)
qed

text \<open>C29. A client does not recognise its own version in a Version Negotiation packet, unless that version is 1: the list of version
  numbers is searched for the index of the version. A draft-29 client that is offered version 1 and draft 29,
  its own version, switches to version 1, although \<^verbatim>\<open>nothing to be changed\<close> is the rule for such packets.\<close>

theorem vn_own_version_not_recognised:
  assumes "conn_type c = XQC_CONN_TYPE_CLIENT" "conn_state c = XQC_CONN_STATE_CLIENT_INITIAL_SENT" "discard_vn_flag c = 0"
    and "version c = XQC_IDRAFT_VER_29" "xqc_uint32_list_find (support_version_list c) (xqc_proto_version_value XQC_VERSION_V1) \<noteq> - 1"
    and "xqc_cid_is_equal (original_dcid c) (pkt_scid (pi_pkt pi))" "pi_last pi = length (pi_buf pi)"
    and "drop (pi_pos pi) (pi_buf pi) = xqc_proto_version_field XQC_VERSION_V1 @ xqc_proto_version_field XQC_IDRAFT_VER_29"
  shows "\<exists>pi'. xqc_packet_parse_version_negotiation c pi = Some (Inr (c\<lparr>version := XQC_VERSION_V1, discard_vn_flag := 1\<rparr>, pi'))"
proof -
  have l: "length (pi_buf pi) - pi_pos pi = 8" using arg_cong [OF assms(8), of length] by simp
  then have rd: "pi_read pi (pi_pos pi) 8 = Some [0, 0, 0, 1, 0xFF, 0, 0, 0x1D]" using assms(8) by (simp add: pi_read_in)
  have vn: "vn_collect [0, 0, 0, 1, 0xFF, 0, 0, 0x1D] [] = [1, 0xFF00001D]" by code_simp
  have "xqc_uint32_list_find [1, 0xFF00001D] (2 :: u32) = - 1" "version_of_value 1 = Some XQC_VERSION_V1" by code_simp+
  then show ?thesis
    using assms l rd vn by (simp add: xqc_packet_parse_version_negotiation_def Let_def)
qed

theorem vn_own_version_not_recognised_witness:
  "\<exists>c pi'. version c = XQC_IDRAFT_VER_29 \<and> xqc_packet_parse_version_negotiation c
       (xqc_packet_in_init [0, 0, 0, 1, 0xFF, 0, 0, 0x1D] 0 zero_packet_in)
     = Some (Inr (c\<lparr>version := XQC_VERSION_V1, discard_vn_flag := 1\<rparr>, pi'))"
proof -
  obtain c :: xqc_connection where c: "conn_type c = XQC_CONN_TYPE_CLIENT" "support_version_list c = [1, 0xFF00001D]" "version c = XQC_IDRAFT_VER_29"
      "discard_vn_flag c = 0" "original_dcid c = zero_cid"
    using conn_create_ok [of "[1, 0xFF00001D]" zero_cid zero_cid XQC_IDRAFT_VER_29 XQC_CONN_TYPE_CLIENT]
    by (simp add: xqc_check_proto_version_valid_def) blast
  let ?c = "c\<lparr>conn_state := XQC_CONN_STATE_CLIENT_INITIAL_SENT\<rparr>"
  have "xqc_uint32_list_find [1, 0xFF00001D] (1 :: u32) \<noteq> - 1" by code_simp
  then have "\<exists>pi'. xqc_packet_parse_version_negotiation ?c (xqc_packet_in_init [0, 0, 0, 1, 0xFF, 0, 0, 0x1D] 0 zero_packet_in)
     = Some (Inr (?c\<lparr>version := XQC_VERSION_V1, discard_vn_flag := 1\<rparr>, pi'))"
    using vn_own_version_not_recognised [of ?c "xqc_packet_in_init [0, 0, 0, 1, 0xFF, 0, 0, 0x1D] 0 zero_packet_in"] c
    by (simp add: xqc_packet_in_init_def zero_packet_in_def zero_packet_def xqc_cid_is_equal_def)
  then show ?thesis using c by (intro exI [of _ ?c]) simp
qed

end
