(* ===== verification/XQC_Frame_Control.thy ===== *)
theory XQC_Frame_Control
  imports XQC_Packet
begin

text \<open>
  Generators and parsers of the frames without stream data or acknowledgements
  (\<^verbatim>\<open>transport/xqc_frame_parser.c\<close>): PADDING, PING, RESET_STREAM, STOP_SENDING, NEW_TOKEN, the flow
  control frames, the connection id frames, the path validation frames, CONNECTION_CLOSE and
  HANDSHAKE_DONE.

  A generator returns the number of bytes appended (\<open>Inr\<close>) or an error code (\<open>Inl\<close>) with the packet
  as it leaves it, and \<open>None\<close> when it writes outside the packet's memory. A parser returns the fields
  of the frame with the packet moved behind it, an error code, or a fault.

  \<open>quic_frame\<close> and \<open>wire\<close> are the wire format of the frames as RFC 9000 lays it out, the common
  specification of both sides.
\<close>

section \<open>PADDING, PING and HANDSHAKE_DONE\<close>

definition xqc_gen_padding_frame :: "packet_out \<Rightarrow> packet_out option" where
  "xqc_gen_padding_frame po =
     (if po_dst po < XQC_PACKET_INITIAL_MIN_LENGTH then
        map_option (\<lambda>po. po\<lparr>po_padding := Some (po_dst po), po_used_size := of_nat XQC_PACKET_INITIAL_MIN_LENGTH,
            po_frame_types := po_frame_types po OR XQC_FRAME_BIT XQC_FRAME_PADDING\<rparr>)
          (put_at (po_dst po) (replicate (XQC_PACKET_INITIAL_MIN_LENGTH - po_dst po) 0) po)
      else Some po)"

text \<open>The loop skips zero bytes up to \<^verbatim>\<open>last\<close>; the bytes it tests lie before \<^verbatim>\<open>last\<close>.\<close>

definition xqc_parse_padding_frame :: "packet_in \<Rightarrow> packet_in" where
  "xqc_parse_padding_frame pi =
     pi_advance XQC_FRAME_PADDING
       (Suc (pi_pos pi) + length (takeWhile (\<lambda>b. b = 0) (pi_rest pi (Suc (pi_pos pi))))) pi"

definition xqc_gen_ping_frame :: "packet_out \<Rightarrow> gen_result" where
  "xqc_gen_ping_frame po =
     (if 1 > po_room po then gen_error XQC_ENOBUF po
      else do {
        c \<leftarrow> put [0x01] (po_dst po, po);
        gen_done XQC_FRAME_PING (po_dst po) c
      })"

definition xqc_parse_ping_frame :: "packet_in \<Rightarrow> packet_in" where
  "xqc_parse_ping_frame pi = pi_advance XQC_FRAME_PING (Suc (pi_pos pi)) pi"

definition xqc_gen_handshake_done_frame :: "packet_out \<Rightarrow> gen_result" where
  "xqc_gen_handshake_done_frame po =
     (if 1 > po_room po then gen_error XQC_ENOBUF po
      else do {
        c \<leftarrow> put [0x1e] (po_dst po, po);
        gen_done XQC_FRAME_HANDSHAKE_DONE (po_dst po) c
      })"

definition xqc_parse_handshake_done_frame :: "packet_in \<Rightarrow> packet_in" where
  "xqc_parse_handshake_done_frame pi = pi_advance XQC_FRAME_HANDSHAKE_DONE (Suc (pi_pos pi)) pi"

section \<open>CONNECTION_CLOSE\<close>

text \<open>The reason phrase is not supported: its length is written as zero and the phrase omitted.
  \<open>frame_type\<close> is an \<^verbatim>\<open>int\<close>; the frame types are not negative.\<close>

definition xqc_gen_conn_close_frame :: "u64 \<Rightarrow> bool \<Rightarrow> u64 \<Rightarrow> packet_out \<Rightarrow> gen_result" where
  "xqc_gen_conn_close_frame err_code is_app frame_type po =
     (let need = 1 + xqc_vint_len_by_val err_code + xqc_vint_len_by_val frame_type + xqc_vint_len_by_val 0 + 0 in
      if need > po_room po then gen_error XQC_ENOBUF po
      else do {
        c \<leftarrow> put (if is_app then [0x1d] else [0x1c]) (po_dst po, po);
        c \<leftarrow> put (vint_enc err_code) c;
        c \<leftarrow> (if is_app then Some c else put (vint_enc frame_type) c);
        c \<leftarrow> put (vint_enc 0) c;
        gen_done XQC_FRAME_CONNECTION_CLOSE (po_dst po) c
      })"

definition xqc_parse_conn_close_frame :: "packet_in \<Rightarrow> (u64 \<times> packet_in) res" where
  "xqc_parse_conn_close_frame pi =
     bind_res (pi_byte pi (pi_pos pi)) (\<lambda>first_byte.
     bind_res (pi_vint pi (Suc (pi_pos pi))) (\<lambda>(p, err_code).
     bind_res (if first_byte = 0x1c then pi_vint pi p else Ok (p, 0)) (\<lambda>(p, frame_type).
     bind_res (pi_vint pi p) (\<lambda>(p, reason_len).
       Ok (err_code, pi_advance XQC_FRAME_CONNECTION_CLOSE (p + unat reason_len) pi)))))"

section \<open>Stream control frames\<close>

definition xqc_gen_reset_stream_frame :: "u64 \<Rightarrow> u64 \<Rightarrow> u64 \<Rightarrow> packet_out \<Rightarrow> gen_result" where
  "xqc_gen_reset_stream_frame stream_id err_code final_size po =
     (let need = 1 + xqc_vint_len_by_val stream_id + xqc_vint_len_by_val err_code + xqc_vint_len_by_val final_size in
      if need > po_room po then gen_error XQC_ENOBUF po
      else do {
        c \<leftarrow> put [0x04] (po_dst po, po);
        c \<leftarrow> put (vint_enc stream_id) c;
        c \<leftarrow> put (vint_enc err_code) c;
        c \<leftarrow> put (vint_enc final_size) c;
        gen_done XQC_FRAME_RESET_STREAM (po_dst po) c
      })"

definition xqc_parse_reset_stream_frame :: "packet_in \<Rightarrow> ((u64 \<times> u64 \<times> u64) \<times> packet_in) res" where
  "xqc_parse_reset_stream_frame pi =
     bind_res (pi_byte pi (pi_pos pi)) (\<lambda>first_byte.
     bind_res (pi_vint pi (Suc (pi_pos pi))) (\<lambda>(p, stream_id).
     bind_res (pi_vint pi p) (\<lambda>(p, err_code).
     bind_res (pi_vint pi p) (\<lambda>(p, final_size).
       Ok ((stream_id, err_code, final_size), pi_advance XQC_FRAME_RESET_STREAM p pi)))))"

definition xqc_gen_stop_sending_frame :: "u64 \<Rightarrow> u64 \<Rightarrow> packet_out \<Rightarrow> gen_result" where
  "xqc_gen_stop_sending_frame stream_id err_code po =
     (let need = 1 + xqc_vint_len_by_val stream_id + xqc_vint_len_by_val err_code in
      if need > po_room po then gen_error XQC_ENOBUF po
      else do {
        c \<leftarrow> put [0x05] (po_dst po, po);
        c \<leftarrow> put (vint_enc stream_id) c;
        c \<leftarrow> put (vint_enc err_code) c;
        gen_done XQC_FRAME_STOP_SENDING (po_dst po) c
      })"

definition xqc_parse_stop_sending_frame :: "packet_in \<Rightarrow> ((u64 \<times> u64) \<times> packet_in) res" where
  "xqc_parse_stop_sending_frame pi =
     bind_res (pi_byte pi (pi_pos pi)) (\<lambda>first_byte.
     bind_res (pi_vint pi (Suc (pi_pos pi))) (\<lambda>(p, stream_id).
     bind_res (pi_vint pi p) (\<lambda>(p, err_code).
       Ok ((stream_id, err_code), pi_advance XQC_FRAME_STOP_SENDING p pi))))"

section \<open>Flow control frames\<close>

text \<open>These generators do not compare the frame with the room left in the packet.\<close>

definition xqc_gen_data_blocked_frame :: "u64 \<Rightarrow> packet_out \<Rightarrow> gen_result" where
  "xqc_gen_data_blocked_frame data_limit po = do {
     c \<leftarrow> put [0x14] (po_dst po, po);
     c \<leftarrow> put (vint_enc data_limit) c;
     gen_done XQC_FRAME_DATA_BLOCKED (po_dst po) c
   }"

definition xqc_parse_data_blocked_frame :: "packet_in \<Rightarrow> (u64 \<times> packet_in) res" where
  "xqc_parse_data_blocked_frame pi =
     bind_res (pi_byte pi (pi_pos pi)) (\<lambda>first_byte.
     bind_res (pi_vint pi (Suc (pi_pos pi))) (\<lambda>(p, data_limit).
       Ok (data_limit, pi_advance XQC_FRAME_DATA_BLOCKED p pi)))"

definition xqc_gen_stream_data_blocked_frame :: "u64 \<Rightarrow> u64 \<Rightarrow> packet_out \<Rightarrow> gen_result" where
  "xqc_gen_stream_data_blocked_frame stream_id stream_data_limit po = do {
     c \<leftarrow> put [0x15] (po_dst po, po);
     c \<leftarrow> put (vint_enc stream_id) c;
     c \<leftarrow> put (vint_enc stream_data_limit) c;
     gen_done XQC_FRAME_STREAM_DATA_BLOCKED (po_dst po) c
   }"

definition xqc_parse_stream_data_blocked_frame :: "packet_in \<Rightarrow> ((u64 \<times> u64) \<times> packet_in) res" where
  "xqc_parse_stream_data_blocked_frame pi =
     bind_res (pi_byte pi (pi_pos pi)) (\<lambda>first_byte.
     bind_res (pi_vint pi (Suc (pi_pos pi))) (\<lambda>(p, stream_id).
     bind_res (pi_vint pi p) (\<lambda>(p, stream_data_limit).
       Ok ((stream_id, stream_data_limit), pi_advance XQC_FRAME_STREAM_DATA_BLOCKED p pi))))"

definition xqc_gen_streams_blocked_frame :: "u64 \<Rightarrow> bool \<Rightarrow> packet_out \<Rightarrow> gen_result" where
  "xqc_gen_streams_blocked_frame stream_limit bidirectional po = do {
     c \<leftarrow> put (if bidirectional then [0x16] else [0x17]) (po_dst po, po);
     c \<leftarrow> put (vint_enc stream_limit) c;
     gen_done XQC_FRAME_STREAMS_BLOCKED (po_dst po) c
   }"

definition xqc_parse_streams_blocked_frame :: "packet_in \<Rightarrow> ((u64 \<times> bool) \<times> packet_in) res" where
  "xqc_parse_streams_blocked_frame pi =
     bind_res (pi_byte pi (pi_pos pi)) (\<lambda>first_byte.
     let bidirectional = (first_byte = 0x16) in
     bind_res (pi_vint pi (Suc (pi_pos pi))) (\<lambda>(p, stream_limit).
       Ok ((stream_limit, bidirectional), pi_advance XQC_FRAME_STREAMS_BLOCKED p pi)))"

definition xqc_gen_max_data_frame :: "u64 \<Rightarrow> packet_out \<Rightarrow> gen_result" where
  "xqc_gen_max_data_frame max_data po = do {
     c \<leftarrow> put [0x10] (po_dst po, po);
     c \<leftarrow> put (vint_enc max_data) c;
     gen_done XQC_FRAME_MAX_DATA (po_dst po) c
   }"

definition xqc_parse_max_data_frame :: "packet_in \<Rightarrow> (u64 \<times> packet_in) res" where
  "xqc_parse_max_data_frame pi =
     bind_res (pi_byte pi (pi_pos pi)) (\<lambda>first_byte.
     bind_res (pi_vint pi (Suc (pi_pos pi))) (\<lambda>(p, max_data).
       Ok (max_data, pi_advance XQC_FRAME_MAX_DATA p pi)))"

definition xqc_gen_max_stream_data_frame :: "u64 \<Rightarrow> u64 \<Rightarrow> packet_out \<Rightarrow> gen_result" where
  "xqc_gen_max_stream_data_frame stream_id max_stream_data po = do {
     c \<leftarrow> put [0x11] (po_dst po, po);
     c \<leftarrow> put (vint_enc stream_id) c;
     c \<leftarrow> put (vint_enc max_stream_data) c;
     gen_done XQC_FRAME_MAX_STREAM_DATA (po_dst po) c
   }"

definition xqc_parse_max_stream_data_frame :: "packet_in \<Rightarrow> ((u64 \<times> u64) \<times> packet_in) res" where
  "xqc_parse_max_stream_data_frame pi =
     bind_res (pi_byte pi (pi_pos pi)) (\<lambda>first_byte.
     bind_res (pi_vint pi (Suc (pi_pos pi))) (\<lambda>(p, stream_id).
     bind_res (pi_vint pi p) (\<lambda>(p, max_stream_data).
       Ok ((stream_id, max_stream_data), pi_advance XQC_FRAME_MAX_STREAM_DATA p pi))))"

definition xqc_gen_max_streams_frame :: "u64 \<Rightarrow> bool \<Rightarrow> packet_out \<Rightarrow> gen_result" where
  "xqc_gen_max_streams_frame max_streams bidirectional po = do {
     c \<leftarrow> put (if bidirectional then [0x12] else [0x13]) (po_dst po, po);
     c \<leftarrow> put (vint_enc max_streams) c;
     gen_done XQC_FRAME_MAX_STREAMS (po_dst po) c
   }"

definition xqc_parse_max_streams_frame :: "packet_in \<Rightarrow> ((u64 \<times> bool) \<times> packet_in) res" where
  "xqc_parse_max_streams_frame pi =
     bind_res (pi_byte pi (pi_pos pi)) (\<lambda>first_byte.
     let bidirectional = (first_byte = 0x12) in
     bind_res (pi_vint pi (Suc (pi_pos pi))) (\<lambda>(p, max_streams).
       Ok ((max_streams, bidirectional), pi_advance XQC_FRAME_MAX_STREAMS p pi)))"

section \<open>NEW_TOKEN\<close>

text \<open>\<open>token_len\<close> on the parsing side is the capacity of the caller's buffer.\<close>

definition xqc_gen_new_token_frame :: "u8 list \<Rightarrow> packet_out \<Rightarrow> gen_result" where
  "xqc_gen_new_token_frame token po = do {
     c \<leftarrow> put [0x07] (po_dst po, po);
     c \<leftarrow> put (vint_enc (of_nat (length token))) c;
     if unat (po_used_size po + 1 + of_nat (xqc_vint_len_by_val (of_nat (length token)))
              + of_nat (length token)) > unat (po_buf_size po)
     then gen_error XQC_ENOBUF (snd c)
     else do {
       c \<leftarrow> put token c;
       gen_done XQC_FRAME_NEW_TOKEN (po_dst po) c
     }
   }"

definition xqc_parse_new_token_frame :: "u32 \<Rightarrow> packet_in \<Rightarrow> (u8 list \<times> packet_in) res" where
  "xqc_parse_new_token_frame token_len pi =
     bind_res (pi_byte pi (pi_pos pi)) (\<lambda>first_byte.
     bind_res (pi_vint pi (Suc (pi_pos pi))) (\<lambda>(p, recv_token_len).
       if recv_token_len = 0 then Err XQC_EPROTO
       else if recv_token_len > ucast token_len then Err XQC_ENOBUF
       else if p + unat recv_token_len > pi_last pi then Err XQC_EILLEGAL_FRAME
       else bind_res (pi_copy pi p (unat recv_token_len)) (\<lambda>token.
         Ok (token, pi_advance XQC_FRAME_NEW_TOKEN (p + unat recv_token_len) pi))))"

section \<open>Connection id frames\<close>

abbreviation "XQC_STATELESS_RESET_TOKENLEN \<equiv> (16::nat)"

text \<open>
  \<open>xqc_gen_reset_token\<close> derives the reset token from the connection id and the key with a keyed
  digest of the TLS library; it is the parameter \<open>reset_token\<close>.
\<close>

definition xqc_gen_new_conn_id_frame ::
  "(xqc_cid \<Rightarrow> u8 list) \<Rightarrow> xqc_cid \<Rightarrow> u64 \<Rightarrow> packet_out \<Rightarrow> gen_result" where
  "xqc_gen_new_conn_id_frame reset_token new_cid retire_prior_to po = do {
     c \<leftarrow> put [0x18] (po_dst po, po);
     let cid_len = length (cid_buf new_cid);
     if cid_len > XQC_MAX_CID_LEN then gen_error XQC_EPARAM (snd c)
     else do {
       c \<leftarrow> put (vint_enc (cid_seq_num new_cid)) c;
       c \<leftarrow> put (vint_enc retire_prior_to) c;
       c \<leftarrow> put (vint_enc (of_nat cid_len)) c;
       c \<leftarrow> put (cid_buf new_cid) c;
       c \<leftarrow> put (reset_token new_cid) c;
       gen_done XQC_FRAME_NEW_CONNECTION_ID (po_dst po) c
     }
   }"

text \<open>The reset token is copied to a local buffer and dropped.\<close>

definition xqc_parse_new_conn_id_frame :: "packet_in \<Rightarrow> ((xqc_cid \<times> u64) \<times> packet_in) res" where
  "xqc_parse_new_conn_id_frame pi =
     bind_res (pi_byte pi (pi_pos pi)) (\<lambda>first_byte.
     bind_res (pi_vint pi (Suc (pi_pos pi))) (\<lambda>(p, seq_num).
     bind_res (pi_vint pi p) (\<lambda>(p, retire_prior_to).
       if p \<ge> pi_last pi then Err XQC_EPROTO
       else bind_res (pi_byte pi p) (\<lambda>cid_len.
         let p = Suc p; n = unat cid_len in
         if n > XQC_MAX_CID_LEN then Err XQC_EPROTO
         else if p + n > pi_last pi then Err XQC_EPROTO
         else bind_res (pi_copy pi p n) (\<lambda>cid.
           let p = p + n in
           if p + XQC_STATELESS_RESET_TOKENLEN > pi_last pi then Err XQC_EPROTO
           else bind_res (pi_copy pi p XQC_STATELESS_RESET_TOKENLEN) (\<lambda>stateless_reset_token.
             Ok ((\<lparr>cid_buf = cid, cid_seq_num = seq_num\<rparr>, retire_prior_to),
                 pi_advance XQC_FRAME_NEW_CONNECTION_ID (p + XQC_STATELESS_RESET_TOKENLEN) pi)))))))"

definition xqc_gen_retire_conn_id_frame :: "u64 \<Rightarrow> packet_out \<Rightarrow> gen_result" where
  "xqc_gen_retire_conn_id_frame seq_num po = do {
     c \<leftarrow> put [0x19] (po_dst po, po);
     c \<leftarrow> put (vint_enc seq_num) c;
     gen_done XQC_FRAME_RETIRE_CONNECTION_ID (po_dst po) c
   }"

definition xqc_parse_retire_conn_id_frame :: "packet_in \<Rightarrow> (u64 \<times> packet_in) res" where
  "xqc_parse_retire_conn_id_frame pi =
     bind_res (pi_byte pi (pi_pos pi)) (\<lambda>first_byte.
     bind_res (pi_vint pi (Suc (pi_pos pi))) (\<lambda>(p, seq_num).
       Ok (seq_num, pi_advance XQC_FRAME_RETIRE_CONNECTION_ID p pi)))"

section \<open>Path validation frames\<close>

abbreviation "XQC_PATH_CHALLENGE_DATA_LEN \<equiv> (8::nat)"

text \<open>\<open>data\<close> is the eight-byte buffer of the caller.\<close>

definition xqc_gen_path_challenge_frame :: "u8 list \<Rightarrow> packet_out \<Rightarrow> gen_result" where
  "xqc_gen_path_challenge_frame data po =
     (let frame_type = 0x1a; need = xqc_vint_len_by_val frame_type + XQC_PATH_CHALLENGE_DATA_LEN in
      if need > po_room po then gen_error XQC_ENOBUF po
      else do {
        c \<leftarrow> put (vint_enc frame_type) (po_dst po, po);
        c \<leftarrow> put (take XQC_PATH_CHALLENGE_DATA_LEN data) c;
        gen_done XQC_FRAME_PATH_CHALLENGE (po_dst po) c
      })"

definition xqc_parse_path_challenge_frame :: "packet_in \<Rightarrow> (u8 list \<times> packet_in) res" where
  "xqc_parse_path_challenge_frame pi =
     bind_res (pi_byte pi (pi_pos pi)) (\<lambda>first_byte.
     bind_res (pi_copy pi (Suc (pi_pos pi)) XQC_PATH_CHALLENGE_DATA_LEN) (\<lambda>data.
       Ok (data, pi_advance XQC_FRAME_PATH_CHALLENGE (Suc (pi_pos pi) + XQC_PATH_CHALLENGE_DATA_LEN) pi)))"

definition xqc_gen_path_response_frame :: "u8 list \<Rightarrow> packet_out \<Rightarrow> gen_result" where
  "xqc_gen_path_response_frame data po =
     (let frame_type = 0x1b; need = xqc_vint_len_by_val frame_type + XQC_PATH_CHALLENGE_DATA_LEN in
      if need > po_room po then gen_error XQC_ENOBUF po
      else do {
        c \<leftarrow> put (vint_enc frame_type) (po_dst po, po);
        c \<leftarrow> put (take XQC_PATH_CHALLENGE_DATA_LEN data) c;
        gen_done XQC_FRAME_PATH_RESPONSE (po_dst po) c
      })"

definition xqc_parse_path_response_frame :: "packet_in \<Rightarrow> (u8 list \<times> packet_in) res" where
  "xqc_parse_path_response_frame pi =
     bind_res (pi_byte pi (pi_pos pi)) (\<lambda>first_byte.
     bind_res (pi_copy pi (Suc (pi_pos pi)) XQC_PATH_CHALLENGE_DATA_LEN) (\<lambda>data.
       Ok (data, pi_advance XQC_FRAME_PATH_RESPONSE (Suc (pi_pos pi) + XQC_PATH_CHALLENGE_DATA_LEN) pi)))"

section \<open>The wire format\<close>

text \<open>
  The frames as data. A CONNECTION_CLOSE carries the offending frame type unless it was raised by
  the application. The stateless reset token of NEW_CONNECTION_ID is not part of the datum: the
  sender derives it (\<open>rt\<close>) and the receiver drops it.
\<close>

datatype quic_frame =
    Ping
  | Handshake_Done
  | Conn_Close u64 "u64 option"
  | Reset_Stream u64 u64 u64
  | Stop_Sending u64 u64
  | Data_Blocked u64
  | Stream_Data_Blocked u64 u64
  | Streams_Blocked u64 bool
  | Max_Data u64
  | Max_Stream_Data u64 u64
  | Max_Streams u64 bool
  | New_Token "u8 list"
  | New_Conn_Id xqc_cid u64
  | Retire_Conn_Id u64
  | Path_Challenge "u8 list"
  | Path_Response "u8 list"

text \<open>Frames that have an encoding and that a receiver accepts.\<close>

primrec frame_ok :: "quic_frame \<Rightarrow> bool" where
  "frame_ok Ping = True"
| "frame_ok Handshake_Done = True"
| "frame_ok (Conn_Close err ft) = (err < 2 ^ 62 \<and> case_option True (\<lambda>t. t < 2 ^ 62) ft)"
| "frame_ok (Reset_Stream sid err fs) = (sid < 2 ^ 62 \<and> err < 2 ^ 62 \<and> fs < 2 ^ 62)"
| "frame_ok (Stop_Sending sid err) = (sid < 2 ^ 62 \<and> err < 2 ^ 62)"
| "frame_ok (Data_Blocked lim) = (lim < 2 ^ 62)"
| "frame_ok (Stream_Data_Blocked sid lim) = (sid < 2 ^ 62 \<and> lim < 2 ^ 62)"
| "frame_ok (Streams_Blocked lim bidi) = (lim < 2 ^ 62)"
| "frame_ok (Max_Data m) = (m < 2 ^ 62)"
| "frame_ok (Max_Stream_Data sid m) = (sid < 2 ^ 62 \<and> m < 2 ^ 62)"
| "frame_ok (Max_Streams m bidi) = (m < 2 ^ 62)"
| "frame_ok (New_Token tok) = (tok \<noteq> [] \<and> length tok \<le> 256)"
| "frame_ok (New_Conn_Id cid rpt) = (length (cid_buf cid) \<le> XQC_MAX_CID_LEN \<and> cid_seq_num cid < 2 ^ 62 \<and> rpt < 2 ^ 62)"
| "frame_ok (Retire_Conn_Id s) = (s < 2 ^ 62)"
| "frame_ok (Path_Challenge d) = (length d = XQC_PATH_CHALLENGE_DATA_LEN)"
| "frame_ok (Path_Response d) = (length d = XQC_PATH_CHALLENGE_DATA_LEN)"

primrec wire :: "(xqc_cid \<Rightarrow> u8 list) \<Rightarrow> quic_frame \<Rightarrow> u8 list" where
  "wire rt Ping = [0x01]"
| "wire rt Handshake_Done = [0x1e]"
| "wire rt (Conn_Close err ft) = (case ft of
     None \<Rightarrow> 0x1d # vint_enc err @ vint_enc 0
   | Some t \<Rightarrow> 0x1c # vint_enc err @ vint_enc t @ vint_enc 0)"
| "wire rt (Reset_Stream sid err fs) = 0x04 # vint_enc sid @ vint_enc err @ vint_enc fs"
| "wire rt (Stop_Sending sid err) = 0x05 # vint_enc sid @ vint_enc err"
| "wire rt (Data_Blocked lim) = 0x14 # vint_enc lim"
| "wire rt (Stream_Data_Blocked sid lim) = 0x15 # vint_enc sid @ vint_enc lim"
| "wire rt (Streams_Blocked lim bidi) = (if bidi then 0x16 else 0x17) # vint_enc lim"
| "wire rt (Max_Data m) = 0x10 # vint_enc m"
| "wire rt (Max_Stream_Data sid m) = 0x11 # vint_enc sid @ vint_enc m"
| "wire rt (Max_Streams m bidi) = (if bidi then 0x12 else 0x13) # vint_enc m"
| "wire rt (New_Token tok) = 0x07 # vint_enc (of_nat (length tok)) @ tok"
| "wire rt (New_Conn_Id cid rpt) =
     0x18 # vint_enc (cid_seq_num cid) @ vint_enc rpt @ of_nat (length (cid_buf cid)) # cid_buf cid @ rt cid"
| "wire rt (Retire_Conn_Id s) = 0x19 # vint_enc s"
| "wire rt (Path_Challenge d) = 0x1a # d"
| "wire rt (Path_Response d) = 0x1b # d"

primrec frame_type_of :: "quic_frame \<Rightarrow> xqc_frame_type" where
  "frame_type_of Ping = XQC_FRAME_PING"
| "frame_type_of Handshake_Done = XQC_FRAME_HANDSHAKE_DONE"
| "frame_type_of (Conn_Close err ft) = XQC_FRAME_CONNECTION_CLOSE"
| "frame_type_of (Reset_Stream sid err fs) = XQC_FRAME_RESET_STREAM"
| "frame_type_of (Stop_Sending sid err) = XQC_FRAME_STOP_SENDING"
| "frame_type_of (Data_Blocked lim) = XQC_FRAME_DATA_BLOCKED"
| "frame_type_of (Stream_Data_Blocked sid lim) = XQC_FRAME_STREAM_DATA_BLOCKED"
| "frame_type_of (Streams_Blocked lim bidi) = XQC_FRAME_STREAMS_BLOCKED"
| "frame_type_of (Max_Data m) = XQC_FRAME_MAX_DATA"
| "frame_type_of (Max_Stream_Data sid m) = XQC_FRAME_MAX_STREAM_DATA"
| "frame_type_of (Max_Streams m bidi) = XQC_FRAME_MAX_STREAMS"
| "frame_type_of (New_Token tok) = XQC_FRAME_NEW_TOKEN"
| "frame_type_of (New_Conn_Id cid rpt) = XQC_FRAME_NEW_CONNECTION_ID"
| "frame_type_of (Retire_Conn_Id s) = XQC_FRAME_RETIRE_CONNECTION_ID"
| "frame_type_of (Path_Challenge d) = XQC_FRAME_PATH_CHALLENGE"
| "frame_type_of (Path_Response d) = XQC_FRAME_PATH_RESPONSE"

text \<open>What the parsers report. Of a CONNECTION_CLOSE the receiver learns the error code alone: the parser skips the offending
  frame type of 0x1c, and does not tell 0x1c from 0x1d. A run of PADDING is skipped at once.\<close>

datatype parsed_frame =
    Parsed_Padding nat
  | Parsed_Close u64
  | Parsed quic_frame

definition reported :: "quic_frame \<Rightarrow> parsed_frame" where
  "reported f = (case f of Conn_Close err ft \<Rightarrow> Parsed_Close err | _ \<Rightarrow> Parsed f)"

text \<open>The generator called for a frame.\<close>

primrec gen_frame :: "(xqc_cid \<Rightarrow> u8 list) \<Rightarrow> quic_frame \<Rightarrow> packet_out \<Rightarrow> gen_result" where
  "gen_frame rt Ping = xqc_gen_ping_frame"
| "gen_frame rt Handshake_Done = xqc_gen_handshake_done_frame"
| "gen_frame rt (Conn_Close err ft) = (case ft of
     None \<Rightarrow> xqc_gen_conn_close_frame err True 0 | Some t \<Rightarrow> xqc_gen_conn_close_frame err False t)"
| "gen_frame rt (Reset_Stream sid err fs) = xqc_gen_reset_stream_frame sid err fs"
| "gen_frame rt (Stop_Sending sid err) = xqc_gen_stop_sending_frame sid err"
| "gen_frame rt (Data_Blocked lim) = xqc_gen_data_blocked_frame lim"
| "gen_frame rt (Stream_Data_Blocked sid lim) = xqc_gen_stream_data_blocked_frame sid lim"
| "gen_frame rt (Streams_Blocked lim bidi) = xqc_gen_streams_blocked_frame lim bidi"
| "gen_frame rt (Max_Data m) = xqc_gen_max_data_frame m"
| "gen_frame rt (Max_Stream_Data sid m) = xqc_gen_max_stream_data_frame sid m"
| "gen_frame rt (Max_Streams m bidi) = xqc_gen_max_streams_frame m bidi"
| "gen_frame rt (New_Token tok) = xqc_gen_new_token_frame tok"
| "gen_frame rt (New_Conn_Id cid rpt) = xqc_gen_new_conn_id_frame rt cid rpt"
| "gen_frame rt (Retire_Conn_Id s) = xqc_gen_retire_conn_id_frame s"
| "gen_frame rt (Path_Challenge d) = xqc_gen_path_challenge_frame d"
| "gen_frame rt (Path_Response d) = xqc_gen_path_response_frame d"

text \<open>The parser of this file that the switch of \<^verbatim>\<open>xqc_process_frames\<close> selects for a frame type; the token buffer
  has \<^verbatim>\<open>XQC_MAX_TOKEN_LEN\<close> bytes. The types of STREAM, CRYPTO and ACK frames belong to other theories and are refused here
  like the unknown ones.\<close>

definition parse_frame :: "packet_in \<Rightarrow> (parsed_frame \<times> packet_in) res" where
  "parse_frame pi = bind_res (pi_vint pi (pi_pos pi)) (\<lambda>(_, frame_type).
     if frame_type = 0x00 then
       let pi' = xqc_parse_padding_frame pi in Ok (Parsed_Padding (pi_pos pi' - pi_pos pi), pi')
     else if frame_type = 0x01 then Ok (Parsed Ping, xqc_parse_ping_frame pi)
     else if frame_type = 0x04 then
       bind_res (xqc_parse_reset_stream_frame pi) (\<lambda>((sid, err, fs), pi). Ok (Parsed (Reset_Stream sid err fs), pi))
     else if frame_type = 0x05 then
       bind_res (xqc_parse_stop_sending_frame pi) (\<lambda>((sid, err), pi). Ok (Parsed (Stop_Sending sid err), pi))
     else if frame_type = 0x07 then
       bind_res (xqc_parse_new_token_frame 256 pi) (\<lambda>(tok, pi). Ok (Parsed (New_Token tok), pi))
     else if frame_type = 0x10 then
       bind_res (xqc_parse_max_data_frame pi) (\<lambda>(m, pi). Ok (Parsed (Max_Data m), pi))
     else if frame_type = 0x11 then
       bind_res (xqc_parse_max_stream_data_frame pi) (\<lambda>((sid, m), pi). Ok (Parsed (Max_Stream_Data sid m), pi))
     else if frame_type = 0x12 \<or> frame_type = 0x13 then
       bind_res (xqc_parse_max_streams_frame pi) (\<lambda>((m, bidi), pi). Ok (Parsed (Max_Streams m bidi), pi))
     else if frame_type = 0x14 then
       bind_res (xqc_parse_data_blocked_frame pi) (\<lambda>(lim, pi). Ok (Parsed (Data_Blocked lim), pi))
     else if frame_type = 0x15 then
       bind_res (xqc_parse_stream_data_blocked_frame pi) (\<lambda>((sid, lim), pi). Ok (Parsed (Stream_Data_Blocked sid lim), pi))
     else if frame_type = 0x16 \<or> frame_type = 0x17 then
       bind_res (xqc_parse_streams_blocked_frame pi) (\<lambda>((lim, bidi), pi). Ok (Parsed (Streams_Blocked lim bidi), pi))
     else if frame_type = 0x18 then
       bind_res (xqc_parse_new_conn_id_frame pi) (\<lambda>((cid, rpt), pi). Ok (Parsed (New_Conn_Id cid rpt), pi))
     else if frame_type = 0x19 then
       bind_res (xqc_parse_retire_conn_id_frame pi) (\<lambda>(s, pi). Ok (Parsed (Retire_Conn_Id s), pi))
     else if frame_type = 0x1a then
       bind_res (xqc_parse_path_challenge_frame pi) (\<lambda>(d, pi). Ok (Parsed (Path_Challenge d), pi))
     else if frame_type = 0x1b then
       bind_res (xqc_parse_path_response_frame pi) (\<lambda>(d, pi). Ok (Parsed (Path_Response d), pi))
     else if frame_type = 0x1c \<or> frame_type = 0x1d then
       bind_res (xqc_parse_conn_close_frame pi) (\<lambda>(err, pi). Ok (Parsed_Close err, pi))
     else if frame_type = 0x1e then Ok (Parsed Handshake_Done, xqc_parse_handshake_done_frame pi)
     else Err XQC_EIGNORE_PKT)"

text \<open>The frames whose generator compares the room left with \<open>need\<close>, and those whose parser tests every
  length it uses against the end of the packet.\<close>

definition guarded :: "quic_frame \<Rightarrow> bool" where
  "guarded f \<longleftrightarrow> (case f of Data_Blocked _ \<Rightarrow> False | Stream_Data_Blocked _ _ \<Rightarrow> False | Streams_Blocked _ _ \<Rightarrow> False
     | Max_Data _ \<Rightarrow> False | Max_Stream_Data _ _ \<Rightarrow> False | Max_Streams _ _ \<Rightarrow> False
     | New_Conn_Id _ _ \<Rightarrow> False | Retire_Conn_Id _ \<Rightarrow> False | _ \<Rightarrow> True)"

definition need :: "(xqc_cid \<Rightarrow> u8 list) \<Rightarrow> quic_frame \<Rightarrow> nat" where
  "need rt f = (case f of Conn_Close _ None \<Rightarrow> Suc (length (wire rt f)) | _ \<Rightarrow> length (wire rt f))"

definition bounded_frame :: "parsed_frame \<Rightarrow> bool" where
  "bounded_frame f \<longleftrightarrow> (case f of
     Parsed_Padding _ \<Rightarrow> True
   | Parsed_Close _ \<Rightarrow> False
   | Parsed (Path_Challenge _) \<Rightarrow> False
   | Parsed (Path_Response _) \<Rightarrow> False
   | Parsed _ \<Rightarrow> True)"

section \<open>Lemmas\<close>

lemmas gen_defs = xqc_gen_ping_frame_def xqc_gen_handshake_done_frame_def xqc_gen_conn_close_frame_def
  xqc_gen_reset_stream_frame_def xqc_gen_stop_sending_frame_def xqc_gen_data_blocked_frame_def
  xqc_gen_stream_data_blocked_frame_def xqc_gen_streams_blocked_frame_def xqc_gen_max_data_frame_def
  xqc_gen_max_stream_data_frame_def xqc_gen_max_streams_frame_def 
  xqc_gen_retire_conn_id_frame_def
  xqc_gen_path_challenge_frame_def xqc_gen_path_response_frame_def

lemmas parse_defs = xqc_parse_ping_frame_def xqc_parse_handshake_done_frame_def xqc_parse_conn_close_frame_def
  xqc_parse_reset_stream_frame_def xqc_parse_stop_sending_frame_def xqc_parse_data_blocked_frame_def
  xqc_parse_stream_data_blocked_frame_def xqc_parse_streams_blocked_frame_def xqc_parse_max_data_frame_def
  xqc_parse_max_stream_data_frame_def xqc_parse_max_streams_frame_def xqc_parse_new_token_frame_def
  xqc_parse_new_conn_id_frame_def xqc_parse_retire_conn_id_frame_def
  xqc_parse_path_challenge_frame_def xqc_parse_path_response_frame_def

lemmas parse_simps = add.assoc [symmetric] vint_read_byte pi_byte_rest pi_copy_rest pi_vint_def pi_rest_simps vint_read_enc

lemma parse_new_token_wire:
  assumes rest: "pi_rest pi (pi_pos pi) = wire rt (New_Token tok) @ rest" and ok: "frame_ok (New_Token tok)"
  shows "parse_frame pi = Ok (Parsed (New_Token tok), pi_advance XQC_FRAME_NEW_TOKEN (pi_pos pi + length (wire rt (New_Token tok))) pi)"
proof -
  define n :: u64 where "n = of_nat (length tok)"
  have un: "unat n = length tok" using ok by (simp add: n_def unat_of_nat)
  then have n: "n \<noteq> 0" "\<not> ucast (256 :: u32) < n" "n < 2 ^ 62"
    using ok by (auto simp: word_less_nat_alt)
  have r: "pi_rest pi (Suc (pi_pos pi) + length (vint_enc n)) = tok @ rest"
    using rest by (simp add: pi_rest_simps n_def)
  have "length tok \<le> length (pi_rest pi (Suc (pi_pos pi) + length (vint_enc n)))" using r by simp
  then have fits: "Suc (pi_pos pi) + length (vint_enc n) + length tok \<le> pi_last pi"
    using pi_rest_fits [of "length tok" pi "Suc (pi_pos pi) + length (vint_enc n)"] r ok by simp
  show ?thesis 
    using rest n fits r un
    by (simp add: parse_frame_def parse_defs parse_simps n_def[symmetric])
qed

lemma parse_new_conn_id_wire:
  assumes rest: "pi_rest pi (pi_pos pi) = wire rt (New_Conn_Id cid rpt) @ rest" and ok: "frame_ok (New_Conn_Id cid rpt)"
     and rt: "length (rt cid) = XQC_STATELESS_RESET_TOKENLEN"
  shows "parse_frame pi = Ok (Parsed (New_Conn_Id cid rpt), pi_advance XQC_FRAME_NEW_CONNECTION_ID (pi_pos pi + length (wire rt (New_Conn_Id cid rpt))) pi)"
proof -
  define n :: u8 where "n = of_nat (length (cid_buf cid))"
  have un: "unat n = length (cid_buf cid)" using ok by (simp add: n_def unat_of_nat)
  define p where "p = Suc (pi_pos pi) + length (vint_enc (cid_seq_num cid)) + length (vint_enc rpt)"
  have r: "pi_rest pi p = n # cid_buf cid @ rt cid @ rest"
    using rest by (simp add: pi_rest_simps n_def p_def)
  have fits: "p + Suc (length (cid_buf cid) + XQC_STATELESS_RESET_TOKENLEN) \<le> pi_last pi"
    using pi_rest_fits[of "Suc (length (cid_buf cid) + XQC_STATELESS_RESET_TOKENLEN)" pi p] r rt by simp
  show ?thesis 
    using rest fits un ok rt
    by (simp add: parse_frame_def parse_defs parse_simps n_def[symmetric] p_def Let_def) (simp add: ac_simps)
qed

lemma parse_frame_wire:
  assumes "pi_rest pi (pi_pos pi) = wire rt f @ rest" "frame_ok f" "\<And>cid. length (rt cid) = XQC_STATELESS_RESET_TOKENLEN"
  shows "parse_frame pi = Ok (reported f, pi_advance (frame_type_of f) (pi_pos pi + length (wire rt f)) pi)"
proof (cases f)
  case (New_Token tok)
  with assms parse_new_token_wire show ?thesis by (auto simp: reported_def)
next
  case (New_Conn_Id cid rpt)
  with assms parse_new_conn_id_wire show ?thesis by (auto simp: reported_def)
next
  case (Conn_Close err ft)
  with assms show ?thesis 
    by (cases ft) (simp_all add: reported_def parse_frame_def parse_defs parse_simps)
next
  case (Path_Challenge d)
  with assms show ?thesis by (simp add: reported_def parse_frame_def parse_defs parse_simps) (simp add: ac_simps)
next
  case (Path_Response d)
  with assms show ?thesis by (simp add: reported_def parse_frame_def parse_defs parse_simps) (simp add: ac_simps)
qed (use assms in \<open>simp_all add: reported_def parse_frame_def parse_defs parse_simps split: if_splits\<close>)

lemma parse_padding_run:
  assumes "pi_rest pi (pi_pos pi) = replicate n 0 @ rest" "0 < n" "rest = [] \<or> hd rest \<noteq> 0"
  shows "parse_frame pi = Ok (Parsed_Padding n, pi_advance XQC_FRAME_PADDING (pi_pos pi + n) pi)"
proof -
  obtain k where k: "n = Suc k" using assms(2) by (cases n) auto
  have "takeWhile (\<lambda>b. b = 0) rest = []" using assms(3) by (cases rest) auto
  then have "takeWhile (\<lambda>b. b = 0) (replicate k 0 @ rest) = (replicate k 0 :: u8 list)" by (simp add: takeWhile_append)
  moreover have "pi_rest pi (Suc (pi_pos pi)) = replicate k 0 @ rest" using assms(1) k by (simp add: pi_rest_simps)
  ultimately have "xqc_parse_padding_frame pi = pi_advance XQC_FRAME_PADDING (pi_pos pi + n) pi"
    using k by (simp add: xqc_parse_padding_frame_def)
  moreover have "pi_vint pi (pi_pos pi) = Ok (Suc (pi_pos pi), 0)"
    using assms(1) k vint_read_byte [of 0 "replicate k 0 @ rest"] by (simp add: pi_vint_def)
  ultimately show ?thesis by (simp add: parse_frame_def Let_def pi_advance_def)
qed

lemma gen_new_token_eq:
  assumes wf: "po_wf po" and ok: "frame_ok (New_Token tok)"
  shows "xqc_gen_new_token_frame tok po =
    (if po_room po < length (wire rt (New_Token tok))
     then Option.bind (put (0x07 # vint_enc (of_nat (length tok))) (po_dst po, po)) (\<lambda>c. gen_error XQC_ENOBUF (snd c))
     else Option.bind (put (wire rt (New_Token tok)) (po_dst po, po)) (gen_done XQC_FRAME_NEW_TOKEN (po_dst po)))"
proof -
  have "unat (po_used_size po + 1 + of_nat (xqc_vint_len_by_val (of_nat (length tok))) + of_nat (length tok))
      = po_dst po + length (wire rt (New_Token tok))"
    using ok po_dst_le[OF wf] po_size_bound [OF wf] vint_len_by_val_bounds(2)[of "of_nat (length tok)"]
    by (simp add: length_vint_enc po_dst_def unat_word_ariths unat_of_nat)
  then show ?thesis using po_dst_le[OF wf]
    by (auto simp: xqc_gen_new_token_frame_def put_put_bind put_put_bind_if po_room_eq[OF wf])
qed

lemma gen_frame_eq:
  assumes "frame_ok f" "\<And>tok. f \<noteq> New_Token tok"
  shows "gen_frame rt f po = (if guarded f \<and> po_room po < need rt f then gen_error XQC_ENOBUF po
     else Option.bind (put (wire rt f) (po_dst po, po)) (gen_done (frame_type_of f) (po_dst po)))"
  using assms
  by (cases f) (auto simp: gen_defs xqc_gen_new_conn_id_frame_def guarded_def need_def Let_def put_put_bind
     put_put_bind_if length_vint_enc [symmetric] vint_enc_small word_less_nat_alt unat_of_nat split: option.splits)

lemma wire_unguarded: "\<not> guarded f \<Longrightarrow> (\<And>cid rpt. f \<noteq> New_Conn_Id cid rpt) \<Longrightarrow> length (wire rt f) \<le> 17"
  using order_trans [OF length_vint_enc_le, of 16] add_mono [OF length_vint_enc_le length_vint_enc_le]
  by (auto simp: guarded_def split: quic_frame.splits)

lemma gen_frame_appends:
  assumes "po_wf po" "frame_ok f" "gen_frame rt f po = Some (Inr n, po')" 
  shows "n = length (wire rt f) \<and> po' = po_appended (frame_type_of f) po (wire rt f)
     \<and> po_dst po + n \<le> length (po_buf po)"
proof (cases "\<exists>tok. f = New_Token tok")
  case True
  with assms show ?thesis by (auto simp: gen_new_token_eq [of _ _ rt] put_gen_done bind_gen_error split: if_splits)
next
  case False
  with assms show ?thesis by (auto simp: gen_frame_eq put_gen_done split: if_splits)
qed

lemma gen_frame_None:
  assumes wf: "po_wf po" and ok: "frame_ok f"
  shows "gen_frame rt f po = None \<longleftrightarrow> (\<exists>cid rpt. f = New_Conn_Id cid rpt) \<and> po_room po + XQC_PACKET_OUT_EXT_SPACE < length (wire rt f)"
proof (cases "\<exists>tok. f = New_Token tok")
  case True
  then obtain tok where f: "f = New_Token tok" by blast
  have "po_dst po + length (0x07 # vint_enc (of_nat (length tok))) \<le> length (po_buf po)"
    using po_room_capacity[OF wf, of "length (0x07 # vint_enc (of_nat (length tok)))"]
       length_vint_enc_le[of "of_nat (length tok)"] by simp
  then obtain c where "put (0x07 # vint_enc (of_nat (length tok))) (po_dst po, po) = Some c"
    by (simp add: put_Some_iff)
  then show ?thesis using po_room_capacity[OF wf, of "length (wire rt f)"]
    by (auto simp: f gen_new_token_eq[OF wf ok[unfolded f], of rt] put_gen_done gen_error_def)
next
  case False
  have cap: "po_dst po + length (wire rt f) \<le> length (po_buf po) \<longleftrightarrow> length (wire rt f) \<le> po_room po + XQC_PACKET_OUT_EXT_SPACE"
  proof -
    have "length (po_buf po) = po_dst po + (po_room po + XQC_PACKET_OUT_EXT_SPACE)"
      using wf po_dst_le [OF wf] by (simp add: po_wf_def po_room_eq [OF wf])
    then show ?thesis by simp
  qed
  have "length (wire rt f) \<le> need rt f" by (auto simp: need_def split: quic_frame.splits option.splits)
  moreover have "\<not> guarded f \<Longrightarrow> \<nexists>cid rpt. f = New_Conn_Id cid rpt \<Longrightarrow> length (wire rt f) \<le> po_room po + XQC_PACKET_OUT_EXT_SPACE"
    using wire_unguarded [of f rt] by fastforce
  moreover have "\<exists>cid rpt. f = New_Conn_Id cid rpt \<Longrightarrow> \<not> guarded f" by (auto simp: guarded_def)
  ultimately show ?thesis using False ok cap by (auto simp: gen_frame_eq put_gen_done gen_error_def)
qed

lemma gen_frame_done:
  assumes wf: "po_wf po" and ok: "frame_ok f" and room: "length (wire rt f) < po_room po"
  shows "gen_frame rt f po = Some (Inr (length (wire rt f)), po_appended (frame_type_of f) po (wire rt f))"
proof (cases "\<exists>tok. f = New_Token tok")
  case True
  then show ?thesis using po_room_capacity[OF wf, of "length (wire rt f)"] room ok
    by (auto simp: gen_new_token_eq[OF wf, of _ rt] put_gen_done)
next
  case False
  have "need rt f \<le> Suc (length (wire rt f))" by (auto simp: need_def split: quic_frame.splits option.splits)
  then show ?thesis using False ok room po_room_capacity[OF wf, of "length (wire rt f)"]
    by (auto simp: gen_frame_eq put_gen_done)
qed

lemma gen_guarded_fits:
  assumes wf: "po_wf po" and ok: "frame_ok f" and g: "guarded f" and r: "gen_frame rt f po = Some (Inr n, po')"
  shows "n \<le> po_room po"
proof (cases "\<exists>tok. f = New_Token tok")
  case True
  then show ?thesis using gen_frame_appends [OF wf ok r] r ok
    by (auto simp: gen_new_token_eq [OF wf, of _ rt] bind_gen_error split: if_splits)
next
  case False
  have "length (wire rt f) \<le> need rt f" by (auto simp: need_def split: quic_frame.splits option.splits)
  then show ?thesis using gen_frame_appends [OF wf ok r] r False ok g by (auto simp: gen_frame_eq split: if_splits)
qed

lemma wire_new_conn_id:
  assumes "frame_ok (New_Conn_Id cid rpt)" "length (rt cid) = XQC_STATELESS_RESET_TOKENLEN"
  shows "length (wire rt (New_Conn_Id cid rpt)) \<le> 54"
  using assms add_mono [OF length_vint_enc_le [of "cid_seq_num cid"] length_vint_enc_le [of rpt]] by simp

lemma gen_padding_cases:
  assumes "po_wf po"
  shows "xqc_gen_padding_frame po = None \<longleftrightarrow> po_dst po < XQC_PACKET_INITIAL_MIN_LENGTH \<and> length (po_buf po) < XQC_PACKET_INITIAL_MIN_LENGTH"
    and "xqc_gen_padding_frame po = Some po' \<Longrightarrow> po_dst po' = max (po_dst po) XQC_PACKET_INITIAL_MIN_LENGTH
      \<and> take (po_dst po') (po_buf po') = take (po_dst po) (po_buf po) @ replicate (po_dst po' - po_dst po) 0
      \<and> length (po_buf po') = length (po_buf po)"
proof -
  have d: "po_dst po \<le> length (po_buf po)" using assms po_dst_le [OF assms] by (simp add: po_wf_def)
  show "xqc_gen_padding_frame po = None \<longleftrightarrow> po_dst po < XQC_PACKET_INITIAL_MIN_LENGTH \<and> length (po_buf po) < XQC_PACKET_INITIAL_MIN_LENGTH"
    by (auto simp: xqc_gen_padding_frame_def put_at_def mem_write_def)
  show "po_dst po' = max (po_dst po) XQC_PACKET_INITIAL_MIN_LENGTH
      \<and> take (po_dst po') (po_buf po') = take (po_dst po) (po_buf po) @ replicate (po_dst po' - po_dst po) 0
      \<and> length (po_buf po') = length (po_buf po)" if "xqc_gen_padding_frame po = Some po'"
    using that d by (auto simp: xqc_gen_padding_frame_def put_at_def mem_write_def po_dst_def max_def split: if_splits)
qed

lemma parse_frame_progress:
  assumes "pi_wf pi" "parse_frame pi = Ok (f, pi')"
  shows "pi_pos pi < pi_pos pi' \<and> pi_buf pi' = pi_buf pi \<and> pi_last pi' = pi_last pi
     \<and> (bounded_frame f \<longrightarrow> pi_pos pi' \<le> pi_last pi)"
proof -
  have "length (takeWhile (\<lambda>b. b = 0) (pi_rest pi (Suc (pi_pos pi)))) \<le> length (pi_rest pi (Suc (pi_pos pi)))"
    by (rule length_takeWhile_le)
  also have "\<dots> \<le> pi_last pi - Suc (pi_pos pi)" by (simp add: pi_rest_def)
  finally have "Suc (pi_pos pi) + length (takeWhile (\<lambda>b. b = 0) (pi_rest pi (Suc (pi_pos pi)))) \<le> pi_last pi"
    using assms(1) unfolding pi_wf_def by linarith
  with assms show ?thesis
    by (auto simp: parse_frame_def parse_defs xqc_parse_padding_frame_def bounded_frame_def bind_res_Ok_iff Let_def pi_wf_def
      dest!: pi_vint_bounds split: if_splits)
qed

lemma vint_parse_no_fault:
  assumes "pi_wf pi"
  shows "xqc_parse_reset_stream_frame pi \<noteq> Fault" "xqc_parse_stop_sending_frame pi \<noteq> Fault"
    "xqc_parse_data_blocked_frame pi \<noteq> Fault" "xqc_parse_stream_data_blocked_frame pi \<noteq> Fault"
    "xqc_parse_streams_blocked_frame pi \<noteq> Fault" "xqc_parse_max_data_frame pi \<noteq> Fault"
    "xqc_parse_max_stream_data_frame pi \<noteq> Fault" "xqc_parse_max_streams_frame pi \<noteq> Fault"
    "xqc_parse_retire_conn_id_frame pi \<noteq> Fault" "xqc_parse_conn_close_frame pi \<noteq> Fault"
  using pi_wf_byte [OF assms] by (auto simp: parse_defs bind_res_Fault_iff Let_def split: if_splits)

lemma parse_new_token_no_fault: "pi_wf pi \<Longrightarrow> xqc_parse_new_token_frame n pi \<noteq> Fault"
  using pi_wf_byte [of pi] pi_copy_last [of pi]
  by (auto simp: xqc_parse_new_token_frame_def bind_res_Fault_iff split: if_splits)

lemma parse_new_conn_id_no_fault: "pi_wf pi \<Longrightarrow> xqc_parse_new_conn_id_frame pi \<noteq> Fault"
  using pi_wf_byte [of pi] pi_copy_last [of pi] pi_byte_last [of pi]
  by (auto simp: xqc_parse_new_conn_id_frame_def bind_res_Fault_iff Let_def not_le not_less split: if_splits)

lemma parse_path_fault:
  assumes "pi_wf pi"
  shows "xqc_parse_path_challenge_frame pi =
     (if pi_pos pi + 9 \<le> length (pi_buf pi)
      then Ok (take 8 (drop (pi_pos pi + 1) (pi_buf pi)), pi_advance XQC_FRAME_PATH_CHALLENGE (pi_pos pi + 9) pi)
      else Fault)"
   "xqc_parse_path_response_frame pi =
     (if pi_pos pi + 9 \<le> length (pi_buf pi)
      then Ok (take 8 (drop (pi_pos pi + 1) (pi_buf pi)), pi_advance XQC_FRAME_PATH_RESPONSE (pi_pos pi + 9) pi)
      else Fault)"
  using pi_wf_byte [OF assms]
  by (auto simp: parse_defs pi_copy_def mem_read_def add.commute)

lemma parse_frame_fault:
  assumes "pi_wf pi" "parse_frame pi = Fault"
  shows "\<exists>n ft. xqc_vint_read (pi_rest pi (pi_pos pi)) = Some (n, ft) \<and> (ft = 0x1a \<or> ft = 0x1b)
     \<and> length (pi_buf pi) < pi_pos pi + 9"
  using assms vint_parse_no_fault [OF assms(1)] parse_new_token_no_fault [OF assms(1)]
    parse_new_conn_id_no_fault [OF assms(1)]
  by (auto simp: parse_frame_def pi_vint_def parse_path_fault bind_res_Fault_iff Let_def split: if_splits option.splits)

section \<open>Properties\<close>





text \<open>C11. Parsing a control frame stays in bounds. On any received bytes the parsers touch no memory outside the
  buffer, with the exception of PATH_CHALLENGE and PATH_RESPONSE at the end of it; a parser that
  succeeds has moved the position forward, and not beyond the end of the packet unless the frame is
  CONNECTION_CLOSE, PATH_CHALLENGE or PATH_RESPONSE.\<close>

theorem control_frame_parse_bounds:
  assumes "pi_wf pi"
  shows "(parse_frame pi = Fault \<longrightarrow>
      (\<exists>n ft. xqc_vint_read (pi_rest pi (pi_pos pi)) = Some (n, ft) \<and> (ft = 0x1a \<or> ft = 0x1b)
         \<and> length (pi_buf pi) < pi_pos pi + 9))
    \<and> (\<forall>f pi'. parse_frame pi = Ok (f, pi') \<longrightarrow>
      pi_pos pi < pi_pos pi' \<and> pi_buf pi' = pi_buf pi \<and> pi_last pi' = pi_last pi
      \<and> (bounded_frame f \<longrightarrow> pi_pos pi' \<le> pi_last pi))"
  using parse_frame_fault [OF assms] parse_frame_progress [OF assms] by blast

theorem control_frame_parse_bounds_witness:
  "parse_frame (xqc_packet_in_init [0x14, 0x40] 0 zero_packet_in) \<noteq> Fault"
proof -
  have "xqc_vint_read [0x14, 0x40] = Some (1, 0x14)" by (simp add: xqc_vint_read_def)
  then show ?thesis
    using control_frame_parse_bounds [of "xqc_packet_in_init [0x14, 0x40] 0 zero_packet_in"]
    by (auto simp: xqc_packet_in_init_def zero_packet_in_def pi_wf_def pi_rest_def)
qed

text \<open>C13. PATH_CHALLENGE and CONNECTION_CLOSE are parsed without comparing their length with the end of the packet.
  The challenge data are the eight bytes behind the type byte wherever the packet ends, and the read
  is outside the buffer exactly when it is shorter than that; the position behind a CONNECTION_CLOSE
  is advanced by the announced length of the reason phrase, however far that is.\<close>

theorem unchecked_lengths:
  assumes "pi_wf pi"
  shows "xqc_parse_path_challenge_frame pi =
      (if pi_pos pi + 9 \<le> length (pi_buf pi)
       then Ok (take 8 (drop (pi_pos pi + 1) (pi_buf pi)), pi_advance XQC_FRAME_PATH_CHALLENGE (pi_pos pi + 9) pi)
       else Fault)
    \<and> (pi_rest pi (pi_pos pi) = 0x1d # vint_enc err @ vint_enc reason_len @ rest \<longrightarrow> err < 2 ^ 62 \<longrightarrow> reason_len < 2 ^ 62 \<longrightarrow>
       xqc_parse_conn_close_frame pi = Ok (err, pi_advance XQC_FRAME_CONNECTION_CLOSE
         (pi_pos pi + 1 + length (vint_enc err) + length (vint_enc reason_len) + unat reason_len) pi))"
  using parse_path_fault(1) [OF assms] by (simp add: xqc_parse_conn_close_frame_def parse_simps)

theorem unchecked_lengths_witness:
  "xqc_parse_path_challenge_frame (xqc_packet_in_init [0x1a, 1, 2] 0 zero_packet_in) = Fault
   \<and> pi_wf (xqc_packet_in_init [0x1a, 1, 2] 0 zero_packet_in)"
  using unchecked_lengths [of "xqc_packet_in_init [0x1a, 1, 2] 0 zero_packet_in"]
  by (simp add: xqc_packet_in_init_def zero_packet_in_def pi_wf_def)

end
