(* ===== verification/XQC_Conn_Send.thy ===== *)
theory XQC_Conn_Send
  imports XQC_Send_Ctl XQC_Packet_Parser XQC_Frame_Control
begin

text \<open>
  The send path of a connection (\<^verbatim>\<open>transport/xqc_conn.c\<close>, \<^verbatim>\<open>transport/xqc_packet_out.c\<close>) and the timeout of the loss detection
  (\<^verbatim>\<open>transport/xqc_send_ctl.c\<close>): packets are written into the send list, numbered, protected and handed to the socket, and
  move to the unacknowledged packets; a probe timeout copies unacknowledged packets or writes PING packets.

  \<^item> \<open>send_env\<close> is what is outside of the model during a call: the clock, packet protection by the TLS layer, the socket and
    the packet filter of the application. A handler sends a packet at most once, so the answers of the socket are indexed by the packet.
  \<^item> \<^verbatim>\<open>keyupdate_pkt_threshold\<close> is 0: the sender does not start key updates.
  \<^item> The loops \<^verbatim>\<open>xqc_list_for_each_safe\<close> run over the list as it was when the loop started.
  \<^item> Sending in batches (\<^verbatim>\<open>sendmmsg\<close>) is not modelled.
\<close>

section \<open>Environment\<close>

record send_env =
  env_clk :: usec
  env_eng_client :: bool
  env_key_phase :: bool
  env_encrypt :: "sent_packet \<Rightarrow> u8 list option"
  env_filter :: "(pid \<Rightarrow> u8 list \<Rightarrow> int) option"
  env_write :: "pid \<Rightarrow> u8 list \<Rightarrow> int"

abbreviation "XQC_PKTNO_BITS \<equiv> (0x03::u8)"
abbreviation "XQC_POF_NOTIFY \<equiv> (0x80::u32)"
abbreviation "XQC_SOCKET_ERROR \<equiv> (- 1::int)"

section \<open>Writing packets\<close>

definition xqc_packet_out_get_and_insert_send :: "xqc_pkt_type \<Rightarrow> 'cc xqc_send_ctl \<Rightarrow> pid \<times> 'cc xqc_send_ctl" where
  "xqc_packet_out_get_and_insert_send type ctl =
     (let (p, ctl) = xqc_packet_out_get ctl;
          ctl = upd_po p (\<lambda>po. po\<lparr>po_pkt := (po_pkt po)\<lparr>pkt_type := type, pkt_pns := xqc_packet_type_to_pns type, pkt_num := 0\<rparr>\<rparr>) ctl
      in (p, xqc_send_ctl_insert_send p ctl))"

definition xqc_send_ctl_get_packet_out :: "u32 \<Rightarrow> xqc_pkt_type \<Rightarrow> 'cc xqc_send_ctl \<Rightarrow> pid \<times> 'cc xqc_send_ctl" where
  "xqc_send_ctl_get_packet_out room type ctl =
     (case find (\<lambda>p. let po = ctl_store ctl p in pkt_type (po_pkt po) = type \<and> po_buf_size po - po_used_size po \<ge> room)
             (rev (ctl_send_packets ctl)) of
        Some p \<Rightarrow> (p, ctl)
      | None \<Rightarrow> xqc_packet_out_get_and_insert_send type ctl)"

text \<open>A generator of \<^verbatim>\<open>xqc_frame_parser.c\<close> or \<^verbatim>\<open>xqc_packet_parser.c\<close> works on the packet in the store; on success its length is added to
  \<^verbatim>\<open>po_used_size\<close> by the caller.\<close>

definition run_gen :: "(packet_out \<Rightarrow> gen_result) \<Rightarrow> pid \<Rightarrow> 'cc xqc_send_ctl \<Rightarrow> (ret \<times> 'cc xqc_send_ctl) res" where
  "run_gen g p ctl = (case g (packet_out.truncate (ctl_store ctl p)) of
     None \<Rightarrow> Fault
   | Some (Inl e, base) \<Rightarrow> Ok (Some e, upd_po p (with_packet_out base) ctl)
   | Some (Inr n, base) \<Rightarrow> Ok (None, upd_po p (\<lambda>po. (with_packet_out base po)\<lparr>po_used_size := po_used_size base + of_nat n\<rparr>) ctl))"

definition xqc_write_packet_header :: "send_env \<Rightarrow> pid \<Rightarrow> 'cc xqc_send_ctl \<Rightarrow> (ret \<times> 'cc xqc_send_ctl) res" where
  "xqc_write_packet_header env p ctl =
     (let po = ctl_store ctl p; c = ctl_conn ctl; dcid = cid_buf (current_dcid (dcid_set c)) in
      if po_used_size po > 0 then Ok (None, ctl)
      else if pkt_type (po_pkt po) = XQC_PTYPE_SHORT_HEADER
      then run_gen (\<lambda>po. xqc_gen_short_packet_header po dcid XQC_PKTNO_BITS (pkt_num (po_pkt po)) (env_key_phase env)) p ctl
      else run_gen (\<lambda>po. xqc_gen_long_packet_header po dcid (cid_buf (user_scid (scid_set c)))
                          (take (unat (conn_token_len c)) (conn_token c)) (version c) XQC_PKTNO_BITS) p ctl)"

definition write_header_or_recycle :: "send_env \<Rightarrow> pid \<Rightarrow> 'cc xqc_send_ctl \<Rightarrow> (pid option \<times> 'cc xqc_send_ctl) res" where
  "write_header_or_recycle env p ctl =
     (if po_used_size (ctl_store ctl p) = 0
      then bind_res (xqc_write_packet_header env p ctl) (\<lambda>(ret, ctl).
             case ret of None \<Rightarrow> Ok (Some p, ctl) | Some e \<Rightarrow> Ok (None, xqc_maybe_recycle_packet_out p ctl))
      else Ok (Some p, ctl))"

definition xqc_write_new_packet :: "send_env \<Rightarrow> xqc_pkt_type \<Rightarrow> 'cc xqc_send_ctl \<Rightarrow> (pid option \<times> 'cc xqc_send_ctl) res" where
  "xqc_write_new_packet env type ctl =
     (let type = (if type = XQC_PTYPE_NUM then xqc_state_to_pkt_type (ctl_conn ctl) else type);
          (p, ctl) = xqc_packet_out_get_and_insert_send type ctl
      in write_header_or_recycle env p ctl)"

definition xqc_write_packet :: "send_env \<Rightarrow> xqc_pkt_type \<Rightarrow> u32 \<Rightarrow> 'cc xqc_send_ctl \<Rightarrow> (pid option \<times> 'cc xqc_send_ctl) res" where
  "xqc_write_packet env type room ctl =
     (let type = (if type = XQC_PTYPE_NUM then xqc_state_to_pkt_type (ctl_conn ctl) else type);
          (p, ctl) = xqc_send_ctl_get_packet_out room type ctl
      in write_header_or_recycle env p ctl)"

definition xqc_write_ping_to_packet :: "send_env \<Rightarrow> bool \<Rightarrow> 'cc xqc_send_ctl \<Rightarrow> (ret \<times> 'cc xqc_send_ctl) res" where
  "xqc_write_ping_to_packet env notify ctl =
     bind_res (xqc_write_new_packet env XQC_PTYPE_NUM ctl) (\<lambda>(x, ctl). case x of
       None \<Rightarrow> Ok (Some XQC_EWRITE_PKT, ctl)
     | Some p \<Rightarrow> bind_res (run_gen xqc_gen_ping_frame p ctl) (\<lambda>(ret, ctl). case ret of
         Some e \<Rightarrow> Ok (Some e, xqc_maybe_recycle_packet_out p ctl)
       | None \<Rightarrow>
           let ctl = (if notify then upd_po p (set_pof XQC_POF_NOTIFY) ctl else ctl);
               c = ctl_conn ctl;
               ctl = ctl\<lparr>ctl_conn := c\<lparr>conn_flag := conn_flag c AND NOT (XQC_CONN_FLAG XQC_CONN_FLAG_PING)\<rparr>\<rparr>
           in Ok (None, xqc_send_ctl_move_to_head p ctl)))"

section \<open>Probe timeouts\<close>

definition pns_to_ptype :: "xqc_pkt_num_space \<Rightarrow> xqc_pkt_type" where
  "pns_to_ptype pns = (case pns of
     XQC_PNS_INIT \<Rightarrow> XQC_PTYPE_INIT
   | XQC_PNS_HSK \<Rightarrow> XQC_PTYPE_HSK
   | XQC_PNS_APP_DATA \<Rightarrow> XQC_PTYPE_SHORT_HEADER
   | XQC_PNS_N \<Rightarrow> XQC_PTYPE_NUM)"

definition xqc_conn_gen_ping :: "send_env \<Rightarrow> xqc_pkt_num_space \<Rightarrow> 'cc xqc_send_ctl \<Rightarrow> (pid option \<times> 'cc xqc_send_ctl) res" where
  "xqc_conn_gen_ping env pns ctl =
     bind_res (xqc_write_new_packet env (pns_to_ptype pns) ctl) (\<lambda>(x, ctl). case x of
       None \<Rightarrow> Ok (None, ctl)
     | Some p \<Rightarrow> bind_res (run_gen xqc_gen_ping_frame p ctl) (\<lambda>(ret, ctl). case ret of
         Some e \<Rightarrow> Ok (None, xqc_maybe_recycle_packet_out p ctl)
       | None \<Rightarrow> Ok (Some p, ctl)))"

definition xqc_conn_send_ping_on_pto :: "send_env \<Rightarrow> xqc_pkt_num_space \<Rightarrow> 'cc xqc_send_ctl \<Rightarrow> (ret \<times> 'cc xqc_send_ctl) res" where
  "xqc_conn_send_ping_on_pto env pns ctl =
     bind_res (xqc_conn_gen_ping env pns ctl) (\<lambda>(x, ctl). case x of
       None \<Rightarrow> Ok (Some XQC_EWRITE_PKT, ctl)
     | Some p \<Rightarrow> Ok (None, xqc_send_ctl_insert_probe p (xqc_send_ctl_remove_send p ctl)))"

abbreviation "XQC_CONN_PTO_PKT_CNT_MAX \<equiv> (2::nat)"

text \<open>The loop over the unacknowledged packets. \<open>n\<close> is \<^verbatim>\<open>probe_num\<close>, \<open>hsd\<close> is \<^verbatim>\<open>find_hsd\<close>.\<close>

fun pto_scan ::
  "'cc cong_callback \<Rightarrow> usec \<Rightarrow> pid list \<Rightarrow> nat \<Rightarrow> bool \<Rightarrow> 'cc xqc_send_ctl \<Rightarrow> (nat \<times> bool \<times> 'cc xqc_send_ctl) res" where
  "pto_scan cb clk [] n hsd ctl = Ok (n, hsd, ctl)"
| "pto_scan cb clk (p # ps) n hsd ctl =
     bind_res (xqc_send_ctl_indirectly_ack_po cb clk p ctl) (\<lambda>(acked, ctl).
       let types = po_frame_types (ctl_store ctl p) in
       if acked then pto_scan cb clk ps n hsd ctl
       else if XQC_IS_ACK_ELICITING types \<and> XQC_NEED_REPAIR types then
         if hsd \<and> types AND XQC_FRAME_BIT XQC_FRAME_HANDSHAKE_DONE = 0 then pto_scan cb clk ps n hsd ctl
         else
           let ctl = xqc_send_ctl_decrease_inflight p (upd_po p (set_pof XQC_POF_TLP) ctl)
           in bind_res (xqc_send_ctl_copy_to_pto_probe_list clk p ctl) (\<lambda>ctl.
                if n - 1 = 0 then Ok (n - 1, hsd, ctl)
                else if hsd then Ok (n - 1, False, ctl)
                else pto_scan cb clk ps (n - 1) hsd ctl)
       else pto_scan cb clk ps n hsd ctl)"

text \<open>The loop around it: \<open>None\<close> would be a loop without end.\<close>

partial_function (option) pto_rounds ::
  "'cc cong_callback \<Rightarrow> usec \<Rightarrow> xqc_pkt_num_space \<Rightarrow> nat \<Rightarrow> bool \<Rightarrow> 'cc xqc_send_ctl \<Rightarrow> (nat \<times> 'cc xqc_send_ctl) res option" where
  "pto_rounds cb clk pns n hsd ctl =
     (if n > 0 then
        case pto_scan cb clk (ctl_unacked_packets ctl pns) n hsd ctl of
          Ok (n, hsd, ctl) \<Rightarrow>
            if n = XQC_CONN_PTO_PKT_CNT_MAX
            then if hsd then pto_rounds cb clk pns n False ctl else Some (Ok (n, ctl))
            else pto_rounds cb clk pns n hsd ctl
        | Err e \<Rightarrow> Some (Err e)
        | Fault \<Rightarrow> Some Fault
      else Some (Ok (n, ctl)))"

primrec pto_pings :: "send_env \<Rightarrow> xqc_pkt_num_space \<Rightarrow> nat \<Rightarrow> 'cc xqc_send_ctl \<Rightarrow> 'cc xqc_send_ctl res" where
  "pto_pings env pns 0 ctl = Ok ctl"
| "pto_pings env pns (Suc n) ctl = bind_res (xqc_conn_send_ping_on_pto env pns ctl) (\<lambda>(ret, ctl). pto_pings env pns n ctl)"

definition xqc_conn_send_one_or_two_ack_elicit_pkts ::
  "'cc cong_callback \<Rightarrow> send_env \<Rightarrow> xqc_pkt_num_space \<Rightarrow> 'cc xqc_send_ctl \<Rightarrow> 'cc xqc_send_ctl res option" where
  "xqc_conn_send_one_or_two_ack_elicit_pkts cb env pns ctl =
     (let c = ctl_conn ctl;
          find_hsd = (conn_type c = XQC_CONN_TYPE_SERVER \<and> \<not> has_flag XQC_CONN_FLAG_HANDSHAKE_DONE_ACKED c)
      in map_option (\<lambda>r. bind_res r (\<lambda>(n, ctl). pto_pings env pns n ctl))
           (pto_rounds cb (env_clk env) pns XQC_CONN_PTO_PKT_CNT_MAX find_hsd ctl))"

definition xqc_conn_send_one_ack_eliciting_pkt :: "send_env \<Rightarrow> xqc_pkt_num_space \<Rightarrow> 'cc xqc_send_ctl \<Rightarrow> 'cc xqc_send_ctl res" where
  "xqc_conn_send_one_ack_eliciting_pkt env pns ctl = bind_res (xqc_conn_gen_ping env pns ctl) (\<lambda>(x, ctl). Ok ctl)"

definition xqc_send_ctl_loss_detection_timeout :: "'cc cong_callback \<Rightarrow> send_env \<Rightarrow> usec \<Rightarrow> 'cc xqc_send_ctl \<Rightarrow> 'cc xqc_send_ctl res option" where
  "xqc_send_ctl_loss_detection_timeout cb env now ctl =
     (let clk = env_clk env; (loss_time, pns) = xqc_send_ctl_get_earliest_loss_time ctl;
          finish = (\<lambda>r. bind_res r (\<lambda>ctl.
            Ok (xqc_send_ctl_set_loss_detection_timer clk (ctl\<lparr>ctl_pto_count := ctl_pto_count ctl + 1\<rparr>)))) in
      if loss_time \<noteq> 0
      then Some (bind_res (xqc_send_ctl_detect_lost cb clk pns now ctl) (\<lambda>ctl. Ok (xqc_send_ctl_set_loss_detection_timer clk ctl)))
      else if ctl_bytes_in_flight ctl > 0
      then map_option finish (xqc_conn_send_one_or_two_ack_elicit_pkts cb env (snd (xqc_send_ctl_get_pto_time_and_space now ctl)) ctl)
      else if xqc_conn_peer_complete_address_validation ctl then Some (Ok ctl)
      else Some (finish (xqc_conn_send_one_ack_eliciting_pkt env (if set_hsk_keys (ctl_settings ctl) then XQC_PNS_HSK else XQC_PNS_INIT) ctl)))"

section \<open>Sending one packet\<close>

definition xqc_need_padding :: "send_env \<Rightarrow> sent_packet \<Rightarrow> bool" where
  "xqc_need_padding env po =
     (if po_pns po = XQC_PNS_INIT then env_eng_client env \<or> XQC_IS_ACK_ELICITING (po_frame_types po)
      else po_frame_types po AND XQC_FRAME_BIT XQC_FRAME_PATH_CHALLENGE \<noteq> 0 \<or> po_frame_types po AND XQC_FRAME_BIT XQC_FRAME_PATH_RESPONSE \<noteq> 0)"

text \<open>The frames are moved behind the new short header; a header that does not fit leaves a wild pointer.\<close>

definition xqc_convert_pkt_0rtt_2_1rtt :: "send_env \<Rightarrow> xqc_connection \<Rightarrow> packet_out \<Rightarrow> packet_out option" where
  "xqc_convert_pkt_0rtt_2_1rtt env c po = (case po_payload po of
     None \<Rightarrow> None
   | Some off \<Rightarrow>
       let ori_payload_len = po_used_size po - of_nat off;
           po = po\<lparr>po_pkt := (po_pkt po)\<lparr>pkt_pns := XQC_PNS_APP_DATA, pkt_type := XQC_PTYPE_SHORT_HEADER\<rparr>, po_used_size := 0\<rparr>
       in case xqc_gen_short_packet_header po (cid_buf (current_dcid (dcid_set c))) XQC_PKTNO_BITS 0 (env_key_phase env) of
            Some (Inr n, po) \<Rightarrow>
              if off + unat ori_payload_len > length (po_buf po) then None
              else map_option (\<lambda>po. po\<lparr>po_payload := Some n, po_used_size := of_nat n + ori_payload_len\<rparr>)
                     (put_at n (take (unat ori_payload_len) (drop off (po_buf po))) po)
          | _ \<Rightarrow> None)"

definition number_packet :: "bool \<Rightarrow> pktno \<Rightarrow> packet_out \<Rightarrow> packet_out option" where
  "number_packet key_phase n po =
     (let po = po\<lparr>po_pkt := (po_pkt po)\<lparr>pkt_num := n\<rparr>\<rparr> in
      case po_ppktno po of
        None \<Rightarrow> None
      | Some d \<Rightarrow> Option.bind (put_at d (xqc_write_packet_number n XQC_PKTNO_BITS) po) (\<lambda>po.
                   Option.bind (xqc_long_packet_update_length po) (\<lambda>po. xqc_short_packet_update_key_phase po key_phase)))"

definition prepare_packet :: "send_env \<Rightarrow> xqc_connection \<Rightarrow> (xqc_pkt_num_space \<Rightarrow> pktno) \<Rightarrow> sent_packet \<Rightarrow> sent_packet option" where
  "prepare_packet env c next_number po =
     (let pad = xqc_need_padding env po;
          convert = (pkt_type (po_pkt po) = XQC_PTYPE_0RTT \<and> has_flag XQC_CONN_FLAG_CAN_SEND_1RTT c)
      in Option.bind (if pad then xqc_gen_padding_frame (packet_out.truncate po) else Some (packet_out.truncate po)) (\<lambda>base.
         Option.bind (if convert then xqc_convert_pkt_0rtt_2_1rtt env c base else Some base) (\<lambda>base.
         Option.bind (number_packet (env_key_phase env) (next_number (pkt_pns (po_pkt base))) base) (\<lambda>base.
           Some (with_packet_out base po)))))"

definition xqc_enc_packet_with_pn ::
  "send_env \<Rightarrow> pid \<Rightarrow> 'cc xqc_send_ctl \<Rightarrow> ((xqc_errno + u8 list) \<times> 'cc xqc_send_ctl) res" where
  "xqc_enc_packet_with_pn env p ctl = (case prepare_packet env (ctl_conn ctl) (ctl_packet_number ctl) (ctl_store ctl p) of
     None \<Rightarrow> Fault
   | Some po \<Rightarrow>
       let ctl = upd_po p (\<lambda>_. po) ctl in
       case env_encrypt env po of
         None \<Rightarrow> Ok (Inl XQC_EENCRYPT, ctl\<lparr>ctl_conn := (ctl_conn ctl)\<lparr>conn_state := XQC_CONN_STATE_CLOSED\<rparr>\<rparr>)
       | Some enc_pkt \<Rightarrow> Ok (Inr enc_pkt, ctl))"

definition xqc_send :: "send_env \<Rightarrow> pid \<Rightarrow> u8 list \<Rightarrow> 'cc xqc_send_ctl \<Rightarrow> (xqc_errno + nat) \<times> 'cc xqc_send_ctl" where
  "xqc_send env p data ctl = (case env_filter env of
     Some f \<Rightarrow> (if f p data < 0 then Inl XQC_EPACKET_FILETER_CALLBACK else Inr (length data), ctl)
   | None \<Rightarrow>
       let sent = env_write env p data in
       if sent \<noteq> int (length data)
       then (Inl XQC_ESOCKET, if sent = XQC_SOCKET_ERROR
               then ctl\<lparr>ctl_conn := (ctl_conn ctl)\<lparr>conn_state := XQC_CONN_STATE_CLOSED\<rparr>\<rparr> else ctl)
       else (Inr (length data), ctl))"

definition xqc_process_packet_without_pn :: "send_env \<Rightarrow> pid \<Rightarrow> 'cc xqc_send_ctl \<Rightarrow> (xqc_errno + nat) \<times> 'cc xqc_send_ctl" where
  "xqc_process_packet_without_pn env p ctl =
     (let po = ctl_store ctl p in xqc_send env p (take (unat (po_used_size po)) (po_buf po)) ctl)"

definition xqc_send_packet_with_pn ::
  "'cc cong_callback \<Rightarrow> send_env \<Rightarrow> pid \<Rightarrow> u8 list \<Rightarrow> 'cc xqc_send_ctl \<Rightarrow> (xqc_errno + nat) \<times> 'cc xqc_send_ctl" where
  "xqc_send_packet_with_pn cb env p enc_pkt ctl =
     (let now = env_clk env;
          (sent, ctl) = xqc_send env p enc_pkt (upd_po p (\<lambda>po. po\<lparr>po_sent_time := now\<rparr>) ctl);
          pns = po_pns (ctl_store ctl p)
      in case sent of
           Inl e \<Rightarrow> (Inl e, ctl)
         | Inr n \<Rightarrow> (Inr n, xqc_send_ctl_on_packet_sent cb now p now
                       (ctl\<lparr>ctl_packet_number := (ctl_packet_number ctl)(pns := ctl_packet_number ctl pns + 1)\<rparr>)))"

definition xqc_process_packet_with_pn ::
  "'cc cong_callback \<Rightarrow> send_env \<Rightarrow> pid \<Rightarrow> 'cc xqc_send_ctl \<Rightarrow> ((xqc_errno + nat) \<times> 'cc xqc_send_ctl) res" where
  "xqc_process_packet_with_pn cb env p ctl =
     bind_res (xqc_enc_packet_with_pn env p ctl) (\<lambda>(r, ctl). case r of
       Inl e \<Rightarrow> Ok (Inl e, ctl)
     | Inr enc_pkt \<Rightarrow> Ok (xqc_send_packet_with_pn cb env p enc_pkt ctl))"

definition xqc_conn_send_one_packet ::
  "'cc cong_callback \<Rightarrow> send_env \<Rightarrow> pid \<Rightarrow> 'cc xqc_send_ctl \<Rightarrow> ((xqc_errno + nat) \<times> 'cc xqc_send_ctl) res" where
  "xqc_conn_send_one_packet cb env p ctl =
     (if xqc_send_ctl_check_anti_amplification 0 ctl then Ok (Inl XQC_EANTI_AMPLIFICATION_LIMIT, ctl)
      else if xqc_has_packet_number (po_pkt (ctl_store ctl p)) then xqc_process_packet_with_pn cb env p ctl
      else Ok (xqc_process_packet_without_pn env p ctl))"

section \<open>Sending the lists\<close>

definition sent_to_unacked :: "pid \<Rightarrow> 'cc xqc_send_ctl \<Rightarrow> 'cc xqc_send_ctl" where
  "sent_to_unacked p ctl =
     (let ctl = xqc_send_ctl_remove_send p ctl; po = ctl_store ctl p
      in if XQC_IS_ACK_ELICITING (po_frame_types po) then xqc_send_ctl_insert_unacked p (po_pns po) ctl
         else xqc_send_ctl_insert_free p ctl)"

text \<open>The loops return whether the function goes on: a failed send ends it.\<close>

fun send_high_pri :: "'cc cong_callback \<Rightarrow> send_env \<Rightarrow> pid list \<Rightarrow> 'cc xqc_send_ctl \<Rightarrow> (bool \<times> 'cc xqc_send_ctl) res" where
  "send_high_pri cb env [] ctl = Ok (True, ctl)"
| "send_high_pri cb env (p # ps) ctl =
     bind_res (xqc_conn_send_one_packet cb env p ctl) (\<lambda>(ret, ctl). case ret of
       Inl e \<Rightarrow> Ok (False, ctl)
     | Inr n \<Rightarrow> send_high_pri cb env ps (sent_to_unacked p ctl))"

text \<open>Congestion control and pacing of a packet that counts towards the congestion window.\<close>

definition may_send_now :: "'cc cong_callback \<Rightarrow> send_env \<Rightarrow> pid \<Rightarrow> 'cc xqc_send_ctl \<Rightarrow> (bool \<times> 'cc xqc_send_ctl) res" where
  "may_send_now cb env p ctl =
     (let po = ctl_store ctl p in
      if XQC_CAN_IN_FLIGHT (po_frame_types po) then
        if \<not> xqc_send_ctl_can_send cb po ctl then Ok (False, ctl)
        else if xqc_pacing_is_on ctl then xqc_pacing_can_write cb (env_clk env) (po_used_size po) ctl
        else Ok (True, ctl)
      else Ok (True, ctl))"

definition pace_sent :: "'cc cong_callback \<Rightarrow> send_env \<Rightarrow> pid \<Rightarrow> 'cc xqc_send_ctl \<Rightarrow> 'cc xqc_send_ctl" where
  "pace_sent cb env p ctl =
     (let po = ctl_store ctl p in
      if XQC_CAN_IN_FLIGHT (po_frame_types po) \<and> xqc_pacing_is_on ctl
      then xqc_pacing_on_packet_sent cb (env_clk env) (po_used_size po) ctl else ctl)"

fun send_normal :: "'cc cong_callback \<Rightarrow> send_env \<Rightarrow> pid list \<Rightarrow> 'cc xqc_send_ctl \<Rightarrow> 'cc xqc_send_ctl res" where
  "send_normal cb env [] ctl = Ok ctl"
| "send_normal cb env (p # ps) ctl =
     bind_res (may_send_now cb env p ctl) (\<lambda>(go, ctl).
       if \<not> go then Ok ctl
       else bind_res (xqc_conn_send_one_packet cb env p ctl) (\<lambda>(ret, ctl). case ret of
              Inl e \<Rightarrow> Ok ctl
            | Inr n \<Rightarrow> send_normal cb env ps (sent_to_unacked p (pace_sent cb env p ctl))))"

definition xqc_conn_send_packets :: "'cc cong_callback \<Rightarrow> send_env \<Rightarrow> 'cc xqc_send_ctl \<Rightarrow> 'cc xqc_send_ctl res" where
  "xqc_conn_send_packets cb env ctl =
     bind_res (send_high_pri cb env (ctl_send_packets_high_pri ctl) ctl) (\<lambda>(go, ctl).
       if go then send_normal cb env (ctl_send_packets ctl) ctl else Ok ctl)"

fun transmit_probes :: "'cc cong_callback \<Rightarrow> send_env \<Rightarrow> pid list \<Rightarrow> 'cc xqc_send_ctl \<Rightarrow> 'cc xqc_send_ctl res" where
  "transmit_probes cb env [] ctl = Ok ctl"
| "transmit_probes cb env (p # ps) ctl =
     bind_res (xqc_conn_send_one_packet cb env p ctl) (\<lambda>(ret, ctl). case ret of
       Inl e \<Rightarrow> Ok ctl
     | Inr n \<Rightarrow> let ctl = list_del p ctl
               in transmit_probes cb env ps (xqc_send_ctl_insert_unacked p (po_pns (ctl_store ctl p)) ctl))"

definition xqc_conn_transmit_pto_probe_packets :: "'cc cong_callback \<Rightarrow> send_env \<Rightarrow> 'cc xqc_send_ctl \<Rightarrow> 'cc xqc_send_ctl res" where
  "xqc_conn_transmit_pto_probe_packets cb env ctl = transmit_probes cb env (ctl_pto_probe_packets ctl) ctl"

fun retransmit_lost :: "'cc cong_callback \<Rightarrow> send_env \<Rightarrow> pid list \<Rightarrow> 'cc xqc_send_ctl \<Rightarrow> 'cc xqc_send_ctl res" where
  "retransmit_lost cb env [] ctl = Ok ctl"
| "retransmit_lost cb env (p # ps) ctl =
     bind_res (xqc_send_ctl_indirectly_ack_po cb (env_clk env) p ctl) (\<lambda>(acked, ctl).
       if acked then retransmit_lost cb env ps ctl
       else bind_res (may_send_now cb env p (upd_po p (set_pof XQC_POF_LOST) ctl)) (\<lambda>(go, ctl).
         if \<not> go then Ok ctl
         else bind_res (xqc_conn_send_one_packet cb env p ctl) (\<lambda>(ret, ctl). case ret of
                Inl e \<Rightarrow> Ok ctl
              | Inr n \<Rightarrow> let ctl = list_del p (pace_sent cb env p ctl)
                        in retransmit_lost cb env ps (xqc_send_ctl_insert_unacked p (po_pns (ctl_store ctl p)) ctl))))"

definition xqc_conn_retransmit_lost_packets :: "'cc cong_callback \<Rightarrow> send_env \<Rightarrow> 'cc xqc_send_ctl \<Rightarrow> 'cc xqc_send_ctl res" where
  "xqc_conn_retransmit_lost_packets cb env ctl = retransmit_lost cb env (ctl_lost_packets ctl) ctl"

end
