(* ===== verification/Spec2Isabelle.thy ===== *)
theory Spec2Isabelle
  imports XQC_Frame_Stream XQC_RLCC XQC_Conn_Send
begin

text \<open>
  Verification of the xquic transport library of this repository.
\<close>

end
